(* ===== verification/Prelude.thy ===== *)
theory Prelude
  imports Main "HOL-Library.Char_ord" "HOL-Library.List_Lexorder"
    "HOL-Library.Code_Target_Nat"
begin

text \<open>
  What every theory of the development shares: the exceptions the modelled Python raises, the
  result type of code that may raise one, sequencing of such code, and list lemmas.  A function
  that can raise returns \<open>exn + 'a\<close>; \<open>Inl e\<close> is the raised exception.
\<close>

section \<open>Collections of rewrite rules\<close>

named_theorems py_simps \<open>unfolding rules of the Python value operations\<close>
named_theorems py_intros \<open>introduction rules for the well-formedness predicates\<close>

section \<open>Exceptions and results\<close>

text \<open>
  The exception classes the modelled code raises or catches.  \<open>JSONDecodeError\<close> is a subclass of
  \<open>ValueError\<close> in Python; \<open>is_value_error\<close> says which classes \<open>except ValueError\<close> catches.
\<close>

datatype exn =
    TypeError
  | ValueError string
  | OverflowError
  | KeyError string
  | IndexError
  | AttributeError
  | JSONDecodeError
  | OSError string
  | RuntimeError string
  | EOFError
  | SystemExit string

fun is_value_error :: "exn \<Rightarrow> bool" where
  "is_value_error (ValueError _) = True"
| "is_value_error JSONDecodeError = True"
| "is_value_error _ = False"

text \<open>What \<open>except Exception\<close> catches.\<close>

fun is_exception :: "exn \<Rightarrow> bool" where
  "is_exception (SystemExit _) = False"
| "is_exception _ = True"

lemma value_error_is_exception: "is_value_error e \<Longrightarrow> is_exception e"
  by (cases e) simp_all

type_synonym 'a result = "exn + 'a"

definition rbind :: "'a result \<Rightarrow> ('a \<Rightarrow> 'b result) \<Rightarrow> 'b result" where
  "rbind m f = (case m of Inl e \<Rightarrow> Inl e | Inr x \<Rightarrow> f x)"

lemma rbind_simps [simp]:
  "rbind (Inl e) f = Inl e"
  "rbind (Inr x) f = f x"
  by (simp_all add: rbind_def)

lemma rbind_Inr_iff: "rbind m f = Inr y \<longleftrightarrow> (\<exists>x. m = Inr x \<and> f x = Inr y)"
  by (cases m) simp_all

lemma rbind_Inl_iff: "rbind m f = Inl e \<longleftrightarrow> m = Inl e \<or> (\<exists>x. m = Inr x \<and> f x = Inl e)"
  by (cases m) simp_all

lemma rbind_InrE [elim]:
  assumes "rbind m f = Inr y"
  obtains x where "m = Inr x" and "f x = Inr y"
  using assms by (auto simp: rbind_Inr_iff)

lemma rbind_cong: "m = m' \<Longrightarrow> (\<And>x. m' = Inr x \<Longrightarrow> f x = g x) \<Longrightarrow> rbind m f = rbind m' g"
  by (cases m') simp_all

text \<open>Code that does not raise \<open>SystemExit\<close>, so that \<open>except Exception\<close> catches all it raises.\<close>

definition no_exit :: "'a result \<Rightarrow> bool" where
  "no_exit r \<longleftrightarrow> (\<forall>e. r = Inl e \<longrightarrow> is_exception e)"

lemma no_exit_Inr [simp]: "no_exit (Inr x)"
  by (simp add: no_exit_def)

lemma no_exit_Inl [simp]: "no_exit (Inl e) \<longleftrightarrow> is_exception e"
  by (simp add: no_exit_def)

lemma no_exit_rbind [py_intros]: "no_exit m \<Longrightarrow> (\<And>x. m = Inr x \<Longrightarrow> no_exit (f x)) \<Longrightarrow> no_exit (rbind m f)"
  by (cases m) simp_all

text \<open>A comprehension \<open>[f(x) for x in xs]\<close> whose body may raise: the first exception wins.\<close>

fun rmap :: "('a \<Rightarrow> 'b result) \<Rightarrow> 'a list \<Rightarrow> 'b list result" where
  "rmap f [] = Inr []"
| "rmap f (x # xs) = rbind (f x) (\<lambda>y. rbind (rmap f xs) (\<lambda>ys. Inr (y # ys)))"

lemma no_exit_rmap [py_intros]: "(\<And>x. no_exit (f x)) \<Longrightarrow> no_exit (rmap f xs)"
  by (induction xs) (auto intro!: no_exit_rbind)

lemma rmap_Inr_iff: "rmap f xs = Inr ys \<longleftrightarrow> list_all2 (\<lambda>x y. f x = Inr y) xs ys"
proof (induction xs arbitrary: ys)
  case Nil
  then show ?case by auto
next
  case (Cons x xs)
  then show ?case
    by (cases ys) (auto simp: rbind_Inr_iff)
qed

lemma rmap_Inr_set:
  assumes "rmap f xs = Inr ys" and "y \<in> set ys"
  obtains x where "x \<in> set xs" and "f x = Inr y"
proof -
  from assms(1) have "list_all2 (\<lambda>x y. f x = Inr y) xs ys" by (simp add: rmap_Inr_iff)
  then have "\<exists>x \<in> set xs. f x = Inr y" using assms(2)
    by (induction rule: list_all2_induct) auto
  then show ?thesis using that by blast
qed

lemma rmap_Inr_id:
  assumes "\<And>x. x \<in> set xs \<Longrightarrow> f x = Inr x"
  shows "rmap f xs = Inr xs"
  using assms by (induction xs) simp_all

lemma rmap_total:
  assumes "\<And>x. x \<in> set xs \<Longrightarrow> \<exists>y. f x = Inr y"
  obtains ys where "rmap f xs = Inr ys"
proof -
  have "\<exists>ys. rmap f xs = Inr ys"
    using assms
  proof (induction xs)
    case Nil
    then show ?case by simp
  next
    case (Cons x xs)
    then obtain y ys where "f x = Inr y" and "rmap f xs = Inr ys" by fastforce
    then show ?case by simp
  qed
  then show ?thesis using that by blast
qed

lemma rmap_length: "rmap f xs = Inr ys \<Longrightarrow> length ys = length xs"
  by (auto simp: rmap_Inr_iff dest: list_all2_lengthD)

text \<open>A loop \<open>for x in xs: state = f(state, x)\<close> whose body may raise.\<close>

fun rfold :: "('s \<Rightarrow> 'a \<Rightarrow> 's result) \<Rightarrow> 's \<Rightarrow> 'a list \<Rightarrow> 's result" where
  "rfold f s [] = Inr s"
| "rfold f s (x # xs) = rbind (f s x) (\<lambda>s'. rfold f s' xs)"

lemma rfold_append: "rfold f s (xs @ ys) = rbind (rfold f s xs) (\<lambda>s'. rfold f s' ys)"
  by (induction xs arbitrary: s) (auto simp: rbind_def split: sum.splits)

lemma rfold_invariant:
  assumes "rfold f s xs = Inr s'" and "I s"
    and "\<And>s x t. I s \<Longrightarrow> x \<in> set xs \<Longrightarrow> f s x = Inr t \<Longrightarrow> I t"
  shows "I s'"
  using assms
proof (induction xs arbitrary: s)
  case Nil
  then show ?case by simp
next
  case (Cons x xs)
  from Cons.prems(1) obtain t where t: "f s x = Inr t" and rest: "rfold f t xs = Inr s'" by auto
  have "I t" by (rule Cons.prems(3) [OF Cons.prems(2) _ t]) simp
  then show ?case by (rule Cons.IH [OF rest]) (auto intro: Cons.prems(3))
qed

section \<open>Lists\<close>

lemma list_all2_witness: "list_all2 R xs ys \<Longrightarrow> x \<in> set xs \<Longrightarrow> \<exists>y \<in> set ys. R x y"
  by (induction rule: list_all2_induct) auto

text \<open>Python's \<open>xs[-n:]\<close> for a positive \<open>n\<close>: the last \<open>n\<close> elements, or all of them.\<close>

definition last_n :: "nat \<Rightarrow> 'a list \<Rightarrow> 'a list" where
  "last_n n xs = drop (length xs - n) xs"

text \<open>Python's \<open>xs[:n]\<close>: a negative bound counts from the end.\<close>

definition py_take :: "int \<Rightarrow> 'a list \<Rightarrow> 'a list" where
  "py_take n xs = (if 0 \<le> n then take (nat n) xs else take (length xs - nat (- n)) xs)"

lemma length_last_n [simp]: "length (last_n n xs) = min n (length xs)"
  by (simp add: last_n_def)

lemma set_last_n: "set (last_n n xs) \<subseteq> set xs"
  by (simp add: last_n_def set_drop_subset)

lemma last_n_all: "length xs \<le> n \<Longrightarrow> last_n n xs = xs"
  by (simp add: last_n_def)

lemma last_n_append: "length ys \<le> n \<Longrightarrow> set ys \<subseteq> set (last_n n (xs @ ys))"
  by (auto simp: last_n_def)

lemma distinct_last_n: "distinct xs \<Longrightarrow> distinct (last_n n xs)"
  by (simp add: last_n_def)

lemma map_last_n: "map f (last_n n xs) = last_n n (map f xs)"
  by (simp add: last_n_def drop_map)

end
