(* ===== verification/Py_String.thy ===== *)
theory Py_String
  imports Prelude
begin

text \<open>
  The \<open>str\<close> methods the tools use.  A Python string is a list of \<open>char\<close>, one \<open>char\<close> per code
  point, so \<open>length\<close> is Python's \<open>len\<close> and \<open>take\<close> its slicing; the repertoire is U+0000 to U+00FF,
  the code points a \<open>char\<close> can hold.  Character classes are those of Python on that range
  (\<open>isspace\<close>, \<open>isdigit\<close>, \<open>isalnum\<close>, line boundaries), including the non-ASCII members that the
  checks of the tools do not always expect.
\<close>

section \<open>Character classes\<close>

definition cp :: "char \<Rightarrow> nat" where
  "cp c = of_char c"

definition LF :: char where "LF = CHR 0x0A"
definition CR :: char where "CR = CHR 0x0D"

definition is_space :: "char \<Rightarrow> bool" where
  "is_space c \<longleftrightarrow> cp c \<in> {9, 10, 11, 12, 13, 28, 29, 30, 31, 32, 133, 160}"

definition is_ascii_digit :: "char \<Rightarrow> bool" where
  "is_ascii_digit c \<longleftrightarrow> 48 \<le> cp c \<and> cp c \<le> 57"

text \<open>\<open>str.isdigit\<close> also accepts the superscripts U+00B2, U+00B3 and U+00B9, which \<open>int\<close> refuses.\<close>

definition is_digit_char :: "char \<Rightarrow> bool" where
  "is_digit_char c \<longleftrightarrow> is_ascii_digit c \<or> cp c \<in> {178, 179, 185}"

definition is_ascii_upper :: "char \<Rightarrow> bool" where
  "is_ascii_upper c \<longleftrightarrow> 65 \<le> cp c \<and> cp c \<le> 90"

definition is_ascii_lower :: "char \<Rightarrow> bool" where
  "is_ascii_lower c \<longleftrightarrow> 97 \<le> cp c \<and> cp c \<le> 122"

definition is_alnum_char :: "char \<Rightarrow> bool" where
  "is_alnum_char c \<longleftrightarrow> is_digit_char c \<or> is_ascii_upper c \<or> is_ascii_lower c
     \<or> cp c \<in> {170, 181, 186, 188, 189, 190}
     \<or> (192 \<le> cp c \<and> cp c \<noteq> 215 \<and> cp c \<noteq> 247)"

definition is_hex_lower :: "char \<Rightarrow> bool" where
  "is_hex_lower c \<longleftrightarrow> is_ascii_digit c \<or> (97 \<le> cp c \<and> cp c \<le> 102)"

definition is_hex :: "char \<Rightarrow> bool" where
  "is_hex c \<longleftrightarrow> is_hex_lower c \<or> (65 \<le> cp c \<and> cp c \<le> 70)"

lemmas char_class_defs = is_space_def is_ascii_digit_def is_digit_char_def is_ascii_upper_def
  is_ascii_lower_def is_alnum_char_def is_hex_lower_def is_hex_def

lemma cp_less: "cp c < 256"
  by (simp add: cp_def)

lemma cp_inj: "cp a = cp b \<longleftrightarrow> a = b"
  by (simp add: cp_def)

lemma is_hex_alnum: "is_hex c \<Longrightarrow> is_alnum_char c"
  unfolding is_hex_def is_hex_lower_def is_alnum_char_def is_digit_char_def is_ascii_upper_def
    is_ascii_lower_def
  by linarith

lemma is_ascii_digit_hex: "is_ascii_digit c \<Longrightarrow> is_hex c"
  by (simp add: is_hex_def is_hex_lower_def)

text \<open>\<open>str.isdigit\<close>, \<open>str.isalnum\<close>: false on the empty string.\<close>

definition str_isdigit :: "string \<Rightarrow> bool" where
  "str_isdigit s \<longleftrightarrow> s \<noteq> [] \<and> list_all is_digit_char s"

definition str_isalnum :: "string \<Rightarrow> bool" where
  "str_isalnum s \<longleftrightarrow> s \<noteq> [] \<and> list_all is_alnum_char s"

section \<open>Case conversion\<close>

text \<open>
  \<open>str.lower\<close> and \<open>str.upper\<close> on the repertoire.  \<open>upper\<close> of U+00DF is two letters; the upper
  case of U+00B5 and U+00FF lies outside the repertoire and they are left as they are, which no
  comparison with an ASCII word can see.
\<close>

definition lower_char :: "char \<Rightarrow> char" where
  "lower_char c =
     (if is_ascii_upper c \<or> (192 \<le> cp c \<and> cp c \<le> 222 \<and> cp c \<noteq> 215)
      then char_of (cp c + 32) else c)"

definition upper_char :: "char \<Rightarrow> string" where
  "upper_char c =
     (if cp c = 223 then ''SS''
      else if is_ascii_lower c \<or> (224 \<le> cp c \<and> cp c \<le> 254 \<and> cp c \<noteq> 247)
      then [char_of (cp c - 32)] else [c])"

definition str_lower :: "string \<Rightarrow> string" where
  "str_lower s = map lower_char s"

definition str_upper :: "string \<Rightarrow> string" where
  "str_upper s = concat (map upper_char s)"

section \<open>Stripping\<close>

definition lstrip_by :: "(char \<Rightarrow> bool) \<Rightarrow> string \<Rightarrow> string" where
  "lstrip_by p s = dropWhile p s"

definition rstrip_by :: "(char \<Rightarrow> bool) \<Rightarrow> string \<Rightarrow> string" where
  "rstrip_by p s = rev (dropWhile p (rev s))"

definition strip_by :: "(char \<Rightarrow> bool) \<Rightarrow> string \<Rightarrow> string" where
  "strip_by p s = rstrip_by p (lstrip_by p s)"

definition str_strip :: "string \<Rightarrow> string" where
  "str_strip s = strip_by is_space s"

lemma set_strip_by: "set (strip_by p s) \<subseteq> set s"
  by (auto simp: strip_by_def lstrip_by_def rstrip_by_def dest!: set_dropWhileD)

lemma length_strip_by: "length (strip_by p s) \<le> length s"
proof -
  have "length (strip_by p s) \<le> length (dropWhile p s)"
    using length_dropWhile_le [of p "rev (dropWhile p s)"]
    by (simp add: strip_by_def lstrip_by_def rstrip_by_def)
  also have "\<dots> \<le> length s" by (rule length_dropWhile_le)
  finally show ?thesis .
qed

text \<open>Stripping leaves a string alone exactly when neither end is strippable.\<close>

lemma strip_by_id:
  assumes "s \<noteq> []" and "\<not> p (hd s)" and "\<not> p (last s)"
  shows "strip_by p s = s"
proof -
  have l: "dropWhile p s = s" using assms(1,2) by (cases s) simp_all
  have "dropWhile p (rev s) = rev s"
    using assms(1,3) by (cases "rev s") (auto simp: hd_rev [symmetric])
  with l show ?thesis by (simp add: strip_by_def lstrip_by_def rstrip_by_def)
qed

lemma last_rstrip_by: "rstrip_by p s \<noteq> [] \<Longrightarrow> \<not> p (last (rstrip_by p s))"
  by (simp add: rstrip_by_def last_rev hd_dropWhile)

lemma hd_rstrip_by: "rstrip_by p s \<noteq> [] \<Longrightarrow> hd (rstrip_by p s) = hd s"
proof -
  assume ne: "rstrip_by p s \<noteq> []"
  have "rev s = takeWhile p (rev s) @ dropWhile p (rev s)" by simp
  then have "s = rstrip_by p s @ rev (takeWhile p (rev s))"
    unfolding rstrip_by_def by (metis rev_append rev_rev_ident)
  with ne show ?thesis by (metis hd_append2)
qed

lemma strip_by_ends:
  assumes "strip_by p s \<noteq> []"
  shows "\<not> p (hd (strip_by p s))" and "\<not> p (last (strip_by p s))"
proof -
  from assms have r: "rstrip_by p (lstrip_by p s) \<noteq> []" by (simp add: strip_by_def)
  then have l: "lstrip_by p s \<noteq> []" by (auto simp: rstrip_by_def)
  have "\<not> p (hd (lstrip_by p s))" using l by (simp add: lstrip_by_def hd_dropWhile)
  with hd_rstrip_by [OF r] show "\<not> p (hd (strip_by p s))" by (simp add: strip_by_def)
  from last_rstrip_by [OF r] show "\<not> p (last (strip_by p s))" by (simp add: strip_by_def)
qed

lemma strip_by_idem [simp]: "strip_by p (strip_by p s) = strip_by p s"
proof (cases "strip_by p s = []")
  case True
  moreover have "strip_by p [] = []" by (simp add: strip_by_def lstrip_by_def rstrip_by_def)
  ultimately show ?thesis by simp
next
  case False
  then show ?thesis by (rule strip_by_id [OF _ strip_by_ends]) (use False in simp_all)
qed

section \<open>Searching, splitting, joining\<close>

definition starts_with :: "string \<Rightarrow> string \<Rightarrow> bool" where
  "starts_with s p \<longleftrightarrow> take (length p) s = p"

definition ends_with :: "string \<Rightarrow> string \<Rightarrow> bool" where
  "ends_with s p \<longleftrightarrow> length p \<le> length s \<and> drop (length s - length p) s = p"

text \<open>\<open>needle in hay\<close> for strings.\<close>

fun contains_str :: "string \<Rightarrow> string \<Rightarrow> bool" where
  "contains_str [] p = (p = [])"
| "contains_str (c # s) p = (starts_with (c # s) p \<or> contains_str s p)"

lemma starts_with_code [code]:
  "starts_with s [] = True" "starts_with [] (d # p) = False" "starts_with (c # s) (d # p) = (c = d \<and> starts_with s p)"
  by (auto simp: starts_with_def)

lemma starts_with_iff: "starts_with s p \<longleftrightarrow> (\<exists>t. s = p @ t)"
  unfolding starts_with_def by (metis append_eq_conv_conj)

lemma ends_with_iff: "ends_with s p \<longleftrightarrow> (\<exists>t. s = t @ p)"
proof
  assume "ends_with s p"
  then have "s = take (length s - length p) s @ p" by (metis ends_with_def append_take_drop_id)
  then show "\<exists>t. s = t @ p" ..
qed (auto simp: ends_with_def)

lemma contains_str_iff: "contains_str s p \<longleftrightarrow> (\<exists>a b. s = a @ p @ b)"
proof (induction s)
  case Nil
  then show ?case by auto
next
  case (Cons c s)
  show ?case
  proof
    assume "contains_str (c # s) p"
    then consider "starts_with (c # s) p" | "contains_str s p" by auto
    then show "\<exists>a b. c # s = a @ p @ b"
    proof cases
      case 1
      then obtain t where "c # s = p @ t" by (auto simp: starts_with_iff)
      then have "c # s = [] @ p @ t" by simp
      then show ?thesis by blast
    next
      case 2
      with Cons.IH obtain a b where "s = a @ p @ b" by blast
      then have "c # s = (c # a) @ p @ b" by simp
      then show ?thesis by blast
    qed
  next
    assume "\<exists>a b. c # s = a @ p @ b"
    then obtain a b where ab: "c # s = a @ p @ b" by blast
    show "contains_str (c # s) p"
    proof (cases a)
      case Nil
      with ab have "starts_with (c # s) p" by (auto simp: starts_with_iff)
      then show ?thesis by simp
    next
      case (Cons d a')
      with ab have "s = a' @ p @ b" by simp
      with Cons.IH show ?thesis by auto
    qed
  qed
qed

lemma contains_str_append: "contains_str (a @ p @ b) p"
  by (auto simp: contains_str_iff)

lemma contains_concat: "p \<in> set ps \<Longrightarrow> contains_str (concat ps) p"
  unfolding contains_str_iff by (metis concat.simps(2) concat_append split_list)

text \<open>\<open>s.split(c)\<close> for a one-character separator: always at least one piece.\<close>

fun split_on :: "char \<Rightarrow> string \<Rightarrow> string list" where
  "split_on c [] = [[]]"
| "split_on c (x # xs) =
     (if x = c then [] # split_on c xs
      else (case split_on c xs of [] \<Rightarrow> [[x]] | p # ps \<Rightarrow> (x # p) # ps))"

text \<open>\<open>s.split(c, 1)\<close>: what precedes the first separator, and what follows it, if there is one.\<close>

definition split_once :: "char \<Rightarrow> string \<Rightarrow> string \<times> string option" where
  "split_once c s =
     (takeWhile (\<lambda>x. x \<noteq> c) s,
      if c \<in> set s then Some (tl (dropWhile (\<lambda>x. x \<noteq> c) s)) else None)"

fun join_with :: "string \<Rightarrow> string list \<Rightarrow> string" where
  "join_with sep [] = []"
| "join_with sep [x] = x"
| "join_with sep (x # y # ys) = x @ sep @ join_with sep (y # ys)"

lemma split_on_nonempty [simp]: "split_on c s \<noteq> []"
  by (induction s) (auto split: list.splits)

lemma join_with_Cons: "xs \<noteq> [] \<Longrightarrow> join_with sep (x # xs) = x @ sep @ join_with sep xs"
  by (cases xs) simp_all

text \<open>Splitting and joining on the same separator is the identity.\<close>

lemma join_split_on: "join_with [c] (split_on c s) = s"
proof (induction s)
  case Nil
  then show ?case by simp
next
  case (Cons x s)
  show ?case
  proof (cases "x = c")
    case True
    with Cons show ?thesis by (simp add: join_with_Cons)
  next
    case False
    obtain p ps where ps: "split_on c s = p # ps" by (cases "split_on c s") auto
    with False Cons show ?thesis by (cases ps) auto
  qed
qed

lemma split_on_append_sep: "c \<notin> set a \<Longrightarrow> split_on c (a @ c # b) = a # split_on c b"
  by (induction a) auto

lemma split_on_no_sep: "p \<in> set (split_on c s) \<Longrightarrow> c \<notin> set p"
proof (induction s arbitrary: p)
  case Nil
  then show ?case by simp
next
  case (Cons x s)
  show ?case
  proof (cases "x = c")
    case True
    with Cons show ?thesis by auto
  next
    case False
    obtain q qs where qs: "split_on c s = q # qs" by (cases "split_on c s") auto
    with False Cons.prems have "p = x # q \<or> p \<in> set qs" by auto
    with Cons.IH [of q] Cons.IH [of p] False qs show ?thesis by auto
  qed
qed

lemma split_once_eq:
  assumes "split_once c s = (a, Some b)"
  shows "s = a @ c # b" and "c \<notin> set a"
proof -
  from assms have c: "c \<in> set s" and a: "a = takeWhile (\<lambda>x. x \<noteq> c) s"
    and b: "b = tl (dropWhile (\<lambda>x. x \<noteq> c) s)"
    by (auto simp: split_once_def split: if_splits)
  have d: "dropWhile (\<lambda>x. x \<noteq> c) s = c # b"
    using c b by (induction s) auto
  have "s = takeWhile (\<lambda>x. x \<noteq> c) s @ dropWhile (\<lambda>x. x \<noteq> c) s" by simp
  with a d show "s = a @ c # b" by simp
  from a show "c \<notin> set a" by (auto dest: set_takeWhileD)
qed

text \<open>\<open>s.splitlines()\<close>: line boundaries are LF, CR, CRLF, VT, FF, FS, GS, RS and NEL.\<close>

definition is_line_break :: "char \<Rightarrow> bool" where
  "is_line_break c \<longleftrightarrow> cp c \<in> {10, 11, 12, 13, 28, 29, 30, 133}"

text \<open>The flag records that the previous boundary was a CR, so that the LF of a CRLF is skipped.\<close>

fun splitlines_acc :: "bool \<Rightarrow> string \<Rightarrow> string \<Rightarrow> string list" where
  "splitlines_acc cr acc [] = (if acc = [] then [] else [rev acc])"
| "splitlines_acc cr acc (c # cs) =
     (if cr \<and> cp c = 10 then splitlines_acc False acc cs
      else if is_line_break c then rev acc # splitlines_acc (cp c = 13) [] cs
      else splitlines_acc False (c # acc) cs)"

definition splitlines :: "string \<Rightarrow> string list" where
  "splitlines s = splitlines_acc False [] s"

text \<open>\<open>s.split()\<close>: maximal runs of non-space characters.\<close>

fun split_ws_acc :: "string \<Rightarrow> string \<Rightarrow> string list" where
  "split_ws_acc acc [] = (if acc = [] then [] else [rev acc])"
| "split_ws_acc acc (c # cs) =
     (if is_space c then (if acc = [] then split_ws_acc [] cs else rev acc # split_ws_acc [] cs)
      else split_ws_acc (c # acc) cs)"

definition split_ws :: "string \<Rightarrow> string list" where
  "split_ws s = split_ws_acc [] s"

section \<open>Decimal numerals\<close>

definition digit_char :: "nat \<Rightarrow> char" where
  "digit_char d = char_of (48 + d)"

definition digit_val :: "char \<Rightarrow> nat" where
  "digit_val c = cp c - 48"

fun nat_str :: "nat \<Rightarrow> string" where
  "nat_str n = (if n < 10 then [digit_char n] else nat_str (n div 10) @ [digit_char (n mod 10)])"

declare nat_str.simps [simp del]

definition int_str :: "int \<Rightarrow> string" where
  "int_str i = (if i < 0 then CHR ''-'' # nat_str (nat (- i)) else nat_str (nat i))"

definition digits_val :: "string \<Rightarrow> nat" where
  "digits_val s = foldl (\<lambda>a c. 10 * a + digit_val c) 0 s"

lemma cp_digit_char: "d < 10 \<Longrightarrow> cp (digit_char d) = 48 + d"
  by (simp add: cp_def digit_char_def)

lemma digit_val_char [simp]: "d < 10 \<Longrightarrow> digit_val (digit_char d) = d"
  by (simp add: digit_val_def cp_digit_char)

lemma is_ascii_digit_char: "d < 10 \<Longrightarrow> is_ascii_digit (digit_char d)"
  by (simp add: is_ascii_digit_def cp_digit_char)

lemma nat_str_nonempty [simp]: "nat_str n \<noteq> []"
  by (subst nat_str.simps) simp

lemma nat_str_digits: "c \<in> set (nat_str n) \<Longrightarrow> is_ascii_digit c"
proof (induction n arbitrary: c rule: nat_str.induct)
  case (1 n)
  show ?case
  proof (cases "n < 10")
    case True
    with "1.prems" show ?thesis
      by (simp add: nat_str.simps [of n] is_ascii_digit_char)
  next
    case False
    with "1.prems" have "c \<in> set (nat_str (n div 10)) \<or> c = digit_char (n mod 10)"
      by (auto simp: nat_str.simps [of n])
    with "1.IH" [OF False, of c] show ?thesis by (auto simp: is_ascii_digit_char)
  qed
qed

text \<open>Printing and reading a numeral are inverse, so numerals are printed injectively.\<close>

lemma digits_val_nat_str [simp]: "digits_val (nat_str n) = n"
proof (induction n rule: nat_str.induct)
  case (1 n)
  show ?case
  proof (cases "n < 10")
    case True
    then show ?thesis by (simp add: nat_str.simps [of n] digits_val_def)
  next
    case False
    from "1.IH" [OF False]
    have "digits_val (nat_str n) = 10 * (n div 10) + digit_val (digit_char (n mod 10))"
      using False by (simp add: nat_str.simps [of n] digits_val_def)
    then show ?thesis by simp
  qed
qed

lemma nat_str_inj: "nat_str m = nat_str n \<longleftrightarrow> m = n"
  by (metis digits_val_nat_str)

text \<open>
  \<open>int(s)\<close> on a string: surrounding blanks, an optional sign, decimal digits with single
  underscores between them, at most 4300 digits; anything else is a \<open>ValueError\<close>.
\<close>

definition is_int_space :: "char \<Rightarrow> bool" where
  "is_int_space c \<longleftrightarrow> cp c \<in> {9, 10, 11, 12, 13, 32, 133, 160}"

definition max_int_digits :: nat where
  "max_int_digits = 4300"

definition digit_groups :: "string \<Rightarrow> string option" where
  "digit_groups s =
     (let groups = split_on (CHR ''_'') s
      in if list_all (\<lambda>g. g \<noteq> [] \<and> list_all is_ascii_digit g) groups
           \<and> length (concat groups) \<le> max_int_digits
         then Some (concat groups) else None)"

definition int_of_str :: "string \<Rightarrow> int option" where
  "int_of_str s =
     (case strip_by is_int_space s of
        [] \<Rightarrow> None
      | c # cs \<Rightarrow>
          if c = CHR ''-'' then map_option (\<lambda>d. - int (digits_val d)) (digit_groups cs)
          else if c = CHR ''+'' then map_option (\<lambda>d. int (digits_val d)) (digit_groups cs)
          else map_option (\<lambda>d. int (digits_val d)) (digit_groups (c # cs)))"

lemma length_nat_str: "n < 10 ^ Suc k \<Longrightarrow> length (nat_str n) \<le> Suc k"
proof (induction k arbitrary: n)
  case 0
  then show ?case by (simp add: nat_str.simps [of n])
next
  case (Suc k)
  then have "n div 10 < 10 ^ Suc k" by (simp add: less_mult_imp_div_less)
  with Suc.IH show ?case by (simp add: nat_str.simps [of n])
qed

lemma digit_plain:
  assumes "is_ascii_digit c"
  shows "\<not> is_int_space c" and "c \<noteq> CHR ''_''" and "c \<noteq> CHR ''-''" and "c \<noteq> CHR ''+''"
    and "is_digit_char c"
  using assms by (auto simp: is_ascii_digit_def is_int_space_def is_digit_char_def cp_def)

lemma split_on_absent: "c \<notin> set s \<Longrightarrow> split_on c s = [s]"
  by (induction s) auto

lemma nat_str_isdigit: "str_isdigit (nat_str n)"
  using nat_str_digits [of _ n] digit_plain(5) by (auto simp: str_isdigit_def list_all_iff)

lemma int_of_str_nat_str:
  assumes "n < 10 ^ 18"
  shows "int_of_str (nat_str n) = Some (int n)"
proof -
  have digits: "list_all is_ascii_digit (nat_str n)"
    using nat_str_digits by (auto simp: list_all_iff)
  obtain c cs where n: "nat_str n = c # cs" by (cases "nat_str n") auto
  have strip: "strip_by is_int_space (nat_str n) = nat_str n"
    using digits digit_plain(1) nat_str_digits [of "last (nat_str n)" n]
    by (intro strip_by_id) (auto simp: n)
  have "split_on (CHR ''_'') (nat_str n) = [nat_str n]"
    using digits digit_plain(2) by (intro split_on_absent) (auto simp: list_all_iff)
  moreover have "length (nat_str n) \<le> max_int_digits"
    using length_nat_str [of n 17] assms by (simp add: max_int_digits_def)
  ultimately have "digit_groups (nat_str n) = Some (nat_str n)"
    using digits by (simp add: digit_groups_def)
  then show ?thesis
    using digits digit_plain(3,4) [of c] digits_val_nat_str [of n]
    by (simp add: int_of_str_def strip [unfolded n] n)
qed

section \<open>UTF-8 length\<close>

text \<open>\<open>len(s.encode("utf-8"))\<close> on the repertoire.\<close>

definition utf8_len :: "string \<Rightarrow> nat" where
  "utf8_len s = sum_list (map (\<lambda>c. if cp c < 128 then 1 else 2) s)"

lemma length_le_utf8_len: "length s \<le> utf8_len s"
  by (induction s) (auto simp: utf8_len_def)

lemma utf8_len_ascii: "list_all (\<lambda>c. cp c < 128) s \<Longrightarrow> utf8_len s = length s"
  by (induction s) (auto simp: utf8_len_def)

lemma utf8_len_eq_0 [simp]: "utf8_len s = 0 \<longleftrightarrow> s = []"
  by (cases s) (auto simp: utf8_len_def)

end
