(* ===== verification/Py_Value.thy ===== *)
theory Py_Value
  imports Complex_Main "HOL-Library.AList" Py_String
begin

text \<open>
  The Python values that reach the tools as decoded JSON, and the operations on them the tools
  use: truth, \<open>int()\<close>, \<open>float()\<close>, \<open>str()\<close> and \<open>repr()\<close>, \<open>==\<close>, iteration, and the
  insertion-ordered \<open>dict\<close>.
\<close>

section \<open>Values\<close>

text \<open>
  A finite \<open>float\<close> is represented by the rational its shortest round-tripping decimal denotes
  (what \<open>repr\<close> prints).  Distinct doubles have distinct such decimals and rounding is monotone,
  so equality and order of the rationals are those of the doubles.  The rounding of arithmetic and
  of integers beyond \<open>2^53\<close> is not modelled.
\<close>

datatype pyfloat = Fin rat | PInf | NInf | NaN

datatype pyval =
    PNone
  | PBool bool
  | PInt int
  | PFloat pyfloat
  | PStr string
  | PList "pyval list"
  | PDict "(string \<times> pyval) list"

type_synonym dict = "(string \<times> pyval) list"

section \<open>Dictionaries\<close>

text \<open>
  A \<open>dict\<close> is its list of items in insertion order: \<open>d.get(k)\<close> is \<open>map_of d k\<close>,
  \<open>d[k] = v\<close> keeps the position of an existing key and appends a new one (\<open>AList.update\<close>), and
  \<open>d.pop(k, None)\<close> removes the key (\<open>AList.delete\<close>).
\<close>

abbreviation dset :: "'k \<Rightarrow> 'v \<Rightarrow> ('k \<times> 'v) list \<Rightarrow> ('k \<times> 'v) list" where
  "dset \<equiv> AList.update"

abbreviation dpop :: "'k \<Rightarrow> ('k \<times> 'v) list \<Rightarrow> ('k \<times> 'v) list" where
  "dpop \<equiv> AList.delete"

abbreviation dkeys :: "('k \<times> 'v) list \<Rightarrow> 'k list" where
  "dkeys d \<equiv> map fst d"

abbreviation dvalues :: "('k \<times> 'v) list \<Rightarrow> 'v list" where
  "dvalues d \<equiv> map snd d"

text \<open>\<open>d.get(k)\<close> and \<open>d.get(k, default)\<close> as values.\<close>

definition dget :: "dict \<Rightarrow> string \<Rightarrow> pyval" where
  "dget d k = (case map_of d k of None \<Rightarrow> PNone | Some v \<Rightarrow> v)"

definition dget_or :: "dict \<Rightarrow> string \<Rightarrow> pyval \<Rightarrow> pyval" where
  "dget_or d k v0 = (case map_of d k of None \<Rightarrow> v0 | Some v \<Rightarrow> v)"

text \<open>\<open>v if isinstance(v, dict) else {}\<close>.\<close>

fun dict_or_empty :: "pyval \<Rightarrow> dict" where
  "dict_or_empty (PDict d) = d"
| "dict_or_empty _ = []"

lemma map_of_filter_key:
  "map_of (filter (\<lambda>p. fst p \<noteq> k) d) j = (if j = k then None else map_of d j)"
  by (induction d) auto

text \<open>
  What the tools rely on when they use a \<open>dict\<close> as an ordered store: reading back what was
  written, and the order of the items under pop-then-set, the idiom by which an entry becomes the
  newest one.
\<close>

locale ordered_dict =
  fixes get :: "'d \<Rightarrow> 'k \<Rightarrow> 'v option"
    and put :: "'k \<Rightarrow> 'v \<Rightarrow> 'd \<Rightarrow> 'd"
    and pop :: "'k \<Rightarrow> 'd \<Rightarrow> 'd"
    and items :: "'d \<Rightarrow> ('k \<times> 'v) list"
    and ok :: "'d \<Rightarrow> bool"
  assumes ok_items: "ok d \<Longrightarrow> distinct (map fst (items d))"
    and get_items: "ok d \<Longrightarrow> get d k = map_of (items d) k"
    and items_pop: "ok d \<Longrightarrow> items (pop k d) = filter (\<lambda>p. fst p \<noteq> k) (items d)"
    and items_put_new: "ok d \<Longrightarrow> get d k = None \<Longrightarrow> items (put k v d) = items d @ [(k, v)]"
    and keys_put_old: "ok d \<Longrightarrow> get d k = Some w \<Longrightarrow> map fst (items (put k v d)) = map fst (items d)"
    and get_put: "ok d \<Longrightarrow> get (put k v d) j = (if j = k then Some v else get d j)"
    and ok_put: "ok d \<Longrightarrow> ok (put k v d)"
    and ok_pop: "ok d \<Longrightarrow> ok (pop k d)"
begin

lemma get_pop: "ok d \<Longrightarrow> get (pop k d) j = (if j = k then None else get d j)"
  by (simp add: get_items ok_pop items_pop map_of_filter_key)

lemma items_upsert:
  assumes "ok d"
  shows "items (put k v (pop k d)) = filter (\<lambda>p. fst p \<noteq> k) (items d) @ [(k, v)]"
  using assms by (simp add: items_put_new ok_pop get_pop items_pop)

lemma ok_upsert: "ok d \<Longrightarrow> ok (put k v (pop k d))"
  by (intro ok_put ok_pop)

lemma get_upsert: "ok d \<Longrightarrow> get (put k v (pop k d)) j = (if j = k then Some v else get d j)"
  by (simp add: get_put ok_pop get_pop)

end

lemma update_new: "map_of d k = None \<Longrightarrow> AList.update k v d = d @ [(k, v)]"
  by (induction d) auto

lemma update_old_keys: "map_of d k = Some w \<Longrightarrow> map fst (AList.update k v d) = map fst d"
  by (induction d) auto

interpretation pydict: ordered_dict
  "map_of" "AList.update" "AList.delete" "\<lambda>d. d" "\<lambda>d. distinct (map fst d)"
proof
  fix d :: "('a \<times> 'b) list" and k :: 'a and v w :: 'b and j
  assume d: "distinct (map fst d)"
  show "distinct (map fst d)" by (rule d)
  show "map_of d k = map_of d k" by simp
  show "AList.delete k d = filter (\<lambda>p. fst p \<noteq> k) d" by (induction d) simp_all
  show "map_of d k = None \<Longrightarrow> AList.update k v d = d @ [(k, v)]" by (rule update_new)
  show "map_of d k = Some w \<Longrightarrow> map fst (AList.update k v d) = map fst d" by (rule update_old_keys)
  show "map_of (AList.update k v d) j = (if j = k then Some v else map_of d j)"
    by (simp add: update_conv')
  show "distinct (map fst (AList.update k v d))" using d by (rule distinct_update)
  show "distinct (map fst (AList.delete k d))" using d by (rule distinct_delete)
qed

section \<open>Truth and numbers\<close>

fun py_truthy :: "pyval \<Rightarrow> bool" where
  "py_truthy PNone = False"
| "py_truthy (PBool b) = b"
| "py_truthy (PInt i) = (i \<noteq> 0)"
| "py_truthy (PFloat f) = (f \<noteq> Fin 0)"
| "py_truthy (PStr s) = (s \<noteq> [])"
| "py_truthy (PList xs) = (xs \<noteq> [])"
| "py_truthy (PDict d) = (d \<noteq> [])"

text \<open>\<open>a or b\<close>.\<close>

definition py_or :: "pyval \<Rightarrow> pyval \<Rightarrow> pyval" where
  "py_or a b = (if py_truthy a then a else b)"

definition trunc_rat :: "rat \<Rightarrow> int" where
  "trunc_rat q = (if q < 0 then - \<lfloor>- q\<rfloor> else \<lfloor>q\<rfloor>)"

text \<open>\<open>int(v)\<close>.\<close>

fun py_int :: "pyval \<Rightarrow> int result" where
  "py_int PNone = Inl TypeError"
| "py_int (PBool b) = Inr (if b then 1 else 0)"
| "py_int (PInt i) = Inr i"
| "py_int (PFloat (Fin q)) = Inr (trunc_rat q)"
| "py_int (PFloat PInf) = Inl OverflowError"
| "py_int (PFloat NInf) = Inl OverflowError"
| "py_int (PFloat NaN) = Inl (ValueError ''cannot convert float NaN to integer'')"
| "py_int (PStr s) =
     (case int_of_str s of None \<Rightarrow> Inl (ValueError ''invalid literal for int()'') | Some i \<Rightarrow> Inr i)"
| "py_int (PList _) = Inl TypeError"
| "py_int (PDict _) = Inl TypeError"

text \<open>
  \<open>float(i)\<close> of an integer; it raises when the integer is too large for a double.
\<close>

definition float_of_int :: "int \<Rightarrow> pyfloat result" where
  "float_of_int i = (if 2 ^ 1024 - 2 ^ 970 \<le> \<bar>i\<bar> then Inl OverflowError else Inr (Fin (of_int i)))"

fun is_finite :: "pyfloat \<Rightarrow> bool" where
  "is_finite (Fin _) = True"
| "is_finite _ = False"

text \<open>\<open>a < b\<close> and \<open>a <= b\<close> on floats: every comparison with NaN is false.\<close>

fun flt :: "pyfloat \<Rightarrow> pyfloat \<Rightarrow> bool" where
  "flt (Fin a) (Fin b) = (a < b)"
| "flt (Fin a) PInf = True"
| "flt NInf (Fin b) = True"
| "flt NInf PInf = True"
| "flt _ _ = False"

fun feq :: "pyfloat \<Rightarrow> pyfloat \<Rightarrow> bool" where
  "feq (Fin a) (Fin b) = (a = b)"
| "feq PInf PInf = True"
| "feq NInf NInf = True"
| "feq _ _ = False"

definition fle :: "pyfloat \<Rightarrow> pyfloat \<Rightarrow> bool" where
  "fle a b = (flt a b \<or> feq a b)"

text \<open>\<open>isinstance(v, int)\<close>, which booleans are too.\<close>

fun py_isint :: "pyval \<Rightarrow> int option" where
  "py_isint (PInt i) = Some i"
| "py_isint (PBool b) = Some (if b then 1 else 0)"
| "py_isint _ = None"

text \<open>The operand of a numeric comparison: booleans count as 0 and 1.\<close>

fun num_of :: "pyval \<Rightarrow> pyfloat option" where
  "num_of (PBool b) = Some (Fin (if b then 1 else 0))"
| "num_of (PInt i) = Some (Fin (of_int i))"
| "num_of (PFloat f) = Some f"
| "num_of _ = None"

text \<open>\<open>isinstance(v, (int, float)) and not isinstance(v, bool)\<close>, then \<open>float(v)\<close>.\<close>

fun is_number :: "pyval \<Rightarrow> bool" where
  "is_number (PInt _) = True"
| "is_number (PFloat _) = True"
| "is_number _ = False"

fun to_float :: "pyval \<Rightarrow> pyfloat result" where
  "to_float (PInt i) = float_of_int i"
| "to_float (PFloat f) = Inr f"
| "to_float (PBool b) = Inr (Fin (if b then 1 else 0))"
| "to_float _ = Inl TypeError"

text \<open>
  \<open>float(s)\<close> on a string: blanks around it, a sign, \<open>inf\<close>, \<open>infinity\<close>, \<open>nan\<close>, or a decimal numeral
  with an optional exponent; \<open>None\<close> is the \<open>ValueError\<close>.
\<close>

definition opt_digits :: "string \<Rightarrow> string option" where
  "opt_digits s = (if s = [] then Some [] else digit_groups s)"

definition decimal_mantissa :: "string \<Rightarrow> rat option" where
  "decimal_mantissa s =
     (case split_once (CHR ''.'') s of
        (a, None) \<Rightarrow> map_option (\<lambda>d. of_nat (digits_val d)) (digit_groups a)
      | (a, Some b) \<Rightarrow>
          (case (opt_digits a, opt_digits b) of
             (Some x, Some y) \<Rightarrow>
               if x = [] \<and> y = [] then None
               else Some (of_nat (digits_val (x @ y)) / 10 ^ length y)
           | _ \<Rightarrow> None))"

definition scale10 :: "rat \<Rightarrow> int \<Rightarrow> rat" where
  "scale10 q e = (if 0 \<le> e then q * 10 ^ nat e else q / 10 ^ nat (- e))"

definition exponent_of_str :: "string \<Rightarrow> int option" where
  "exponent_of_str s =
     (case s of
        [] \<Rightarrow> None
      | c # cs \<Rightarrow>
          if c = CHR ''-'' then map_option (\<lambda>d. - int (digits_val d)) (digit_groups cs)
          else if c = CHR ''+'' then map_option (\<lambda>d. int (digits_val d)) (digit_groups cs)
          else map_option (\<lambda>d. int (digits_val d)) (digit_groups s))"

definition clip_float :: "rat \<Rightarrow> pyfloat" where
  "clip_float q =
     (if 2 ^ 1024 - 2 ^ 970 \<le> q then PInf else if q \<le> - (2 ^ 1024 - 2 ^ 970) then NInf else Fin q)"

definition unsigned_float :: "string \<Rightarrow> pyfloat option" where
  "unsigned_float s =
     (if s = ''inf'' \<or> s = ''infinity'' then Some PInf
      else if s = ''nan'' then Some NaN
      else case split_once (CHR ''e'') s of
             (m, None) \<Rightarrow> map_option clip_float (decimal_mantissa m)
           | (m, Some e) \<Rightarrow>
               (case (decimal_mantissa m, exponent_of_str e) of
                  (Some q, Some i) \<Rightarrow> Some (clip_float (scale10 q i))
                | _ \<Rightarrow> None))"

fun fneg :: "pyfloat \<Rightarrow> pyfloat" where
  "fneg (Fin q) = Fin (- q)"
| "fneg PInf = NInf"
| "fneg NInf = PInf"
| "fneg NaN = NaN"

definition float_of_str :: "string \<Rightarrow> pyfloat option" where
  "float_of_str s =
     (case str_lower (strip_by is_int_space s) of
        [] \<Rightarrow> None
      | c # cs \<Rightarrow>
          if c = CHR ''-'' then map_option fneg (unsigned_float cs)
          else if c = CHR ''+'' then unsigned_float cs
          else unsigned_float (c # cs))"

text \<open>\<open>float(v)\<close> on any value.\<close>

definition py_float :: "pyval \<Rightarrow> pyfloat result" where
  "py_float v =
     (case v of
        PStr s \<Rightarrow> (case float_of_str s of
                     None \<Rightarrow> Inl (ValueError ''could not convert string to float'')
                   | Some f \<Rightarrow> Inr f)
      | _ \<Rightarrow> to_float v)"

text \<open>\<open>round(q)\<close>: halves go to the even neighbour.\<close>

definition round_half_even :: "rat \<Rightarrow> int" where
  "round_half_even q =
     (let f = \<lfloor>q\<rfloor>; r = q - of_int f
      in if r < 1 / 2 then f else if 1 / 2 < r then f + 1 else if even f then f else f + 1)"

section \<open>Equality\<close>

text \<open>\<open>a == b\<close>: numbers by value across the numeric types, lists in order, dicts as maps.\<close>

fun py_eq :: "pyval \<Rightarrow> pyval \<Rightarrow> bool"
  and list_eq :: "pyval list \<Rightarrow> pyval list \<Rightarrow> bool"
  and dict_eq :: "dict \<Rightarrow> dict \<Rightarrow> bool" where
  "py_eq (PStr s) w = (w = PStr s)"
| "py_eq PNone w = (w = PNone)"
| "py_eq (PList xs) w = (case w of PList ys \<Rightarrow> list_eq xs ys | _ \<Rightarrow> False)"
| "py_eq (PDict d) w = (case w of PDict e \<Rightarrow> length d = length e \<and> dict_eq d e | _ \<Rightarrow> False)"
| "py_eq (PBool b) w = (case num_of w of Some g \<Rightarrow> feq (Fin (if b then 1 else 0)) g | None \<Rightarrow> False)"
| "py_eq (PInt i) w = (case num_of w of Some g \<Rightarrow> feq (Fin (of_int i)) g | None \<Rightarrow> False)"
| "py_eq (PFloat f) w = (case num_of w of Some g \<Rightarrow> feq f g | None \<Rightarrow> False)"
| "list_eq [] ys = (ys = [])"
| "list_eq (x # xs) ys = (case ys of [] \<Rightarrow> False | y # ys' \<Rightarrow> py_eq x y \<and> list_eq xs ys')"
| "dict_eq [] e = True"
| "dict_eq ((k, v) # d) e =
     ((case map_of e k of None \<Rightarrow> False | Some w \<Rightarrow> py_eq v w) \<and> dict_eq d e)"

section \<open>str and repr\<close>

definition hex_digit :: "nat \<Rightarrow> char" where
  "hex_digit d = (if d < 10 then char_of (48 + d) else char_of (87 + d))"

definition escape_char :: "char \<Rightarrow> char \<Rightarrow> string" where
  "escape_char quote c =
     (if c = quote \<or> cp c = 92 then [char_of (92 :: nat), c]
      else if cp c = 9 then [char_of (92 :: nat), CHR ''t'']
      else if cp c = 10 then [char_of (92 :: nat), CHR ''n'']
      else if cp c = 13 then [char_of (92 :: nat), CHR ''r'']
      else if cp c < 32 \<or> (127 \<le> cp c \<and> cp c \<le> 160) \<or> cp c = 173
      then [char_of (92 :: nat), CHR ''x'', hex_digit (cp c div 16), hex_digit (cp c mod 16)]
      else [c])"

definition str_repr :: "string \<Rightarrow> string" where
  "str_repr s =
     (let quote = (if char_of (39 :: nat) \<in> set s \<and> char_of (34 :: nat) \<notin> set s
                   then char_of (34 :: nat) else char_of (39 :: nat))
      in [quote] @ concat (map (escape_char quote) s) @ [quote])"

text \<open>Number of decimal places of a terminating decimal; 400 exceeds what any double needs.\<close>

fun dec_places :: "nat \<Rightarrow> rat \<Rightarrow> nat" where
  "dec_places 0 q = 0"
| "dec_places (Suc n) q = (if of_int \<lfloor>q\<rfloor> = q then 0 else Suc (dec_places n (q * 10)))"

definition zeros :: "nat \<Rightarrow> string" where
  "zeros n = replicate n (CHR ''0'')"

definition float_digits :: "string \<Rightarrow> int \<Rightarrow> string" where
  "float_digits ds decpt =
     (if decpt \<le> - 4 \<or> 16 < decpt then
        (let e = decpt - 1
         in take 1 ds @ (if drop 1 ds = [] then [] else CHR ''.'' # drop 1 ds) @ ''e''
            @ (if e < 0 then ''-'' else ''+'')
            @ (if \<bar>e\<bar> < 10 then ''0'' else []) @ nat_str (nat \<bar>e\<bar>))
      else if decpt \<le> 0 then ''0.'' @ zeros (nat (- decpt)) @ ds
      else if int (length ds) \<le> decpt then ds @ zeros (nat decpt - length ds) @ ''.0''
      else take (nat decpt) ds @ ''.'' @ drop (nat decpt) ds)"

definition float_repr :: "pyfloat \<Rightarrow> string" where
  "float_repr f =
     (case f of
        PInf \<Rightarrow> ''inf'' | NInf \<Rightarrow> ''-inf'' | NaN \<Rightarrow> ''nan''
      | Fin q \<Rightarrow>
          if q = 0 then ''0.0''
          else (let a = \<bar>q\<bar>; k = dec_places 400 a; ds = nat_str (nat \<lfloor>a * 10 ^ k\<rfloor>)
                in (if q < 0 then ''-'' else [])
                   @ float_digits (rstrip_by (\<lambda>c. c = CHR ''0'') ds) (int (length ds) - int k)))"

fun py_repr :: "pyval \<Rightarrow> string"
  and list_reprs :: "pyval list \<Rightarrow> string list"
  and dict_reprs :: "dict \<Rightarrow> string list" where
  "py_repr PNone = ''None''"
| "py_repr (PBool b) = (if b then ''True'' else ''False'')"
| "py_repr (PInt i) = int_str i"
| "py_repr (PFloat f) = float_repr f"
| "py_repr (PStr s) = str_repr s"
| "py_repr (PList xs) = ''['' @ join_with '', '' (list_reprs xs) @ '']''"
| "py_repr (PDict d) = ''{'' @ join_with '', '' (dict_reprs d) @ ''}''"
| "list_reprs [] = []"
| "list_reprs (x # xs) = py_repr x # list_reprs xs"
| "dict_reprs [] = []"
| "dict_reprs ((k, v) # d) = (str_repr k @ '': '' @ py_repr v) # dict_reprs d"

text \<open>\<open>str(v)\<close>: as \<open>repr\<close>, except on strings.\<close>

definition py_str :: "pyval \<Rightarrow> string" where
  "py_str v = (case v of PStr s \<Rightarrow> s | _ \<Rightarrow> py_repr v)"

lemma py_str_PStr [simp]: "py_str (PStr s) = s"
  by (simp add: py_str_def)

section \<open>Iteration\<close>

text \<open>\<open>for x in v\<close>: the elements of a list, the characters of a string, the keys of a dict.\<close>

fun py_iter :: "pyval \<Rightarrow> pyval list result" where
  "py_iter (PList xs) = Inr xs"
| "py_iter (PStr s) = Inr (map (\<lambda>c. PStr [c]) s)"
| "py_iter (PDict d) = Inr (map (\<lambda>kv. PStr (fst kv)) d)"
| "py_iter _ = Inl TypeError"

lemma py_iter_Inl: "py_iter v = Inl e \<Longrightarrow> e = TypeError"
  by (cases v) auto

text \<open>\<open>[x for x in xs if isinstance(x, dict)]\<close>.\<close>

fun only_dicts :: "pyval list \<Rightarrow> dict list" where
  "only_dicts [] = []"
| "only_dicts (PDict d # xs) = d # only_dicts xs"
| "only_dicts (_ # xs) = only_dicts xs"

lemma set_only_dicts [simp]: "d \<in> set (only_dicts xs) \<longleftrightarrow> PDict d \<in> set xs"
  by (induction xs rule: only_dicts.induct) auto

lemma only_dicts_map [simp]: "only_dicts (map PDict ds) = ds"
  by (induction ds) simp_all

lemma dget_simps [py_simps]:
  "map_of d k = Some v \<Longrightarrow> dget d k = v"
  "map_of d k = None \<Longrightarrow> dget d k = PNone"
  "map_of d k = Some v \<Longrightarrow> dget_or d k w = v"
  "map_of d k = None \<Longrightarrow> dget_or d k w = w"
  by (simp_all add: dget_def dget_or_def)

end
