(* ===== verification/Filter_Sanitizer.thy ===== *)
theory Filter_Sanitizer
  imports Py_Value
begin

text \<open>
  The sanitizer of \<open>tools/codex_analyzer.py\<close>: every filter rule, whoever proposed it (an AI
  provider, the deterministic generator, the existing filter file), is rebuilt field by field into
  a bounded rule before it is written.  The theory holds the field checks, \<open>sanitize_filter\<close>,
  the well-formedness of a clean rule, that sanitizing establishes it, and that it is idempotent.
\<close>

section \<open>Constants\<close>

definition FILTER_TTL_MAX_SECONDS :: int where
  "FILTER_TTL_MAX_SECONDS = 24 * 60 * 60"

definition FILTER_RULE_ID_MAX_BYTES :: nat where
  "FILTER_RULE_ID_MAX_BYTES = 96"

definition FILTER_MATCH_VALUE_MAX_BYTES :: nat where
  "FILTER_MATCH_VALUE_MAX_BYTES = 512"

definition FILTER_HEADER_NAME_MAX_BYTES :: nat where
  "FILTER_HEADER_NAME_MAX_BYTES = 64"

definition FILTER_HEADER_CONTAINS_MAX_BYTES :: nat where
  "FILTER_HEADER_CONTAINS_MAX_BYTES = 256"

lemmas limit_defs = FILTER_TTL_MAX_SECONDS_def FILTER_RULE_ID_MAX_BYTES_def
  FILTER_MATCH_VALUE_MAX_BYTES_def FILTER_HEADER_NAME_MAX_BYTES_def
  FILTER_HEADER_CONTAINS_MAX_BYTES_def

section \<open>Field checks\<close>

text \<open>\<open>bounded_ttl_seconds\<close>: only \<open>TypeError\<close> and \<open>ValueError\<close> of \<open>int(value)\<close> are caught.\<close>

definition clamp_ttl :: "int \<Rightarrow> int \<Rightarrow> int" where
  "clamp_ttl ttl fallback =
     (let ttl = (if ttl \<le> 0 then fallback else ttl);
          ttl = (if ttl \<le> 0 then 60 else ttl)
      in max 1 (min ttl FILTER_TTL_MAX_SECONDS))"

definition bounded_ttl_seconds :: "pyval \<Rightarrow> int \<Rightarrow> int result" where
  "bounded_ttl_seconds value fallback =
     (case py_int value of
        Inr ttl \<Rightarrow> Inr (clamp_ttl ttl fallback)
      | Inl e \<Rightarrow>
          if e = TypeError \<or> is_value_error e then Inr (clamp_ttl fallback fallback) else Inl e)"

text \<open>The class \<open>[a-zA-Z0-9_.:-]\<close> that \<open>SAFE_ID\<close> negates.\<close>

definition safe_id_char :: "char \<Rightarrow> bool" where
  "safe_id_char c \<longleftrightarrow> is_ascii_lower c \<or> is_ascii_upper c \<or> is_ascii_digit c
     \<or> c \<in> {CHR ''_'', CHR ''.'', CHR '':'', CHR ''-''}"

text \<open>\<open>SAFE_ID.sub("-", value)\<close>: each maximal run of other characters becomes one hyphen.\<close>

fun safe_id_sub :: "bool \<Rightarrow> string \<Rightarrow> string" where
  "safe_id_sub in_run [] = []"
| "safe_id_sub in_run (c # cs) =
     (if safe_id_char c then c # safe_id_sub False cs
      else if in_run then safe_id_sub True cs
      else CHR ''-'' # safe_id_sub True cs)"

definition is_dash :: "char \<Rightarrow> bool" where
  "is_dash c \<longleftrightarrow> c = CHR ''-''"

definition safe_id :: "string \<Rightarrow> string" where
  "safe_id value =
     (let s = strip_by is_dash (take FILTER_RULE_ID_MAX_BYTES (safe_id_sub False value))
      in if s = [] then ''codex-learned-filter'' else s)"

definition http_token_char :: "char \<Rightarrow> bool" where
  "http_token_char c \<longleftrightarrow> is_ascii_lower c \<or> is_ascii_upper c \<or> is_ascii_digit c
     \<or> cp c \<in> {45, 33, 35, 36, 37, 38, 39, 42, 43, 46, 94, 95, 96, 124, 126}"

definition is_http_header_name :: "string \<Rightarrow> bool" where
  "is_http_header_name value \<longleftrightarrow>
     0 < length value \<and> length value \<le> FILTER_HEADER_NAME_MAX_BYTES \<and> list_all http_token_char value"

definition is_supported_signature :: "string \<Rightarrow> bool" where
  "is_supported_signature value \<longleftrightarrow>
     (length value = 16 \<or> length value = 32) \<and> list_all is_hex_lower value"

definition bounded_utf8 :: "string \<Rightarrow> nat \<Rightarrow> bool" where
  "bounded_utf8 value max_bytes \<longleftrightarrow> 0 < utf8_len value \<and> utf8_len value \<le> max_bytes"

section \<open>Conditions\<close>

definition condition_string_keys :: "string list" where
  "condition_string_keys =
     [''signature'', ''path_exact'', ''path_prefix'', ''path_contains'', ''path_shape'',
      ''query_contains'', ''user_agent_contains'']"

definition allowed_methods :: "string list" where
  "allowed_methods = [''GET'', ''POST'', ''PUT'', ''PATCH'', ''DELETE'', ''HEAD'', ''OPTIONS'']"

text \<open>One turn of the loop over the string keys: the entry it stores, if any.\<close>

definition condition_value_ok :: "string \<Rightarrow> string \<Rightarrow> bool" where
  "condition_value_ok key value \<longleftrightarrow>
     bounded_utf8 value FILTER_MATCH_VALUE_MAX_BYTES
     \<and> \<not> (key = ''path_prefix'' \<and> (value = '''' \<or> value = ''/''))
     \<and> \<not> (key = ''signature'' \<and> \<not> is_supported_signature value)"

definition clean_string_entry :: "dict \<Rightarrow> string \<Rightarrow> (string \<times> pyval) option" where
  "clean_string_entry condition key =
     (case dget condition key of
        PStr value \<Rightarrow> if condition_value_ok key value then Some (key, PStr value) else None
      | _ \<Rightarrow> None)"

definition clean_method :: "pyval \<Rightarrow> string option" where
  "clean_method method =
     (let m = str_upper (py_str method) in if m \<in> set allowed_methods then Some m else None)"

definition clean_methods :: "dict \<Rightarrow> dict" where
  "clean_methods condition =
     (case dget condition ''methods'' of
        PList methods \<Rightarrow>
          (let ms = take 8 (List.map_filter clean_method methods)
           in if ms = [] then [] else [(''methods'', PList (map PStr ms))])
      | _ \<Rightarrow> [])"

definition clean_header :: "pyval \<Rightarrow> pyval option" where
  "clean_header header =
     (case header of
        PDict h \<Rightarrow>
          (case (dget h ''name'', dget h ''contains'') of
             (PStr name, PStr contains) \<Rightarrow>
               if is_http_header_name name
                  \<and> bounded_utf8 contains FILTER_HEADER_CONTAINS_MAX_BYTES
               then Some (PDict [(''name'', PStr (take FILTER_HEADER_NAME_MAX_BYTES name)),
                                 (''contains'', PStr contains)])
               else None
           | _ \<Rightarrow> None)
      | _ \<Rightarrow> None)"

definition clean_headers :: "dict \<Rightarrow> dict" where
  "clean_headers condition =
     (case dget condition ''headers'' of
        PList headers \<Rightarrow>
          (let hs = List.map_filter clean_header (take 8 headers)
           in if hs = [] then [] else [(''headers'', PList hs)])
      | _ \<Rightarrow> [])"

definition clean_condition :: "dict \<Rightarrow> dict" where
  "clean_condition condition =
     List.map_filter (clean_string_entry condition) condition_string_keys
     @ clean_methods condition @ clean_headers condition"

section \<open>Rules\<close>

definition block_action :: pyval where
  "block_action =
     PDict [(''kind'', PStr ''block''), (''status'', PInt 403),
            (''body'', PStr ''blocked by adaptive filter\<newline>'')]"

definition sanitize_filter :: "dict \<Rightarrow> int \<Rightarrow> dict result" where
  "sanitize_filter item ttl_seconds =
     rbind (bounded_ttl_seconds (dget item ''ttl_seconds'') ttl_seconds) (\<lambda>ttl.
       let condition = clean_condition (dict_or_empty (dget item ''condition''));
           signature = dget_or condition ''signature'' (PStr ''custom'');
           ident = safe_id (py_str (py_or (dget item ''id'')
                                          (PStr (''codex-learned-'' @ py_str signature))))
       in rbind (py_int (dget_or item ''priority'' (PInt 100))) (\<lambda>priority.
         Inr [(''id'', PStr ident),
              (''enabled'', PBool (py_truthy (dget_or item ''enabled'' (PBool True)))),
              (''adaptive'', PBool True),
              (''priority'', PInt priority),
              (''ttl_seconds'', PInt ttl),
              (''condition'', PDict condition),
              (''action'', block_action)]))"

definition filter_has_matcher :: "dict \<Rightarrow> bool" where
  "filter_has_matcher item =
     (case dget item ''condition'' of PDict condition \<Rightarrow> condition \<noteq> [] | _ \<Rightarrow> False)"

text \<open>The first two statements iterate over whatever \<open>filters\<close> is, so a number raises.\<close>

definition sanitized_filter_list :: "pyval \<Rightarrow> int \<Rightarrow> dict list result" where
  "sanitized_filter_list filters ttl_seconds =
     rbind (py_iter filters) (\<lambda>items.
       rbind (rmap (\<lambda>item. sanitize_filter item ttl_seconds) (only_dicts items)) (\<lambda>cleaned.
         Inr (filter filter_has_matcher cleaned)))"

definition filter_key :: "dict \<Rightarrow> string" where
  "filter_key item =
     (let by_id = ''id:'' @ py_str (dget_or item ''id'' (PStr ''''))
      in case dget_or item ''condition'' (PDict []) of
           PDict condition \<Rightarrow>
             (case dget condition ''signature'' of
                PStr s \<Rightarrow> ''signature:'' @ s
              | _ \<Rightarrow> (case dget condition ''path_shape'' of
                        PStr s \<Rightarrow> ''path_shape:'' @ s
                      | _ \<Rightarrow> by_id))
         | _ \<Rightarrow> by_id)"

section \<open>Well-formed rules\<close>

definition wf_id :: "string \<Rightarrow> bool" where
  "wf_id s \<longleftrightarrow> s \<noteq> [] \<and> length s \<le> FILTER_RULE_ID_MAX_BYTES \<and> list_all safe_id_char s
     \<and> \<not> is_dash (hd s) \<and> \<not> is_dash (last s)"

definition wf_header :: "pyval \<Rightarrow> bool" where
  "wf_header h \<longleftrightarrow> (\<exists>name contains.
     h = PDict [(''name'', PStr name), (''contains'', PStr contains)]
     \<and> is_http_header_name name \<and> bounded_utf8 contains FILTER_HEADER_CONTAINS_MAX_BYTES)"

definition wf_condition_entry :: "string \<Rightarrow> pyval \<Rightarrow> bool" where
  "wf_condition_entry key value \<longleftrightarrow>
     (key \<in> set condition_string_keys \<and> (\<exists>s. value = PStr s \<and> condition_value_ok key s))
     \<or> (key = ''methods'' \<and> (\<exists>ms. value = PList (map PStr ms) \<and> ms \<noteq> [] \<and> length ms \<le> 8
          \<and> set ms \<subseteq> set allowed_methods))
     \<or> (key = ''headers'' \<and> (\<exists>hs. value = PList hs \<and> hs \<noteq> [] \<and> length hs \<le> 8
          \<and> list_all wf_header hs))"

definition wf_condition :: "dict \<Rightarrow> bool" where
  "wf_condition condition \<longleftrightarrow>
     distinct (dkeys condition) \<and> list_all (\<lambda>(k, v). wf_condition_entry k v) condition"

definition rule_dict :: "string \<Rightarrow> bool \<Rightarrow> int \<Rightarrow> int \<Rightarrow> dict \<Rightarrow> dict" where
  "rule_dict ident enabled priority ttl condition =
     [(''id'', PStr ident), (''enabled'', PBool enabled), (''adaptive'', PBool True),
      (''priority'', PInt priority), (''ttl_seconds'', PInt ttl),
      (''condition'', PDict condition), (''action'', block_action)]"

definition wf_filter :: "dict \<Rightarrow> bool" where
  "wf_filter f \<longleftrightarrow> (\<exists>ident enabled priority ttl condition.
     f = rule_dict ident enabled priority ttl condition
     \<and> wf_id ident \<and> 1 \<le> ttl \<and> ttl \<le> FILTER_TTL_MAX_SECONDS \<and> wf_condition condition)"

lemma rule_dict_get [simp]:
  "dget (rule_dict i e p t c) ''id'' = PStr i"
  "dget_or (rule_dict i e p t c) ''id'' v = PStr i"
  "dget_or (rule_dict i e p t c) ''enabled'' v = PBool e"
  "dget_or (rule_dict i e p t c) ''priority'' v = PInt p"
  "dget (rule_dict i e p t c) ''ttl_seconds'' = PInt t"
  "dget (rule_dict i e p t c) ''condition'' = PDict c"
  "dget_or (rule_dict i e p t c) ''condition'' v = PDict c"
  by (simp_all add: rule_dict_def dget_def dget_or_def)

section \<open>Time to live\<close>

lemma clamp_ttl_bounds: "1 \<le> clamp_ttl t fb \<and> clamp_ttl t fb \<le> FILTER_TTL_MAX_SECONDS"
  by (simp add: clamp_ttl_def Let_def FILTER_TTL_MAX_SECONDS_def)

lemma clamp_ttl_id: "1 \<le> t \<Longrightarrow> t \<le> FILTER_TTL_MAX_SECONDS \<Longrightarrow> clamp_ttl t fb = t"
  by (simp add: clamp_ttl_def Let_def)

lemma bounded_ttl_PInt [simp]: "bounded_ttl_seconds (PInt t) fb = Inr (clamp_ttl t fb)"
  by (simp add: bounded_ttl_seconds_def)

lemma bounded_ttl_range:
  "bounded_ttl_seconds v fb = Inr t \<Longrightarrow> 1 \<le> t \<and> t \<le> FILTER_TTL_MAX_SECONDS"
  using clamp_ttl_bounds by (auto simp: bounded_ttl_seconds_def split: sum.splits if_splits)

lemma py_int_exceptions: "py_int v = Inl e \<Longrightarrow> e = TypeError \<or> is_value_error e \<or> e = OverflowError"
  by (cases v rule: py_int.cases) (auto split: option.splits)

lemma py_int_overflow: "py_int v = Inl OverflowError \<longleftrightarrow> v = PFloat PInf \<or> v = PFloat NInf"
  by (cases v rule: py_int.cases) (auto split: option.splits)

lemma bounded_ttl_raises: "bounded_ttl_seconds v fb = Inl e \<Longrightarrow> e = OverflowError"
  using py_int_exceptions [of v e] by (auto simp: bounded_ttl_seconds_def split: sum.splits if_splits)

section \<open>Identifiers\<close>

lemma safe_id_sub_safe: "list_all safe_id_char s \<Longrightarrow> safe_id_sub b s = s"
  by (induction s arbitrary: b) auto

lemma safe_id_sub_chars: "list_all safe_id_char (safe_id_sub b s)"
  by (induction b s rule: safe_id_sub.induct) (auto simp: safe_id_char_def)

lemma list_all_take: "list_all P xs \<Longrightarrow> list_all P (take n xs)"
  by (auto simp: list_all_iff dest: in_set_takeD)

lemma list_all_strip_by: "list_all P s \<Longrightarrow> list_all P (strip_by p s)"
  using set_strip_by [of p s] by (auto simp: list_all_iff)

lemma wf_id_default: "wf_id ''codex-learned-filter''"
  by (simp add: wf_id_def FILTER_RULE_ID_MAX_BYTES_def safe_id_char_def is_ascii_lower_def cp_def
      is_dash_def)

lemma wf_safe_id [simp]: "wf_id (safe_id v)"
proof -
  let ?t = "take FILTER_RULE_ID_MAX_BYTES (safe_id_sub False v)"
  let ?s = "strip_by is_dash ?t"
  have "list_all safe_id_char ?s"
    by (intro list_all_strip_by list_all_take safe_id_sub_chars)
  moreover have "length ?s \<le> FILTER_RULE_ID_MAX_BYTES"
    using length_strip_by [of is_dash ?t] by simp
  ultimately show ?thesis
    using strip_by_ends [of is_dash ?t] wf_id_default
    by (simp add: safe_id_def wf_id_def Let_def)
qed

lemma safe_id_wf [simp]: "wf_id s \<Longrightarrow> safe_id s = s"
  by (simp add: wf_id_def safe_id_def safe_id_sub_safe strip_by_id)

lemma safe_id_idem: "safe_id (safe_id v) = safe_id v"
  by simp

lemma wf_id_nonempty: "wf_id s \<Longrightarrow> s \<noteq> []"
  by (simp add: wf_id_def)

section \<open>Conditions: lookup and idempotence\<close>

lemma map_of_map_filter_keys:
  assumes "\<And>k p. f k = Some p \<Longrightarrow> fst p = k"
  shows "map_of (List.map_filter f ks) k = (if k \<in> set ks then map_option snd (f k) else None)"
proof (induction ks)
  case Nil
  then show ?case by (simp add: List.map_filter_simps)
next
  case (Cons j ks)
  show ?case
  proof (cases "f j")
    case None
    with Cons show ?thesis by (auto simp: List.map_filter_simps)
  next
    case (Some p)
    with assms have "fst p = j" by blast
    with Some Cons show ?thesis by (cases p) (auto simp: List.map_filter_simps)
  qed
qed

lemma map_filter_Some_id: "(\<And>x. x \<in> set xs \<Longrightarrow> f (g x) = Some x) \<Longrightarrow> List.map_filter f (map g xs) = xs"
  by (induction xs) (simp_all add: List.map_filter_simps)

lemma set_map_filter: "y \<in> set (List.map_filter f xs) \<longleftrightarrow> (\<exists>x \<in> set xs. f x = Some y)"
  by (induction xs) (auto simp: List.map_filter_simps split: option.splits)

lemma map_filter_eq: "(\<And>x. x \<in> set xs \<Longrightarrow> f x = g x) \<Longrightarrow> List.map_filter f xs = List.map_filter g xs"
  by (induction xs) (auto simp: List.map_filter_simps split: option.splits)

lemma length_map_filter: "length (List.map_filter f xs) \<le> length xs"
  by (induction xs) (auto simp: List.map_filter_simps split: option.splits)

lemma clean_string_entry_Some:
  "clean_string_entry c k = Some p
     \<longleftrightarrow> (\<exists>s. dget c k = PStr s \<and> condition_value_ok k s \<and> p = (k, PStr s))"
  by (cases "dget c k") (auto simp: clean_string_entry_def)

lemma clean_string_entry_key: "clean_string_entry c k = Some p \<Longrightarrow> fst p = k"
  by (auto simp: clean_string_entry_Some)

lemma clean_methods_keys: "set (dkeys (clean_methods c)) \<subseteq> {''methods''}"
  by (auto simp: clean_methods_def Let_def split: pyval.splits if_splits)

lemma clean_headers_keys: "set (dkeys (clean_headers c)) \<subseteq> {''headers''}"
  by (auto simp: clean_headers_def Let_def split: pyval.splits if_splits)

lemma condition_keys_simps [simp]:
  "''methods'' \<notin> set condition_string_keys" "''headers'' \<notin> set condition_string_keys"
  "distinct condition_string_keys"
  by (simp_all add: condition_string_keys_def)

lemma map_of_keys_subset: "set (dkeys d) \<subseteq> A \<Longrightarrow> k \<notin> A \<Longrightarrow> map_of d k = None"
  by (metis map_of_eq_None_iff subsetD list.set_map)

lemma map_of_clean_string:
  assumes "k \<in> set condition_string_keys"
  shows "map_of (clean_condition c) k = map_option snd (clean_string_entry c k)"
proof -
  have "k \<noteq> ''methods''" and "k \<noteq> ''headers''" using assms by auto
  then have "map_of (clean_methods c) k = None" and "map_of (clean_headers c) k = None"
    by (simp_all add: map_of_keys_subset [OF clean_methods_keys] map_of_keys_subset [OF clean_headers_keys])
  then show ?thesis
    using assms
    by (simp add: clean_condition_def map_of_map_filter_keys clean_string_entry_key map_add_def
        split: option.splits)
qed

lemma map_of_clean_methods: "map_of (clean_condition c) ''methods'' = map_of (clean_methods c) ''methods''"
proof -
  have "map_of (clean_headers c) ''methods'' = None"
    by (simp add: map_of_keys_subset [OF clean_headers_keys])
  then show ?thesis
    by (simp add: clean_condition_def map_of_map_filter_keys clean_string_entry_key map_add_def
        split: option.splits)
qed

lemma map_of_clean_headers: "map_of (clean_condition c) ''headers'' = map_of (clean_headers c) ''headers''"
proof -
  have "map_of (clean_methods c) ''headers'' = None"
    by (simp add: map_of_keys_subset [OF clean_methods_keys])
  then show ?thesis
    by (simp add: clean_condition_def map_of_map_filter_keys clean_string_entry_key map_add_def
        split: option.splits)
qed

lemma upper_allowed_method: "m \<in> set allowed_methods \<Longrightarrow> str_upper m = m"
  by (auto simp: allowed_methods_def str_upper_def upper_char_def is_ascii_lower_def cp_def)

lemma clean_method_allowed: "m \<in> set allowed_methods \<Longrightarrow> clean_method (PStr m) = Some m"
  by (simp add: clean_method_def upper_allowed_method)

lemma clean_method_SomeD: "clean_method v = Some m \<Longrightarrow> m \<in> set allowed_methods"
  by (auto simp: clean_method_def Let_def split: if_splits)

lemma clean_header_wf: "clean_header h = Some h' \<Longrightarrow> wf_header h'"
  by (auto simp: clean_header_def wf_header_def is_http_header_name_def
      split: pyval.splits if_splits prod.splits)

lemma wf_header_clean: "wf_header h \<Longrightarrow> clean_header h = Some h"
  by (auto simp: wf_header_def clean_header_def dget_def is_http_header_name_def)

lemma clean_methods_cases:
  obtains "clean_methods c = []"
  | ms where "clean_methods c = [(''methods'', PList (map PStr ms))]" and "ms \<noteq> []"
      and "length ms \<le> 8" and "set ms \<subseteq> set allowed_methods"
proof (cases "clean_methods c = []")
  case True
  then show ?thesis using that(1) by blast
next
  case False
  then obtain xs where xs: "dget c ''methods'' = PList xs"
    by (auto simp: clean_methods_def split: pyval.splits)
  let ?ms = "take 8 (List.map_filter clean_method xs)"
  from xs False have "clean_methods c = [(''methods'', PList (map PStr ?ms))]" and "?ms \<noteq> []"
    by (auto simp: clean_methods_def Let_def split: if_splits)
  moreover have "set ?ms \<subseteq> set allowed_methods"
    by (auto simp: set_map_filter dest!: in_set_takeD clean_method_SomeD)
  moreover have "length ?ms \<le> 8" by simp
  ultimately show ?thesis using that(2) by blast
qed

lemma clean_headers_cases:
  obtains "clean_headers c = []"
  | hs where "clean_headers c = [(''headers'', PList hs)]" and "hs \<noteq> []"
      and "length hs \<le> 8" and "list_all wf_header hs"
proof (cases "clean_headers c = []")
  case True
  then show ?thesis using that(1) by blast
next
  case False
  then obtain xs where xs: "dget c ''headers'' = PList xs"
    by (auto simp: clean_headers_def split: pyval.splits)
  let ?hs = "List.map_filter clean_header (take 8 xs)"
  from xs False have "clean_headers c = [(''headers'', PList ?hs)]" and "?hs \<noteq> []"
    by (auto simp: clean_headers_def Let_def split: if_splits)
  moreover have "list_all wf_header ?hs"
    by (auto simp: list_all_iff set_map_filter dest: clean_header_wf)
  moreover have "length ?hs \<le> 8"
    using length_map_filter [of clean_header "take 8 xs"] by simp
  ultimately show ?thesis using that(2) by blast
qed

lemma clean_string_entry_cong:
  "dget c k = dget c' k \<Longrightarrow> clean_string_entry c k = clean_string_entry c' k"
  by (simp add: clean_string_entry_def)

lemma clean_string_entry_idem:
  assumes "k \<in> set condition_string_keys"
  shows "clean_string_entry (clean_condition c) k = clean_string_entry c k"
  using map_of_clean_string [OF assms, of c]
  by (auto simp: clean_string_entry_def dget_def split: option.splits pyval.splits if_splits)

lemma clean_methods_idem: "clean_methods (clean_condition c) = clean_methods c"
proof (cases c rule: clean_methods_cases)
  case 1
  then have "dget (clean_condition c) ''methods'' = PNone"
    by (simp add: dget_def map_of_clean_methods)
  with 1 show ?thesis by (simp add: clean_methods_def)
next
  case (2 ms)
  then have "dget (clean_condition c) ''methods'' = PList (map PStr ms)"
    by (simp add: dget_def map_of_clean_methods)
  moreover have "List.map_filter clean_method (map PStr ms) = ms"
    using 2(4) by (intro map_filter_Some_id clean_method_allowed) auto
  ultimately show ?thesis using 2 by (simp add: clean_methods_def)
qed

lemma map_filter_wf_headers: "list_all wf_header hs \<Longrightarrow> List.map_filter clean_header hs = hs"
  using map_filter_Some_id [of hs clean_header "\<lambda>h. h"] by (simp add: list_all_iff wf_header_clean)

lemma clean_headers_idem: "clean_headers (clean_condition c) = clean_headers c"
proof (cases c rule: clean_headers_cases)
  case 1
  then have "dget (clean_condition c) ''headers'' = PNone"
    by (simp add: dget_def map_of_clean_headers)
  with 1 show ?thesis by (simp add: clean_headers_def)
next
  case (2 hs)
  then have "dget (clean_condition c) ''headers'' = PList hs"
    by (simp add: dget_def map_of_clean_headers)
  with 2 show ?thesis by (simp add: clean_headers_def map_filter_wf_headers)
qed

lemma clean_condition_idem [simp]: "clean_condition (clean_condition c) = clean_condition c"
proof -
  have "List.map_filter (clean_string_entry (clean_condition c)) condition_string_keys
      = List.map_filter (clean_string_entry c) condition_string_keys"
    by (rule map_filter_eq) (simp add: clean_string_entry_idem)
  then show ?thesis
    by (simp add: clean_condition_def [of "clean_condition c"] clean_methods_idem clean_headers_idem)
      (simp add: clean_condition_def)
qed

lemma distinct_map_filter_keys:
  assumes "\<And>k p. f k = Some p \<Longrightarrow> fst p = k" and "distinct ks"
  shows "distinct (dkeys (List.map_filter f ks))"
    and "set (dkeys (List.map_filter f ks)) \<subseteq> set ks"
proof -
  have sub: "set (dkeys (List.map_filter f js)) \<subseteq> set js" for js
    using assms(1) by (fastforce simp: set_map_filter)
  show "set (dkeys (List.map_filter f ks)) \<subseteq> set ks" by (rule sub)
  show "distinct (dkeys (List.map_filter f ks))"
    using assms(2)
  proof (induction ks)
    case Nil
    then show ?case by (simp add: List.map_filter_simps)
  next
    case (Cons j ks)
    then show ?case
      using sub [of ks] assms(1) [of j]
      by (cases "f j") (auto simp: List.map_filter_simps)
  qed
qed

lemma wf_clean_condition: "wf_condition (clean_condition c)"
proof -
  let ?s = "List.map_filter (clean_string_entry c) condition_string_keys"
  have s: "distinct (dkeys ?s)" "set (dkeys ?s) \<subseteq> set condition_string_keys"
    by (rule distinct_map_filter_keys [OF clean_string_entry_key]; simp)+
  have sv: "wf_condition_entry k v" if "(k, v) \<in> set ?s" for k v
    using that
    by (auto simp: set_map_filter clean_string_entry_Some wf_condition_entry_def)
  have m: "distinct (dkeys (clean_methods c))" "\<And>k v. (k, v) \<in> set (clean_methods c) \<Longrightarrow> wf_condition_entry k v"
    by (cases c rule: clean_methods_cases; auto simp: wf_condition_entry_def)+
  have h: "distinct (dkeys (clean_headers c))" "\<And>k v. (k, v) \<in> set (clean_headers c) \<Longrightarrow> wf_condition_entry k v"
    by (cases c rule: clean_headers_cases; auto simp: wf_condition_entry_def)+
  have "distinct (dkeys (clean_condition c))"
  proof -
    have "''methods'' \<noteq> ''headers''" by simp
    then show ?thesis
      using s m(1) h(1) clean_methods_keys [of c] clean_headers_keys [of c] condition_keys_simps
      unfolding clean_condition_def map_append distinct_append set_append by blast
  qed
  moreover have "list_all (\<lambda>(k, v). wf_condition_entry k v) (clean_condition c)"
    using sv m(2) h(2) by (auto simp: clean_condition_def list_all_iff)
  ultimately show ?thesis by (simp add: wf_condition_def)
qed

section \<open>Rules: what sanitizing establishes\<close>

lemma sanitize_filter_InrE:
  assumes "sanitize_filter item ttl = Inr f"
  obtains x e p t c where "f = rule_dict (safe_id x) e p t (clean_condition c)"
    and "1 \<le> t" and "t \<le> FILTER_TTL_MAX_SECONDS"
  using assms bounded_ttl_range
  by (fastforce simp: sanitize_filter_def rule_dict_def Let_def rbind_Inr_iff)

lemma sanitize_rule_dict:
  assumes "wf_id i" and "1 \<le> t" and "t \<le> FILTER_TTL_MAX_SECONDS"
  shows "sanitize_filter (rule_dict i e p t c) fb = Inr (rule_dict i e p t (clean_condition c))"
  using assms
  by (simp add: sanitize_filter_def clamp_ttl_id py_or_def Let_def wf_id_nonempty)
    (simp add: rule_dict_def)

text \<open>The rules that sanitizing returns unchanged, described by their shape.\<close>

definition clean_rule :: "dict \<Rightarrow> bool" where
  "clean_rule f \<longleftrightarrow> (\<exists>i e p t c. f = rule_dict i e p t (clean_condition c)
     \<and> wf_id i \<and> 1 \<le> t \<and> t \<le> FILTER_TTL_MAX_SECONDS)"

lemma sanitize_filter_clean: "sanitize_filter item ttl = Inr f \<Longrightarrow> clean_rule f"
  unfolding clean_rule_def by (metis sanitize_filter_InrE wf_safe_id)

lemma clean_rule_fixed: "clean_rule f \<Longrightarrow> sanitize_filter f ttl = Inr f"
  by (auto simp: clean_rule_def sanitize_rule_dict)

lemma clean_rule_wf: "clean_rule f \<Longrightarrow> wf_filter f"
  unfolding clean_rule_def wf_filter_def using wf_clean_condition by blast

lemma sanitize_filter_wf: "sanitize_filter item ttl = Inr f \<Longrightarrow> wf_filter f"
  by (intro clean_rule_wf sanitize_filter_clean)

lemma sanitize_filter_fixed: "sanitize_filter item ttl = Inr f \<Longrightarrow> sanitize_filter f ttl' = Inr f"
  by (intro clean_rule_fixed sanitize_filter_clean)

lemma sanitize_filter_raises:
  assumes "sanitize_filter item ttl = Inl e"
  shows "e = TypeError \<or> is_value_error e \<or> e = OverflowError"
  using assms
  by (auto simp: sanitize_filter_def Let_def rbind_Inl_iff
      dest!: bounded_ttl_raises py_int_exceptions)

text \<open>
  The contract other components rely on: what a cleaner returns is well formed, and cleaning it
  again, with whatever default time to live, changes nothing.
\<close>

locale rule_cleaner =
  fixes clean :: "'a \<Rightarrow> int \<Rightarrow> 'a result"
    and good :: "'a \<Rightarrow> bool"
  assumes clean_good: "clean x t = Inr y \<Longrightarrow> good y"
    and clean_fixed: "clean x t = Inr y \<Longrightarrow> clean y t' = Inr y"
begin

lemma rmap_good:
  assumes "rmap (\<lambda>x. clean x t) xs = Inr ys"
  shows "list_all good ys"
  using assms by (auto simp: list_all_iff elim!: rmap_Inr_set intro: clean_good)

lemma rmap_fixed:
  assumes "rmap (\<lambda>x. clean x t) xs = Inr ys" and "set zs \<subseteq> set ys"
  shows "rmap (\<lambda>x. clean x t') zs = Inr zs"
proof (rule rmap_Inr_id)
  fix z
  assume "z \<in> set zs"
  with assms obtain x where "clean x t = Inr z" by (blast elim: rmap_Inr_set)
  then show "clean z t' = Inr z" by (rule clean_fixed)
qed

end

interpretation rules: rule_cleaner sanitize_filter wf_filter
  by unfold_locales (rule sanitize_filter_wf, assumption, rule sanitize_filter_fixed, assumption)

section \<open>Lists of rules and their keys\<close>

lemma sanitized_filter_list_wf:
  assumes "sanitized_filter_list v ttl = Inr fs" and "f \<in> set fs"
  shows "wf_filter f" and "filter_has_matcher f"
  using assms rules.rmap_good
  by (auto simp: sanitized_filter_list_def rbind_Inr_iff list_all_iff)

lemma sanitized_filter_list_fixed:
  assumes "sanitized_filter_list v ttl = Inr fs"
  shows "sanitized_filter_list (PList (map PDict fs)) ttl' = Inr fs"
proof -
  from assms obtain items ys where ys: "rmap (\<lambda>x. sanitize_filter x ttl) items = Inr ys"
    and fs: "fs = filter filter_has_matcher ys"
    by (auto simp: sanitized_filter_list_def rbind_Inr_iff)
  have "rmap (\<lambda>x. sanitize_filter x ttl') fs = Inr fs"
    using rules.rmap_fixed [OF ys, of fs] by (auto simp: fs)
  moreover have "filter filter_has_matcher fs = fs" by (simp add: fs)
  ultimately show ?thesis by (simp add: sanitized_filter_list_def)
qed

lemma filter_has_matcher_rule [simp]: "filter_has_matcher (rule_dict i e p t c) \<longleftrightarrow> c \<noteq> []"
  by (simp add: filter_has_matcher_def)

lemma filter_key_not_bare: "wf_filter f \<Longrightarrow> filter_key f \<noteq> ''id:''"
  by (auto simp: wf_filter_def filter_key_def Let_def dest!: wf_id_nonempty split: pyval.splits)

text \<open>The key of a rule with a signature matcher is that signature.\<close>

lemma filter_key_signature:
  "map_of c ''signature'' = Some (PStr s) \<Longrightarrow> filter_key (rule_dict i e p t c) = ''signature:'' @ s"
  by (simp add: filter_key_def Let_def dget_def)

lemma filter_key_path_shape:
  "map_of c ''signature'' = None \<Longrightarrow> map_of c ''path_shape'' = Some (PStr s) \<Longrightarrow>
     filter_key (rule_dict i e p t c) = ''path_shape:'' @ s"
  by (simp add: filter_key_def Let_def dget_def)

section \<open>Properties of the sanitizer\<close>

text \<open>
  C13. Whatever a proposed rule holds, a rule that \<open>sanitize_filter\<close> returns is well formed: the
  seven fields in order, an id of 1 to 96 bytes of the safe class that neither starts nor ends in a
  hyphen, a time to live between one second and one day, and a condition in which every matcher
  passes its own check (signature of 16 or 32 hex digits, no \<open>/\<close> path prefix, at most 8 methods and
  headers, byte bounds).
\<close>

theorem sanitize_filter_establishes_wf:
  assumes "sanitize_filter item ttl = Inr f"
  shows "wf_filter f"
  using assms by (rule sanitize_filter_wf)

definition example_item :: dict where
  "example_item =
     [(''id'', PStr ''--rm -rf--''), (''ttl_seconds'', PInt 999999), (''priority'', PStr ''7''),
      (''condition'', PDict [(''signature'', PStr ''0123456789abcdef''), (''path_prefix'', PStr ''/''),
         (''methods'', PList [PStr ''get'', PInt 4]),
         (''headers'', PList [PDict [(''name'', PStr ''X-A''), (''contains'', PStr ''bot'')]])])]"

definition example_rule :: dict where
  "example_rule =
     rule_dict ''rm--rf'' True 7 86400
       [(''signature'', PStr ''0123456789abcdef''), (''methods'', PList [PStr ''GET'']),
        (''headers'', PList [PDict [(''name'', PStr ''X-A''), (''contains'', PStr ''bot'')]])]"

theorem sanitize_filter_establishes_wf_witness:
  "sanitize_filter example_item 600 = Inr example_rule \<and> wf_filter example_rule"
proof -
  have "sanitize_filter example_item 600 = Inr example_rule" by code_simp
  then show ?thesis using sanitize_filter_establishes_wf by blast
qed

text \<open>
  C14. Sanitizing is idempotent: a rule that the sanitizer returned passes through a later run
  unchanged, whatever default time to live the later run uses.  This is what lets the analyzer
  re-sanitize the whole filter file on every poll.
\<close>

theorem sanitize_filter_idempotent:
  assumes "sanitize_filter item ttl = Inr f"
  shows "sanitize_filter f ttl' = Inr f"
  using assms by (rule sanitize_filter_fixed)

theorem sanitize_filter_idempotent_witness:
  "sanitize_filter example_item 600 = Inr example_rule
     \<and> sanitize_filter example_rule 1 = Inr example_rule"
proof -
  have "sanitize_filter example_item 600 = Inr example_rule" by code_simp
  then show ?thesis using sanitize_filter_idempotent by blast
qed


end
