(* ===== verification/Json_File.thy ===== *)
theory Json_File
  imports Py_Value
begin

text \<open>
  JSON files: a file is absent, or reading and decoding it gives a value or raises.  The tools write
  their files with sorted keys, so a written file decodes to the value with the items of every
  object in key order; lookups do not see the difference.
\<close>

section \<open>Files\<close>

text \<open>
  \<open>json.dump(payload, sort_keys=True)\<close> followed by \<open>json.loads\<close> yields the value with the items of
  every object in key order.
\<close>

fun sort_keys :: "pyval \<Rightarrow> pyval"
  and sort_keys_list :: "pyval list \<Rightarrow> pyval list"
  and sort_keys_items :: "dict \<Rightarrow> dict" where
  "sort_keys (PList xs) = PList (sort_keys_list xs)"
| "sort_keys (PDict d) = PDict (sort_key fst (sort_keys_items d))"
| "sort_keys v = v"
| "sort_keys_list [] = []"
| "sort_keys_list (x # xs) = sort_keys x # sort_keys_list xs"
| "sort_keys_items [] = []"
| "sort_keys_items ((k, v) # d) = (k, sort_keys v) # sort_keys_items d"

text \<open>A file: absent, or what reading and decoding it gives.\<close>

type_synonym json_file = "pyval result option"

definition sorted_dict :: "dict \<Rightarrow> dict" where
  "sorted_dict f = sort_key fst (sort_keys_items f)"

lemma sort_keys_items_map: "sort_keys_items d = map (\<lambda>(k, v). (k, sort_keys v)) d"
  by (induction d) auto

lemma sort_keys_list_map: "sort_keys_list xs = map sort_keys xs"
  by (induction xs) auto

lemma map_of_sorted_dict:
  assumes "distinct (dkeys d)"
  shows "map_of (sorted_dict d) k = map_option sort_keys (map_of d k)"
proof -
  let ?d = "sort_keys_items d"
  have keys: "dkeys ?d = dkeys d" by (induction d) auto
  have "distinct (map fst (sort_key fst ?d))"
    using assms keys by (metis distinct_map distinct_sort set_sort)
  then have "map_of (sort_key fst ?d) = map_of ?d"
    using assms keys by (subst map_of_inject_set) auto
  moreover have "map_of ?d k = map_option sort_keys (map_of d k)"
    by (induction d) auto
  ultimately show ?thesis by (simp add: sorted_dict_def)
qed

lemma sort_keys_dict: "sort_keys (PDict d) = PDict (sorted_dict d)"
  by (simp add: sorted_dict_def)

lemma dget_sorted_dict:
  "distinct (dkeys d) \<Longrightarrow> dget (sorted_dict d) k = sort_keys (dget d k)"
  by (simp add: dget_def map_of_sorted_dict split: option.splits)

lemma dget_or_sorted_dict:
  "distinct (dkeys d) \<Longrightarrow> map_of d k = Some w \<Longrightarrow> dget_or (sorted_dict d) k v = sort_keys w"
  by (simp add: dget_or_def map_of_sorted_dict)

end
