(* ===== verification/Filter_Store.thy ===== *)
theory Filter_Store
  imports Filter_Sanitizer Json_File
begin

text \<open>
  The learned-filter file of \<open>tools/codex_analyzer.py\<close>: making rule ids unique, merging new rules
  into the existing ones with the newest kept, and writing and reading the file.  The file is
  modelled by what decoding it yields.
\<close>

section \<open>Unique rule ids\<close>

text \<open>The body of the \<open>while\<close> loop: the candidate for one suffix.\<close>

definition id_candidate :: "string \<Rightarrow> nat \<Rightarrow> string" where
  "id_candidate base suffix =
     (let tail = ''-'' @ nat_str suffix
      in strip_by is_dash (py_take (int FILTER_RULE_ID_MAX_BYTES - int (length tail)) base @ tail))"

text \<open>Distinct suffixes give distinct candidates: the digits after the last hyphen are the suffix.\<close>

lemma not_dash_digit: "is_ascii_digit c \<Longrightarrow> \<not> is_dash c"
  by (auto simp: is_dash_def is_ascii_digit_def cp_def)

lemma nat_str_no_dash: "c \<in> set (nat_str n) \<Longrightarrow> \<not> is_dash c"
  using nat_str_digits not_dash_digit by blast

lemma strip_dash_tail:
  assumes "ds \<noteq> []" and "\<And>c. c \<in> set ds \<Longrightarrow> \<not> is_dash c"
  shows "\<exists>u. strip_by is_dash (x @ ''-'' @ ds) = u @ ds \<and> (u = [] \<or> last u = CHR ''-'')"
proof -
  have ends: "rstrip_by is_dash (w @ ds) = w @ ds" for w
  proof -
    have "\<not> is_dash (last ds)" using assms by simp
    then have "dropWhile is_dash (rev ds @ rev w) = rev ds @ rev w"
      using assms(1) by (cases "rev ds") (auto simp: hd_rev [symmetric])
    then show ?thesis by (simp add: rstrip_by_def)
  qed
  have ds: "dropWhile is_dash ds = ds" using assms by (cases ds) auto
  show ?thesis
  proof (cases "list_all is_dash x")
    case True
    then have "lstrip_by is_dash (x @ ''-'' @ ds) = [] @ ds"
      using ds by (auto simp: lstrip_by_def dropWhile_append list_all_iff is_dash_def)
    then show ?thesis using ends [of "[]"] by (auto simp: strip_by_def)
  next
    case False
    then have "lstrip_by is_dash (x @ ''-'' @ ds) = (dropWhile is_dash x @ ''-'') @ ds"
      by (auto simp: lstrip_by_def dropWhile_append list_all_iff)
    then show ?thesis using ends [of "dropWhile is_dash x @ ''-''"] by (auto simp: strip_by_def)
  qed
qed

lemma id_candidate_digits:
  "takeWhile (\<lambda>c. \<not> is_dash c) (rev (id_candidate base n)) = rev (nat_str n)"
proof -
  obtain u where u: "id_candidate base n = u @ nat_str n" and d: "u = [] \<or> last u = CHR ''-''"
    using strip_dash_tail [of "nat_str n"] nat_str_no_dash
    unfolding id_candidate_def Let_def by (metis nat_str_nonempty)
  have "takeWhile (\<lambda>c. \<not> is_dash c) (rev u) = []"
    using d by (cases "rev u") (auto simp: hd_rev [symmetric] is_dash_def)
  then show ?thesis
    using u nat_str_no_dash [of _ n] by (simp add: takeWhile_append)
qed

lemma id_candidate_inj: "id_candidate base m = id_candidate base n \<longleftrightarrow> m = n"
  by (metis id_candidate_digits nat_str_inj rev_rev_ident)

lemma inj_id_candidate: "inj (id_candidate base)"
  by (rule injI) (simp add: id_candidate_inj)

text \<open>
  The loop \<open>while candidate in seen\<close>.  Its termination proof is the argument above: the suffixes
  whose candidate is taken are finitely many, and each turn uses one up or ends the loop.
\<close>

definition taken_suffixes :: "string \<Rightarrow> string list \<Rightarrow> nat \<Rightarrow> nat set" where
  "taken_suffixes base seen n = {j. n \<le> j \<and> id_candidate base j \<in> set seen}"

lemma finite_taken: "finite (taken_suffixes base seen n)"
proof -
  have "finite (id_candidate base -` set seen)"
    by (rule finite_vimageI [OF _ inj_id_candidate]) simp
  then show ?thesis by (rule finite_subset [rotated]) (auto simp: taken_suffixes_def)
qed

lemma taken_Suc:
  "taken_suffixes base seen n =
     (if id_candidate base n \<in> set seen then insert n (taken_suffixes base seen (Suc n))
      else taken_suffixes base seen (Suc n))"
  by (auto simp: taken_suffixes_def dest: le_SucE intro: Suc_leI le_neq_implies_less)

lemma card_taken_Suc:
  "card (taken_suffixes base seen n) =
     (if id_candidate base n \<in> set seen then Suc (card (taken_suffixes base seen (Suc n)))
      else card (taken_suffixes base seen (Suc n)))"
proof -
  have "n \<notin> taken_suffixes base seen (Suc n)" by (simp add: taken_suffixes_def)
  then show ?thesis using finite_taken taken_Suc [of base seen n] by auto
qed

function free_id :: "string \<Rightarrow> string list \<Rightarrow> string \<Rightarrow> nat \<Rightarrow> string" where
  "free_id base seen candidate suffix =
     (if candidate \<in> set seen
      then free_id base seen (id_candidate base suffix) (Suc suffix)
      else candidate)"
  by pat_completeness auto
termination
  by (relation "measure (\<lambda>(base, seen, candidate, suffix).
        2 * card (taken_suffixes base seen suffix) + (if candidate \<in> set seen then 1 else 0))")
    (auto simp: card_taken_Suc [of _ _ "_ :: nat"])

declare free_id.simps [simp del]

fun unique_ids_from :: "string list \<Rightarrow> dict list \<Rightarrow> dict list" where
  "unique_ids_from seen [] = []"
| "unique_ids_from seen (item # items) =
     (let base = safe_id (py_str (py_or (dget item ''id'') (PStr ''codex-learned-filter'')));
          candidate = free_id base seen base 2
      in dset ''id'' (PStr candidate) item # unique_ids_from (candidate # seen) items)"

definition unique_filter_ids :: "dict list \<Rightarrow> dict list" where
  "unique_filter_ids filters = unique_ids_from [] filters"

section \<open>Merging\<close>

definition upsert :: "int \<Rightarrow> (string \<times> dict) list \<Rightarrow> dict \<Rightarrow> (string \<times> dict) list result" where
  "upsert ttl_seconds merged item =
     rbind (sanitize_filter item ttl_seconds) (\<lambda>clean.
       Inr (if \<not> filter_has_matcher clean then merged
            else let key = filter_key clean
                 in if key = ''id:'' then merged else dset key clean (dpop key merged)))"

definition merge_existing_filters :: "dict list \<Rightarrow> dict list \<Rightarrow> int \<Rightarrow> int \<Rightarrow> dict list result" where
  "merge_existing_filters existing new_filters ttl_seconds max_filters =
     rbind (rfold (upsert ttl_seconds) [] existing) (\<lambda>merged.
       rbind (rfold (upsert ttl_seconds) merged new_filters) (\<lambda>merged.
         Inr (unique_filter_ids (last_n (nat (max 1 max_filters)) (dvalues merged)))))"

section \<open>The filter file\<close>

definition write_filters :: "dict list \<Rightarrow> json_file" where
  "write_filters filters = Some (Inr (sort_keys (PDict [(''filters'', PList (map PDict filters))])))"

definition read_filter_file :: "json_file \<Rightarrow> dict list result" where
  "read_filter_file file =
     (case file of
        None \<Rightarrow> Inr []
      | Some (Inl _) \<Rightarrow> Inr []
      | Some (Inr data) \<Rightarrow>
          (let filters = (case data of PDict d \<Rightarrow> dget_or d ''filters'' (PList []) | _ \<Rightarrow> PList [])
           in rbind (py_iter filters) (\<lambda>items. Inr (only_dicts items))))"

section \<open>Unique ids: the loop\<close>

lemma free_id_fresh: "free_id base seen c n \<notin> set seen"
proof (induction base seen c n rule: free_id.induct)
  case (1 base seen c n)
  then show ?case by (simp add: free_id.simps [of base seen c n])
qed

lemma free_id_unused: "c \<notin> set seen \<Longrightarrow> free_id base seen c n = c"
  by (simp add: free_id.simps [of base seen c n])

lemma free_id_form:
  "free_id base seen c n = c
   \<or> (\<exists>j\<ge>n. free_id base seen c n = id_candidate base j
          \<and> (\<forall>i. n \<le> i \<and> i < j \<longrightarrow> id_candidate base i \<in> set seen))"
proof (induction base seen c n rule: free_id.induct)
  case (1 base seen c n)
  show ?case
  proof (cases "c \<in> set seen")
    case False
    then show ?thesis by (simp add: free_id.simps [of base seen c n])
  next
    case True
    let ?d = "id_candidate base n"
    have eq: "free_id base seen c n = free_id base seen ?d (Suc n)"
      using True by (simp add: free_id.simps [of base seen c n])
    show ?thesis
    proof (cases "?d \<in> set seen")
      case False
      with eq show ?thesis by (auto simp: free_id_unused)
    next
      case taken: True
      from "1.IH" [OF True] consider "free_id base seen ?d (Suc n) = ?d"
        | j where "Suc n \<le> j" "free_id base seen ?d (Suc n) = id_candidate base j"
            "\<forall>i. Suc n \<le> i \<and> i < j \<longrightarrow> id_candidate base i \<in> set seen"
        by blast
      then show ?thesis
      proof cases
        case 1
        then show ?thesis using taken free_id_fresh [of base seen ?d "Suc n"] by simp
      next
        case (2 j)
        with taken have "\<forall>i. n \<le> i \<and> i < j \<longrightarrow> id_candidate base i \<in> set seen"
          by (metis Suc_leI le_neq_implies_less)
        with 2 eq show ?thesis by (metis Suc_leD)
      qed
    qed
  qed
qed

text \<open>The loop runs at most once per id already seen.\<close>

lemma free_id_suffix_bound:
  assumes "\<forall>i. n \<le> i \<and> i < j \<longrightarrow> id_candidate base i \<in> set seen"
  shows "j \<le> n + length seen"
proof -
  have "card {n..<j} = card (id_candidate base ` {n..<j})"
    by (rule card_image [symmetric]) (simp add: inj_id_candidate inj_on_subset [OF inj_id_candidate])
  also have "\<dots> \<le> card (set seen)" using assms by (intro card_mono) auto
  also have "\<dots> \<le> length seen" by (rule card_length)
  finally show ?thesis by simp
qed

lemma safe_id_char_digit: "is_ascii_digit c \<Longrightarrow> safe_id_char c"
  by (simp add: safe_id_char_def)

lemma wf_id_candidate:
  assumes "wf_id base" and "n < 10 ^ 94"
  shows "wf_id (id_candidate base n)"
proof -
  let ?tail = "''-'' @ nat_str n"
  define h where "h = take (95 - length (nat_str n)) base"
  have len: "length (nat_str n) \<le> 94" using length_nat_str [of n 93] assms(2) by simp
  have head: "py_take (int FILTER_RULE_ID_MAX_BYTES - int (length ?tail)) base = h"
    using len by (simp add: py_take_def h_def FILTER_RULE_ID_MAX_BYTES_def nat_diff_distrib)
  have ne: "h \<noteq> []" and hd: "hd h = hd base"
    using assms(1) len by (auto simp: h_def wf_id_def)
  have safe: "list_all safe_id_char (h @ ?tail)"
    using assms(1) nat_str_digits [of _ n]
    by (auto simp: h_def wf_id_def list_all_iff safe_id_char_digit safe_id_char_def
        dest: in_set_takeD)
  have last: "\<not> is_dash (last (h @ ?tail))"
    using nat_str_no_dash [of "last (nat_str n)" n] by simp
  have first: "\<not> is_dash (hd (h @ ?tail))"
    using ne hd assms(1) by (simp add: wf_id_def)
  have "id_candidate base n = h @ ?tail"
    unfolding id_candidate_def Let_def head by (rule strip_by_id [OF _ first last]) simp
  moreover have "length (h @ ?tail) \<le> FILTER_RULE_ID_MAX_BYTES"
    using len by (simp add: h_def FILTER_RULE_ID_MAX_BYTES_def)
  ultimately show ?thesis using safe first last by (simp add: wf_id_def)
qed

lemma wf_free_id:
  assumes "wf_id base" and "length seen < 10 ^ 93"
  shows "wf_id (free_id base seen base 2)"
proof -
  consider "free_id base seen base 2 = base"
    | j where "2 \<le> j" "free_id base seen base 2 = id_candidate base j"
        "\<forall>i. 2 \<le> i \<and> i < j \<longrightarrow> id_candidate base i \<in> set seen"
    using free_id_form [of base seen base 2] by blast
  then show ?thesis
  proof cases
    case 1
    with assms show ?thesis by simp
  next
    case (2 j)
    have "j < 10 ^ 94" using free_id_suffix_bound [OF 2(3)] assms(2) by simp
    with 2 assms show ?thesis by (simp add: wf_id_candidate)
  qed
qed

section \<open>Unique ids: the list\<close>

definition rule_ids :: "dict list \<Rightarrow> pyval list" where
  "rule_ids fs = map (\<lambda>f. dget f ''id'') fs"

lemma rule_ids_simps [simp]:
  "rule_ids [] = []" "rule_ids (f # fs) = dget f ''id'' # rule_ids fs"
  by (simp_all add: rule_ids_def)

lemma dset_id_rule [simp]: "dset ''id'' (PStr x) (rule_dict i e p t c) = rule_dict x e p t c"
  by (simp add: rule_dict_def)

lemma dget_dset_id [simp]: "dget (dset ''id'' v f) ''id'' = v"
  by (simp add: dget_def update_conv')

lemma clean_rule_dset_id: "clean_rule f \<Longrightarrow> wf_id x \<Longrightarrow> clean_rule (dset ''id'' (PStr x) f)"
  unfolding clean_rule_def by (metis dset_id_rule)

lemma clean_rule_id: "clean_rule f \<Longrightarrow> \<exists>i. dget f ''id'' = PStr i \<and> wf_id i"
  by (auto simp: clean_rule_def)

lemma dset_id_same: "clean_rule f \<Longrightarrow> dget f ''id'' = PStr i \<Longrightarrow> dset ''id'' (PStr i) f = f"
  by (auto simp: clean_rule_def)

lemma unique_ids_shape:
  "list_all2 (\<lambda>f g. \<exists>x. g = dset ''id'' (PStr x) f) fs (unique_ids_from seen fs)"
  by (induction seen fs rule: unique_ids_from.induct) (auto simp: Let_def)

lemma unique_ids_length [simp]: "length (unique_ids_from seen fs) = length fs"
  using unique_ids_shape [of fs seen] by (auto dest: list_all2_lengthD)

lemma unique_ids_clean:
  "list_all clean_rule fs \<Longrightarrow> length seen + length fs < 10 ^ 93 \<Longrightarrow>
     list_all clean_rule (unique_ids_from seen fs)"
proof (induction seen fs rule: unique_ids_from.induct)
  case (2 seen f fs)
  then show ?case by (simp add: Let_def clean_rule_dset_id wf_free_id)
qed simp

lemma unique_ids_distinct:
  "distinct (rule_ids (unique_ids_from seen fs))
     \<and> (\<forall>x \<in> set seen. PStr x \<notin> set (rule_ids (unique_ids_from seen fs)))"
proof (induction seen fs rule: unique_ids_from.induct)
  case (2 seen f fs)
  let ?b = "safe_id (py_str (py_or (dget f ''id'') (PStr ''codex-learned-filter'')))"
  have "free_id ?b seen ?b 2 \<notin> set seen" by (rule free_id_fresh)
  with 2 show ?case by (auto simp: Let_def)
qed simp

lemma unique_ids_unchanged:
  "list_all clean_rule fs \<Longrightarrow> distinct (rule_ids fs) \<Longrightarrow>
     (\<forall>x \<in> set seen. PStr x \<notin> set (rule_ids fs)) \<Longrightarrow> unique_ids_from seen fs = fs"
proof (induction seen fs rule: unique_ids_from.induct)
  case (2 seen f fs)
  from 2(2) have "clean_rule f" by simp
  then obtain i where i: "dget f ''id'' = PStr i" "wf_id i" using clean_rule_id by blast
  have base: "safe_id (py_str (py_or (dget f ''id'') (PStr ''codex-learned-filter''))) = i"
    using i by (simp add: py_or_def wf_id_nonempty)
  have "i \<notin> set seen" using 2 i by auto
  then have free: "free_id i seen i 2 = i" by (simp add: free_id_unused)
  have "unique_ids_from (i # seen) fs = fs" using 2 i base free by simp
  then show ?case using 2 i base free by (simp add: Let_def dset_id_same)
qed simp

section \<open>Keys under renaming\<close>

definition match_key :: "dict \<Rightarrow> string option" where
  "match_key c =
     (case dget c ''signature'' of
        PStr s \<Rightarrow> Some (''signature:'' @ s)
      | _ \<Rightarrow> (case dget c ''path_shape'' of PStr s \<Rightarrow> Some (''path_shape:'' @ s) | _ \<Rightarrow> None))"

lemma filter_key_rule:
  "filter_key (rule_dict i e p t c) = (case match_key c of Some k \<Rightarrow> k | None \<Rightarrow> ''id:'' @ i)"
  by (auto simp: filter_key_def match_key_def Let_def split: pyval.splits)

lemma match_key_not_id: "match_key c = Some k \<Longrightarrow> k \<noteq> ''id:'' @ i"
  by (auto simp: match_key_def split: pyval.splits)

text \<open>Renaming keeps keys distinct: match keys do not mention the id, id keys follow the ids.\<close>

lemma renamed_keys_differ:
  assumes "clean_rule f" and "clean_rule g" and "filter_key f \<noteq> filter_key g" and "x \<noteq> y"
  shows "filter_key (dset ''id'' (PStr x) f) \<noteq> filter_key (dset ''id'' (PStr y) g)"
proof -
  obtain i e p t c where f: "f = rule_dict i e p t c" using assms(1) by (auto simp: clean_rule_def)
  obtain i' e' p' t' c' where g: "g = rule_dict i' e' p' t' c'"
    using assms(2) by (auto simp: clean_rule_def)
  show ?thesis
    using assms(3,4) match_key_not_id
    by (auto simp: f g filter_key_rule split: option.splits)
qed

lemma unique_ids_keys_distinct:
  assumes "list_all clean_rule fs" and "distinct (map filter_key fs)"
  shows "distinct (map filter_key (unique_ids_from seen fs))"
proof -
  let ?gs = "unique_ids_from seen fs"
  have "filter_key (?gs ! i) \<noteq> filter_key (?gs ! j)"
    if i: "i < length fs" and j: "j < length fs" and ij: "i \<noteq> j" for i j
  proof -
    have shape: "\<exists>x. ?gs ! k = dset ''id'' (PStr x) (fs ! k)" if "k < length fs" for k
      using unique_ids_shape [of fs seen] that by (simp add: list_all2_conv_all_nth)
    from shape [OF i] obtain x where gi: "?gs ! i = dset ''id'' (PStr x) (fs ! i)" by blast
    from shape [OF j] obtain y where gj: "?gs ! j = dset ''id'' (PStr y) (fs ! j)" by blast
    have "distinct (rule_ids ?gs)" using unique_ids_distinct by blast
    then have "dget (?gs ! i) ''id'' \<noteq> dget (?gs ! j) ''id''"
      using i j ij by (auto simp: rule_ids_def distinct_conv_nth)
    then have "x \<noteq> y" by (auto simp: gi gj)
    moreover have "filter_key (fs ! i) \<noteq> filter_key (fs ! j)"
      using assms(2) i j ij by (auto simp: distinct_conv_nth)
    moreover have "clean_rule (fs ! i)" "clean_rule (fs ! j)"
      using assms(1) i j by (auto simp: list_all_length)
    ultimately show ?thesis by (simp add: gi gj renamed_keys_differ)
  qed
  then show ?thesis by (auto simp: distinct_conv_nth)
qed

section \<open>Merging: invariant\<close>

definition merged_ok :: "(string \<times> dict) list \<Rightarrow> bool" where
  "merged_ok m \<longleftrightarrow> distinct (dkeys m)
     \<and> list_all (\<lambda>p. clean_rule (snd p) \<and> filter_has_matcher (snd p)
                     \<and> fst p = filter_key (snd p)) m"

lemma upsert_cases:
  assumes "upsert ttl m item = Inr m'"
  obtains f where "sanitize_filter item ttl = Inr f" and "\<not> filter_has_matcher f" and "m' = m"
  | f where "sanitize_filter item ttl = Inr f" and "filter_has_matcher f"
      and "m' = dset (filter_key f) f (dpop (filter_key f) m)"
proof -
  from assms obtain f where f: "sanitize_filter item ttl = Inr f" by (auto simp: upsert_def)
  then have "filter_key f \<noteq> ''id:''" by (intro filter_key_not_bare sanitize_filter_wf)
  with assms f that show ?thesis
    by (cases "filter_has_matcher f") (auto simp: upsert_def Let_def)
qed

lemma upsert_append:
  "distinct (dkeys m) \<Longrightarrow> dset k f (dpop k m) = filter (\<lambda>p. fst p \<noteq> k) m @ [(k, f)]"
  by (rule pydict.items_upsert)

lemma upsert_ok:
  assumes "merged_ok m" and "upsert ttl m item = Inr m'"
  shows "merged_ok m'"
  using assms(2)
proof (cases rule: upsert_cases)
  case (1 f)
  with assms show ?thesis by simp
next
  case (2 f)
  have m: "distinct (dkeys m)" using assms(1) by (simp add: merged_ok_def)
  have "distinct (dkeys m')" unfolding 2(3) using m by (rule pydict.ok_upsert)
  moreover have "clean_rule f" using 2(1) by (rule sanitize_filter_clean)
  ultimately show ?thesis
    using assms(1) 2(2) unfolding 2(3) merged_ok_def upsert_append [OF m]
    by (auto simp: list_all_iff)
qed

lemma merged_ok_Nil: "merged_ok []"
  by (simp add: merged_ok_def)

lemma rfold_upsert_ok: "rfold (upsert ttl) m items = Inr m' \<Longrightarrow> merged_ok m \<Longrightarrow> merged_ok m'"
  by (erule rfold_invariant) (auto intro: upsert_ok)

lemma merged_ok_values:
  assumes "merged_ok m"
  shows "list_all clean_rule (dvalues m)" and "list_all filter_has_matcher (dvalues m)"
    and "map filter_key (dvalues m) = dkeys m" and "distinct (map filter_key (dvalues m))"
proof -
  show keys: "map filter_key (dvalues m) = dkeys m"
    using assms by (auto simp: merged_ok_def list_all_iff)
  show "list_all clean_rule (dvalues m)" "list_all filter_has_matcher (dvalues m)"
    using assms by (auto simp: merged_ok_def list_all_iff)
  show "distinct (map filter_key (dvalues m))"
    unfolding keys using assms by (simp add: merged_ok_def)
qed

lemma list_all_last_n: "list_all P xs \<Longrightarrow> list_all P (last_n n xs)"
  using set_last_n [of n xs] by (auto simp: list_all_iff)

lemma has_matcher_dset_id [simp]: "filter_has_matcher (dset ''id'' v f) = filter_has_matcher f"
  by (simp add: filter_has_matcher_def dget_def update_conv')

lemma list_all2_imp_list_all:
  "list_all2 R xs ys \<Longrightarrow> list_all P xs \<Longrightarrow> (\<And>x y. R x y \<Longrightarrow> P x \<Longrightarrow> P y) \<Longrightarrow> list_all P ys"
  by (induction rule: list_all2_induct) auto

lemma merge_existing_filters_InrE:
  assumes "merge_existing_filters existing new ttl maxf = Inr out"
  obtains m where "rfold (upsert ttl) [] (existing @ new) = Inr m" and "merged_ok m"
    and "out = unique_filter_ids (last_n (nat (max 1 maxf)) (dvalues m))"
proof -
  from assms obtain m0 m where "rfold (upsert ttl) [] existing = Inr m0"
    and "rfold (upsert ttl) m0 new = Inr m"
    and "out = unique_filter_ids (last_n (nat (max 1 maxf)) (dvalues m))"
    by (auto simp: merge_existing_filters_def rbind_Inr_iff)
  moreover from this have "merged_ok m" using rfold_upsert_ok merged_ok_Nil by blast
  ultimately show ?thesis using that by (auto simp: rfold_append)
qed

lemma merge_length:
  assumes "merge_existing_filters existing new ttl maxf = Inr out"
  shows "int (length out) \<le> max 1 maxf"
  using assms by (elim merge_existing_filters_InrE) (simp add: unique_filter_ids_def)

lemma merge_ids_distinct:
  assumes "merge_existing_filters existing new ttl maxf = Inr out"
  shows "distinct (rule_ids out)"
  using assms unique_ids_distinct
  by (elim merge_existing_filters_InrE) (auto simp: unique_filter_ids_def)

lemma merge_keys_distinct:
  assumes "merge_existing_filters existing new ttl maxf = Inr out"
  shows "distinct (map filter_key out)"
  using assms
proof (rule merge_existing_filters_InrE)
  fix m :: "(string \<times> dict) list"
  let ?fs = "last_n (nat (max 1 maxf)) (dvalues m)"
  assume m: "merged_ok m" and out: "out = unique_filter_ids ?fs"
  have "list_all clean_rule ?fs" using merged_ok_values(1) [OF m] by (rule list_all_last_n)
  moreover have "distinct (map filter_key ?fs)"
    using merged_ok_values(4) [OF m] unfolding map_last_n by (rule distinct_last_n)
  ultimately show ?thesis
    unfolding out unique_filter_ids_def by (rule unique_ids_keys_distinct)
qed

text \<open>The id loop stays within 96 bytes as long as fewer than \<open>10^93\<close> rules are kept.\<close>

lemma merge_clean:
  assumes "merge_existing_filters existing new ttl maxf = Inr out" and "maxf < 10 ^ 93"
  shows "list_all clean_rule out" and "list_all filter_has_matcher out"
proof -
  from assms(1) obtain m where m: "merged_ok m"
    and out: "out = unique_filter_ids (last_n (nat (max 1 maxf)) (dvalues m))"
    by (rule merge_existing_filters_InrE)
  let ?fs = "last_n (nat (max 1 maxf)) (dvalues m)"
  have "nat (max 1 maxf) < 10 ^ 93" using assms(2) by (simp add: nat_less_iff)
  then have len: "length ?fs < 10 ^ 93" by (simp add: min_less_iff_disj)
  have "list_all clean_rule ?fs" using merged_ok_values(1) [OF m] by (rule list_all_last_n)
  then show "list_all clean_rule out"
    using len unfolding out unique_filter_ids_def by (simp add: unique_ids_clean)
  have "list_all filter_has_matcher ?fs" using merged_ok_values(2) [OF m] by (rule list_all_last_n)
  then show "list_all filter_has_matcher out"
    unfolding out unique_filter_ids_def
    by (rule list_all2_imp_list_all [OF unique_ids_shape]) auto
qed

section \<open>Merging: stability\<close>

lemma upsert_clean_new:
  assumes "clean_rule f" and "filter_has_matcher f" and "filter_key f \<notin> set (dkeys m)"
  shows "upsert ttl m f = Inr (m @ [(filter_key f, f)])"
proof -
  have "filter_key f \<noteq> ''id:''" by (rule filter_key_not_bare [OF clean_rule_wf [OF assms(1)]])
  moreover have "dpop (filter_key f) m = m" using assms(3) by simp
  moreover have "dset (filter_key f) f m = m @ [(filter_key f, f)]"
    using assms(3) by (intro update_new) (simp add: map_of_eq_None_iff)
  ultimately show ?thesis
    using assms by (simp add: upsert_def clean_rule_fixed Let_def)
qed

lemma rfold_upsert_clean:
  "list_all clean_rule fs \<Longrightarrow> list_all filter_has_matcher fs \<Longrightarrow>
     distinct (dkeys m @ map filter_key fs) \<Longrightarrow>
     rfold (upsert ttl) m fs = Inr (m @ map (\<lambda>f. (filter_key f, f)) fs)"
proof (induction fs arbitrary: m)
  case (Cons f fs)
  then have "upsert ttl m f = Inr (m @ [(filter_key f, f)])" by (intro upsert_clean_new) auto
  with Cons show ?case by (simp add: o_def)
qed simp

text \<open>A list of clean rules with distinct keys and ids within the cap is merged into itself.\<close>

lemma merge_stable:
  assumes "list_all clean_rule fs" and "list_all filter_has_matcher fs"
    and "distinct (map filter_key fs)" and "distinct (rule_ids fs)"
    and "int (length fs) \<le> max 1 maxf"
  shows "merge_existing_filters fs [] ttl maxf = Inr fs"
proof -
  have "rfold (upsert ttl) [] fs = Inr (map (\<lambda>f. (filter_key f, f)) fs)"
    using rfold_upsert_clean [of fs "[]" ttl] assms(1-3) by simp
  moreover have "last_n (nat (max 1 maxf)) fs = fs"
    using assms(5) by (intro last_n_all) simp
  moreover have "unique_ids_from [] fs = fs"
    using assms(1,4) by (intro unique_ids_unchanged) auto
  ultimately show ?thesis
    by (simp add: merge_existing_filters_def unique_filter_ids_def o_def)
qed

section \<open>Merging: the newest rules are kept\<close>

lemma rfold_upsert_tail:
  assumes "merged_ok m" and "rfold (upsert ttl) m new = Inr m'"
  shows "\<exists>a b. m' = a @ b \<and> length b \<le> length new
     \<and> (\<forall>item \<in> set new. \<forall>f. sanitize_filter item ttl = Inr f \<and> filter_has_matcher f
          \<longrightarrow> filter_key f \<in> set (dkeys b))"
  using assms(2)
proof (induction new arbitrary: m' rule: rev_induct)
  case Nil
  then show ?case by auto
next
  case (snoc x new)
  then obtain m1 where m1: "rfold (upsert ttl) m new = Inr m1" and x: "upsert ttl m1 x = Inr m'"
    by (auto simp: rfold_append rbind_Inr_iff)
  from snoc.IH [OF m1] obtain a b where ab: "m1 = a @ b" "length b \<le> length new"
    and cov: "\<forall>item \<in> set new. \<forall>f. sanitize_filter item ttl = Inr f \<and> filter_has_matcher f
          \<longrightarrow> filter_key f \<in> set (dkeys b)"
    by blast
  have ok1: "distinct (dkeys m1)"
    using rfold_upsert_ok [OF m1 assms(1)] by (simp add: merged_ok_def)
  from x show ?case
  proof (cases rule: upsert_cases)
    case (1 f)
    with ab cov show ?thesis by (intro exI [of _ a] exI [of _ b]) auto
  next
    case (2 f)
    let ?k = "filter_key f"
    let ?a = "filter (\<lambda>p. fst p \<noteq> ?k) a" and ?b = "filter (\<lambda>p. fst p \<noteq> ?k) b @ [(?k, f)]"
    have "m' = ?a @ ?b" unfolding 2(3) upsert_append [OF ok1] by (simp add: ab(1))
    moreover have "length ?b \<le> length (new @ [x])"
      using ab(2) le_trans [OF length_filter_le] by simp
    moreover have "filter_key g \<in> set (dkeys ?b)"
      if "item \<in> set (new @ [x])" "sanitize_filter item ttl = Inr g" "filter_has_matcher g" for item g
    proof (cases "filter_key g = ?k")
      case False
      with that 2(1) have "item \<in> set new" by auto
      then have "filter_key g \<in> set (dkeys b)" using cov that(2,3) by blast
      with False show ?thesis by auto
    qed simp
    ultimately show ?thesis by (intro exI [of _ ?a] exI [of _ ?b] conjI ballI allI impI) auto
  qed
qed

lemma filter_key_renamed:
  assumes "clean_rule f" and "\<And>i. filter_key f \<noteq> ''id:'' @ i"
  shows "filter_key (dset ''id'' (PStr x) f) = filter_key f"
proof -
  obtain i e p t c where f: "f = rule_dict i e p t c" using assms(1) by (auto simp: clean_rule_def)
  with assms(2) [of i] show ?thesis by (auto simp: filter_key_rule split: option.splits)
qed

lemma merge_keeps_new_key:
  assumes "merge_existing_filters existing new ttl maxf = Inr out"
    and "int (length new) \<le> max 1 maxf"
    and "item \<in> set new" and "sanitize_filter item ttl = Inr f" and "filter_has_matcher f"
    and "\<And>i. filter_key f \<noteq> ''id:'' @ i"
  shows "\<exists>r \<in> set out. filter_key r = filter_key f"
proof -
  from assms(1) obtain m where m: "rfold (upsert ttl) [] (existing @ new) = Inr m" "merged_ok m"
    and out: "out = unique_filter_ids (last_n (nat (max 1 maxf)) (dvalues m))"
    by (rule merge_existing_filters_InrE)
  let ?fs = "last_n (nat (max 1 maxf)) (dvalues m)"
  from m(1) obtain m0 where m0: "rfold (upsert ttl) [] existing = Inr m0"
    and mn: "rfold (upsert ttl) m0 new = Inr m"
    by (auto simp: rfold_append rbind_Inr_iff)
  from rfold_upsert_tail [OF rfold_upsert_ok [OF m0 merged_ok_Nil] mn]
  obtain a b where ab: "m = a @ b" "length b \<le> length new" and k: "filter_key f \<in> set (dkeys b)"
    using assms(3-5) by blast
  have "set (dvalues b) \<subseteq> set ?fs"
    using ab assms(2) last_n_append [of "dvalues b" "nat (max 1 maxf)" "dvalues a"] by simp
  moreover from k obtain h where hb: "(filter_key f, h) \<in> set b" by auto
  ultimately have h1: "h \<in> set ?fs" by force
  have h2: "filter_key h = filter_key f"
  proof -
    have "(filter_key f, h) \<in> set m" using ab(1) hb by simp
    then show ?thesis using m(2) unfolding merged_ok_def list_all_iff by force
  qed
  note h = h1 h2
  have clean: "clean_rule h"
    using h(1) list_all_last_n [OF merged_ok_values(1) [OF m(2)]] by (auto simp: list_all_iff)
  have "\<exists>g \<in> set out. \<exists>x. g = dset ''id'' (PStr x) h"
    unfolding out unique_filter_ids_def by (rule list_all2_witness [OF unique_ids_shape h(1)])
  then obtain g x where "g \<in> set out" and "g = dset ''id'' (PStr x) h" by blast
  then show ?thesis using filter_key_renamed [OF clean] assms(6) h(2) by metis
qed

section \<open>The file round trip\<close>

lemma read_write_filters: "read_filter_file (write_filters fs) = Inr (map sorted_dict fs)"
proof -
  have "map sort_keys (map PDict fs) = map PDict (map sorted_dict fs)"
    by (simp add: sorted_dict_def)
  then show ?thesis
    by (simp add: write_filters_def read_filter_file_def dget_or_def sort_keys_list_map
        del: map_map) 
qed

lemma sort_header:
  assumes "wf_header h"
  shows "clean_header (sort_keys h) = Some h"
proof -
  obtain name contains where h: "h = PDict [(''name'', PStr name), (''contains'', PStr contains)]"
    and ok: "is_http_header_name name" "bounded_utf8 contains FILTER_HEADER_CONTAINS_MAX_BYTES"
    using assms by (auto simp: wf_header_def)
  let ?d = "[(''name'', PStr name), (''contains'', PStr contains)]"
  have "dget (sorted_dict ?d) ''name'' = PStr name"
    and "dget (sorted_dict ?d) ''contains'' = PStr contains"
    by (simp_all add: dget_sorted_dict dget_def [of ?d])
  then show ?thesis
    using ok by (simp only: h sort_keys_dict) (simp add: clean_header_def is_http_header_name_def)
qed

lemma sort_keys_atoms [simp]: "sort_keys_list (map PStr ms) = map PStr ms"
  by (induction ms) auto

text \<open>Sorting the keys of a clean condition is undone by cleaning it.\<close>

lemma clean_condition_sorted: "clean_condition (sorted_dict (clean_condition c)) = clean_condition c"
proof -
  let ?c = "clean_condition c"
  have d: "distinct (dkeys ?c)" using wf_clean_condition [of c] by (simp add: wf_condition_def)
  have "clean_string_entry (sorted_dict ?c) k = clean_string_entry ?c k"
    if k: "k \<in> set condition_string_keys" for k
  proof -
    have "dget ?c k = PNone \<or> (\<exists>s. dget ?c k = PStr s)"
      unfolding dget_def map_of_clean_string [OF k]
      by (cases "clean_string_entry c k") (auto dest!: clean_string_entry_Some [THEN iffD1])
    then have "dget (sorted_dict ?c) k = dget ?c k" using dget_sorted_dict [OF d, of k] by auto
    then show ?thesis by (rule clean_string_entry_cong)
  qed
  then have "List.map_filter (clean_string_entry (sorted_dict ?c)) condition_string_keys
      = List.map_filter (clean_string_entry ?c) condition_string_keys"
    by (rule map_filter_eq)
  moreover have "clean_methods (sorted_dict ?c) = clean_methods ?c"
  proof (cases c rule: clean_methods_cases)
    case 1
    then have "dget ?c ''methods'' = PNone" by (simp add: dget_def map_of_clean_methods)
    then show ?thesis using dget_sorted_dict [OF d, of "''methods''"] by (simp add: clean_methods_def)
  next
    case (2 ms)
    then have "dget ?c ''methods'' = PList (map PStr ms)"
      by (simp add: dget_def map_of_clean_methods)
    then show ?thesis using dget_sorted_dict [OF d, of "''methods''"] by (simp add: clean_methods_def)
  qed
  moreover have "clean_headers (sorted_dict ?c) = clean_headers ?c"
  proof (cases c rule: clean_headers_cases)
    case 1
    then have "dget ?c ''headers'' = PNone" by (simp add: dget_def map_of_clean_headers)
    then show ?thesis using dget_sorted_dict [OF d, of "''headers''"] by (simp add: clean_headers_def)
  next
    case (2 hs)
    then have "dget ?c ''headers'' = PList hs" by (simp add: dget_def map_of_clean_headers)
    moreover have "List.map_filter clean_header (map sort_keys hs) = hs"
      using 2(4) by (intro map_filter_Some_id sort_header) (auto simp: list_all_iff)
    ultimately show ?thesis
      using 2 dget_sorted_dict [OF d, of "''headers''"]
      by (simp add: clean_headers_def sort_keys_list_map map_filter_wf_headers)
  qed
  ultimately have "clean_condition (sorted_dict ?c) = clean_condition ?c"
    by (simp only: clean_condition_def)
  then show ?thesis by simp
qed

lemma sanitize_sorted_rule:
  assumes "clean_rule f"
  shows "sanitize_filter (sorted_dict f) ttl = Inr f"
proof -
  obtain i e p t c where f: "f = rule_dict i e p t (clean_condition c)" and i: "wf_id i"
    and t: "1 \<le> t" "t \<le> FILTER_TTL_MAX_SECONDS"
    using assms by (auto simp: clean_rule_def)
  have d: "distinct (dkeys f)" by (simp add: f rule_dict_def)
  note get = dget_sorted_dict [OF d]
  have "dget_or (sorted_dict f) ''enabled'' v = PBool e"
    and "dget_or (sorted_dict f) ''priority'' v = PInt p" for v
    using dget_or_sorted_dict [OF d, of "''enabled''" "PBool e" v]
      dget_or_sorted_dict [OF d, of "''priority''" "PInt p" v]
    by (simp_all add: f rule_dict_def)
  moreover have "clean_condition (sorted_dict (clean_condition c)) = clean_condition c"
    by (rule clean_condition_sorted)
  ultimately show ?thesis
    using i t get [of "''id''"] get [of "''ttl_seconds''"] get [of "''condition''"]
    by (simp add: sanitize_filter_def f py_or_def wf_id_nonempty clamp_ttl_id sort_keys_dict Let_def
        del: sort_keys.simps(2))
      (simp add: rule_dict_def)
qed

lemma rfold_upsert_cong:
  "list_all2 (\<lambda>x y. sanitize_filter x ttl = sanitize_filter y ttl) xs ys \<Longrightarrow>
     rfold (upsert ttl) m xs = rfold (upsert ttl) m ys"
proof (induction xs arbitrary: m ys)
  case Nil
  then show ?case by simp
next
  case (Cons x xs)
  then obtain y zs where ys: "ys = y # zs" "sanitize_filter x ttl = sanitize_filter y ttl"
    and rest: "list_all2 (\<lambda>x y. sanitize_filter x ttl = sanitize_filter y ttl) xs zs"
    by (auto simp: list_all2_Cons1)
  have "upsert ttl m x = upsert ttl m y" using ys(2) by (simp add: upsert_def)
  then show ?case
    using ys(1) Cons.IH [OF rest] by (cases "upsert ttl m y") simp_all
qed

lemma merge_sorted_rules:
  assumes "list_all clean_rule fs"
  shows "merge_existing_filters (map sorted_dict fs) new ttl maxf = merge_existing_filters fs new ttl maxf"
proof -
  have "list_all2 (\<lambda>x y. sanitize_filter x ttl = sanitize_filter y ttl) (map sorted_dict fs) fs"
    using assms by (auto simp: list_all2_conv_all_nth list_all_length sanitize_sorted_rule clean_rule_fixed)
  then show ?thesis by (simp add: merge_existing_filters_def rfold_upsert_cong)
qed

lemma merge_reload:
  assumes "merge_existing_filters existing new ttl maxf = Inr out" and "maxf < 10 ^ 93"
  shows "merge_existing_filters (map sorted_dict out) [] ttl' maxf = Inr out"
proof -
  note clean = merge_clean [OF assms]
  have "merge_existing_filters out [] ttl' maxf = Inr out"
    using clean merge_keys_distinct [OF assms(1)] merge_ids_distinct [OF assms(1)]
      merge_length [OF assms(1)]
    by (rule merge_stable)
  then show ?thesis by (simp add: merge_sorted_rules [OF clean(1)])
qed

text \<open>
  The contract of the store towards the analyzer loop: whatever is merged is well formed and within
  the cap, and a saved result, loaded back and merged with nothing new, is the saved result.
\<close>

locale rule_store =
  fixes merge :: "'r list \<Rightarrow> 'r list \<Rightarrow> int \<Rightarrow> int \<Rightarrow> 'r list result"
    and save :: "'r list \<Rightarrow> 'f"
    and load :: "'f \<Rightarrow> 'r list result"
    and good :: "'r list \<Rightarrow> bool"
    and cap :: int
  assumes merge_good: "m \<le> cap \<Longrightarrow> merge old new ttl m = Inr out \<Longrightarrow> good out"
    and merge_cap: "merge old new ttl m = Inr out \<Longrightarrow> int (length out) \<le> max 1 m"
    and reload: "m \<le> cap \<Longrightarrow> merge old new ttl m = Inr out \<Longrightarrow>
      \<exists>back. load (save out) = Inr back \<and> merge back [] ttl' m = Inr out"
begin

lemma refresh_step:
  assumes "m \<le> cap" and "merge old new ttl m = Inr out"
  shows "rbind (load (save out)) (\<lambda>fs. rbind (merge fs [] ttl' m) (\<lambda>o'. Inr (save o'))) = Inr (save out)"
  using reload [OF assms, of ttl'] by auto

text \<open>Any number of refreshes with nothing new leave the file as it is.\<close>

lemma refresh_many:
  assumes "m \<le> cap" and "merge old new ttl m = Inr out"
  shows "((\<lambda>file. rbind file (\<lambda>f. rbind (load f) (\<lambda>fs. rbind (merge fs [] ttl' m) (\<lambda>o'. Inr (save o')))))
          ^^ n) (Inr (save out)) = Inr (save out)"
  by (induction n) (simp_all add: refresh_step [OF assms])

end

definition good_rules :: "dict list \<Rightarrow> bool" where
  "good_rules fs \<longleftrightarrow> list_all wf_filter fs \<and> list_all filter_has_matcher fs
     \<and> distinct (rule_ids fs) \<and> distinct (map filter_key fs)"

lemma list_all_mono_rule: "list_all P xs \<Longrightarrow> (\<And>x. P x \<Longrightarrow> Q x) \<Longrightarrow> list_all Q xs"
  by (auto simp: list_all_iff)

lemma merge_good_rules:
  assumes "merge_existing_filters existing new ttl maxf = Inr out" and "maxf < 10 ^ 93"
  shows "good_rules out"
  unfolding good_rules_def
  using merge_clean [OF assms] merge_keys_distinct [OF assms(1)] merge_ids_distinct [OF assms(1)]
  by (auto intro: list_all_mono_rule clean_rule_wf)

interpretation store: rule_store merge_existing_filters write_filters read_filter_file good_rules
  "10 ^ 92"
proof
  fix m :: int and old new ttl out ttl'
  assume "m \<le> 10 ^ 92" and merge: "merge_existing_filters old new ttl m = Inr out"
  then have m: "m < 10 ^ 93" by simp
  show "good_rules out" by (rule merge_good_rules [OF merge m])
  show "\<exists>back. read_filter_file (write_filters out) = Inr back
      \<and> merge_existing_filters back [] ttl' m = Inr out"
    using merge_reload [OF merge m] by (simp add: read_write_filters)
next
  show "merge_existing_filters old new ttl m = Inr out \<Longrightarrow> int (length out) \<le> max 1 m"
    for old new ttl m out by (rule merge_length)
qed

section \<open>Properties of the store\<close>

text \<open>
  The ids of \<open>unique_filter_ids\<close> are pairwise distinct, and the rules keep their order, their
  number and every field but the id.  The search for a free id is the total function \<open>free_id\<close>.
\<close>

theorem unique_filter_ids_distinct:
  "distinct (rule_ids (unique_filter_ids fs))
     \<and> list_all2 (\<lambda>f g. \<exists>i. g = dset ''id'' (PStr i) f) fs (unique_filter_ids fs)"
proof -
  have "list_all2 (\<lambda>f g. \<exists>i. g = dset ''id'' (PStr i) f) fs (unique_ids_from seen fs)" for seen
    by (induction seen fs rule: unique_ids_from.induct) (auto simp: Let_def)
  then show ?thesis by (simp add: unique_filter_ids_def unique_ids_distinct)
qed

text \<open>
  The merged store: at most \<open>max(1, max_filters)\<close> rules, every one well formed and with a
  matcher, no two with the same id and no two with the same signature or path shape key.  The bound
  on \<open>max_filters\<close> keeps a suffixed id within 96 bytes.
\<close>

theorem merge_existing_filters_good:
  assumes "merge_existing_filters existing new_filters ttl maxf = Inr out" and "maxf < 10 ^ 93"
  shows "int (length out) \<le> max 1 maxf \<and> good_rules out"
  using merge_length [OF assms(1)] merge_good_rules [OF assms] by simp

definition example_signature_rule :: "string \<Rightarrow> string \<Rightarrow> dict" where
  "example_signature_rule i s = rule_dict i True 10 60 [(''signature'', PStr s)]"

theorem merge_existing_filters_good_witness:
  "let out = [example_signature_rule ''a'' ''0123456789abcdef'', example_signature_rule ''a-2'' ''00112233445566ff'']
   in merge_existing_filters [example_signature_rule ''b'' ''ffffffffffffffff'', example_signature_rule ''b'' ''0123456789abcdef'']
        [example_signature_rule ''a'' ''0123456789abcdef'', example_signature_rule ''a'' ''00112233445566ff''] 60 2 = Inr out
      \<and> good_rules out"
proof -
  let ?out = "[example_signature_rule ''a'' ''0123456789abcdef'', example_signature_rule ''a-2'' ''00112233445566ff'']"
  have "merge_existing_filters [example_signature_rule ''b'' ''ffffffffffffffff'', example_signature_rule ''b'' ''0123456789abcdef'']
        [example_signature_rule ''a'' ''0123456789abcdef'', example_signature_rule ''a'' ''00112233445566ff''] 60 2 = Inr ?out"
    by code_simp
  then show ?thesis using merge_existing_filters_good by (simp add: Let_def)
qed

text \<open>
  New rules win: when no more rules are proposed than the cap allows, every proposed rule with
  a signature or path shape matcher is in the store afterwards under its key, so old rules are
  evicted first and a full store never drops fresh coverage.
\<close>

theorem merge_existing_filters_keeps_new:
  assumes "merge_existing_filters existing new_filters ttl maxf = Inr out"
    and "int (length new_filters) \<le> max 1 maxf"
    and "item \<in> set new_filters" and "sanitize_filter item ttl = Inr f" and "filter_has_matcher f"
    and "take 3 (filter_key f) \<noteq> ''id:''"
  shows "\<exists>r \<in> set out. filter_key r = filter_key f"
proof -
  have "filter_key f \<noteq> ''id:'' @ i" for i using assms(6) by auto
  then show ?thesis using merge_keeps_new_key [OF assms(1-5)] by blast
qed

theorem merge_existing_filters_keeps_new_witness:
  "\<exists>r \<in> set [example_signature_rule ''a'' ''00112233445566ff''].
     filter_key r = ''signature:00112233445566ff''"
proof -
  let ?f = "example_signature_rule ''a'' ''00112233445566ff''"
  have "merge_existing_filters [example_signature_rule ''b'' ''ffffffffffffffff''] [?f] 60 1 = Inr [?f]"
    and "sanitize_filter ?f 60 = Inr ?f" and "filter_key ?f = ''signature:00112233445566ff''"
    and "filter_has_matcher ?f"
    by code_simp+
  then show ?thesis
    using merge_existing_filters_keeps_new [of "[example_signature_rule ''b'' ''ffffffffffffffff'']" "[?f]" 60 1 "[?f]" ?f ?f]
    by simp
qed

text \<open>
  C15. The file round trip: what \<open>write_filters\<close> wrote after a merge, read back by
  \<open>read_filter_file\<close> and merged with nothing new any number of times, is the same file, whatever
  default time to live the later runs use.
\<close>

theorem filter_file_refresh_stable:
  assumes "merge_existing_filters existing new_filters ttl maxf = Inr out" and "maxf \<le> 10 ^ 92"
  shows "((\<lambda>file. rbind file (\<lambda>f. rbind (read_filter_file f)
            (\<lambda>fs. rbind (merge_existing_filters fs [] ttl' maxf) (\<lambda>o'. Inr (write_filters o')))))
          ^^ n) (Inr (write_filters out)) = Inr (write_filters out)"
  using assms(2,1) by (rule store.refresh_many)

theorem filter_file_refresh_stable_witness:
  "let f = example_signature_rule ''a'' ''00112233445566ff''; out = [f]
   in ((\<lambda>file. rbind file (\<lambda>f. rbind (read_filter_file f)
            (\<lambda>fs. rbind (merge_existing_filters fs [] 5 1) (\<lambda>o'. Inr (write_filters o')))))
          ^^ 3) (Inr (write_filters out)) = Inr (write_filters out)"
proof -
  let ?f = "example_signature_rule ''a'' ''00112233445566ff''"
  have "merge_existing_filters [example_signature_rule ''b'' ''ffffffffffffffff''] [?f] 60 1 = Inr [?f]"
    by code_simp
  then show ?thesis
    unfolding Let_def using filter_file_refresh_stable [of _ _ _ 1 "[?f]" 3 5] by simp
qed

end
