(* ===== verification/Event_Log.thy ===== *)
theory Event_Log
  imports Py_Value "HOL-Library.Product_Lexorder"
begin

text \<open>
  The event log of \<open>tools/codex_analyzer.py\<close>: which files a rotated log consists of and in which
  order they are read (\<open>event_log_paths\<close>), the bounded tail of decoded events (\<open>read_events\<close>), and
  the count of denied requests that decides whether the AI provider is woken
  (\<open>count_attack_evidence\<close>).  The JSON decoder is the parameter \<open>loads\<close>.

  The directory of the log is the list of its entries, each with the text that reading the file
  gives or the exception that opening it raises; \<open>None\<close> is a directory that does not exist.  The
  name of the log holds no glob metacharacter, so that \<open>glob(name + ".*")\<close> lists the entries whose
  name starts with \<open>name.\<close>.
\<close>

section \<open>Definitions\<close>

type_synonym log_dir = "(string \<times> string result) list option"

definition STRONG_ATTACK_REASONS :: "string list" where
  "STRONG_ATTACK_REASONS =
     [''rate_limited'', ''global_rate_limited'', ''per_ip_rate_limited'', ''signature_rate_limited'',
      ''path_shape_rate_limited'', ''trusted_proxy_rate_limited'', ''filter_block'',
      ''body_too_large'']"

text \<open>\<open>v in {strings}\<close>: a list or dict is not hashable, so the test raises.\<close>

fun in_str_set :: "pyval \<Rightarrow> string list \<Rightarrow> bool result" where
  "in_str_set (PStr s) ss = Inr (s \<in> set ss)"
| "in_str_set (PList _) ss = Inl TypeError"
| "in_str_set (PDict _) ss = Inl TypeError"
| "in_str_set _ ss = Inr False"

definition is_strong :: "dict \<Rightarrow> bool result" where
  "is_strong event = in_str_set (dget event ''reason'') STRONG_ATTACK_REASONS"

text \<open>\<open>sum(1 for event in events if event.get("reason") in STRONG_ATTACK_REASONS)\<close>.\<close>

definition strong_count :: "dict list \<Rightarrow> int result" where
  "strong_count events =
     rbind (rmap is_strong events) (\<lambda>bs. Inr (int (length (filter (\<lambda>b. b) bs))))"

definition count_attack_evidence :: "pyval list \<Rightarrow> int result" where
  "count_attack_evidence events = strong_count (only_dicts events)"

definition event_has_runtime_signature_basis :: "dict \<Rightarrow> bool" where
  "event_has_runtime_signature_basis event =
     (case dget event ''signature_basis'' of PStr basis \<Rightarrow> 4 \<le> count_list basis (CHR ''|'') | _ \<Rightarrow> False)"

text \<open>One turn of the loop over the glob: the backup a directory entry is, if any.\<close>

definition backup_entry :: "string \<Rightarrow> string \<Rightarrow> (int \<times> string) list result" where
  "backup_entry name candidate =
     (let prefix = name @ ''.''
      in if \<not> starts_with candidate prefix then Inr []
         else let suffix = drop (length prefix) candidate
              in if str_isdigit suffix
                 then rbind (py_int (PStr suffix)) (\<lambda>n. Inr [(n, candidate)])
                 else Inr [])"

definition event_log_paths :: "log_dir \<Rightarrow> string \<Rightarrow> string list result" where
  "event_log_paths dir name =
     (case dir of
        None \<Rightarrow> Inr [name]
      | Some entries \<Rightarrow>
          rbind (rmap (backup_entry name) (map fst entries)) (\<lambda>backups.
            Inr (map snd (rev (sort (concat backups))) @ [name])))"

text \<open>Text mode: \<open>\r\n\<close> and \<open>\r\<close> read as \<open>\n\<close>, and a file is iterated by lines that keep it.\<close>

fun universal_newlines :: "string \<Rightarrow> string" where
  "universal_newlines [] = []"
| "universal_newlines [c] = [if c = CR then LF else c]"
| "universal_newlines (c # d # cs) =
     (if c = CR then LF # (if d = LF then universal_newlines cs else universal_newlines (d # cs))
      else c # universal_newlines (d # cs))"

fun keep_lines :: "string \<Rightarrow> string \<Rightarrow> string list" where
  "keep_lines acc [] = (if acc = [] then [] else [rev acc])"
| "keep_lines acc (c # cs) =
     (if c = LF then rev (c # acc) # keep_lines [] cs else keep_lines (c # acc) cs)"

definition text_lines :: "string \<Rightarrow> string list" where
  "text_lines text = keep_lines [] (universal_newlines text)"

definition file_lines :: "log_dir \<Rightarrow> string \<Rightarrow> string list result" where
  "file_lines dir name =
     (case map_of (case dir of None \<Rightarrow> [] | Some entries \<Rightarrow> entries) name of
        None \<Rightarrow> Inr []
      | Some content \<Rightarrow> rbind content (\<lambda>text. Inr (text_lines text)))"

text \<open>The second loop: only \<open>JSONDecodeError\<close> is caught.\<close>

definition decode_event :: "(string \<Rightarrow> pyval result) \<Rightarrow> string \<Rightarrow> dict list result" where
  "decode_event loads line =
     (case loads line of
        Inl JSONDecodeError \<Rightarrow> Inr []
      | Inl e \<Rightarrow> Inl e
      | Inr (PDict event) \<Rightarrow>
          (case dget event ''signature'' of PStr _ \<Rightarrow> Inr [event] | _ \<Rightarrow> Inr [])
      | Inr _ \<Rightarrow> Inr [])"

text \<open>\<open>deque(maxlen=n)\<close> keeps the last \<open>n\<close> lines and refuses an \<open>n\<close> beyond \<open>ssize_t\<close>.\<close>

definition read_events ::
  "(string \<Rightarrow> pyval result) \<Rightarrow> log_dir \<Rightarrow> string \<Rightarrow> int \<Rightarrow> dict list result" where
  "read_events loads dir name max_events =
     (if max_events \<le> 0 then Inr []
      else if 2 ^ 63 \<le> max_events then Inl OverflowError
      else rbind (event_log_paths dir name) (\<lambda>paths.
             rbind (rmap (file_lines dir) paths) (\<lambda>liness.
               rbind (rmap (decode_event loads) (last_n (nat max_events) (concat liness)))
                 (\<lambda>eventss. Inr (concat eventss)))))"

section \<open>What is read\<close>

definition has_signature :: "dict \<Rightarrow> bool" where
  "has_signature event \<longleftrightarrow> (\<exists>s. map_of event ''signature'' = Some (PStr s))"

lemma dget_PStr: "dget d k = PStr s \<longleftrightarrow> map_of d k = Some (PStr s)"
  by (simp add: dget_def split: option.splits)

lemma decode_event_Inr:
  assumes "decode_event loads line = Inr es"
  shows "length es \<le> 1" and "\<And>e. e \<in> set es \<Longrightarrow> loads line = Inr (PDict e) \<and> has_signature e"
  using assms
  by (auto simp: decode_event_def has_signature_def dget_PStr
      split: sum.splits exn.splits pyval.splits)

lemma decode_events_length:
  "rmap (decode_event loads) ls = Inr ess \<Longrightarrow> length (concat ess) \<le> length ls"
proof (induction ls arbitrary: ess)
  case Nil
  then show ?case by simp
next
  case (Cons l ls)
  then obtain es ess' where "decode_event loads l = Inr es" and "rmap (decode_event loads) ls = Inr ess'"
    and "ess = es # ess'" by (auto simp: rbind_Inr_iff)
  with Cons.IH decode_event_Inr(1) [of loads l es] show ?case by fastforce
qed

section \<open>The order of a rotated log\<close>

text \<open>A log with backups \<open>name.1\<close> (the newest) to \<open>name.n\<close> (the oldest), as the proxy rotates it.\<close>

definition backup_name :: "string \<Rightarrow> nat \<Rightarrow> string" where
  "backup_name name i = name @ ''.'' @ nat_str i"

definition rotated_dir :: "string \<Rightarrow> string list \<Rightarrow> string \<Rightarrow> log_dir" where
  "rotated_dir name backups live =
     Some (map (\<lambda>i. (backup_name name (Suc i), Inr (backups ! i))) [0..<length backups]
           @ [(name, Inr live)])"

lemma backup_entry_backup:
  "i < 10 ^ 18 \<Longrightarrow> backup_entry name (backup_name name i) = Inr [(int i, backup_name name i)]"
  by (simp add: backup_entry_def backup_name_def starts_with_def nat_str_isdigit int_of_str_nat_str
      Let_def)

lemma backup_entry_live: "backup_entry name name = Inr []"
  by (simp add: backup_entry_def starts_with_def)

lemma backup_name_inj: "backup_name name i = backup_name name j \<longleftrightarrow> i = j"
  by (simp add: backup_name_def nat_str_inj)

lemma backup_name_live: "backup_name name i \<noteq> name"
  by (simp add: backup_name_def)

lemma rmap_all_Inr: "(\<And>x. x \<in> set xs \<Longrightarrow> f x = Inr (g x)) \<Longrightarrow> rmap f xs = Inr (map g xs)"
  by (induction xs) simp_all

lemma rmap_append: "rmap f (xs @ ys) = rbind (rmap f xs) (\<lambda>as. rbind (rmap f ys) (\<lambda>bs. Inr (as @ bs)))"
proof (induction xs)
  case Nil
  then show ?case by (cases "rmap f ys") simp_all
next
  case (Cons x xs)
  then show ?case by (cases "f x"; cases "rmap f xs"; cases "rmap f ys") simp_all
qed

lemma event_log_paths_rotated:
  assumes "length backups < 10 ^ 18"
  shows "event_log_paths (rotated_dir name backups live) name
           = Inr (map (\<lambda>i. backup_name name (Suc i)) (rev [0..<length backups]) @ [name])"
proof -
  let ?ns = "[0..<length backups]"
  let ?pairs = "map (\<lambda>i. (int (Suc i), backup_name name (Suc i))) ?ns"
  have rm: "rmap (backup_entry name) (map (\<lambda>i. backup_name name (Suc i)) ?ns)
      = Inr (map (\<lambda>i. [(int (Suc i), backup_name name (Suc i))]) ?ns)"
  proof -
    have "rmap (backup_entry name) (map (\<lambda>i. backup_name name (Suc i)) ?ns)
        = Inr (map (\<lambda>c. [(int (digits_val (drop (Suc (length name)) c)), c)])
             (map (\<lambda>i. backup_name name (Suc i)) ?ns))"
      using assms by (intro rmap_all_Inr) (auto simp: backup_entry_backup, simp add: backup_name_def)
    then show ?thesis by (simp add: backup_name_def comp_def)
  qed
  have sorted: "sorted ?pairs"
    by (auto simp: sorted_iff_nth_mono_less less_eq_prod_def nth_append)
  have "map (fst \<circ> (\<lambda>i. (backup_name name (Suc i), Inr (backups ! i)))) ?ns
      = map (\<lambda>i. backup_name name (Suc i)) ?ns" by simp
  then show ?thesis
    using sorted_sort_id [OF sorted]
    by (simp add: event_log_paths_def rotated_dir_def rmap_append rm backup_entry_live rev_map
        comp_def concat_map_singleton)
qed

lemma file_lines_rotated:
  "file_lines (rotated_dir name backups live) name = Inr (text_lines live)"
  "i < length backups \<Longrightarrow>
     file_lines (rotated_dir name backups live) (backup_name name (Suc i)) = Inr (text_lines (backups ! i))"
proof -
  let ?es = "map (\<lambda>i. (backup_name name (Suc i), Inr (backups ! i) :: string result)) [0..<length backups]"
  have no: "map_of ?es name = None"
    by (auto simp: map_of_eq_None_iff backup_name_live backup_name_live [symmetric])
  then show "file_lines (rotated_dir name backups live) name = Inr (text_lines live)"
    by (simp add: file_lines_def rotated_dir_def map_add_def)
  assume i: "i < length backups"
  have "distinct (map fst ?es)"
    by (simp add: comp_def distinct_map inj_on_def backup_name_inj)
  then have "map_of ?es (backup_name name (Suc i)) = Some (Inr (backups ! i))"
    using i by (intro map_of_is_SomeI) auto
  then show "file_lines (rotated_dir name backups live) (backup_name name (Suc i))
      = Inr (text_lines (backups ! i))"
    by (simp add: file_lines_def rotated_dir_def map_add_def backup_name_live)
qed

lemma read_events_rotated:
  assumes "length backups < 10 ^ 18" and "0 < max_events" and "max_events < 2 ^ 63"
  shows "read_events loads (rotated_dir name backups live) name max_events
     = rbind (rmap (decode_event loads)
                (last_n (nat max_events) (concat (map text_lines (rev backups @ [live])))))
         (\<lambda>ess. Inr (concat ess))"
proof -
  let ?dir = "rotated_dir name backups live"
  have "rmap (file_lines ?dir) (map (\<lambda>i. backup_name name (Suc i)) (rev [0..<length backups]) @ [name])
      = Inr (map text_lines (rev backups @ [live]))"
  proof -
    have "rmap (file_lines ?dir) (map (\<lambda>i. backup_name name (Suc i)) (rev [0..<length backups]))
        = Inr (map (\<lambda>i. text_lines (backups ! i)) (rev [0..<length backups]))"
      by (auto simp: rmap_Inr_iff list_all2_conv_all_nth file_lines_rotated rev_nth)
    moreover have "map (\<lambda>i. text_lines (backups ! i)) (rev [0..<length backups]) = map text_lines (rev backups)"
      by (metis (no_types, lifting) map_map map_nth rev_map comp_apply map_cong)
    ultimately show ?thesis by (simp add: rmap_append file_lines_rotated)
  qed
  then show ?thesis
    using assms by (simp add: read_events_def event_log_paths_rotated)
qed

lemma read_events_InrD:
  assumes "read_events loads dir name max_events = Inr events"
  shows "int (length events) \<le> max 0 max_events
     \<and> (\<forall>e \<in> set events. has_signature e \<and> (\<exists>line. loads line = Inr (PDict e)))"
proof (cases "max_events \<le> 0")
  case True
  then show ?thesis using assms by (simp add: read_events_def)
next
  case False
  with assms obtain liness ess where
    ess: "rmap (decode_event loads) (last_n (nat max_events) (concat liness)) = Inr ess"
    and events: "events = concat ess"
    by (auto simp: read_events_def rbind_Inr_iff split: if_splits)
  from decode_events_length [OF ess] False have "int (length events) \<le> max_events"
    by (simp add: events le_nat_iff)
  moreover have "has_signature e \<and> (\<exists>line. loads line = Inr (PDict e))" if e: "e \<in> set events" for e
  proof -
    from e obtain es where es: "es \<in> set ess" "e \<in> set es" by (auto simp: events)
    with ess obtain line where "decode_event loads line = Inr es" by (blast elim: rmap_Inr_set)
    with decode_event_Inr(2) es show ?thesis by blast
  qed
  ultimately show ?thesis using False by simp
qed

lemma read_events_length:
  "read_events loads dir name max_events = Inr events \<Longrightarrow> int (length events) \<le> max 0 max_events"
  using read_events_InrD by blast

section \<open>Properties of the event log\<close>

text \<open>
  \<open>read_events\<close> returns at most \<open>max_events\<close> events, and every one of them is a JSON object with
  a string signature, decoded from a line of one of the files of the log.
\<close>

theorem read_events_sound:
  assumes "read_events loads dir name max_events = Inr events"
  shows "int (length events) \<le> max 0 max_events
     \<and> (\<forall>e \<in> set events. has_signature e \<and> (\<exists>line. loads line = Inr (PDict e)))"
  using assms by (rule read_events_InrD)

definition example_loads :: "string \<Rightarrow> pyval result" where
  "example_loads line =
     (if starts_with line ''a'' then Inr (PDict [(''signature'', PStr ''a''), (''reason'', PStr ''rate_limited'')])
      else if starts_with line ''b'' then Inr (PDict [(''signature'', PStr ''b'')])
      else Inl JSONDecodeError)"

definition example_text :: "string \<Rightarrow> string" where
  "example_text s = concat (map (\<lambda>c. [c, LF]) s)"

theorem read_events_sound_witness:
  "let events = [[(''signature'', PStr ''b'')]]
   in read_events example_loads (rotated_dir ''log'' [example_text ''a''] (example_text ''xb'')) ''log'' 2 = Inr events
      \<and> int (length events) \<le> 2 \<and> (\<forall>e \<in> set events. has_signature e)"
proof -
  let ?dir = "rotated_dir ''log'' [example_text ''a''] (example_text ''xb'')"
  have "read_events example_loads ?dir ''log'' 2 = Inr [[(''signature'', PStr ''b'')]]" by code_simp
  then show ?thesis
    using read_events_sound [of example_loads ?dir "''log''" 2 "[[(''signature'', PStr ''b'')]]"] by simp
qed

text \<open>
  C16. Rotation is transparent: renaming the live log to \<open>name.1\<close>, every backup one number up, and
  starting an empty live log changes nothing in what \<open>read_events\<close> returns, so no event is lost,
  repeated or reordered by a rotation between two polls.
\<close>

theorem read_events_rotation_transparent:
  assumes "length backups < 10 ^ 17"
  shows "read_events loads (rotated_dir name (live # backups) []) name max_events
       = read_events loads (rotated_dir name backups live) name max_events"
proof (cases "0 < max_events \<and> max_events < 2 ^ 63")
  case True
  have "text_lines [] = []" by (simp add: text_lines_def)
  then show ?thesis
    using assms True by (simp add: read_events_rotated)
next
  case False
  then show ?thesis by (auto simp: read_events_def)
qed

theorem read_events_rotation_transparent_witness:
  "read_events example_loads (rotated_dir ''log'' [example_text ''ab'', example_text ''b''] []) ''log'' 2
     = Inr [[(''signature'', PStr ''a''), (''reason'', PStr ''rate_limited'')], [(''signature'', PStr ''b'')]]"
proof -
  have "read_events example_loads (rotated_dir ''log'' [example_text ''b''] (example_text ''ab'')) ''log'' 2
     = Inr [[(''signature'', PStr ''a''), (''reason'', PStr ''rate_limited'')], [(''signature'', PStr ''b'')]]"
    by code_simp
  then show ?thesis
    using read_events_rotation_transparent
      [of "[example_text ''b'']" example_loads "''log''" "example_text ''ab''" 2] by simp
qed

text \<open>
  A backup whose suffix is a digit for \<open>str.isdigit\<close> but not for \<open>int\<close>, such as a superscript
  two, makes \<open>event_log_paths\<close>, and with it every poll of the analyzer, raise \<open>ValueError\<close>.
\<close>

theorem event_log_paths_superscript_raises:
  "\<exists>e. event_log_paths (Some [(''log.'' @ [CHR 0xB2], Inr [])]) ''log'' = Inl e \<and> is_value_error e"
proof -
  have "event_log_paths (Some [(''log.'' @ [CHR 0xB2], Inr [])]) ''log''
      = Inl (ValueError ''invalid literal for int()'')" by code_simp
  then show ?thesis by simp
qed

end
