(* ===== verification/Deterministic_Learner.thy ===== *)
theory Deterministic_Learner
  imports Filter_Store Event_Log
begin

text \<open>
  The deterministic filter generator of \<open>tools/codex_analyzer.py\<close>: events grouped by signature and
  by path shape, a rule for every group with enough evidence, and \<open>merge_strong_coverage\<close>, which
  completes the rules of an AI provider with them.

  \<open>read_events\<close> only yields events with a string signature; the model of \<open>event["signature"]\<close> also
  covers a missing key and unhashable values, and groups other values by identity of the value.
\<close>

section \<open>Grouping\<close>

text \<open>\<open>grouped = defaultdict(list)\<close> filled by \<open>grouped[key].append(x)\<close>.\<close>

definition group_add :: "('k \<times> 'a list) list \<Rightarrow> 'k \<times> 'a \<Rightarrow> ('k \<times> 'a list) list" where
  "group_add grouped kx =
     dset (fst kx) ((case map_of grouped (fst kx) of None \<Rightarrow> [] | Some g \<Rightarrow> g) @ [snd kx]) grouped"

definition group_pairs :: "('k \<times> 'a) list \<Rightarrow> ('k \<times> 'a list) list" where
  "group_pairs pairs = foldl group_add [] pairs"

text \<open>\<open>sorted(grouped.items(), key=lambda item: len(item[1]), reverse=True)\<close>.\<close>

definition by_size :: "('k \<times> 'a list) list \<Rightarrow> ('k \<times> 'a list) list" where
  "by_size grouped = sort_key (\<lambda>item. - int (length (snd item))) grouped"

section \<open>The generator\<close>

definition is_learnable_attack_shape :: "string \<Rightarrow> bool" where
  "is_learnable_attack_shape shape =
     (if contains_str shape '':token'' \<or> contains_str shape '':short-token'' \<or> contains_str shape '':hex''
      then True
      else let parts = filter (\<lambda>part. part \<noteq> []) (split_on (CHR ''/'') shape)
           in if 3 \<le> length parts \<and> hd parts = ''api'' \<and> last parts = '':num''
              then parts ! 1 \<notin> {'':num'', '':token'', '':hex'', '':uuid''}
              else False)"

text \<open>\<open>event["signature"]\<close> as a dictionary key.\<close>

definition signature_key :: "dict \<Rightarrow> pyval result" where
  "signature_key event =
     (case map_of event ''signature'' of
        None \<Rightarrow> Inl (KeyError ''signature'')
      | Some (PList _) \<Rightarrow> Inl TypeError
      | Some (PDict _) \<Rightarrow> Inl TypeError
      | Some v \<Rightarrow> Inr v)"

definition learned_rule :: "string \<Rightarrow> int \<Rightarrow> int \<Rightarrow> dict \<Rightarrow> dict \<Rightarrow> dict" where
  "learned_rule ident priority ttl condition metadata =
     [(''id'', PStr ident), (''enabled'', PBool True), (''adaptive'', PBool True),
      (''priority'', PInt priority), (''ttl_seconds'', PInt ttl), (''condition'', PDict condition),
      (''action'', block_action), (''metadata'', PDict metadata)]"

definition signature_group_filter ::
  "int \<Rightarrow> int \<Rightarrow> bool \<Rightarrow> pyval \<times> dict list \<Rightarrow> dict list result" where
  "signature_group_filter min_count ttl_seconds learn_observed item =
     (let signature = fst item; grp = snd item
      in rbind (strong_count grp) (\<lambda>strong.
        if strong < min_count \<and> \<not> (learn_observed \<and> min_count \<le> int (length grp)) then Inr []
        else Inr [learned_rule (safe_id (''codex-learned-'' @ py_str signature)) 100 ttl_seconds
                    [(''signature'', signature)]
                    [(''source'', PStr ''deterministic-fallback''),
                     (''sample_path'', dget (last grp) ''path''),
                     (''sample_user_agent'', dget (last grp) ''user_agent''),
                     (''event_count'', PInt (int (length grp))),
                     (''strong_event_count'', PInt strong)]]))"

definition deterministic_signature_filters ::
  "dict list \<Rightarrow> int \<Rightarrow> int \<Rightarrow> bool \<Rightarrow> dict list result" where
  "deterministic_signature_filters events min_count ttl_seconds learn_observed =
     rbind (bounded_ttl_seconds (PInt ttl_seconds) 60) (\<lambda>ttl_seconds.
       rbind (rmap (\<lambda>event. rbind (signature_key event) (\<lambda>s. Inr (s, event))) events) (\<lambda>pairs.
         rbind (rmap (signature_group_filter min_count ttl_seconds learn_observed)
                  (by_size (group_pairs pairs)))
           (\<lambda>fs. Inr (concat fs))))"

definition shape_pair :: "dict \<Rightarrow> (string \<times> dict) option" where
  "shape_pair event =
     (case dget event ''path_shape'' of
        PStr shape \<Rightarrow>
          if shape \<noteq> [] \<and> is_learnable_attack_shape shape then Some (shape, event) else None
      | _ \<Rightarrow> None)"

text \<open>The set of the string signatures of a group, as a list without repetitions.\<close>

definition group_signatures :: "dict list \<Rightarrow> string list" where
  "group_signatures grp =
     remdups (List.map_filter
       (\<lambda>event. case dget event ''signature'' of PStr s \<Rightarrow> Some s | _ \<Rightarrow> None) grp)"

definition global_observed_count :: "dict list \<Rightarrow> int" where
  "global_observed_count grp =
     int (length (filter (\<lambda>event. dget event ''reason'' = PStr ''global_observed'') grp))"

definition shape_group_filter ::
  "int \<Rightarrow> int \<Rightarrow> bool \<Rightarrow> string \<times> dict list \<Rightarrow> dict list result" where
  "shape_group_filter min_count ttl_seconds learn_observed item =
     (let shape = fst item; grp = snd item; signatures = group_signatures grp
      in if int (length signatures) < min_count then Inr []
         else rbind (strong_count grp) (\<lambda>strong.
           let global_count = global_observed_count grp
           in if strong < min_count \<and> global_count < min_count
                 \<and> \<not> (learn_observed \<and> min_count \<le> int (length grp)) then Inr []
              else Inr [learned_rule (safe_id (''codex-learned-shape-'' @ shape)) 90 ttl_seconds
                          [(''path_shape'', PStr shape)]
                          [(''source'', PStr ''deterministic-path-shape''),
                           (''sample_path'', dget (last grp) ''path''),
                           (''sample_user_agent'', dget (last grp) ''user_agent''),
                           (''event_count'', PInt (int (length grp))),
                           (''unique_signatures'', PInt (int (length signatures))),
                           (''strong_event_count'', PInt strong),
                           (''global_observed_count'', PInt global_count)]]))"

definition deterministic_path_shape_filters ::
  "dict list \<Rightarrow> int \<Rightarrow> int \<Rightarrow> bool \<Rightarrow> dict list result" where
  "deterministic_path_shape_filters events min_count ttl_seconds learn_observed =
     rbind (bounded_ttl_seconds (PInt ttl_seconds) 60) (\<lambda>ttl_seconds.
       rbind (rmap (shape_group_filter min_count ttl_seconds learn_observed)
                (by_size (group_pairs (List.map_filter shape_pair events))))
         (\<lambda>fs. Inr (concat fs)))"

definition keep_by_key :: "int \<Rightarrow> (string \<times> dict) list \<Rightarrow> dict \<Rightarrow> (string \<times> dict) list result" where
  "keep_by_key ttl_seconds merged item =
     rbind (sanitize_filter item ttl_seconds) (\<lambda>clean.
       let key = filter_key clean
       in Inr (if key \<noteq> ''id:'' then dset key item merged else merged))"

definition deterministic_filters :: "dict list \<Rightarrow> int \<Rightarrow> int \<Rightarrow> bool \<Rightarrow> dict list result" where
  "deterministic_filters events min_count ttl_seconds learn_observed =
     rbind (bounded_ttl_seconds (PInt ttl_seconds) 60) (\<lambda>ttl_seconds.
       rbind (deterministic_path_shape_filters events min_count ttl_seconds learn_observed) (\<lambda>shapes.
         rbind (deterministic_signature_filters events min_count ttl_seconds learn_observed) (\<lambda>signatures.
           rbind (rfold (keep_by_key ttl_seconds) [] (shapes @ signatures)) (\<lambda>merged.
             Inr (dvalues merged)))))"

definition cover_fallback ::
  "int \<Rightarrow> dict list \<times> string list \<Rightarrow> dict \<Rightarrow> (dict list \<times> string list) result" where
  "cover_fallback ttl_seconds state fallback =
     (let merged = fst state; covered_keys = snd state
      in rbind (sanitize_filter fallback ttl_seconds) (\<lambda>clean.
        let key = filter_key clean
        in Inr (if filter_has_matcher clean \<and> key \<noteq> ''id:'' \<and> key \<notin> set covered_keys
                then (merged @ [clean], key # covered_keys)
                else (merged, covered_keys))))"

definition merge_strong_coverage ::
  "dict list \<Rightarrow> dict list \<Rightarrow> int \<Rightarrow> int \<Rightarrow> bool \<Rightarrow> dict list result" where
  "merge_strong_coverage provider_filters events min_count ttl_seconds learn_observed =
     rbind (sanitized_filter_list (PList (map PDict provider_filters)) ttl_seconds) (\<lambda>merged.
       rbind (deterministic_filters events min_count ttl_seconds learn_observed) (\<lambda>fallbacks.
         rbind (rfold (cover_fallback ttl_seconds) (merged, map filter_key merged) fallbacks) (\<lambda>state.
           Inr (fst state))))"

section \<open>Grouping: the groups are the classes of the key\<close>

lemma group_pairs_snoc: "group_pairs (ps @ [p]) = group_add (group_pairs ps) p"
  by (simp add: group_pairs_def)

lemma map_of_group_pairs:
  "map_of (group_pairs pairs) k =
     (let g = map snd (filter (\<lambda>p. fst p = k) pairs) in if g = [] then None else Some g)"
proof (induction pairs rule: rev_induct)
  case Nil
  then show ?case by (simp add: group_pairs_def)
next
  case (snoc p pairs)
  then show ?case
    by (auto simp: group_pairs_snoc group_add_def update_conv' Let_def)
qed

lemma distinct_group_pairs: "distinct (dkeys (group_pairs pairs))"
  by (induction pairs rule: rev_induct)
    (simp_all add: group_pairs_def group_add_def distinct_update)

lemma group_pairs_item:
  "(k, g) \<in> set (group_pairs pairs) \<longleftrightarrow> g = map snd (filter (\<lambda>p. fst p = k) pairs) \<and> g \<noteq> []"
  using map_of_eq_Some_iff [OF distinct_group_pairs [of pairs], of k g]
  by (auto simp: map_of_group_pairs Let_def split: if_splits)

lemma set_by_size [simp]: "set (by_size g) = set g"
  by (simp add: by_size_def)

section \<open>Evidence\<close>

definition strong_events :: "dict list \<Rightarrow> dict list" where
  "strong_events events = filter (\<lambda>e. is_strong e = Inr True) events"

definition signature_group :: "dict list \<Rightarrow> pyval \<Rightarrow> dict list" where
  "signature_group events s = filter (\<lambda>e. signature_key e = Inr s) events"

definition shape_group :: "dict list \<Rightarrow> string \<Rightarrow> dict list" where
  "shape_group events shape = filter (\<lambda>e. map_of e ''path_shape'' = Some (PStr shape)) events"

text \<open>When a group of events justifies a rule.\<close>

definition signature_evidence :: "dict list \<Rightarrow> int \<Rightarrow> bool \<Rightarrow> pyval \<Rightarrow> bool" where
  "signature_evidence events min_count learn_observed s \<longleftrightarrow>
     (let g = signature_group events s
      in g \<noteq> [] \<and> (min_count \<le> int (length (strong_events g))
                   \<or> learn_observed \<and> min_count \<le> int (length g)))"

definition shape_evidence :: "dict list \<Rightarrow> int \<Rightarrow> bool \<Rightarrow> string \<Rightarrow> bool" where
  "shape_evidence events min_count learn_observed shape \<longleftrightarrow>
     (let g = shape_group events shape
      in g \<noteq> [] \<and> shape \<noteq> [] \<and> is_learnable_attack_shape shape
         \<and> min_count \<le> int (length (group_signatures g))
         \<and> (min_count \<le> int (length (strong_events g)) \<or> min_count \<le> global_observed_count g
            \<or> learn_observed \<and> min_count \<le> int (length g)))"

lemma strong_count_Inr: "strong_count es = Inr n \<Longrightarrow> n = int (length (strong_events es))"
proof -
  have "rmap is_strong es = Inr bs \<Longrightarrow> length (filter (\<lambda>b. b) bs) = length (strong_events es)" for bs
  proof (induction es arbitrary: bs)
    case Nil
    then show ?case by (simp add: strong_events_def)
  next
    case (Cons e es)
    then obtain b bs' where b: "is_strong e = Inr b" and bs': "rmap is_strong es = Inr bs'"
      and "bs = b # bs'" by (auto simp: rbind_Inr_iff)
    then show ?case using Cons.IH [OF bs'] by (simp add: strong_events_def)
  qed
  then show "strong_count es = Inr n \<Longrightarrow> n = int (length (strong_events es))"
    by (auto simp: strong_count_def rbind_Inr_iff)
qed

lemma signature_pairs_group:
  "rmap (\<lambda>e. rbind (signature_key e) (\<lambda>s. Inr (s, e))) events = Inr pairs \<Longrightarrow>
     map snd (filter (\<lambda>p. fst p = s) pairs) = signature_group events s"
proof (induction events arbitrary: pairs)
  case Nil
  then show ?case by (simp add: signature_group_def)
next
  case (Cons e events)
  then obtain k ps where "signature_key e = Inr k"
    and ps: "rmap (\<lambda>e. rbind (signature_key e) (\<lambda>s. Inr (s, e))) events = Inr ps"
    and "pairs = (k, e) # ps" by (auto simp: rbind_Inr_iff)
  then show ?case using Cons.IH [OF ps] by (simp add: signature_group_def)
qed

lemma shape_pair_Some:
  "shape_pair e = Some p \<longleftrightarrow> (\<exists>shape. map_of e ''path_shape'' = Some (PStr shape) \<and> shape \<noteq> []
      \<and> is_learnable_attack_shape shape \<and> p = (shape, e))"
  by (cases "dget e ''path_shape''")
    (auto simp: shape_pair_def dget_PStr [symmetric])

lemma shape_pairs_group:
  "map snd (filter (\<lambda>p. fst p = shape) (List.map_filter shape_pair events)) =
     (if shape \<noteq> [] \<and> is_learnable_attack_shape shape then shape_group events shape else [])"
proof (induction events)
  case Nil
  then show ?case by (simp add: shape_group_def List.map_filter_simps)
next
  case (Cons e events)
  show ?case
  proof (cases "shape_pair e")
    case None
    then have "map_of e ''path_shape'' \<noteq> Some (PStr shape) \<or> shape = [] \<or> \<not> is_learnable_attack_shape shape"
      using shape_pair_Some [of e] by auto
    with None Cons show ?thesis by (auto simp: List.map_filter_simps shape_group_def)
  next
    case (Some p)
    then obtain sh where "map_of e ''path_shape'' = Some (PStr sh)" "sh \<noteq> []"
      "is_learnable_attack_shape sh" "p = (sh, e)"
      using shape_pair_Some [of e p] by auto
    with Some Cons show ?thesis by (auto simp: List.map_filter_simps shape_group_def)
  qed
qed

section \<open>What the generators return\<close>

text \<open>A rule as the generators build it: a valid id and time to live around one matcher.\<close>

definition learned_ok :: "dict \<Rightarrow> dict \<Rightarrow> bool" where
  "learned_ok condition f \<longleftrightarrow> (\<exists>i p t m. f = learned_rule i p t condition m
     \<and> wf_id i \<and> 1 \<le> t \<and> t \<le> FILTER_TTL_MAX_SECONDS)"

lemma sanitize_learned:
  assumes "wf_id i" and "1 \<le> t" and "t \<le> FILTER_TTL_MAX_SECONDS"
  shows "sanitize_filter (learned_rule i p t c m) fb = Inr (rule_dict i True p t (clean_condition c))"
  using assms
  by (simp add: sanitize_filter_def learned_rule_def rule_dict_def dget_def dget_or_def clamp_ttl_id
      py_or_def Let_def wf_id_nonempty)

lemma learned_ok_sanitize:
  assumes "learned_ok c f"
  obtains i p t where "\<And>fb. sanitize_filter f fb = Inr (rule_dict i True p t (clean_condition c))"
    and "wf_id i"
  using assms by (auto simp: learned_ok_def sanitize_learned)

lemma learned_ok_safe [simp]: "learned_ok c (learned_rule (safe_id x) p (clamp_ttl t fb) c m)"
  unfolding learned_ok_def using wf_safe_id [of x] clamp_ttl_bounds [of t fb] by blast

lemma signature_group_filter_Inr:
  assumes "signature_group_filter m (clamp_ttl t 60) lo (s, g) = Inr fs"
  shows "if m \<le> int (length (strong_events g)) \<or> lo \<and> m \<le> int (length g)
         then \<exists>f. fs = [f] \<and> learned_ok [(''signature'', s)] f else fs = []"
proof -
  from assms obtain n where n: "strong_count g = Inr n"
    by (auto simp: signature_group_filter_def rbind_Inr_iff)
  note strong_count_Inr [OF n, symmetric]
  with assms n show ?thesis
    by (auto simp: signature_group_filter_def)
qed

lemma shape_group_filter_Inr:
  assumes "shape_group_filter m (clamp_ttl t 60) lo (sh, g) = Inr fs"
  shows "if m \<le> int (length (group_signatures g))
            \<and> (m \<le> int (length (strong_events g)) \<or> m \<le> global_observed_count g
               \<or> lo \<and> m \<le> int (length g))
         then \<exists>f. fs = [f] \<and> learned_ok [(''path_shape'', PStr sh)] f else fs = []"
proof (cases "m \<le> int (length (group_signatures g))")
  case True
  with assms obtain n where n: "strong_count g = Inr n"
    by (auto simp: shape_group_filter_def rbind_Inr_iff Let_def)
  note strong_count_Inr [OF n, symmetric]
  with assms n True show ?thesis
    by (auto simp: shape_group_filter_def Let_def)
next
  case False
  with assms show ?thesis by (simp add: shape_group_filter_def Let_def)
qed

lemma rmap_concat_iff:
  assumes "rmap f xs = Inr yss"
  shows "y \<in> set (concat yss) \<longleftrightarrow> (\<exists>x \<in> set xs. \<exists>ys. f x = Inr ys \<and> y \<in> set ys)"
  using assms
proof (induction xs arbitrary: yss)
  case Nil
  then show ?case by simp
next
  case (Cons x xs)
  then obtain ys yss' where "f x = Inr ys" and r: "rmap f xs = Inr yss'" and "yss = ys # yss'"
    by (auto simp: rbind_Inr_iff)
  then show ?case using Cons.IH [OF r] by auto
qed

lemma rmap_all_Inr_ex: "rmap f xs = Inr ys \<Longrightarrow> x \<in> set xs \<Longrightarrow> \<exists>y. f x = Inr y"
  using list_all2_witness by (fastforce simp: rmap_Inr_iff)

lemma signature_filters_iff:
  assumes "deterministic_signature_filters events m t lo = Inr fs"
  shows "(\<forall>f \<in> set fs. \<exists>s. learned_ok [(''signature'', s)] f \<and> signature_evidence events m lo s)
     \<and> (\<forall>s. signature_evidence events m lo s \<longrightarrow> (\<exists>f \<in> set fs. learned_ok [(''signature'', s)] f))"
proof -
  let ?f = "signature_group_filter m (clamp_ttl t 60) lo"
  from assms obtain pairs yss where
    pairs: "rmap (\<lambda>e. rbind (signature_key e) (\<lambda>s. Inr (s, e))) events = Inr pairs"
    and yss: "rmap ?f (by_size (group_pairs pairs)) = Inr yss" and fs: "fs = concat yss"
    by (auto simp: deterministic_signature_filters_def rbind_Inr_iff)
  have groups: "(s, g) \<in> set (by_size (group_pairs pairs)) \<longleftrightarrow> g = signature_group events s \<and> g \<noteq> []"
    for s g by (simp add: group_pairs_item signature_pairs_group [OF pairs])
  have sound: "\<exists>s. learned_ok [(''signature'', s)] f \<and> signature_evidence events m lo s"
    if "f \<in> set fs" for f
  proof -
    from that obtain s g ys where item: "(s, g) \<in> set (by_size (group_pairs pairs))"
      and ys: "?f (s, g) = Inr ys" "f \<in> set ys"
      unfolding fs rmap_concat_iff [OF yss] by auto
    from signature_group_filter_Inr [OF ys(1)] ys(2) item groups show ?thesis
      by (auto simp: signature_evidence_def Let_def split: if_splits)
  qed
  have complete: "\<exists>f \<in> set fs. learned_ok [(''signature'', s)] f" if "signature_evidence events m lo s" for s
  proof -
    let ?g = "signature_group events s"
    from that have item: "(s, ?g) \<in> set (by_size (group_pairs pairs))"
      using groups [of s ?g] by (simp add: signature_evidence_def Let_def del: set_by_size)
    with rmap_all_Inr_ex [OF yss] obtain ys where ys: "?f (s, ?g) = Inr ys" by blast
    with signature_group_filter_Inr [OF ys] that obtain f where f: "ys = [f]" "learned_ok [(''signature'', s)] f"
      by (auto simp: signature_evidence_def Let_def split: if_splits)
    have "f \<in> set fs" unfolding fs rmap_concat_iff [OF yss] using ys f(1) by (intro bexI [OF _ item]) simp
    with f show ?thesis by blast
  qed
  from sound complete show ?thesis by blast
qed

lemma shape_filters_iff:
  assumes "deterministic_path_shape_filters events m t lo = Inr fs"
  shows "(\<forall>f \<in> set fs. \<exists>sh. learned_ok [(''path_shape'', PStr sh)] f \<and> shape_evidence events m lo sh)
     \<and> (\<forall>sh. shape_evidence events m lo sh \<longrightarrow> (\<exists>f \<in> set fs. learned_ok [(''path_shape'', PStr sh)] f))"
proof -
  let ?f = "shape_group_filter m (clamp_ttl t 60) lo"
  let ?groups = "by_size (group_pairs (List.map_filter shape_pair events))"
  from assms obtain yss where yss: "rmap ?f ?groups = Inr yss" and fs: "fs = concat yss"
    by (auto simp: deterministic_path_shape_filters_def rbind_Inr_iff)
  have groups: "(sh, g) \<in> set ?groups \<longleftrightarrow> g = shape_group events sh \<and> g \<noteq> [] \<and> sh \<noteq> []
      \<and> is_learnable_attack_shape sh" for sh g
    using shape_pairs_group [of sh events] by (auto simp: group_pairs_item)
  have sound: "\<exists>sh. learned_ok [(''path_shape'', PStr sh)] f \<and> shape_evidence events m lo sh"
    if "f \<in> set fs" for f
  proof -
    from that obtain sh g ys where item: "(sh, g) \<in> set ?groups"
      and ys: "?f (sh, g) = Inr ys" "f \<in> set ys"
      unfolding fs rmap_concat_iff [OF yss] by auto
    from shape_group_filter_Inr [OF ys(1)] ys(2) item groups show ?thesis
      by (auto simp: shape_evidence_def Let_def split: if_splits)
  qed
  have complete: "\<exists>f \<in> set fs. learned_ok [(''path_shape'', PStr sh)] f"
    if "shape_evidence events m lo sh" for sh
  proof -
    let ?g = "shape_group events sh"
    from that have item: "(sh, ?g) \<in> set ?groups"
      using groups [of sh ?g] by (simp add: shape_evidence_def Let_def del: set_by_size)
    with rmap_all_Inr_ex [OF yss] obtain ys where ys: "?f (sh, ?g) = Inr ys" by blast
    with shape_group_filter_Inr [OF ys] that obtain f where f: "ys = [f]" "learned_ok [(''path_shape'', PStr sh)] f"
      by (auto simp: shape_evidence_def Let_def split: if_splits)
    have "f \<in> set fs" unfolding fs rmap_concat_iff [OF yss] using ys f(1) by (intro bexI [OF _ item]) simp
    with f show ?thesis by blast
  qed
  from sound complete show ?thesis by blast
qed

section \<open>The merged generators\<close>

text \<open>
  Both generators only build rules that the sanitizer accepts, whatever default time to live it is
  given, and the key of an accepted rule does not depend on that default.
\<close>

definition learned_key :: "string \<Rightarrow> dict \<Rightarrow> bool" where
  "learned_key k f \<longleftrightarrow> (\<exists>clean. (\<forall>fb. sanitize_filter f fb = Inr clean) \<and> filter_key clean = k)"

lemma learned_ok_key:
  assumes "learned_ok c f"
  obtains k where "learned_key k f" and "k \<noteq> ''id:''"
proof -
  from assms obtain i p t where s: "\<And>fb. sanitize_filter f fb = Inr (rule_dict i True p t (clean_condition c))"
    by (rule learned_ok_sanitize) blast
  then have "learned_key (filter_key (rule_dict i True p t (clean_condition c))) f"
    unfolding learned_key_def by blast
  moreover have "filter_key (rule_dict i True p t (clean_condition c)) \<noteq> ''id:''"
    by (rule filter_key_not_bare) (rule sanitize_filter_wf [OF s])
  ultimately show ?thesis using that by blast
qed

lemma learned_key_unique: "learned_key k f \<Longrightarrow> learned_key k' f \<Longrightarrow> k = k'"
  unfolding learned_key_def by (metis sum.inject(2))

lemma keep_by_key_learned:
  "learned_key k f \<Longrightarrow> k \<noteq> ''id:'' \<Longrightarrow> keep_by_key ttl merged f = Inr (dset k f merged)"
  by (auto simp: learned_key_def keep_by_key_def Let_def)

lemma set_update_cases: "x \<in> set (AList.update k v xs) \<Longrightarrow> x = (k, v) \<or> x \<in> set xs"
  by (induction xs) (auto split: if_splits)

lemma rfold_keep_by_key:
  "\<forall>f \<in> set fs. \<exists>c. learned_ok c f \<Longrightarrow>
     \<exists>out. rfold (keep_by_key ttl) merged fs = Inr out
       \<and> (\<forall>kf \<in> set out. kf \<in> set merged \<or> snd kf \<in> set fs \<and> learned_key (fst kf) (snd kf))
       \<and> set (dkeys merged) \<subseteq> set (dkeys out)
       \<and> (\<forall>f \<in> set fs. \<forall>k. learned_key k f \<longrightarrow> k \<in> set (dkeys out))"
proof (induction fs arbitrary: merged)
  case Nil
  then show ?case by simp
next
  case (Cons f fs)
  from Cons.prems obtain c where "learned_ok c f" by auto
  then obtain k where k: "learned_key k f" "k \<noteq> ''id:''" by (rule learned_ok_key)
  let ?m = "dset k f merged"
  from Cons.IH [of ?m] Cons.prems obtain out where
    out: "rfold (keep_by_key ttl) ?m fs = Inr out"
      "\<forall>kf \<in> set out. kf \<in> set ?m \<or> snd kf \<in> set fs \<and> learned_key (fst kf) (snd kf)"
      "set (dkeys ?m) \<subseteq> set (dkeys out)"
      "\<forall>f \<in> set fs. \<forall>k. learned_key k f \<longrightarrow> k \<in> set (dkeys out)"
    by auto
  have keys: "set (dkeys ?m) = insert k (set (dkeys merged))"
    by (simp add: dom_update)
  have "rfold (keep_by_key ttl) merged (f # fs) = Inr out"
    using out(1) by (simp add: keep_by_key_learned [OF k])
  moreover have "\<forall>kf \<in> set out. kf \<in> set merged \<or> snd kf \<in> set (f # fs) \<and> learned_key (fst kf) (snd kf)"
    using out(2) set_update_cases [of _ k f merged] k(1) by fastforce
  moreover have "set (dkeys merged) \<subseteq> set (dkeys out)"
    and "\<forall>f' \<in> set (f # fs). \<forall>k. learned_key k f' \<longrightarrow> k \<in> set (dkeys out)"
    using out(3,4) learned_key_unique [OF k(1)] unfolding keys by auto
  ultimately show ?case by blast
qed

lemma deterministic_filters_iff:
  assumes "deterministic_filters events m t lo = Inr fs"
  shows "(\<forall>f \<in> set fs. (\<exists>s. learned_ok [(''signature'', s)] f \<and> signature_evidence events m lo s)
          \<or> (\<exists>sh. learned_ok [(''path_shape'', PStr sh)] f \<and> shape_evidence events m lo sh))
     \<and> (\<forall>s. signature_evidence events m lo s \<longrightarrow>
          (\<exists>g. learned_ok [(''signature'', s)] g \<and> (\<forall>k. learned_key k g \<longrightarrow> (\<exists>f \<in> set fs. learned_key k f))))
     \<and> (\<forall>sh. shape_evidence events m lo sh \<longrightarrow>
          (\<exists>g. learned_ok [(''path_shape'', PStr sh)] g
             \<and> (\<forall>k. learned_key k g \<longrightarrow> (\<exists>f \<in> set fs. learned_key k f))))"
proof -
  from assms obtain shapes sigs merged where
    shapes: "deterministic_path_shape_filters events m (clamp_ttl t 60) lo = Inr shapes"
    and sigs: "deterministic_signature_filters events m (clamp_ttl t 60) lo = Inr sigs"
    and merged: "rfold (keep_by_key (clamp_ttl t 60)) [] (shapes @ sigs) = Inr merged"
    and fs: "fs = dvalues merged"
    by (auto simp: deterministic_filters_def rbind_Inr_iff)
  note S = signature_filters_iff [OF sigs]
  note P = shape_filters_iff [OF shapes]
  from S P have "\<forall>f \<in> set (shapes @ sigs). \<exists>c. learned_ok c f" by auto
  from rfold_keep_by_key [OF this, of "clamp_ttl t 60" "[]"] merged have
    from_list: "\<forall>kf \<in> set merged. snd kf \<in> set (shapes @ sigs) \<and> learned_key (fst kf) (snd kf)"
    and keys: "\<forall>f \<in> set (shapes @ sigs). \<forall>k. learned_key k f \<longrightarrow> k \<in> set (dkeys merged)"
    by auto
  have kept: "\<exists>f \<in> set fs. learned_key k f" if "g \<in> set (shapes @ sigs)" "learned_key k g" for g k
    using keys from_list that unfolding fs by fastforce
  have "(\<exists>s. learned_ok [(''signature'', s)] f \<and> signature_evidence events m lo s)
      \<or> (\<exists>sh. learned_ok [(''path_shape'', PStr sh)] f \<and> shape_evidence events m lo sh)"
    if "f \<in> set fs" for f
    using that from_list S P unfolding fs by fastforce
  moreover have "\<exists>g. learned_ok [(''signature'', s)] g \<and> (\<forall>k. learned_key k g \<longrightarrow> (\<exists>f \<in> set fs. learned_key k f))"
    if "signature_evidence events m lo s" for s
  proof -
    from S that obtain g where "g \<in> set sigs" and "learned_ok [(''signature'', s)] g" by blast
    then show ?thesis using kept [of g] by auto
  qed
  moreover have "\<exists>g. learned_ok [(''path_shape'', PStr sh)] g
      \<and> (\<forall>k. learned_key k g \<longrightarrow> (\<exists>f \<in> set fs. learned_key k f))"
    if "shape_evidence events m lo sh" for sh
  proof -
    from P that obtain g where "g \<in> set shapes" and "learned_ok [(''path_shape'', PStr sh)] g" by blast
    then show ?thesis using kept [of g] by auto
  qed
  ultimately show ?thesis by blast
qed

section \<open>Keys of learned rules\<close>

lemma hex_ascii: "is_hex_lower c \<Longrightarrow> cp c < 128"
  by (auto simp: is_hex_lower_def is_ascii_digit_def)

lemma supported_signature_bounded:
  assumes "is_supported_signature s"
  shows "condition_value_ok ''signature'' s"
proof -
  have "list_all (\<lambda>c. cp c < 128) s"
    using assms hex_ascii by (auto simp: is_supported_signature_def list_all_iff)
  then have "utf8_len s = length s" by (rule utf8_len_ascii)
  then show ?thesis
    using assms
    by (auto simp: condition_value_ok_def bounded_utf8_def is_supported_signature_def
        FILTER_MATCH_VALUE_MAX_BYTES_def)
qed

lemma clean_single_signature:
  "clean_condition [(''signature'', s)] =
     (case s of PStr x \<Rightarrow> if condition_value_ok ''signature'' x then [(''signature'', s)] else [] | _ \<Rightarrow> [])"
  by (cases s) (simp_all add: clean_condition_def clean_string_entry_def clean_methods_def clean_headers_def
      condition_string_keys_def dget_def List.map_filter_simps)

lemma clean_single_shape:
  "clean_condition [(''path_shape'', PStr sh)] =
     (if condition_value_ok ''path_shape'' sh then [(''path_shape'', PStr sh)] else [])"
  by (simp add: clean_condition_def clean_string_entry_def clean_methods_def clean_headers_def
      condition_string_keys_def dget_def List.map_filter_simps)

lemma learned_signature_key:
  assumes "learned_ok [(''signature'', PStr s)] f" and "is_supported_signature s"
  shows "learned_key (''signature:'' @ s) f"
proof -
  from assms(1) obtain i p t where
    san: "\<And>fb. sanitize_filter f fb = Inr (rule_dict i True p t (clean_condition [(''signature'', PStr s)]))"
    by (rule learned_ok_sanitize) blast
  have "filter_key (rule_dict i True p t [(''signature'', PStr s)]) = ''signature:'' @ s"
    by (rule filter_key_signature) simp
  then show ?thesis
    unfolding learned_key_def
    using san supported_signature_bounded [OF assms(2)] by (simp add: clean_single_signature)
qed

lemma learned_shape_key:
  assumes "learned_ok [(''path_shape'', PStr sh)] f" and "bounded_utf8 sh FILTER_MATCH_VALUE_MAX_BYTES"
  shows "learned_key (''path_shape:'' @ sh) f"
proof -
  from assms(1) obtain i p t where
    san: "\<And>fb. sanitize_filter f fb = Inr (rule_dict i True p t (clean_condition [(''path_shape'', PStr sh)]))"
    by (rule learned_ok_sanitize) blast
  have "filter_key (rule_dict i True p t [(''path_shape'', PStr sh)]) = ''path_shape:'' @ sh"
    by (rule filter_key_path_shape) simp_all
  moreover have "condition_value_ok ''path_shape'' sh"
    using assms(2) by (simp add: condition_value_ok_def)
  ultimately show ?thesis
    unfolding learned_key_def using san by (simp add: clean_single_shape)
qed

section \<open>Covering the provider's rules\<close>

lemma rfold_cover:
  assumes "rfold (cover_fallback ttl) st fs = Inr out"
    and "set (snd st) = filter_key ` set (fst st)"
  shows "(\<exists>ext. fst out = fst st @ ext
            \<and> (\<forall>r \<in> set ext. filter_has_matcher r \<and> (\<exists>f \<in> set fs. sanitize_filter f ttl = Inr r)))
     \<and> (\<forall>f \<in> set fs. \<forall>r. sanitize_filter f ttl = Inr r \<longrightarrow> filter_has_matcher r \<longrightarrow>
            filter_key r \<in> filter_key ` set (fst out))"
  using assms
proof (induction fs arbitrary: st)
  case Nil
  then show ?case by auto
next
  case (Cons f fs)
  from Cons.prems(1) obtain st1 where st1: "cover_fallback ttl st f = Inr st1"
    and rest: "rfold (cover_fallback ttl) st1 fs = Inr out" by auto
  from st1 obtain clean where clean: "sanitize_filter f ttl = Inr clean"
    by (auto simp: cover_fallback_def Let_def rbind_Inr_iff)
  define hit where "hit \<longleftrightarrow> filter_has_matcher clean \<and> filter_key clean \<notin> set (snd st)"
  have key: "filter_key clean \<noteq> ''id:''" by (rule filter_key_not_bare [OF sanitize_filter_wf [OF clean]])
  have step: "st1 = (if hit then (fst st @ [clean], filter_key clean # snd st) else st)"
    using st1 clean key by (auto simp: cover_fallback_def Let_def hit_def split: if_splits)
  have keys: "set (snd st1) = filter_key ` set (fst st1)" using Cons.prems(2) by (simp add: step)
  have covered: "filter_has_matcher clean \<longrightarrow> filter_key clean \<in> filter_key ` set (fst st1)"
    using Cons.prems(2) by (auto simp: step hit_def)
  from Cons.IH [OF rest keys] obtain ext where ext: "fst out = fst st1 @ ext"
    "\<forall>r \<in> set ext. filter_has_matcher r \<and> (\<exists>f \<in> set fs. sanitize_filter f ttl = Inr r)"
    and all: "\<forall>f \<in> set fs. \<forall>r. sanitize_filter f ttl = Inr r \<longrightarrow> filter_has_matcher r \<longrightarrow>
            filter_key r \<in> filter_key ` set (fst out)" by blast
  have "\<exists>ext. fst out = fst st @ ext
      \<and> (\<forall>r \<in> set ext. filter_has_matcher r \<and> (\<exists>g \<in> set (f # fs). sanitize_filter g ttl = Inr r))"
    using ext clean by (intro exI [of _ "(if hit then [clean] else []) @ ext"]) (auto simp: step hit_def)
  moreover have "filter_key r \<in> filter_key ` set (fst out)"
    if "g \<in> set (f # fs)" "sanitize_filter g ttl = Inr r" "filter_has_matcher r" for g r
    using that all covered clean ext(1) by auto
  ultimately show ?case by blast
qed

lemma merge_strong_coverage_split:
  assumes "merge_strong_coverage provider events m t lo = Inr out"
  obtains merged fallbacks ext where
    "sanitized_filter_list (PList (map PDict provider)) t = Inr merged"
    "deterministic_filters events m t lo = Inr fallbacks"
    "out = merged @ ext"
    "\<forall>r \<in> set ext. filter_has_matcher r \<and> (\<exists>f \<in> set fallbacks. sanitize_filter f t = Inr r)"
    "\<forall>f \<in> set fallbacks. \<forall>r. sanitize_filter f t = Inr r \<longrightarrow> filter_has_matcher r \<longrightarrow>
       filter_key r \<in> filter_key ` set out"
proof -
  from assms obtain merged fallbacks st where
    m: "sanitized_filter_list (PList (map PDict provider)) t = Inr merged"
      "deterministic_filters events m t lo = Inr fallbacks"
    and st: "rfold (cover_fallback t) (merged, map filter_key merged) fallbacks = Inr st"
    and out: "out = fst st"
    by (auto simp: merge_strong_coverage_def rbind_Inr_iff)
  from rfold_cover [OF st] show ?thesis using that [OF m] by (auto simp: out)
qed

lemma learned_key_matcher:
  assumes "learned_key k f" and "k = ''signature:'' @ s \<or> k = ''path_shape:'' @ s"
    and "sanitize_filter f t = Inr r"
  shows "filter_key r = k \<and> filter_has_matcher r"
proof -
  from assms(1,3) have key: "filter_key r = k" by (auto simp: learned_key_def)
  from assms(3) have "wf_filter r" by (rule sanitize_filter_wf)
  then obtain i e p tt c where r: "r = rule_dict i e p tt c" by (auto simp: wf_filter_def)
  have "c \<noteq> []"
  proof
    assume "c = []"
    then have "take 3 (filter_key r) = ''id:''" by (simp add: r filter_key_def dget_def)
    with key assms(2) show False by auto
  qed
  with key r show ?thesis by simp
qed

lemma coverage_of_key:
  assumes "merge_strong_coverage provider events m t lo = Inr out"
    and "deterministic_filters events m t lo = Inr fallbacks"
    and "f \<in> set fallbacks" and "learned_key k f"
    and "k = ''signature:'' @ s \<or> k = ''path_shape:'' @ s"
  shows "\<exists>r \<in> set out. filter_key r = k"
proof -
  from assms(4) obtain r where r: "sanitize_filter f t = Inr r" by (auto simp: learned_key_def)
  from learned_key_matcher [OF assms(4,5) r] have k: "filter_key r = k" "filter_has_matcher r" by auto
  from assms(1) obtain fb where "deterministic_filters events m t lo = Inr fb"
    and "\<forall>f \<in> set fb. \<forall>r. sanitize_filter f t = Inr r \<longrightarrow> filter_has_matcher r \<longrightarrow>
       filter_key r \<in> filter_key ` set out"
    by (rule merge_strong_coverage_split) blast
  with assms(2,3) r k have "k \<in> filter_key ` set out" by fastforce
  then show ?thesis by auto
qed

section \<open>Totality\<close>

text \<open>An event that \<open>read_events\<close> can yield and whose reason can be looked up in a set.\<close>

definition plain_event :: "dict \<Rightarrow> bool" where
  "plain_event e \<longleftrightarrow> has_signature e \<and> (\<exists>b. is_strong e = Inr b)"

lemma rmap_ex: "(\<And>x. x \<in> set xs \<Longrightarrow> \<exists>y. f x = Inr y) \<Longrightarrow> \<exists>ys. rmap f xs = Inr ys"
  using rmap_total [of xs f] by blast

lemma strong_count_total: "list_all plain_event es \<Longrightarrow> \<exists>n. strong_count es = Inr n"
  using rmap_ex [of es is_strong] by (auto simp: strong_count_def plain_event_def list_all_iff)

lemma signature_filters_total:
  assumes "list_all plain_event events"
  shows "\<exists>fs. deterministic_signature_filters events m t lo = Inr fs"
proof -
  have "\<exists>pairs. rmap (\<lambda>e. rbind (signature_key e) (\<lambda>s. Inr (s, e))) events = Inr pairs"
    using assms by (intro rmap_ex) (auto simp: list_all_iff plain_event_def has_signature_def signature_key_def)
  then obtain pairs where pairs: "rmap (\<lambda>e. rbind (signature_key e) (\<lambda>s. Inr (s, e))) events = Inr pairs" ..
  have "\<exists>fs. signature_group_filter m (clamp_ttl t 60) lo item = Inr fs"
    if "item \<in> set (by_size (group_pairs pairs))" for item
  proof -
    obtain s g where item: "item = (s, g)" by fastforce
    with that have "g = signature_group events s"
      by (simp add: group_pairs_item signature_pairs_group [OF pairs])
    with assms have "list_all plain_event g" by (auto simp: signature_group_def list_all_iff)
    from strong_count_total [OF this] show ?thesis by (auto simp: item signature_group_filter_def)
  qed
  then have "\<exists>yss. rmap (signature_group_filter m (clamp_ttl t 60) lo) (by_size (group_pairs pairs)) = Inr yss"
    by (intro rmap_ex)
  then show ?thesis using pairs by (auto simp: deterministic_signature_filters_def)
qed

lemma shape_filters_total:
  assumes "list_all plain_event events"
  shows "\<exists>fs. deterministic_path_shape_filters events m t lo = Inr fs"
proof -
  let ?groups = "by_size (group_pairs (List.map_filter shape_pair events))"
  have "\<exists>fs. shape_group_filter m (clamp_ttl t 60) lo item = Inr fs" if "item \<in> set ?groups" for item
  proof -
    obtain s g where item: "item = (s, g)" by fastforce
    with that have "set g \<subseteq> set events"
      by (auto simp: group_pairs_item shape_pairs_group shape_group_def split: if_splits)
    with assms have "list_all plain_event g" by (auto simp: list_all_iff)
    from strong_count_total [OF this] show ?thesis by (auto simp: item shape_group_filter_def Let_def)
  qed
  then have "\<exists>yss. rmap (shape_group_filter m (clamp_ttl t 60) lo) ?groups = Inr yss"
    by (intro rmap_ex)
  then show ?thesis by (auto simp: deterministic_path_shape_filters_def)
qed

lemma deterministic_filters_total:
  assumes "list_all plain_event events"
  shows "\<exists>fs. deterministic_filters events m t lo = Inr fs"
proof -
  let ?t = "clamp_ttl t 60"
  obtain shapes where sh: "deterministic_path_shape_filters events m ?t lo = Inr shapes"
    using shape_filters_total [OF assms] by blast
  obtain sigs where sg: "deterministic_signature_filters events m ?t lo = Inr sigs"
    using signature_filters_total [OF assms] by blast
  have "\<forall>f \<in> set (shapes @ sigs). \<exists>c. learned_ok c f"
    using shape_filters_iff [OF sh] signature_filters_iff [OF sg] by auto
  from rfold_keep_by_key [OF this, of ?t "[]"] show ?thesis
    using sh sg by (auto simp: deterministic_filters_def)
qed

section \<open>Properties of the generator\<close>

text \<open>
  C11. Coverage: whatever the provider proposed, after \<open>merge_strong_coverage\<close> every supported
  signature and every learnable path shape with enough evidence in the batch has a rule under its
  key.
\<close>

theorem merge_strong_coverage_covers:
  assumes "merge_strong_coverage provider events min_count ttl learn_observed = Inr out"
  shows "(signature_evidence events min_count learn_observed (PStr s) \<and> is_supported_signature s
            \<longrightarrow> (\<exists>r \<in> set out. filter_key r = ''signature:'' @ s))
     \<and> (shape_evidence events min_count learn_observed shape
            \<and> bounded_utf8 shape FILTER_MATCH_VALUE_MAX_BYTES
            \<longrightarrow> (\<exists>r \<in> set out. filter_key r = ''path_shape:'' @ shape))"
proof -
  from assms obtain fb where fb: "deterministic_filters events min_count ttl learn_observed = Inr fb"
    by (rule merge_strong_coverage_split) blast
  note D = deterministic_filters_iff [OF fb]
  have "\<exists>r \<in> set out. filter_key r = ''signature:'' @ s"
    if ev: "signature_evidence events min_count learn_observed (PStr s)" and sup: "is_supported_signature s"
  proof -
    from D ev obtain g where "learned_ok [(''signature'', PStr s)] g"
      and "\<forall>k. learned_key k g \<longrightarrow> (\<exists>f \<in> set fb. learned_key k f)" by blast
    then obtain f where "f \<in> set fb" "learned_key (''signature:'' @ s) f"
      using learned_signature_key [of s g] sup by blast
    then show ?thesis by (intro coverage_of_key [OF assms fb]) auto
  qed
  moreover have "\<exists>r \<in> set out. filter_key r = ''path_shape:'' @ shape"
    if len: "bounded_utf8 shape FILTER_MATCH_VALUE_MAX_BYTES"
      and ev: "shape_evidence events min_count learn_observed shape"
  proof -
    from D ev obtain g where "learned_ok [(''path_shape'', PStr shape)] g"
      and "\<forall>k. learned_key k g \<longrightarrow> (\<exists>f \<in> set fb. learned_key k f)" by blast
    then obtain f where "f \<in> set fb" "learned_key (''path_shape:'' @ shape) f"
      using learned_shape_key [of shape g] len by blast
    then show ?thesis by (intro coverage_of_key [OF assms fb]) auto
  qed
  ultimately show ?thesis by blast
qed

definition example_event :: "string \<Rightarrow> string \<Rightarrow> string \<Rightarrow> dict" where
  "example_event signature reason shape =
     [(''signature'', PStr signature), (''reason'', PStr reason), (''path_shape'', PStr shape),
      (''path'', PStr ''/p''), (''user_agent'', PStr ''ua'')]"

definition example_attack :: "dict list" where
  "example_attack =
     [example_event ''0123456789abcdef'' ''rate_limited'' ''/api/:hex/:num'',
      example_event ''ffffffffffffffff'' ''observed'' ''/'',
      example_event ''00112233445566ff'' ''filter_block'' ''/api/:hex/:num'']"

theorem merge_strong_coverage_covers_witness:
  "let out = map (\<lambda>r. filter_key r)
       (case merge_strong_coverage [] example_attack 1 60 False of Inr out \<Rightarrow> out | Inl _ \<Rightarrow> [])
   in ''signature:0123456789abcdef'' \<in> set out \<and> ''path_shape:/api/:hex/:num'' \<in> set out"
proof -
  obtain out where out: "merge_strong_coverage [] example_attack 1 60 False = Inr out"
    by (cases "merge_strong_coverage [] example_attack 1 60 False") (simp_all, code_simp)
  have "signature_evidence example_attack 1 False (PStr ''0123456789abcdef'')"
    and "is_supported_signature ''0123456789abcdef''"
    and "shape_evidence example_attack 1 False ''/api/:hex/:num''"
    and "bounded_utf8 ''/api/:hex/:num'' FILTER_MATCH_VALUE_MAX_BYTES"
    by code_simp+
  then have "(\<exists>r \<in> set out. filter_key r = ''signature:'' @ ''0123456789abcdef'')
      \<and> (\<exists>r \<in> set out. filter_key r = ''path_shape:'' @ ''/api/:hex/:num'')"
    using merge_strong_coverage_covers [OF out] by blast
  then show ?thesis by (simp add: out Let_def image_iff) (metis (no_types))
qed

text \<open>
  Nothing without evidence: \<open>merge_strong_coverage\<close> keeps the sanitized rules of the provider,
  in order, and every rule it adds is well formed and blocks one signature or one learnable path
  shape that has enough evidence in the batch.
\<close>

theorem merge_strong_coverage_evidence:
  assumes "merge_strong_coverage provider events min_count ttl learn_observed = Inr out"
  shows "\<exists>kept added. sanitized_filter_list (PList (map PDict provider)) ttl = Inr kept
     \<and> out = kept @ added
     \<and> (\<forall>r \<in> set added. wf_filter r \<and>
          ((\<exists>s. dget r ''condition'' = PDict [(''signature'', PStr s)]
              \<and> signature_evidence events min_count learn_observed (PStr s))
           \<or> (\<exists>shape. dget r ''condition'' = PDict [(''path_shape'', PStr shape)]
              \<and> shape_evidence events min_count learn_observed shape)))"
proof -
  from assms obtain merged fb ext where
    m: "sanitized_filter_list (PList (map PDict provider)) ttl = Inr merged"
    and fb: "deterministic_filters events min_count ttl learn_observed = Inr fb"
    and out: "out = merged @ ext"
    and ext: "\<forall>r \<in> set ext. filter_has_matcher r \<and> (\<exists>f \<in> set fb. sanitize_filter f ttl = Inr r)"
    by (rule merge_strong_coverage_split) blast
  have "wf_filter r \<and>
      ((\<exists>s. dget r ''condition'' = PDict [(''signature'', PStr s)]
          \<and> signature_evidence events min_count learn_observed (PStr s))
       \<or> (\<exists>shape. dget r ''condition'' = PDict [(''path_shape'', PStr shape)]
          \<and> shape_evidence events min_count learn_observed shape))" if "r \<in> set ext" for r
  proof -
    from ext that obtain f where f: "f \<in> set fb" "sanitize_filter f ttl = Inr r" and has: "filter_has_matcher r"
      by blast
    have cond: "dget r ''condition'' = PDict (clean_condition c) \<and> clean_condition c \<noteq> []" if "learned_ok c f" for c
      using that has f(2) by (auto elim!: learned_ok_sanitize)
    from deterministic_filters_iff [OF fb] f(1) consider
      s where "learned_ok [(''signature'', s)] f" "signature_evidence events min_count learn_observed s"
      | sh where "learned_ok [(''path_shape'', PStr sh)] f" "shape_evidence events min_count learn_observed sh"
      by blast
    then show ?thesis
    proof cases
      case 1
      with cond [OF 1(1)] show ?thesis
        by (cases s) (auto simp: clean_single_signature sanitize_filter_wf [OF f(2)] split: if_splits)
    next
      case 2
      with cond [OF 2(1)] show ?thesis
        by (auto simp: clean_single_shape sanitize_filter_wf [OF f(2)] split: if_splits)
    qed
  qed
  with m out show ?thesis by blast
qed

theorem merge_strong_coverage_evidence_witness:
  "\<exists>kept added. sanitized_filter_list (PList (map PDict [example_item])) 60 = Inr kept
     \<and> merge_strong_coverage [example_item] example_attack 1 60 False = Inr (kept @ added)
     \<and> length kept = 1 \<and> length added = 2"
proof -
  let ?out = "case merge_strong_coverage [example_item] example_attack 1 60 False of Inr out \<Rightarrow> out | Inl _ \<Rightarrow> []"
  obtain out where out: "merge_strong_coverage [example_item] example_attack 1 60 False = Inr out"
    by (cases "merge_strong_coverage [example_item] example_attack 1 60 False") (simp_all, code_simp)
  have kept: "sanitized_filter_list (PList (map PDict [example_item])) 60 = Inr [example_rule]"
    and "length ?out = 3" by code_simp+
  with merge_strong_coverage_evidence [OF out] out show ?thesis by auto
qed



end
