(* ===== verification/Provider_Config.thy ===== *)
theory Provider_Config
  imports Json_File
begin

text \<open>
  The provider configuration of \<open>tools/codex_analyzer.py\<close>: the built-in defaults, the recursive
  overlay of a user file on them (\<open>deep_merge\<close>), the choice of the provider and the lookup of its
  API key.  The environment variables and the two JSON files are arguments.
\<close>

section \<open>Defaults\<close>

definition default_providers :: dict where
  "default_providers =
     [(''codex'', PDict [(''model'', PStr ''gpt-5.5''), (''reasoning_effort'', PStr ''high''),
         (''service_tier'', PStr ''fast'')]),
      (''openai'', PDict [(''model'', PStr ''gpt-5.5''), (''api_key_env'', PStr ''OPENAI_API_KEY''),
         (''base_url'', PStr ''https://api.openai.com/v1'')]),
      (''anthropic'', PDict [(''model'', PStr ''claude-sonnet-4-6''),
         (''api_key_env'', PStr ''ANTHROPIC_API_KEY''),
         (''base_url'', PStr ''https://api.anthropic.com/v1''),
         (''anthropic_version'', PStr ''2023-06-01'')]),
      (''gemini'', PDict [(''model'', PStr ''gemini-2.5-pro''), (''api_key_env'', PStr ''GEMINI_API_KEY''),
         (''base_url'', PStr ''https://generativelanguage.googleapis.com/v1beta'')]),
      (''openrouter'', PDict [(''model'', PStr ''~openai/gpt-latest''),
         (''api_key_env'', PStr ''OPENROUTER_API_KEY''),
         (''base_url'', PStr ''https://openrouter.ai/api/v1''), (''app_title'', PStr ''AlturaProt'')]),
      (''claude'', PDict [(''kind'', PStr ''cli_agent''), (''command'', PStr ''claude''),
         (''model'', PStr []), (''login_cmd'', PStr ''claude auth login''),
         (''install_url'', PStr ''https://docs.claude.com/claude-code'')]),
      (''opencode'', PDict [(''kind'', PStr ''cli_agent''), (''command'', PStr ''opencode''),
         (''model'', PStr []), (''login_cmd'', PStr ''opencode auth login''),
         (''install_url'', PStr ''https://opencode.ai'')]),
      (''cursor'', PDict [(''kind'', PStr ''cli_agent''), (''command'', PStr ''cursor-agent''),
         (''model'', PStr []), (''login_cmd'', PStr ''cursor-agent login''),
         (''install_url'', PStr ''https://cursor.com/cli'')]),
      (''grok'', PDict [(''kind'', PStr ''cli_agent''), (''command'', PStr ''grok''),
         (''model'', PStr []), (''login_cmd'', PStr ''grok login''),
         (''install_url'', PStr ''https://github.com/superagent-ai/grok-cli'')])]"

definition DEFAULT_PROVIDER_CONFIG :: dict where
  "DEFAULT_PROVIDER_CONFIG =
     [(''selected_provider'', PStr ''codex''), (''providers'', PDict default_providers)]"

definition CLI_AGENT_PROVIDERS :: "string list" where
  "CLI_AGENT_PROVIDERS = [''claude'', ''opencode'', ''cursor'', ''grok'']"

definition ALL_PROVIDERS :: "string list" where
  "ALL_PROVIDERS = dkeys default_providers"

section \<open>Operations\<close>

text \<open>The in-place overlay, as a function from the old base to the new one.\<close>

function deep_merge :: "dict \<Rightarrow> dict \<Rightarrow> dict" where
  "deep_merge base [] = base"
| "deep_merge base ((key, value) # override) =
     deep_merge
       (case value of
          PDict d \<Rightarrow> (case map_of base key of
                       Some (PDict b) \<Rightarrow> dset key (PDict (deep_merge b d)) base
                     | _ \<Rightarrow> dset key value base)
        | _ \<Rightarrow> dset key value base)
       override"
  by pat_completeness auto
termination
  by (relation "measure (\<lambda>(base, override). size_list (size_prod (\<lambda>_. 0) size) override)") auto

text \<open>\<open>load_provider_config\<close>: a user file that is not an object has no \<open>items\<close>.\<close>

definition load_provider_config :: "json_file \<Rightarrow> dict result" where
  "load_provider_config file =
     (case file of
        None \<Rightarrow> Inr DEFAULT_PROVIDER_CONFIG
      | Some content \<Rightarrow>
          rbind content (\<lambda>user_config.
            case user_config of
              PDict u \<Rightarrow> Inr (deep_merge DEFAULT_PROVIDER_CONFIG u)
            | _ \<Rightarrow> Inl AttributeError))"

definition write_provider_config :: "dict \<Rightarrow> json_file" where
  "write_provider_config config = Some (Inr (sort_keys (PDict config)))"

definition load_provider_secrets :: "json_file \<Rightarrow> pyval result" where
  "load_provider_secrets file = (case file of None \<Rightarrow> Inr (PDict []) | Some content \<Rightarrow> content)"

definition write_provider_secrets :: "pyval \<Rightarrow> json_file" where
  "write_provider_secrets secrets = Some (Inr (sort_keys secrets))"

text \<open>The first argument is \<open>args.provider\<close>.\<close>

definition resolve_provider :: "string \<Rightarrow> dict \<Rightarrow> string result" where
  "resolve_provider requested config =
     (let provider = (if requested = ''auto''
                      then py_str (py_or (dget config ''selected_provider'') (PStr ''codex''))
                      else requested)
      in if provider \<notin> set ALL_PROVIDERS
         then Inl (ValueError (''unsupported provider: '' @ provider))
         else Inr provider)"

text \<open>
  \<open>config.setdefault("providers", {})\<close> may extend the configuration, which is returned first.
\<close>

definition provider_config ::
  "dict \<Rightarrow> string \<Rightarrow> string option \<Rightarrow> (dict \<times> dict) result" where
  "provider_config config provider model_override =
     (let config = (if map_of config ''providers'' = None
                    then dset ''providers'' (PDict []) config else config)
      in case map_of default_providers provider of
           None \<Rightarrow> Inl (KeyError provider)
         | Some defaults \<Rightarrow>
             (case dget config ''providers'' of
                PDict providers \<Rightarrow>
                  (let merged = dict_or_empty defaults;
                       merged = (case dget providers provider of
                                   PDict own \<Rightarrow> deep_merge merged own
                                 | _ \<Rightarrow> merged);
                       merged = (case model_override of
                                   Some m \<Rightarrow> if m \<noteq> [] then dset ''model'' (PStr m) merged else merged
                                 | None \<Rightarrow> merged)
                   in Inr (config, merged))
              | _ \<Rightarrow> Inl AttributeError))"

definition missing_key_message :: "string \<Rightarrow> string \<Rightarrow> string" where
  "missing_key_message provider env_name =
     ''missing API key for '' @ provider @ ''; set ''
     @ (if env_name \<noteq> [] then env_name else str_upper provider @ ''_API_KEY'')
     @ '' or run tools/ai_provider_cli.py login''"

definition secret_of :: "string \<Rightarrow> string \<Rightarrow> pyval \<Rightarrow> string result" where
  "secret_of provider env_name secrets =
     (case secrets of
        PDict s \<Rightarrow>
          (let value = (case dget s provider of PDict own \<Rightarrow> dget own ''api_key'' | _ \<Rightarrow> PNone)
           in case value of
                PStr key \<Rightarrow> if key \<noteq> [] then Inr key
                            else Inl (RuntimeError (missing_key_message provider env_name))
              | _ \<Rightarrow> Inl (RuntimeError (missing_key_message provider env_name)))
      | _ \<Rightarrow> Inl AttributeError)"

definition provider_api_key ::
  "(string \<Rightarrow> string option) \<Rightarrow> json_file \<Rightarrow> string \<Rightarrow> dict \<Rightarrow> string result" where
  "provider_api_key environ secrets_file provider provider_cfg =
     (let env_name = str_strip (py_str (py_or (dget provider_cfg ''api_key_env'') (PStr [])));
          from_env = (if env_name \<noteq> [] then environ env_name else None)
      in if from_env \<noteq> None \<and> from_env \<noteq> Some [] then Inr (the from_env)
         else rbind (load_provider_secrets secrets_file) (secret_of provider env_name))"

section \<open>Paths into a configuration\<close>

fun lookup_path :: "pyval \<Rightarrow> string list \<Rightarrow> pyval option" where
  "lookup_path v [] = Some v"
| "lookup_path (PDict d) (k # ks) = (case map_of d k of None \<Rightarrow> None | Some v \<Rightarrow> lookup_path v ks)"
| "lookup_path _ (k # ks) = None"

text \<open>Values that JSON decoding yields: the keys of every object are distinct.\<close>

fun wf_val :: "pyval \<Rightarrow> bool"
  and wf_vals :: "pyval list \<Rightarrow> bool"
  and wf_items :: "dict \<Rightarrow> bool" where
  "wf_val (PList xs) = wf_vals xs"
| "wf_val (PDict d) = (distinct (dkeys d) \<and> wf_items d)"
| "wf_val _ = True"
| "wf_vals [] = True"
| "wf_vals (x # xs) = (wf_val x \<and> wf_vals xs)"
| "wf_items [] = True"
| "wf_items ((k, v) # d) = (wf_val v \<and> wf_items d)"

fun is_dict :: "pyval \<Rightarrow> bool" where
  "is_dict (PDict _) = True"
| "is_dict _ = False"

text \<open>A path that an overlay leaves alone: it parts from the overlay at a key of an object.\<close>

fun untouched :: "dict \<Rightarrow> string list \<Rightarrow> bool" where
  "untouched u [] = False"
| "untouched u (k # ks) =
     (case map_of u k of None \<Rightarrow> True | Some (PDict d) \<Rightarrow> untouched d ks | Some _ \<Rightarrow> False)"

lemma wf_items_value: "wf_items d \<Longrightarrow> map_of d k = Some v \<Longrightarrow> wf_val v"
  by (induction d) (auto split: if_splits)

text \<open>The value one key has after an overlay.\<close>

definition overlay :: "pyval option \<Rightarrow> pyval \<Rightarrow> pyval" where
  "overlay old new =
     (case (old, new) of (Some (PDict b), PDict d) \<Rightarrow> PDict (deep_merge b d) | _ \<Rightarrow> new)"

lemma overlay_step:
  "(case v of
      PDict d \<Rightarrow> (case map_of base k of
                   Some (PDict b) \<Rightarrow> dset k (PDict (deep_merge b d)) base
                 | _ \<Rightarrow> dset k v base)
    | _ \<Rightarrow> dset k v base) = dset k (overlay (map_of base k) v) base"
  by (auto simp: overlay_def split: pyval.splits option.splits)

lemma deep_merge_Cons:
  "deep_merge base ((k, v) # u) = deep_merge (dset k (overlay (map_of base k) v) base) u"
  by (simp add: overlay_step)

declare deep_merge.simps(2) [simp del]

lemma overlay_leaf [simp]: "\<not> is_dict v \<Longrightarrow> overlay old v = v"
  by (cases v) (auto simp: overlay_def split: option.splits pyval.splits)

lemma overlay_dict [simp]:
  "overlay (Some (PDict b)) (PDict d) = PDict (deep_merge b d)"
  "overlay None v = v"
  "\<not> is_dict b' \<Longrightarrow> overlay (Some b') v = v"
  by (auto simp: overlay_def split: pyval.splits)

lemma map_of_deep_merge:
  "distinct (dkeys u) \<Longrightarrow> map_of (deep_merge base u) k =
     (case map_of u k of None \<Rightarrow> map_of base k | Some v \<Rightarrow> Some (overlay (map_of base k) v))"
proof (induction u arbitrary: base)
  case Nil
  then show ?case by simp
next
  case (Cons kv u)
  obtain k' v where kv: "kv = (k', v)" by fastforce
  from Cons.prems kv have d: "distinct (dkeys u)" and n: "map_of u k' = None"
    by (auto simp: map_of_eq_None_iff)
  show ?case
    using Cons.IH [OF d] n by (auto simp: kv deep_merge_Cons update_conv' split: option.splits)
qed

lemma lookup_override:
  "wf_val (PDict u) \<Longrightarrow> lookup_path (PDict u) (k # ks) = Some v \<Longrightarrow> \<not> is_dict v \<Longrightarrow>
     lookup_path (PDict (deep_merge base u)) (k # ks) = Some v"
proof (induction ks arbitrary: base u k)
  case Nil
  then have "map_of u k = Some v" by (cases "map_of u k") simp_all
  with Nil show ?case by (simp add: map_of_deep_merge)
next
  case (Cons k2 ks)
  from Cons.prems(2) obtain w where w: "map_of u k = Some w" "lookup_path w (k2 # ks) = Some v"
    by (cases "map_of u k") simp_all
  then obtain d where d: "w = PDict d" by (cases w) auto
  have wf: "wf_val (PDict d)" using Cons.prems(1) w(1) d wf_items_value [of u k w] by simp
  note IH = Cons.IH [OF wf w(2) [unfolded d] Cons.prems(3)]
  have "lookup_path (overlay old (PDict d)) (k2 # ks) = Some v" for old
  proof (cases "\<exists>b. old = Some (PDict b)")
    case True
    then show ?thesis using IH by auto
  next
    case False
    then have "overlay old (PDict d) = PDict d"
      by (auto simp: overlay_def split: option.splits pyval.splits)
    with w(2) d show ?thesis by simp
  qed
  then show ?case using Cons.prems(1) w(1) d by (simp add: map_of_deep_merge)
qed

lemma lookup_untouched:
  "wf_val (PDict u) \<Longrightarrow> untouched u ks \<Longrightarrow> lookup_path (PDict base) ks = Some v \<Longrightarrow>
     lookup_path (PDict (deep_merge base u)) ks = Some v"
proof (induction ks arbitrary: base u)
  case Nil
  then show ?case by simp
next
  case (Cons k ks)
  from Cons.prems(3) obtain b where b: "map_of base k = Some b" "lookup_path b ks = Some v"
    by (auto split: option.splits)
  show ?case
  proof (cases "map_of u k")
    case None
    then show ?thesis using Cons.prems(1) b by (simp add: map_of_deep_merge)
  next
    case (Some w)
    with Cons.prems(2) obtain d where d: "w = PDict d" "untouched d ks" by (cases w) auto
    have "ks \<noteq> []" using d(2) by auto
    then obtain b' where b': "b = PDict b'" using b(2) by (cases b; cases ks) auto
    have wf: "wf_val (PDict d)" using Cons.prems(1) Some d wf_items_value [of u k w] by simp
    show ?thesis
      using Cons.IH [OF wf d(2) b(2) [unfolded b']] Cons.prems(1) Some d b b'
      by (simp add: map_of_deep_merge overlay_def)
  qed
qed

section \<open>Well-formedness is kept\<close>

lemma wf_items_iff: "wf_items d \<longleftrightarrow> (\<forall>kv \<in> set d. wf_val (snd kv))"
  by (induction d) auto

lemma wf_vals_iff: "wf_vals xs \<longleftrightarrow> (\<forall>x \<in> set xs. wf_val x)"
  by (induction xs) auto

lemma wf_update: "wf_val (PDict d) \<Longrightarrow> wf_val v \<Longrightarrow> wf_val (PDict (dset k v d))"
  by (induction d) (auto simp: distinct_update dom_update split: if_splits)

lemma wf_deep_merge: "wf_val (PDict b) \<Longrightarrow> wf_val (PDict u) \<Longrightarrow> wf_val (PDict (deep_merge b u))"
proof (induction b u rule: deep_merge.induct)
  case (1 base)
  then show ?case by simp
next
  case (2 base key v override)
  have v: "wf_val v" and rest: "wf_val (PDict override)" using "2.prems"(2) by auto
  have "wf_val (overlay (map_of base key) v)"
  proof (cases "\<exists>b d. map_of base key = Some (PDict b) \<and> v = PDict d")
    case True
    then obtain b d where bd: "map_of base key = Some (PDict b)" "v = PDict d" by blast
    have "wf_val (PDict b)" using "2.prems"(1) bd(1) wf_items_value [of base key "PDict b"] by simp
    with "2.IH"(1) [OF bd(2) bd(1) refl] v bd show ?thesis by simp
  next
    case False
    then have "overlay (map_of base key) v = v"
      by (auto simp: overlay_def split: option.splits pyval.splits)
    with v show ?thesis by simp
  qed
  from wf_update [OF "2.prems"(1) this] have
    "wf_val (PDict (dset key (overlay (map_of base key) v) base))" .
  from "2.IH"(2) [unfolded overlay_step, OF this rest] show ?case
    by (simp only: deep_merge_Cons)
qed

lemma sorted_dict_keys: "set (dkeys (sorted_dict d)) = set (dkeys d)"
  "distinct (dkeys d) \<Longrightarrow> distinct (dkeys (sorted_dict d))"
proof -
  have keys: "dkeys (sort_keys_items d) = dkeys d" by (induction d) auto
  have "set (dkeys (sorted_dict d)) = set (dkeys (sort_keys_items d))" by (simp add: sorted_dict_def)
  with keys show "set (dkeys (sorted_dict d)) = set (dkeys d)" by metis
  show "distinct (dkeys d) \<Longrightarrow> distinct (dkeys (sorted_dict d))"
    unfolding sorted_dict_def using keys by (metis distinct_map distinct_sort set_sort)
qed

lemma wf_sort_keys:
  "wf_val v \<Longrightarrow> wf_val (sort_keys v)"
  "wf_vals xs \<Longrightarrow> wf_vals (sort_keys_list xs)"
  "wf_items d \<Longrightarrow> wf_items (sort_keys_items d)"
proof (induction v and xs and d rule: sort_keys_sort_keys_list_sort_keys_items.induct)
  case (2 d)
  then have "wf_items (sort_keys_items d)" by simp
  then show ?case
    using 2 sorted_dict_keys(2) [of d] by (simp add: sorted_dict_def wf_items_iff)
qed auto

lemma lookup_sort_keys:
  "wf_val v \<Longrightarrow> lookup_path (sort_keys v) ks = map_option sort_keys (lookup_path v ks)"
proof (induction v ks rule: lookup_path.induct)
  case (2 d k ks)
  then show ?case
    using wf_items_value [of d k]
    by (auto simp: sort_keys_dict map_of_sorted_dict simp del: sort_keys.simps split: option.splits)
qed auto

lemma wf_defaults: "wf_val (PDict DEFAULT_PROVIDER_CONFIG)"
  by code_simp

section \<open>Properties of the configuration\<close>

text \<open>
  The overlay: every setting of the user file that is not itself an object is what the merged
  configuration holds at that path, and every default whose path the user file does not cut off
  survives.
\<close>

theorem deep_merge_lookup:
  assumes "wf_val (PDict override)"
  shows "(\<forall>k v. lookup_path (PDict override) (k # ks) = Some v \<and> \<not> is_dict v \<longrightarrow>
            lookup_path (PDict (deep_merge base override)) (k # ks) = Some v)
     \<and> (\<forall>v. untouched override ks \<and> lookup_path (PDict base) ks = Some v \<longrightarrow>
            lookup_path (PDict (deep_merge base override)) ks = Some v)"
  using lookup_override [OF assms] lookup_untouched [OF assms] by blast

definition example_override :: dict where
  "example_override =
     [(''selected_provider'', PStr ''openai''),
      (''providers'', PDict [(''openai'', PDict [(''model'', PStr ''m1'')])])]"

theorem deep_merge_lookup_witness:
  "lookup_path (PDict (deep_merge DEFAULT_PROVIDER_CONFIG example_override))
     [''providers'', ''openai'', ''model''] = Some (PStr ''m1'')
   \<and> lookup_path (PDict (deep_merge DEFAULT_PROVIDER_CONFIG example_override))
     [''providers'', ''openai'', ''api_key_env''] = Some (PStr ''OPENAI_API_KEY'')"
proof -
  have wf: "wf_val (PDict example_override)" by code_simp
  have "lookup_path (PDict example_override) [''providers'', ''openai'', ''model''] = Some (PStr ''m1'')"
    and "untouched example_override [''providers'', ''openai'', ''api_key_env'']"
    and "lookup_path (PDict DEFAULT_PROVIDER_CONFIG) [''providers'', ''openai'', ''api_key_env'']
      = Some (PStr ''OPENAI_API_KEY'')"
    by code_simp+
  then show ?thesis
    using deep_merge_lookup [OF wf, of "[''openai'', ''model'']" DEFAULT_PROVIDER_CONFIG]
      deep_merge_lookup [OF wf, of "[''providers'', ''openai'', ''api_key_env'']" DEFAULT_PROVIDER_CONFIG]
    by simp
qed

text \<open>
  API keys: \<open>provider_api_key\<close> never returns an empty key, and a non-empty variable of the
  configured name wins over the secrets file, which is then not even read.
\<close>

theorem provider_api_key_sound:
  "(\<forall>key. provider_api_key environ secrets provider cfg = Inr key \<longrightarrow> key \<noteq> [])
   \<and> (\<forall>name key. str_strip (py_str (py_or (dget cfg ''api_key_env'') (PStr []))) = name
        \<and> name \<noteq> [] \<and> environ name = Some key \<and> key \<noteq> [] \<longrightarrow>
        provider_api_key environ secrets provider cfg = Inr key)"
proof -
  have "key \<noteq> []" if "provider_api_key environ secrets provider cfg = Inr key" for key
    using that
    by (auto simp: provider_api_key_def secret_of_def Let_def rbind_Inr_iff split: if_splits pyval.splits)
  moreover have "provider_api_key environ secrets provider cfg = Inr key"
    if "str_strip (py_str (py_or (dget cfg ''api_key_env'') (PStr []))) = name"
      and "name \<noteq> []" and "environ name = Some key" and "key \<noteq> []" for name key
    unfolding provider_api_key_def Let_def that(1) using that(2-4) by simp
  ultimately show ?thesis by blast
qed

theorem provider_api_key_sound_witness:
  "provider_api_key (\<lambda>n. if n = ''OPENAI_API_KEY'' then Some ''k'' else None) (Some (Inl JSONDecodeError))
     ''openai'' [(''api_key_env'', PStr '' OPENAI_API_KEY '')] = Inr ''k''"
proof -
  let ?env = "\<lambda>n. if n = ''OPENAI_API_KEY'' then Some ''k'' else None"
  have "str_strip (py_str (py_or (dget [(''api_key_env'', PStr '' OPENAI_API_KEY '')] ''api_key_env'') (PStr [])))
      = ''OPENAI_API_KEY''" by code_simp
  then show ?thesis
    using provider_api_key_sound [of ?env "Some (Inl JSONDecodeError)" "''openai''"
        "[(''api_key_env'', PStr '' OPENAI_API_KEY '')]"] by simp
qed

end
