(* ===== verification/Provider_Calls.thy ===== *)
theory Provider_Calls
  imports Filter_Sanitizer Provider_Config
begin

text \<open>
  The AI providers of \<open>tools/codex_analyzer.py\<close>: the prompt, the request each provider gets, the
  text taken from its reply, and the JSON taken from that text.  The Codex SDK, the HTTP transport,
  the wrapped agent programs and the JSON codec are the fields of \<open>provider_env\<close>: nothing is assumed
  of what they return.  Whatever a provider answers goes through the sanitizer.
\<close>

section \<open>The outside world\<close>

datatype http_reply = HttpOk string | HttpError int string

datatype cli_reply = CliNotFound | CliTimeout | CliExit int string string

record provider_env =
  environ :: "string \<Rightarrow> string option"
  env_secrets :: json_file
  json_loads :: "string \<Rightarrow> pyval result"
  json_dumps :: "pyval \<Rightarrow> string"
  json_dumps_compact :: "pyval \<Rightarrow> string"
  urlopen :: "string \<Rightarrow> dict \<Rightarrow> string \<Rightarrow> http_reply result"
  codex_import :: "unit result"
  codex_run :: "pyval \<Rightarrow> pyval \<Rightarrow> string option \<Rightarrow> string \<Rightarrow> string result"
  effort_by_name :: "string \<Rightarrow> string option"
  effort_by_value :: "string \<Rightarrow> string option"
  cli_run :: "string list \<Rightarrow> string option \<Rightarrow> pyfloat \<Rightarrow> cli_reply result"

section \<open>The prompt\<close>

definition SYSTEM_PROMPT :: string where
  "SYSTEM_PROMPT = join_with [LF]
     [''You convert defensive HTTP flood telemetry into safe AlturaProt filter rules.'',
      ''Return JSON only. Prefer narrow signature-based adaptive filters. Treat rate_limited,'',
      ''global_rate_limited, per_ip_rate_limited, signature_rate_limited,'',
      ''path_shape_rate_limited, trusted_proxy_rate_limited, filter_block, and body_too_large'',
      ''events as strong evidence.'',
      ''Treat observed-only volume as weak evidence unless the prompt explicitly allows it.'',
      ''Do not generate commands, code execution, network instructions, broad IP blocks, or'',
      ''always-on catch-all filters. Prefer path_shape over broad path_prefix filters when'',
      ''many unique signatures share the same high-entropy or route-family path shape.'',
      ''Do not hardcode benign route-family exemptions; use the observed event reasons,'',
      ''signature cardinality, and configured min_count to decide whether a shape is'',
      ''attack evidence. Dictionary slug and :hex path shapes are valid adaptive targets.'']"

definition prompt_rules :: "string list" where
  \<open>prompt_rules =
     [''Output JSON only.'',
      ''Use only this schema: {"filters":[FilterRule...]}'',
      ''FilterRule fields: id, enabled, adaptive, priority, ttl_seconds, condition, action.'',
      ''condition may only contain signature, methods, path_exact, path_prefix, path_contains, path_shape, query_contains, user_agent_contains, headers.'',
      ''action must be {"kind":"block","status":403,"body":"blocked by adaptive filter'' @ [CHR 0x5C] @ ''n"}.'',
      ''Prefer events whose reason is rate_limited, global_rate_limited, per_ip_rate_limited, signature_rate_limited, path_shape_rate_limited, trusted_proxy_rate_limited, filter_block, or body_too_large.'',
      ''Observed-only volume is weak evidence; use it only when allow_observed_learning is true.'',
      ''For every strong signature group at or above min_count, include at least one adaptive signature filter unless a narrower condition is clearly safer.'',
      ''Prefer signature conditions. Add path/user-agent conditions only when they are obvious and reduce false positives.'',
      ''If many observed events have unique signatures but the same path_shape, prefer a path_shape filter over a broad /api path_prefix filter.'',
      ''Do not treat source-known benign-looking route families as automatic exemptions; require the same evidence threshold for every shape.'',
      ''Dictionary slug shapes like /api/subscription/:num and hex shapes like /api/:hex/:num are valid adaptive path_shape targets during floods.'',
      ''Do not suggest shell commands, code execution, network calls, broad always-on blocks, or always-active rules.'']\<close>

definition build_prompt :: "dict list \<Rightarrow> int \<Rightarrow> int \<Rightarrow> dict result" where
  "build_prompt events min_count ttl_seconds =
     rbind (bounded_ttl_seconds (PInt ttl_seconds) 60) (\<lambda>ttl_seconds.
       Inr [(''task'', PStr ''Analyze these AlturaProt HTTP attack events and propose defensive adaptive filters.''),
            (''rules'', PList (map PStr prompt_rules)),
            (''min_count'', PInt min_count),
            (''ttl_seconds'', PInt ttl_seconds),
            (''allow_observed_learning'', PBool False),
            (''events'', PList (map PDict events))])"

section \<open>From a reply to filters\<close>

definition fence :: string where "fence = ''```''"

text \<open>\<open>re.sub\<close> of \<open>^```(?:json)?\<close> and of \<open>```$\<close>; the text has no blanks at its ends.\<close>

definition drop_open_fence :: "string \<Rightarrow> string" where
  "drop_open_fence text =
     (if starts_with text (fence @ ''json'') then drop 7 text
      else if starts_with text fence then drop 3 text else text)"

definition drop_close_fence :: "string \<Rightarrow> string" where
  "drop_close_fence text =
     (if ends_with text fence then take (length text - 3) text else text)"

definition unfence :: "string \<Rightarrow> string" where
  "unfence text =
     (let text = str_strip text
      in if starts_with text fence
         then str_strip (drop_close_fence (str_strip (drop_open_fence text)))
         else text)"

text \<open>\<open>text[text.find("{") : text.rfind("}") + 1]\<close> when both are there, in that order.\<close>

definition json_span :: "string \<Rightarrow> string" where
  "json_span text =
     (let start = length (takeWhile (\<lambda>c. c \<noteq> CHR ''{'') text);
          tail = length (takeWhile (\<lambda>c. c \<noteq> CHR ''}'') (rev text))
      in if start < length text \<and> tail < length text \<and> start < length text - 1 - tail
         then drop start (take (length text - tail) text) else text)"

definition extract_json :: "(string \<Rightarrow> pyval result) \<Rightarrow> string \<Rightarrow> pyval result" where
  "extract_json loads text = loads (json_span (unfence text))"

definition reply_filters :: "provider_env \<Rightarrow> string \<Rightarrow> int \<Rightarrow> dict list result" where
  "reply_filters env text ttl_seconds =
     rbind (extract_json (json_loads env) text) (\<lambda>parsed.
       sanitized_filter_list
         (case parsed of PDict d \<Rightarrow> dget_or d ''filters'' (PList []) | _ \<Rightarrow> PList []) ttl_seconds)"

section \<open>Reply formats\<close>

definition openai_content_text :: "pyval \<Rightarrow> string list" where
  "openai_content_text content =
     (case content of
        PDict c \<Rightarrow> (case py_or (dget c ''text'') (dget c ''content'') of PStr t \<Rightarrow> [t] | _ \<Rightarrow> [])
      | _ \<Rightarrow> [])"

definition openai_item_texts :: "pyval \<Rightarrow> string list result" where
  "openai_item_texts item =
     rbind (py_iter (case item of PDict d \<Rightarrow> dget_or d ''content'' (PList []) | _ \<Rightarrow> PList []))
       (\<lambda>contents. Inr (concat (map openai_content_text contents)))"

definition response_text_from_openai :: "pyval \<Rightarrow> string result" where
  "response_text_from_openai data =
     (case data of
        PDict d \<Rightarrow>
          (case dget d ''output_text'' of
             PStr t \<Rightarrow> Inr t
           | _ \<Rightarrow>
               (case dget d ''output'' of
                  PList items \<Rightarrow>
                    rbind (rmap openai_item_texts items) (\<lambda>texts. Inr (join_with [LF] (concat texts)))
                | _ \<Rightarrow> Inr []))
      | _ \<Rightarrow> Inl AttributeError)"

definition anthropic_item_text :: "pyval \<Rightarrow> string list" where
  "anthropic_item_text item =
     (case item of
        PDict d \<Rightarrow>
          if dget d ''type'' = PStr ''text''
          then (case dget d ''text'' of PStr t \<Rightarrow> [t] | _ \<Rightarrow> []) else []
      | _ \<Rightarrow> [])"

definition response_text_from_anthropic :: "pyval \<Rightarrow> string result" where
  "response_text_from_anthropic data =
     (case data of
        PDict d \<Rightarrow>
          (case dget d ''content'' of
             PList items \<Rightarrow> Inr (join_with [LF] (concat (map anthropic_item_text items)))
           | _ \<Rightarrow> Inr [])
      | _ \<Rightarrow> Inl AttributeError)"

definition response_text_from_chat_completion :: "pyval \<Rightarrow> string result" where
  "response_text_from_chat_completion data =
     (case data of
        PDict d \<Rightarrow>
          (case dget_or d ''choices'' (PList []) of
             PList (choice # _) \<Rightarrow>
               (let message = (case choice of
                                 PDict c \<Rightarrow> dget_or c ''message'' (PDict []) | _ \<Rightarrow> PDict []);
                    content = (case message of PDict m \<Rightarrow> dget m ''content'' | _ \<Rightarrow> PStr [])
                in Inr (case content of PStr t \<Rightarrow> t | _ \<Rightarrow> []))
           | _ \<Rightarrow> Inr [])
      | _ \<Rightarrow> Inl AttributeError)"

definition gemini_part_text :: "pyval \<Rightarrow> string list" where
  "gemini_part_text part =
     (case part of PDict p \<Rightarrow> (case dget p ''text'' of PStr t \<Rightarrow> [t] | _ \<Rightarrow> []) | _ \<Rightarrow> [])"

definition response_text_from_gemini :: "(pyval \<Rightarrow> string) \<Rightarrow> pyval \<Rightarrow> string result" where
  "response_text_from_gemini dumps data =
     (let unexpected = Inl (RuntimeError (''unexpected Gemini response: '' @ take 300 (dumps data)))
      in case data of
           PDict d \<Rightarrow>
             (case dget d ''candidates'' of
                PList (PDict c # _) \<Rightarrow>
                  rbind (py_iter (case dget_or c ''content'' (PDict []) of
                                    PDict content \<Rightarrow> dget_or content ''parts'' (PList [])
                                  | _ \<Rightarrow> PList [])) (\<lambda>parts.
                    let texts = concat (map gemini_part_text parts)
                    in if texts \<noteq> [] then Inr (concat texts) else unexpected)
              | _ \<Rightarrow> unexpected)
         | _ \<Rightarrow> Inl AttributeError)"

section \<open>Requests\<close>

definition post_json :: "provider_env \<Rightarrow> string \<Rightarrow> dict \<Rightarrow> pyval \<Rightarrow> pyval result" where
  "post_json env url headers payload =
     rbind (urlopen env url headers (json_dumps env payload)) (\<lambda>reply.
       case reply of
         HttpOk body \<Rightarrow> json_loads env body
       | HttpError code body \<Rightarrow>
           Inl (RuntimeError (url @ '' returned HTTP '' @ int_str code @ '': '' @ take 500 body)))"

definition default_field :: "string \<Rightarrow> string \<Rightarrow> pyval" where
  "default_field provider key = dget (dict_or_empty (dget default_providers provider)) key"

text \<open>\<open>provider_cfg.get("base_url", default).rstrip("/")\<close>.\<close>

definition base_url_of :: "string \<Rightarrow> dict \<Rightarrow> string result" where
  "base_url_of provider cfg =
     (case dget_or cfg ''base_url'' (default_field provider ''base_url'') of
        PStr url \<Rightarrow> Inr (rstrip_by (\<lambda>c. c = CHR ''/'') url)
      | _ \<Rightarrow> Inl AttributeError)"

definition model_of :: "string \<Rightarrow> dict \<Rightarrow> pyval" where
  "model_of provider cfg = dget_or cfg ''model'' (default_field provider ''model'')"

definition message :: "string \<Rightarrow> string \<Rightarrow> pyval" where
  "message role content = PDict [(''role'', PStr role), (''content'', PStr content)]"

definition api_key_of :: "provider_env \<Rightarrow> string \<Rightarrow> dict \<Rightarrow> string result" where
  "api_key_of env provider cfg = provider_api_key (environ env) (env_secrets env) provider cfg"

definition reasoning_effort :: "provider_env \<Rightarrow> pyval \<Rightarrow> string option result" where
  "reasoning_effort env raw =
     (if raw = PNone then Inr None
      else let value = str_lower (str_strip (py_str raw))
           in if value = [] then Inr None
              else case effort_by_name env value of
                     Some e \<Rightarrow> Inr (Some e)
                   | None \<Rightarrow>
                       (case effort_by_value env value of
                          Some e \<Rightarrow> Inr (Some e)
                        | None \<Rightarrow> Inl (ValueError (''unsupported Codex reasoning_effort: '' @ py_str raw))))"

definition codex_filters :: "provider_env \<Rightarrow> dict \<Rightarrow> dict \<Rightarrow> int \<Rightarrow> dict list result" where
  "codex_filters env prompt cfg ttl_seconds =
     rbind (codex_import env) (\<lambda>_.
     rbind (reasoning_effort env (dget cfg ''reasoning_effort'')) (\<lambda>effort.
     rbind (codex_run env (dget cfg ''model'') (dget cfg ''service_tier'') effort
              (json_dumps_compact env (PDict prompt))) (\<lambda>text.
     reply_filters env text ttl_seconds)))"

definition openai_filters :: "provider_env \<Rightarrow> dict \<Rightarrow> dict \<Rightarrow> int \<Rightarrow> dict list result" where
  "openai_filters env prompt cfg ttl_seconds =
     rbind (api_key_of env ''openai'' cfg) (\<lambda>api_key.
     rbind (base_url_of ''openai'' cfg) (\<lambda>base_url.
     rbind (post_json env (base_url @ ''/responses'')
              [(''Authorization'', PStr (''Bearer '' @ api_key)), (''Content-Type'', PStr ''application/json'')]
              (PDict [(''model'', model_of ''openai'' cfg),
                      (''input'', PList [message ''system'' SYSTEM_PROMPT,
                                         message ''user'' (json_dumps_compact env (PDict prompt))]),
                      (''store'', PBool False)])) (\<lambda>data.
     rbind (response_text_from_openai data) (\<lambda>text.
     reply_filters env text ttl_seconds))))"

definition anthropic_filters :: "provider_env \<Rightarrow> dict \<Rightarrow> dict \<Rightarrow> int \<Rightarrow> dict list result" where
  "anthropic_filters env prompt cfg ttl_seconds =
     rbind (api_key_of env ''anthropic'' cfg) (\<lambda>api_key.
     rbind (base_url_of ''anthropic'' cfg) (\<lambda>base_url.
     rbind (py_int (dget_or cfg ''max_tokens'' (PInt 2048))) (\<lambda>max_tokens.
     rbind (post_json env (base_url @ ''/messages'')
              [(''x-api-key'', PStr api_key),
               (''anthropic-version'', dget_or cfg ''anthropic_version'' (PStr ''2023-06-01'')),
               (''Content-Type'', PStr ''application/json'')]
              (PDict [(''model'', model_of ''anthropic'' cfg), (''max_tokens'', PInt max_tokens),
                      (''system'', PStr SYSTEM_PROMPT),
                      (''messages'', PList [message ''user'' (json_dumps_compact env (PDict prompt))])])) (\<lambda>data.
     rbind (response_text_from_anthropic data) (\<lambda>text.
     reply_filters env text ttl_seconds)))))"

definition openrouter_headers :: "string \<Rightarrow> dict \<Rightarrow> dict" where
  "openrouter_headers api_key cfg =
     [(''Authorization'', PStr (''Bearer '' @ api_key)), (''Content-Type'', PStr ''application/json'')]
     @ (let title = dget cfg ''app_title''
        in if py_truthy title then [(''X-OpenRouter-Title'', PStr (py_str title))] else [])
     @ (let referer = dget cfg ''http_referer''
        in if py_truthy referer then [(''HTTP-Referer'', PStr (py_str referer))] else [])"

definition openrouter_filters :: "provider_env \<Rightarrow> dict \<Rightarrow> dict \<Rightarrow> int \<Rightarrow> dict list result" where
  "openrouter_filters env prompt cfg ttl_seconds =
     rbind (api_key_of env ''openrouter'' cfg) (\<lambda>api_key.
     rbind (base_url_of ''openrouter'' cfg) (\<lambda>base_url.
     rbind (post_json env (base_url @ ''/chat/completions'') (openrouter_headers api_key cfg)
              (PDict [(''model'', model_of ''openrouter'' cfg),
                      (''messages'', PList [message ''system'' SYSTEM_PROMPT,
                                            message ''user'' (json_dumps_compact env (PDict prompt))])])) (\<lambda>data.
     rbind (response_text_from_chat_completion data) (\<lambda>text.
     reply_filters env text ttl_seconds))))"

definition gemini_filters :: "provider_env \<Rightarrow> dict \<Rightarrow> dict \<Rightarrow> int \<Rightarrow> dict list result" where
  "gemini_filters env prompt cfg ttl_seconds =
     rbind (api_key_of env ''gemini'' cfg) (\<lambda>api_key.
     rbind (base_url_of ''gemini'' cfg) (\<lambda>base_url.
     rbind (post_json env
              (base_url @ ''/models/'' @ py_str (model_of ''gemini'' cfg) @ '':generateContent'')
              [(''x-goog-api-key'', PStr api_key), (''Content-Type'', PStr ''application/json'')]
              (PDict [(''system_instruction'', PDict [(''parts'', PList [PDict [(''text'', PStr SYSTEM_PROMPT)]])]),
                      (''contents'', PList [PDict [(''role'', PStr ''user''),
                         (''parts'', PList [PDict [(''text'', PStr (json_dumps_compact env (PDict prompt)))]])]]),
                      (''generationConfig'', PDict [(''responseMimeType'', PStr ''application/json'')])])) (\<lambda>data.
     rbind (response_text_from_gemini (json_dumps env) data) (\<lambda>text.
     reply_filters env text ttl_seconds))))"

section \<open>Wrapped agent programs\<close>

definition cli_agent_argv :: "string \<Rightarrow> string \<Rightarrow> string \<Rightarrow> string \<Rightarrow> string list \<times> bool" where
  "cli_agent_argv provider command model prompt_text =
     (let model_args = (if model \<noteq> [] then [''--model'', model] else [])
      in if provider = ''claude''
         then ([command, ''-p'', ''--output-format'', ''json''] @ model_args, True)
         else if provider = ''opencode'' then ([command, ''run''] @ model_args @ [prompt_text], False)
         else if provider = ''cursor''
         then ([command, ''-p'', ''--output-format'', ''text''] @ model_args @ [prompt_text], False)
         else if provider = ''grok'' then ([command, ''-p'', prompt_text] @ model_args, False)
         else ([command, prompt_text], False))"

text \<open>The first of the three keys that holds a string.\<close>

fun first_str :: "dict \<Rightarrow> string list \<Rightarrow> string option" where
  "first_str d [] = None"
| "first_str d (k # ks) = (case dget d k of PStr t \<Rightarrow> Some t | _ \<Rightarrow> first_str d ks)"

definition cli_agent_response_text :: "(string \<Rightarrow> pyval result) \<Rightarrow> string \<Rightarrow> string \<Rightarrow> string result" where
  "cli_agent_response_text loads provider stdout =
     (let stdout = str_strip stdout
      in if provider = ''claude''
         then case loads stdout of
                Inl JSONDecodeError \<Rightarrow> Inr stdout
              | Inl e \<Rightarrow> Inl e
              | Inr (PDict obj) \<Rightarrow>
                  (case first_str obj [''result'', ''text'', ''content''] of
                     Some t \<Rightarrow> Inr t | None \<Rightarrow> Inr stdout)
              | Inr _ \<Rightarrow> Inr stdout
         else Inr stdout)"

text \<open>\<open>f"{timeout:.0f}"\<close>.\<close>

definition format_seconds :: "pyfloat \<Rightarrow> string" where
  "format_seconds f =
     (case f of
        Fin q \<Rightarrow> (let r = round_half_even q in if r = 0 \<and> q < 0 then ''-0'' else int_str r)
      | PInf \<Rightarrow> ''inf'' | NInf \<Rightarrow> ''-inf'' | NaN \<Rightarrow> ''nan'')"

definition cli_prompt_text :: "provider_env \<Rightarrow> dict \<Rightarrow> string" where
  \<open>cli_prompt_text env prompt =
     SYSTEM_PROMPT @ [LF, LF] @ json_dumps_compact env (PDict prompt)
     @ [LF, LF] @ ''Return only a JSON object of the form {"filters":[FilterRule, ...]}.''\<close>

definition cli_reply_filters ::
  "provider_env \<Rightarrow> string \<Rightarrow> string \<Rightarrow> string \<Rightarrow> pyfloat \<Rightarrow> int \<Rightarrow> cli_reply \<Rightarrow> dict list result" where
  "cli_reply_filters env provider command login_cmd timeout ttl_seconds reply =
     (case reply of
        CliNotFound \<Rightarrow>
          Inl (RuntimeError (command @ '' CLI not found; install it and run `'' @ login_cmd @ ''`''))
      | CliTimeout \<Rightarrow>
          Inl (RuntimeError (command @ '' timed out after '' @ format_seconds timeout @ ''s''))
      | CliExit code out err \<Rightarrow>
          if code \<noteq> 0
          then let detail = take 300 (str_strip (if err \<noteq> [] then err else out))
               in Inl (RuntimeError (command @ '' exited '' @ int_str code @ '': ''
                    @ (if detail \<noteq> [] then detail else ''not logged in? run '' @ login_cmd)))
          else rbind (cli_agent_response_text (json_loads env) provider out) (\<lambda>text.
                 reply_filters env text ttl_seconds))"

definition cli_agent_filters ::
  "provider_env \<Rightarrow> string \<Rightarrow> dict \<Rightarrow> dict \<Rightarrow> int \<Rightarrow> dict list result" where
  "cli_agent_filters env provider prompt cfg ttl_seconds =
     (let command = py_str (py_or (dget cfg ''command'') (PStr provider));
          model = str_strip (py_str (py_or (dget cfg ''model'') (PStr [])));
          login_cmd = py_str (py_or (dget cfg ''login_cmd'') (PStr (command @ '' login'')));
          prompt_text = cli_prompt_text env prompt;
          call = cli_agent_argv provider command model prompt_text
      in rbind (py_float (dget_or cfg ''timeout'' (PInt 180))) (\<lambda>timeout.
         rbind (cli_run env (fst call) (if snd call then Some prompt_text else None) timeout)
           (cli_reply_filters env provider command login_cmd timeout ttl_seconds)))"

section \<open>Dispatch\<close>

definition run_provider ::
  "provider_env \<Rightarrow> string \<Rightarrow> dict \<Rightarrow> dict \<Rightarrow> int \<Rightarrow> dict list result" where
  "run_provider env provider prompt cfg ttl_seconds =
     (if provider = ''codex'' then codex_filters env prompt cfg ttl_seconds
      else if dget cfg ''kind'' = PStr ''cli_agent'' \<or> provider \<in> set CLI_AGENT_PROVIDERS
      then cli_agent_filters env provider prompt cfg ttl_seconds
      else if provider = ''openai'' then openai_filters env prompt cfg ttl_seconds
      else if provider = ''anthropic'' then anthropic_filters env prompt cfg ttl_seconds
      else if provider = ''gemini'' then gemini_filters env prompt cfg ttl_seconds
      else if provider = ''openrouter'' then openrouter_filters env prompt cfg ttl_seconds
      else Inl (ValueError (''unsupported provider: '' @ provider)))"

section \<open>Every provider answers with clean rules\<close>

definition clean_rules :: "dict list \<Rightarrow> bool" where
  "clean_rules fs \<longleftrightarrow> list_all clean_rule fs \<and> list_all filter_has_matcher fs"

lemma sanitized_filter_list_clean:
  assumes "sanitized_filter_list v ttl = Inr fs"
  shows "clean_rules fs"
proof -
  from assms obtain items ys where ys: "rmap (\<lambda>x. sanitize_filter x ttl) items = Inr ys"
    and fs: "fs = filter filter_has_matcher ys"
    by (auto simp: sanitized_filter_list_def rbind_Inr_iff)
  have "clean_rule y" if "y \<in> set ys" for y
    using ys that by (rule rmap_Inr_set) (rule sanitize_filter_clean)
  then show ?thesis by (auto simp: clean_rules_def fs list_all_iff)
qed

lemma clean_rules_fixed:
  assumes "clean_rules fs"
  shows "sanitized_filter_list (PList (map PDict fs)) ttl = Inr fs"
proof -
  have "rmap (\<lambda>item. sanitize_filter item ttl) fs = Inr fs"
    using assms by (intro rmap_Inr_id) (auto simp: clean_rules_def list_all_iff clean_rule_fixed)
  moreover have "filter filter_has_matcher fs = fs"
    using assms by (auto simp: clean_rules_def list_all_iff filter_id_conv)
  ultimately show ?thesis by (simp add: sanitized_filter_list_def)
qed

lemma reply_filters_clean: "reply_filters env text ttl = Inr fs \<Longrightarrow> clean_rules fs"
  by (auto simp: reply_filters_def rbind_Inr_iff dest: sanitized_filter_list_clean)

lemma cli_reply_filters_clean:
  "cli_reply_filters env p c l t ttl reply = Inr fs \<Longrightarrow> clean_rules fs"
  by (cases reply)
    (auto simp: cli_reply_filters_def Let_def rbind_Inr_iff dest: reply_filters_clean split: if_splits)

text \<open>
  What the analyzer relies on, whichever provider it calls: a call that returns gives sanitized
  rules with a matcher; it may raise anything.
\<close>

locale filter_provider =
  fixes call :: "dict \<Rightarrow> dict \<Rightarrow> int \<Rightarrow> dict list result"
  assumes call_clean: "call prompt cfg ttl = Inr fs \<Longrightarrow> clean_rules fs"
begin

text \<open>Sanitizing the answer again, with whatever default time to live, returns it.\<close>

lemma call_fixed:
  "call prompt cfg ttl = Inr fs \<Longrightarrow> sanitized_filter_list (PList (map PDict fs)) ttl' = Inr fs"
  by (intro clean_rules_fixed call_clean)

lemma call_wf:
  assumes "call prompt cfg ttl = Inr fs" and "f \<in> set fs"
  shows "wf_filter f \<and> filter_has_matcher f"
  using call_clean [OF assms(1)] assms(2) clean_rule_wf by (auto simp: clean_rules_def list_all_iff)

end

interpretation codex: filter_provider "codex_filters env"
  by unfold_locales (auto simp: codex_filters_def rbind_Inr_iff dest: reply_filters_clean)

interpretation openai: filter_provider "openai_filters env"
  by unfold_locales (auto simp: openai_filters_def rbind_Inr_iff dest: reply_filters_clean)

interpretation anthropic: filter_provider "anthropic_filters env"
  by unfold_locales (auto simp: anthropic_filters_def rbind_Inr_iff dest: reply_filters_clean)

interpretation openrouter: filter_provider "openrouter_filters env"
  by unfold_locales (auto simp: openrouter_filters_def rbind_Inr_iff dest: reply_filters_clean)

interpretation gemini: filter_provider "gemini_filters env"
  by unfold_locales (auto simp: gemini_filters_def rbind_Inr_iff dest: reply_filters_clean)

interpretation cli_agent: filter_provider "cli_agent_filters env provider"
  by unfold_locales
    (auto simp: cli_agent_filters_def rbind_Inr_iff Let_def dest: cli_reply_filters_clean)

interpretation provider: filter_provider "run_provider env provider"
  by unfold_locales
    (auto simp: run_provider_def dest: codex.call_clean openai.call_clean anthropic.call_clean
      openrouter.call_clean gemini.call_clean cli_agent.call_clean split: if_splits)

section \<open>Providers raise what the outside raises\<close>

text \<open>An outside world whose failures are ordinary exceptions.\<close>

definition polite_env :: "provider_env \<Rightarrow> bool" where
  "polite_env env \<longleftrightarrow>
     (\<forall>r. env_secrets env = Some r \<longrightarrow> no_exit r) \<and> (\<forall>t. no_exit (json_loads env t))
     \<and> (\<forall>u h b. no_exit (urlopen env u h b)) \<and> no_exit (codex_import env)
     \<and> (\<forall>m t e p. no_exit (codex_run env m t e p)) \<and> (\<forall>a i t. no_exit (cli_run env a i t))"

lemma no_exit_py_int: "no_exit (py_int v)"
  using py_int_exceptions [of v] by (auto simp: no_exit_def dest: value_error_is_exception)

lemma no_exit_to_float: "no_exit (to_float v)"
  by (cases v) (simp_all add: float_of_int_def)

lemma no_exit_py_float: "no_exit (py_float v)"
  using no_exit_to_float [of v] by (cases v) (auto simp: py_float_def split: option.splits)

lemma no_exit_py_iter: "no_exit (py_iter v)"
  by (cases v) simp_all

lemma no_exit_sanitized: "no_exit (sanitized_filter_list v ttl)"
proof -
  have "no_exit (sanitize_filter x ttl)" for x
    using sanitize_filter_raises [of x ttl] by (auto simp: no_exit_def dest: value_error_is_exception)
  then show ?thesis
    unfolding sanitized_filter_list_def
    by (intro no_exit_rbind no_exit_rmap no_exit_py_iter) simp_all
qed

lemma no_exit_reply: "polite_env env \<Longrightarrow> no_exit (reply_filters env t ttl)"
  unfolding reply_filters_def extract_json_def
  by (intro no_exit_rbind no_exit_sanitized) (simp add: polite_env_def)

lemma no_exit_secret: "no_exit (secret_of p n v)"
proof -
  have "no_exit (case w of PStr key \<Rightarrow> if key \<noteq> [] then Inr key else Inl (RuntimeError m)
      | _ \<Rightarrow> Inl (RuntimeError m))" for w m
    by (cases w) simp_all
  then show ?thesis
    unfolding secret_of_def Let_def
    by (cases v) (simp_all only: pyval.case no_exit_Inl is_exception.simps)
qed

lemma no_exit_key:
  assumes "polite_env env"
  shows "no_exit (api_key_of env p cfg)"
proof -
  have load: "no_exit (load_provider_secrets (env_secrets env))"
    using assms by (cases "env_secrets env") (simp_all add: load_provider_secrets_def polite_env_def)
  show ?thesis
    by (simp add: api_key_of_def provider_api_key_def Let_def no_exit_rbind [OF load] no_exit_secret)
qed

lemma no_exit_post: "polite_env env \<Longrightarrow> no_exit (post_json env u h b)"
  unfolding post_json_def
  by (intro no_exit_rbind) (auto simp: polite_env_def split: http_reply.splits)

lemma no_exit_base_url: "no_exit (base_url_of p cfg)"
  by (simp add: base_url_of_def split: pyval.splits)

lemma no_exit_texts:
  "no_exit (response_text_from_openai d)" "no_exit (response_text_from_anthropic d)"
  "no_exit (response_text_from_chat_completion d)" "no_exit (response_text_from_gemini dumps d)"
proof -
  have "no_exit (openai_item_texts v)" for v
    unfolding openai_item_texts_def by (intro no_exit_rbind no_exit_py_iter) simp
  then have "no_exit (rbind (rmap openai_item_texts items) (\<lambda>texts. Inr (join_with [LF] (concat texts))))" for items
    by (intro no_exit_rbind no_exit_rmap) simp_all
  then show "no_exit (response_text_from_openai d)"
    by (auto simp: response_text_from_openai_def split: pyval.splits)
  show "no_exit (response_text_from_anthropic d)"
    by (auto simp: response_text_from_anthropic_def split: pyval.splits)
  show "no_exit (response_text_from_chat_completion d)"
    by (auto simp: response_text_from_chat_completion_def Let_def split: pyval.splits list.splits)
  show "no_exit (response_text_from_gemini dumps d)"
    by (auto simp: response_text_from_gemini_def Let_def
        intro!: no_exit_rbind no_exit_py_iter split: pyval.splits list.splits)
qed

lemma no_exit_effort: "no_exit (reasoning_effort env raw)"
  by (auto simp: reasoning_effort_def Let_def split: option.splits)

lemma no_exit_cli_reply: "polite_env env \<Longrightarrow> no_exit (cli_reply_filters env p c l t ttl reply)"
proof -
  assume env: "polite_env env"
  have "no_exit (cli_agent_response_text loads p out)" if "no_exit (loads (str_strip out))" for loads out
    using that
    by (cases "loads (str_strip out)")
      (auto simp: cli_agent_response_text_def Let_def split: exn.splits pyval.splits option.splits)
  moreover from env have "no_exit (json_loads env t)" for t by (simp add: polite_env_def)
  ultimately have "no_exit (cli_agent_response_text (json_loads env) p out)" for out by blast
  with env show ?thesis
    by (cases reply) (auto simp: cli_reply_filters_def Let_def intro!: no_exit_rbind no_exit_reply)
qed

lemmas no_exit_parts = no_exit_rbind no_exit_reply no_exit_key no_exit_base_url no_exit_post
  no_exit_texts no_exit_effort no_exit_cli_reply no_exit_py_int no_exit_py_float

lemma no_exit_run_provider:
  assumes "polite_env env"
  shows "no_exit (run_provider env p prompt cfg ttl)"
proof -
  have "no_exit (codex_import env)" "no_exit (codex_run env m t e x)" "no_exit (cli_run env a i u)"
    for m t e x a i u using assms by (auto simp: polite_env_def)
  then have "no_exit (codex_filters env prompt cfg ttl)"
    "no_exit (cli_agent_filters env p prompt cfg ttl)"
    unfolding codex_filters_def cli_agent_filters_def Let_def
    using assms by (auto intro!: no_exit_parts)
  moreover have "no_exit (openai_filters env prompt cfg ttl)" "no_exit (anthropic_filters env prompt cfg ttl)"
    "no_exit (gemini_filters env prompt cfg ttl)" "no_exit (openrouter_filters env prompt cfg ttl)"
    unfolding openai_filters_def anthropic_filters_def gemini_filters_def openrouter_filters_def
    using assms by (intro no_exit_parts; simp)+
  ultimately show ?thesis by (simp add: run_provider_def)
qed

section \<open>Finding the JSON in a reply\<close>

lemma takeWhile_absent: "c \<notin> set xs \<Longrightarrow> takeWhile (\<lambda>x. x \<noteq> c) (xs @ c # ys) = xs"
  by (induction xs) auto

lemma json_span_exact:
  assumes "CHR ''{'' \<notin> set pre" and "CHR ''}'' \<notin> set post"
  shows "json_span (pre @ ''{'' @ body @ ''}'' @ post) = ''{'' @ body @ ''}''"
proof -
  let ?t = "pre @ ''{'' @ body @ ''}'' @ post"
  have start: "takeWhile (\<lambda>c. c \<noteq> CHR ''{'') ?t = pre"
    using takeWhile_absent [OF assms(1), of "body @ ''}'' @ post"] by simp
  have "takeWhile (\<lambda>c. c \<noteq> CHR ''}'') (rev post @ CHR ''}'' # (rev body @ CHR ''{'' # rev pre)) = rev post"
    using assms(2) by (intro takeWhile_absent) simp
  then have tail: "takeWhile (\<lambda>c. c \<noteq> CHR ''}'') (rev ?t) = rev post" by simp
  have "length ?t - length post = length (pre @ ''{'' @ body @ ''}'')" by simp
  then have "take (length ?t - length post) ?t = pre @ ''{'' @ body @ ''}''"
    by (metis append_assoc append_eq_conv_conj)
  then show ?thesis unfolding json_span_def Let_def start tail length_rev by simp
qed

text \<open>Stripping only takes from what surrounds a text that starts and ends in a brace.\<close>

lemma lstrip_around: "\<not> p x \<Longrightarrow> lstrip_by p (pre @ x # ys) = lstrip_by p pre @ x # ys"
  by (induction pre) (auto simp: lstrip_by_def)

lemma rstrip_around: "\<not> p x \<Longrightarrow> rstrip_by p (ys @ x # post) = ys @ x # rstrip_by p post"
  using lstrip_around [of p x "rev post" "rev ys"] by (simp add: rstrip_by_def lstrip_by_def)

lemma strip_around:
  assumes "\<not> p (CHR ''{'')" and "\<not> p (CHR ''}'')"
  shows "strip_by p (pre @ ''{'' @ body @ ''}'' @ post)
           = lstrip_by p pre @ ''{'' @ body @ ''}'' @ rstrip_by p post"
  using lstrip_around [of p "CHR ''{''" pre "body @ ''}'' @ post"] assms
    rstrip_around [of p "CHR ''}''" "lstrip_by p pre @ ''{'' @ body" post]
  by (simp add: strip_by_def)

lemma brace_not_space: "\<not> is_space (CHR ''{'')" "\<not> is_space (CHR ''}'')"
  by code_simp+

lemma set_lstrip: "set (lstrip_by p s) \<subseteq> set s"
  by (induction s) (auto simp: lstrip_by_def)

lemma set_rstrip: "set (rstrip_by p s) \<subseteq> set s"
  using set_lstrip [of p "rev s"] by (simp add: rstrip_by_def lstrip_by_def)

text \<open>A reply whose object text is surrounded by prose, in the shape that the steps keep.\<close>

definition wrapped :: "string \<Rightarrow> string \<Rightarrow> bool" where
  "wrapped body text \<longleftrightarrow> (\<exists>pre post. CHR ''{'' \<notin> set pre \<and> CHR ''}'' \<notin> set post
     \<and> text = pre @ ''{'' @ body @ ''}'' @ post)"

lemma wrapped_strip: "wrapped body text \<Longrightarrow> wrapped body (str_strip text)"
  unfolding wrapped_def str_strip_def
  using strip_around [OF brace_not_space] set_lstrip set_rstrip by (metis subset_iff)

lemma wrapped_open:
  assumes "wrapped body text"
  shows "wrapped body (drop_open_fence text)"
proof -
  from assms obtain pre post where w: "CHR ''{'' \<notin> set pre" "CHR ''}'' \<notin> set post"
    "text = pre @ ''{'' @ body @ ''}'' @ post" by (auto simp: wrapped_def)
  have within: "length p \<le> length pre" if "starts_with text p" "CHR ''{'' \<notin> set p" for p
  proof (rule ccontr)
    assume "\<not> length p \<le> length pre"
    then have lt: "length pre < length p" by simp
    from that(1) obtain t where t: "text = p @ t" by (auto simp: starts_with_iff)
    have "p ! length pre = text ! length pre" using lt t by (simp add: nth_append)
    also have "\<dots> = CHR ''{''" by (simp add: w(3) nth_append)
    finally show False using lt that(2) nth_mem by metis
  qed
  have drop: "wrapped body (drop n text)" if "n \<le> length pre" for n
    unfolding wrapped_def using w that set_drop_subset [of n pre]
    by (intro exI [of _ "drop n pre"] exI [of _ post]) auto
  show ?thesis
    using drop [of 7] drop [of 3] within [of "fence @ ''json''"] within [of fence] assms
    by (auto simp: drop_open_fence_def fence_def)
qed

lemma wrapped_close:
  assumes "wrapped body text"
  shows "wrapped body (drop_close_fence text)"
proof (cases "ends_with text fence")
  case False
  then show ?thesis using assms by (simp add: drop_close_fence_def)
next
  case True
  from assms obtain pre post where w: "CHR ''{'' \<notin> set pre" "CHR ''}'' \<notin> set post"
    "text = pre @ ''{'' @ body @ ''}'' @ post" by (auto simp: wrapped_def)
  from True obtain t where t: "text = t @ ''```''" by (auto simp: ends_with_iff fence_def)
  have "length post \<ge> 3"
  proof (rule ccontr)
    assume "\<not> 3 \<le> length post"
    then consider "post = []" | a where "post = [a]" | a b where "post = [a, b]"
      by (cases post rule: list.exhaust; cases "tl post" rule: list.exhaust; cases "tl (tl post)") auto
    then show False
      using t w(3) by cases (auto dest!: arg_cong [where f = rev])
  qed
  then have "text = (pre @ ''{'' @ body @ ''}'' @ take (length post - 3) post) @ drop (length post - 3) post"
    and "length (drop (length post - 3) post) = 3" using w(3) by simp_all
  then have "take (length text - 3) text = pre @ ''{'' @ body @ ''}'' @ take (length post - 3) post"
    by (metis add_diff_cancel_right' append_eq_conv_conj length_append)
  then show ?thesis
    using True w set_take_subset [of "length post - 3" post]
    unfolding wrapped_def drop_close_fence_def by auto
qed

lemma wrapped_unfence: "wrapped body text \<Longrightarrow> wrapped body (unfence text)"
  by (simp add: unfence_def Let_def wrapped_strip wrapped_open wrapped_close)

lemma extract_wrapped: "wrapped body text \<Longrightarrow> extract_json loads text = loads (''{'' @ body @ ''}'')"
  unfolding extract_json_def
  using wrapped_unfence [of body "text"] json_span_exact by (auto simp: wrapped_def)

section \<open>Properties of the providers\<close>

text \<open>
  C17. Untrusted answers are contained: whatever the Codex SDK, an HTTP API or a wrapped agent
  program returns, the rules that \<open>run_provider\<close> hands to the analyzer are well formed, have a
  matcher, and pass the sanitizer unchanged.
\<close>

theorem run_provider_contained:
  assumes "run_provider env p prompt cfg ttl = Inr fs"
  shows "(\<forall>f \<in> set fs. wf_filter f \<and> filter_has_matcher f)
     \<and> sanitized_filter_list (PList (map PDict fs)) ttl' = Inr fs"
  using provider.call_wf [OF assms] provider.call_fixed [OF assms] by blast

definition example_env :: provider_env where
  "example_env =
     \<lparr>environ = (\<lambda>_. None), env_secrets = None,
      json_loads = (\<lambda>t. if t = ''{x}'' then Inr (PDict [(''filters'', PList [PDict example_item, PNone, PDict []])])
                        else Inl JSONDecodeError),
      json_dumps = (\<lambda>_. []), json_dumps_compact = (\<lambda>_. []),
      urlopen = (\<lambda>_ _ _. Inl (OSError ''offline'')), codex_import = Inr (),
      codex_run = (\<lambda>_ _ _ _. Inr ''Sure! ```json {x} ```''),
      effort_by_name = (\<lambda>n. Some n), effort_by_value = (\<lambda>_. None),
      cli_run = (\<lambda>_ _ _. Inr CliNotFound)\<rparr>"

theorem run_provider_contained_witness:
  "run_provider example_env ''codex'' [] [] 60 = Inr [example_rule]
     \<and> sanitized_filter_list (PList (map PDict [example_rule])) 5 = Inr [example_rule]"
proof -
  have run: "run_provider example_env ''codex'' [] [] 60 = Inr [example_rule]" by code_simp
  then show ?thesis using run_provider_contained [OF run, of 5] by simp
qed

lemma key_missing:
  "api_key_of env ''openai'' cfg = Inl e \<Longrightarrow> openai_filters env prompt cfg ttl = Inl e"
  "api_key_of env ''anthropic'' cfg = Inl e \<Longrightarrow> anthropic_filters env prompt cfg ttl = Inl e"
  "api_key_of env ''gemini'' cfg = Inl e \<Longrightarrow> gemini_filters env prompt cfg ttl = Inl e"
  "api_key_of env ''openrouter'' cfg = Inl e \<Longrightarrow> openrouter_filters env prompt cfg ttl = Inl e"
  by (simp_all only: openai_filters_def anthropic_filters_def gemini_filters_def
      openrouter_filters_def rbind_simps)

lemma run_provider_api:
  assumes "dget cfg ''kind'' \<noteq> PStr ''cli_agent''"
  shows "run_provider env ''openai'' prompt cfg ttl = openai_filters env prompt cfg ttl"
    and "run_provider env ''anthropic'' prompt cfg ttl = anthropic_filters env prompt cfg ttl"
    and "run_provider env ''gemini'' prompt cfg ttl = gemini_filters env prompt cfg ttl"
    and "run_provider env ''openrouter'' prompt cfg ttl = openrouter_filters env prompt cfg ttl"
  using assms by (simp_all add: run_provider_def CLI_AGENT_PROVIDERS_def)

text \<open>
  No request without a key: when \<open>provider_api_key\<close> finds none, the four HTTP providers raise its
  exception, whatever the transport would have answered.
\<close>

theorem no_request_without_key:
  assumes "api_key_of env p cfg = Inl e" and "p \<in> {''openai'', ''anthropic'', ''gemini'', ''openrouter''}"
    and "dget cfg ''kind'' \<noteq> PStr ''cli_agent''"
  shows "run_provider (env\<lparr>urlopen := transport\<rparr>) p prompt cfg ttl = Inl e"
proof -
  have "api_key_of (env\<lparr>urlopen := transport\<rparr>) p cfg = Inl e"
    using assms(1) by (simp add: api_key_of_def)
  with assms(2) show ?thesis
    using run_provider_api [OF assms(3)] key_missing by auto
qed

theorem no_request_without_key_witness:
  "run_provider (example_env\<lparr>urlopen := (\<lambda>_ _ _. Inr (HttpOk ''{x}''))\<rparr>) ''gemini'' [] [] 60
     = Inl (RuntimeError ''missing API key for gemini; set GEMINI_API_KEY or run tools/ai_provider_cli.py login'')"
proof -
  have "api_key_of example_env ''gemini'' []
      = Inl (RuntimeError ''missing API key for gemini; set GEMINI_API_KEY or run tools/ai_provider_cli.py login'')"
    by code_simp
  moreover have "dget [] ''kind'' \<noteq> PStr ''cli_agent''" by (simp add: dget_def)
  ultimately show ?thesis
    using no_request_without_key [of example_env "''gemini''" "[]"] by simp
qed

text \<open>
  C18. The JSON object of a reply is found: with prose before it that has no opening brace and prose
  after it that has no closing brace, Markdown fences included, \<open>extract_json\<close> decodes exactly the
  text of the object.
\<close>

theorem extract_json_exact:
  assumes "CHR ''{'' \<notin> set pre" and "CHR ''}'' \<notin> set post"
  shows "extract_json loads (pre @ ''{'' @ body @ ''}'' @ post) = loads (''{'' @ body @ ''}'')"
  using assms by (intro extract_wrapped) (auto simp: wrapped_def)

theorem extract_json_exact_witness:
  "extract_json (\<lambda>t. Inr (PStr t)) (''```json '' @ ''{'' @ ''x:{}'' @ ''}'' @ '' ```'') = Inr (PStr ''{x:{}}'')"
  using extract_json_exact [of "''```json ''" "'' ```''" "\<lambda>t. Inr (PStr t)" "''x:{}''"] by simp

end
