(* ===== verification/Analyzer.thy ===== *)
theory Analyzer
  imports Deterministic_Learner Provider_Calls
begin

text \<open>
  The analyzer of \<open>tools/codex_analyzer.py\<close>: one poll (\<open>analyze_once\<close>) reads the event log and the
  filter file, decides whether the AI provider may be called, completes and sanitizes the rules and
  merges them into the filter file; \<open>main\<close> polls for ever, or once.  A poll is a function of the
  arguments, of what the outside world gives it, and of the filter file; the loop is a step
  relation in which the log, the configuration and the providers may change between two polls.
\<close>

section \<open>One poll\<close>

record args =
  arg_events :: string
  arg_once :: bool
  arg_min_count :: int
  arg_ttl_seconds :: int
  arg_max_events :: int
  arg_max_filters :: int
  arg_no_codex :: bool
  arg_provider :: string
  arg_model :: "string option"
  arg_learn_observed :: bool
  arg_disable_strong_coverage :: bool
  arg_min_attack_events :: int

text \<open>
  The defaults of \<open>parse_args\<close>; \<open>arg_events\<close> is the name of the log in its directory, and the paths
  of the two other files are where \<open>inputs\<close> and the filter file come from.
\<close>

definition default_args :: args where
  "default_args =
     \<lparr>arg_events = ''attack_events.jsonl'', arg_once = False, arg_min_count = 1, arg_ttl_seconds = 60,
      arg_max_events = 200, arg_max_filters = 512, arg_no_codex = False, arg_provider = ''auto'',
      arg_model = None, arg_learn_observed = False, arg_disable_strong_coverage = False,
      arg_min_attack_events = 20\<rparr>"

record inputs =
  in_log :: log_dir
  in_config :: json_file
  in_env :: provider_env

text \<open>What a poll that does not raise does: the rules it writes, and whether it called a provider.\<close>

record outcome =
  written :: "dict list"
  provider_called :: bool

definition poll_rules ::
  "args \<Rightarrow> provider_env \<Rightarrow> string \<Rightarrow> dict \<Rightarrow> dict \<Rightarrow> dict list \<Rightarrow> int \<Rightarrow> int \<Rightarrow> (dict list \<times> bool) result" where
  "poll_rules args env provider prompt cfg events ttl_seconds evidence =
     (let threshold = max 0 (arg_min_attack_events args);
          local = deterministic_filters events (arg_min_count args) ttl_seconds (arg_learn_observed args)
      in if arg_no_codex args then rbind local (\<lambda>fs. Inr (fs, False))
         else if threshold \<noteq> 0 \<and> evidence < threshold then rbind local (\<lambda>fs. Inr (fs, False))
         else case run_provider env provider prompt cfg ttl_seconds of
                Inr fs \<Rightarrow> Inr (fs, True)
              | Inl e \<Rightarrow> if is_exception e then rbind local (\<lambda>fs. Inr (fs, True)) else Inl e)"

definition analyze_once :: "args \<Rightarrow> inputs \<Rightarrow> json_file \<Rightarrow> outcome result" where
  "analyze_once args i filter_file =
     rbind (bounded_ttl_seconds (PInt (arg_ttl_seconds args)) 60) (\<lambda>ttl_seconds.
     rbind (read_events (json_loads (in_env i)) (in_log i) (arg_events args) (arg_max_events args)) (\<lambda>events.
     rbind (read_filter_file filter_file) (\<lambda>existing_filters.
       if events = [] then
         rbind (merge_existing_filters existing_filters [] ttl_seconds (arg_max_filters args)) (\<lambda>preserved.
           Inr \<lparr>written = preserved, provider_called = False\<rparr>)
       else
         rbind (build_prompt events (arg_min_count args) ttl_seconds) (\<lambda>prompt.
         rbind (load_provider_config (in_config i)) (\<lambda>config.
         rbind (resolve_provider (arg_provider args) config) (\<lambda>provider.
         rbind (provider_config config provider (arg_model args)) (\<lambda>config_cfg.
         rbind (count_attack_evidence (map PDict events)) (\<lambda>evidence.
         rbind (poll_rules args (in_env i) provider
                  (dset ''allow_observed_learning'' (PBool (arg_learn_observed args)) prompt)
                  (snd config_cfg) events ttl_seconds evidence) (\<lambda>rules.
         rbind (if \<not> arg_no_codex args \<and> \<not> arg_disable_strong_coverage args
                then merge_strong_coverage (fst rules) events (arg_min_count args) ttl_seconds
                       (arg_learn_observed args)
                else sanitized_filter_list (PList (map PDict (fst rules))) ttl_seconds) (\<lambda>filters.
         rbind (merge_existing_filters existing_filters filters ttl_seconds (arg_max_filters args)) (\<lambda>filters.
           Inr \<lparr>written = filters, provider_called = snd rules\<rparr>)))))))))))"

section \<open>The loop\<close>

datatype phase = Polling | Sleeping | Returned | Crashed exn

record loop_state =
  phase :: phase
  filter_file :: json_file
  polls :: nat
  calls :: nat

inductive main_step :: "args \<Rightarrow> loop_state \<Rightarrow> inputs \<Rightarrow> loop_state \<Rightarrow> bool" for args where
  poll_once: "phase s = Polling \<Longrightarrow> analyze_once args i (filter_file s) = Inr out \<Longrightarrow> arg_once args \<Longrightarrow>
     main_step args s i
       \<lparr>phase = Returned, filter_file = write_filters (written out), polls = Suc (polls s),
        calls = calls s + (if provider_called out then 1 else 0)\<rparr>"
| poll_again: "phase s = Polling \<Longrightarrow> analyze_once args i (filter_file s) = Inr out \<Longrightarrow> \<not> arg_once args \<Longrightarrow>
     main_step args s i
       \<lparr>phase = Sleeping, filter_file = write_filters (written out), polls = Suc (polls s),
        calls = calls s + (if provider_called out then 1 else 0)\<rparr>"
| poll_raises: "phase s = Polling \<Longrightarrow> analyze_once args i (filter_file s) = Inl e \<Longrightarrow>
     main_step args s i (s\<lparr>phase := Crashed e\<rparr>)"
| wake_up: "phase s = Sleeping \<Longrightarrow> main_step args s i (s\<lparr>phase := Polling\<rparr>)"

text \<open>Runs in which every poll sees inputs that satisfy \<open>P\<close>.\<close>

inductive main_run :: "args \<Rightarrow> (inputs \<Rightarrow> bool) \<Rightarrow> loop_state \<Rightarrow> loop_state \<Rightarrow> bool" for args P where
  run_refl: "main_run args P s s"
| run_step: "main_run args P s t \<Longrightarrow> P i \<Longrightarrow> main_step args t i u \<Longrightarrow> main_run args P s u"

definition start_state :: "json_file \<Rightarrow> loop_state" where
  "start_state f = \<lparr>phase = Polling, filter_file = f, polls = 0, calls = 0\<rparr>"

inductive_cases main_stepE: "main_step args s i t"

section \<open>What a poll writes\<close>

lemma analyze_once_merge:
  assumes "analyze_once args i f = Inr out"
  obtains existing new t where
    "merge_existing_filters existing new t (arg_max_filters args) = Inr (written out)"
  using assms by (auto simp: analyze_once_def rbind_Inr_iff split: if_splits)

lemma count_attack_evidence_Inr:
  "count_attack_evidence (map PDict events) = Inr n \<Longrightarrow> n = int (length (strong_events events))"
  by (simp add: count_attack_evidence_def strong_count_Inr)

lemma analyze_once_called:
  assumes "analyze_once args i f = Inr out" and "provider_called out"
  obtains events where
    "read_events (json_loads (in_env i)) (in_log i) (arg_events args) (arg_max_events args) = Inr events"
    and "events \<noteq> []" and "\<not> arg_no_codex args"
    and "arg_min_attack_events args \<le> 0 \<or> arg_min_attack_events args \<le> int (length (strong_events events))"
proof -
  from assms obtain events evidence provider prompt cfg t rules where
    e: "read_events (json_loads (in_env i)) (in_log i) (arg_events args) (arg_max_events args) = Inr events"
      "events \<noteq> []" and ev: "count_attack_evidence (map PDict events) = Inr evidence"
    and r: "poll_rules args (in_env i) provider prompt cfg events t evidence = Inr rules" "snd rules"
    by (auto simp: analyze_once_def rbind_Inr_iff split: if_splits)
  from r have "\<not> arg_no_codex args"
    and "arg_min_attack_events args \<le> 0 \<or> arg_min_attack_events args \<le> evidence"
    by (auto simp: poll_rules_def Let_def rbind_Inr_iff split: if_splits)
  with e count_attack_evidence_Inr [OF ev] that show ?thesis by blast
qed

section \<open>Totality\<close>

definition cleanable :: "int \<Rightarrow> dict list \<Rightarrow> bool" where
  "cleanable ttl fs \<longleftrightarrow> (\<forall>f \<in> set fs. \<exists>c. sanitize_filter f ttl = Inr c)"

lemma rfold_total:
  "(\<And>s x. x \<in> set xs \<Longrightarrow> \<exists>t. f s x = Inr t) \<Longrightarrow> \<exists>t. rfold f s xs = Inr t"
proof (induction xs arbitrary: s)
  case Nil
  then show ?case by simp
next
  case (Cons x xs)
  from Cons.prems [of x s] obtain t where "f s x = Inr t" by auto
  moreover from Cons have "\<exists>u. rfold f t xs = Inr u" by auto
  ultimately show ?case by simp
qed

lemma rfold_upsert_total: "cleanable ttl fs \<Longrightarrow> \<exists>m'. rfold (upsert ttl) m fs = Inr m'"
  by (rule rfold_total) (fastforce simp: cleanable_def upsert_def)

lemma merge_total:
  assumes "cleanable ttl old" and "cleanable ttl new"
  shows "\<exists>out. merge_existing_filters old new ttl maxf = Inr out"
proof -
  obtain m where "rfold (upsert ttl) [] old = Inr m" using rfold_upsert_total [OF assms(1)] by blast
  moreover obtain m' where "rfold (upsert ttl) m new = Inr m'" using rfold_upsert_total [OF assms(2)] by blast
  ultimately show ?thesis by (simp add: merge_existing_filters_def)
qed

lemma sanitized_list_total:
  "cleanable ttl fs \<Longrightarrow> \<exists>out. sanitized_filter_list (PList (map PDict fs)) ttl = Inr out"
  using rmap_ex [of fs "\<lambda>x. sanitize_filter x ttl"]
  by (auto simp: sanitized_filter_list_def cleanable_def)

lemma clean_rules_cleanable: "clean_rules fs \<Longrightarrow> cleanable ttl fs"
  by (auto simp: clean_rules_def cleanable_def list_all_iff clean_rule_fixed)

lemma learned_cleanable:
  assumes "deterministic_filters events m t lo = Inr fs"
  shows "cleanable ttl fs"
  unfolding cleanable_def
proof
  fix f
  assume "f \<in> set fs"
  with deterministic_filters_iff [OF assms] obtain c where "learned_ok c f" by blast
  then show "\<exists>c. sanitize_filter f ttl = Inr c" by (rule learned_ok_sanitize) blast
qed

lemma cover_total: "cleanable ttl fs \<Longrightarrow> \<exists>st'. rfold (cover_fallback ttl) st fs = Inr st'"
  by (rule rfold_total) (fastforce simp: cleanable_def cover_fallback_def Let_def)

lemma merge_strong_coverage_total:
  assumes "cleanable ttl provider" and "list_all plain_event events"
  shows "\<exists>out. merge_strong_coverage provider events m ttl lo = Inr out"
proof -
  obtain merged where m: "sanitized_filter_list (PList (map PDict provider)) ttl = Inr merged"
    using sanitized_list_total [OF assms(1)] by blast
  obtain fb where fb: "deterministic_filters events m ttl lo = Inr fb"
    using deterministic_filters_total [OF assms(2)] by blast
  obtain st where "rfold (cover_fallback ttl) (merged, map filter_key merged) fb = Inr st"
    using cover_total [OF learned_cleanable [OF fb]] by blast
  then show ?thesis using m fb by (simp add: merge_strong_coverage_def)
qed

lemma merge_strong_coverage_clean:
  assumes "merge_strong_coverage provider events m ttl lo = Inr out"
  shows "cleanable ttl' out"
proof -
  from assms obtain merged fb ext where
    m: "sanitized_filter_list (PList (map PDict provider)) ttl = Inr merged"
    and out: "out = merged @ ext"
    and ext: "\<forall>r \<in> set ext. filter_has_matcher r \<and> (\<exists>f \<in> set fb. sanitize_filter f ttl = Inr r)"
    by (rule merge_strong_coverage_split) blast
  have "\<forall>r \<in> set ext. sanitize_filter r ttl' = Inr r" using ext sanitize_filter_fixed by blast
  moreover have "cleanable ttl' merged"
    by (rule clean_rules_cleanable [OF sanitized_filter_list_clean [OF m]])
  ultimately show ?thesis by (auto simp: out cleanable_def)
qed

text \<open>Inputs with which a poll has no reason to raise; the provider may fail in any way but exit.\<close>

definition benign_inputs :: "args \<Rightarrow> inputs \<Rightarrow> bool" where
  "benign_inputs args i \<longleftrightarrow>
     (\<exists>events. read_events (json_loads (in_env i)) (in_log i) (arg_events args) (arg_max_events args) = Inr events
        \<and> list_all plain_event events)
     \<and> (\<exists>config p c. load_provider_config (in_config i) = Inr config
        \<and> resolve_provider (arg_provider args) config = Inr p
        \<and> provider_config config p (arg_model args) = Inr c)
     \<and> polite_env (in_env i)"

definition readable_file :: "args \<Rightarrow> json_file \<Rightarrow> bool" where
  "readable_file args f \<longleftrightarrow>
     (\<exists>fs. read_filter_file f = Inr fs \<and> cleanable (clamp_ttl (arg_ttl_seconds args) 60) fs)"

lemma poll_rules_total:
  assumes "list_all plain_event events"
    and "polite_env env"
  shows "\<exists>rules. poll_rules args env p prompt cfg events t n = Inr rules \<and> cleanable t' (fst rules)"
proof -
  obtain fs where fs: "deterministic_filters events (arg_min_count args) t (arg_learn_observed args) = Inr fs"
    using deterministic_filters_total [OF assms(1)] by blast
  note clean = learned_cleanable [OF fs]
  show ?thesis
  proof (cases "run_provider env p prompt cfg t")
    case (Inl e)
    with no_exit_run_provider [OF assms(2)] have "is_exception e" by (metis no_exit_Inl)
    with Inl fs clean show ?thesis by (auto simp: poll_rules_def Let_def)
  next
    case (Inr gs)
    have "cleanable t' gs" by (rule clean_rules_cleanable [OF provider.call_clean [OF Inr]])
    with Inr fs clean show ?thesis by (auto simp: poll_rules_def Let_def)
  qed
qed

lemma count_total: "list_all plain_event events \<Longrightarrow> \<exists>n. count_attack_evidence (map PDict events) = Inr n"
  using strong_count_total by (simp add: count_attack_evidence_def)

lemma analyze_once_total:
  assumes "benign_inputs args i" and "readable_file args f"
  shows "\<exists>out. analyze_once args i f = Inr out"
proof -
  let ?t = "clamp_ttl (arg_ttl_seconds args) 60"
  from assms(1) obtain events config p c where
    ev: "read_events (json_loads (in_env i)) (in_log i) (arg_events args) (arg_max_events args) = Inr events"
      "list_all plain_event events"
    and cfg: "load_provider_config (in_config i) = Inr config"
      "resolve_provider (arg_provider args) config = Inr p"
      "provider_config config p (arg_model args) = Inr c"
    and polite: "polite_env (in_env i)"
    unfolding benign_inputs_def by blast
  from assms(2) obtain old where old: "read_filter_file f = Inr old" "cleanable ?t old"
    unfolding readable_file_def by blast
  obtain prompt where prompt: "build_prompt events (arg_min_count args) ?t = Inr prompt"
    by (simp add: build_prompt_def)
  obtain n where n: "count_attack_evidence (map PDict events) = Inr n"
    using count_total [OF ev(2)] by blast
  let ?prompt = "dset ''allow_observed_learning'' (PBool (arg_learn_observed args)) prompt"
  obtain rules where rules: "poll_rules args (in_env i) p ?prompt (snd c) events ?t n = Inr rules"
    "cleanable ?t (fst rules)"
    using poll_rules_total [OF ev(2) polite] by blast
  have "\<exists>fs. (if \<not> arg_no_codex args \<and> \<not> arg_disable_strong_coverage args
        then merge_strong_coverage (fst rules) events (arg_min_count args) ?t (arg_learn_observed args)
        else sanitized_filter_list (PList (map PDict (fst rules))) ?t) = Inr fs \<and> cleanable ?t fs"
    using merge_strong_coverage_total [OF rules(2) ev(2)] merge_strong_coverage_clean
      sanitized_list_total [OF rules(2)] sanitized_filter_list_clean clean_rules_cleanable
    by (auto split: if_splits) meson+
  then obtain fs where fs: "(if \<not> arg_no_codex args \<and> \<not> arg_disable_strong_coverage args
        then merge_strong_coverage (fst rules) events (arg_min_count args) ?t (arg_learn_observed args)
        else sanitized_filter_list (PList (map PDict (fst rules))) ?t) = Inr fs" "cleanable ?t fs" by blast
  obtain out where out: "merge_existing_filters old fs ?t (arg_max_filters args) = Inr out"
    using merge_total [OF old(2) fs(2)] by blast
  obtain out0 where out0: "merge_existing_filters old [] ?t (arg_max_filters args) = Inr out0"
    using merge_total [OF old(2), of "[]"] by (auto simp: cleanable_def)
  show ?thesis
    using ev(1) old(1) prompt cfg n rules(1) fs(1) out out0 by (simp add: analyze_once_def)
qed

lemma readable_written:
  assumes "analyze_once args i f = Inr out" and "arg_max_filters args \<le> 10 ^ 92"
  shows "readable_file args (write_filters (written out))"
proof -
  from assms(1) obtain existing new t where
    m: "merge_existing_filters existing new t (arg_max_filters args) = Inr (written out)"
    by (rule analyze_once_merge)
  have "list_all clean_rule (written out)" using merge_clean(1) [OF m] assms(2) by simp
  then show ?thesis
    by (auto simp: readable_file_def read_write_filters cleanable_def list_all_iff sanitize_sorted_rule)
qed

section \<open>The size of a learned batch\<close>

lemma length_update: "length (AList.update k v d) \<le> Suc (length d)"
  by (induction d) auto

lemma length_group_pairs: "length (group_pairs ps) \<le> length ps"
proof (induction ps rule: rev_induct)
  case Nil
  then show ?case by (simp add: group_pairs_def)
next
  case (snoc p ps)
  have "length (group_add (group_pairs ps) p) \<le> Suc (length (group_pairs ps))"
    by (simp add: group_add_def length_update)
  with snoc show ?case by (simp add: group_pairs_snoc)
qed

lemma rmap_concat_length:
  "rmap f xs = Inr yss \<Longrightarrow> (\<And>x ys. x \<in> set xs \<Longrightarrow> f x = Inr ys \<Longrightarrow> length ys \<le> 1) \<Longrightarrow>
     length (concat yss) \<le> length xs"
proof (induction xs arbitrary: yss)
  case Nil
  then show ?case by simp
next
  case (Cons x xs)
  then obtain ys yss' where ys: "f x = Inr ys" and r: "rmap f xs = Inr yss'" and yss: "yss = ys # yss'"
    by (auto simp: rbind_Inr_iff)
  have "length ys \<le> 1" by (rule Cons.prems(2) [OF _ ys]) simp
  moreover have "length (concat yss') \<le> length xs" by (rule Cons.IH [OF r], rule Cons.prems(2)) simp_all
  ultimately show ?case by (simp add: yss)
qed

lemma signature_filters_length:
  assumes "deterministic_signature_filters events m t lo = Inr fs"
  shows "length fs \<le> length events"
proof -
  from assms obtain pairs yss where
    pairs: "rmap (\<lambda>e. rbind (signature_key e) (\<lambda>s. Inr (s, e))) events = Inr pairs"
    and yss: "rmap (signature_group_filter m (clamp_ttl t 60) lo) (by_size (group_pairs pairs)) = Inr yss"
    and fs: "fs = concat yss"
    by (auto simp: deterministic_signature_filters_def rbind_Inr_iff)
  have "length fs \<le> length (by_size (group_pairs pairs))"
    unfolding fs using yss
  proof (rule rmap_concat_length)
    fix x ys
    assume "signature_group_filter m (clamp_ttl t 60) lo x = Inr ys"
    then show "length ys \<le> 1" by (cases x) (auto dest!: signature_group_filter_Inr split: if_splits)
  qed
  also have "\<dots> \<le> length events"
    using length_group_pairs [of pairs] rmap_length [OF pairs] by (simp add: by_size_def)
  finally show ?thesis .
qed

lemma shape_filters_length:
  assumes "deterministic_path_shape_filters events m t lo = Inr fs"
  shows "length fs \<le> length events"
proof -
  let ?pairs = "List.map_filter shape_pair events"
  from assms obtain yss where
    yss: "rmap (shape_group_filter m (clamp_ttl t 60) lo) (by_size (group_pairs ?pairs)) = Inr yss"
    and fs: "fs = concat yss"
    by (auto simp: deterministic_path_shape_filters_def rbind_Inr_iff)
  have "length fs \<le> length (by_size (group_pairs ?pairs))"
    unfolding fs using yss
  proof (rule rmap_concat_length)
    fix x ys
    assume "shape_group_filter m (clamp_ttl t 60) lo x = Inr ys"
    then show "length ys \<le> 1" by (cases x) (auto dest!: shape_group_filter_Inr split: if_splits)
  qed
  also have "\<dots> \<le> length events"
    using length_group_pairs [of ?pairs] length_map_filter [of shape_pair events] by (simp add: by_size_def)
  finally show ?thesis .
qed

lemma rfold_keep_length:
  "rfold (keep_by_key t) m fs = Inr m' \<Longrightarrow> length m' \<le> length m + length fs"
proof (induction fs arbitrary: m)
  case Nil
  then show ?case by simp
next
  case (Cons f fs)
  then obtain m1 where m1: "keep_by_key t m f = Inr m1" and r: "rfold (keep_by_key t) m1 fs = Inr m'"
    by auto
  have "length m1 \<le> Suc (length m)"
    using m1 length_update by (auto simp: keep_by_key_def Let_def rbind_Inr_iff split: if_splits)
  with Cons.IH [OF r] show ?case by simp
qed

lemma deterministic_filters_length:
  assumes "deterministic_filters events m t lo = Inr fs"
  shows "length fs \<le> 2 * length events"
proof -
  from assms obtain shapes sigs merged where
    sh: "deterministic_path_shape_filters events m (clamp_ttl t 60) lo = Inr shapes"
    and sg: "deterministic_signature_filters events m (clamp_ttl t 60) lo = Inr sigs"
    and mg: "rfold (keep_by_key (clamp_ttl t 60)) [] (shapes @ sigs) = Inr merged"
    and fs: "fs = dvalues merged"
    by (auto simp: deterministic_filters_def rbind_Inr_iff)
  from rfold_keep_length [OF mg] shape_filters_length [OF sh] signature_filters_length [OF sg]
  show ?thesis by (simp add: fs)
qed

text \<open>Completing the deterministic rules with themselves adds nothing.\<close>

lemma cover_nothing:
  "rfold (cover_fallback ttl) (merged, covered) fs = Inr st \<Longrightarrow>
     (\<And>f r. f \<in> set fs \<Longrightarrow> sanitize_filter f ttl = Inr r \<Longrightarrow> filter_has_matcher r \<Longrightarrow>
        filter_key r \<in> set covered) \<Longrightarrow> fst st = merged"
proof (induction fs)
  case Nil
  then show ?case by auto
next
  case (Cons f fs)
  from Cons.prems(1) obtain r where r: "sanitize_filter f ttl = Inr r"
    by (auto simp: cover_fallback_def Let_def rbind_Inr_iff)
  have "filter_has_matcher r \<Longrightarrow> filter_key r \<in> set covered" by (rule Cons.prems(2) [OF _ r]) simp
  then have "cover_fallback ttl (merged, covered) f = Inr (merged, covered)"
    using r by (auto simp: cover_fallback_def Let_def)
  with Cons.prems(1) have "rfold (cover_fallback ttl) (merged, covered) fs = Inr st" by simp
  then show ?case by (rule Cons.IH) (auto intro: Cons.prems(2))
qed

lemma merge_strong_coverage_self:
  assumes "deterministic_filters events m ttl lo = Inr fs"
    and "merge_strong_coverage fs events m ttl lo = Inr out"
  shows "sanitized_filter_list (PList (map PDict fs)) ttl = Inr out"
proof -
  from assms obtain merged st where
    m: "sanitized_filter_list (PList (map PDict fs)) ttl = Inr merged"
    and st: "rfold (cover_fallback ttl) (merged, map filter_key merged) fs = Inr st" and out: "out = fst st"
    by (auto simp: merge_strong_coverage_def rbind_Inr_iff)
  from m obtain ys where ys: "rmap (\<lambda>x. sanitize_filter x ttl) fs = Inr ys"
    and merged: "merged = filter filter_has_matcher ys"
    by (auto simp: sanitized_filter_list_def rbind_Inr_iff)
  have "fst st = merged"
    using st
  proof (rule cover_nothing)
    fix f r
    assume "f \<in> set fs" and "sanitize_filter f ttl = Inr r" and has: "filter_has_matcher r"
    with ys have "r \<in> set ys" using list_all2_witness by (fastforce simp: rmap_Inr_iff)
    with has show "filter_key r \<in> set (map filter_key merged)" by (simp add: merged)
  qed
  with m out show ?thesis by simp
qed

section \<open>Properties of the analyzer\<close>


text \<open>A log of three denied requests, for a poll with a threshold of two.\<close>

definition example_inputs :: inputs where
  "example_inputs =
     \<lparr>in_log = Some [(''log'', Inr (example_text ''aaa''))], in_config = None,
      in_env = example_env\<lparr>json_loads := (\<lambda>t.
        if starts_with t ''a'' then Inr (PDict (example_event ''0123456789abcdef'' ''rate_limited'' ''/''))
        else json_loads example_env t)\<rparr>\<rparr>"

definition example_args :: args where
  "example_args = default_args\<lparr>arg_events := ''log'', arg_min_attack_events := 2\<rparr>"

lemma example_read:
  "read_events (json_loads (in_env example_inputs)) (in_log example_inputs) (arg_events example_args)
     (arg_max_events example_args)
   = Inr (replicate 3 (example_event ''0123456789abcdef'' ''rate_limited'' ''/''))"
  by code_simp

lemma example_poll:
  "analyze_once example_args example_inputs None
     = Inr \<lparr>written = [example_rule], provider_called = True\<rparr>"
  by code_simp


text \<open>
  Below the threshold nothing outside is consulted: when the batch holds fewer denied requests
  than the threshold, the poll does the same whatever the SDK, the transport, the agent programs,
  the environment and the secrets file are.
\<close>

theorem below_threshold_offline:
  assumes "read_events (json_loads (in_env i)) (in_log i) (arg_events args) (arg_max_events args) = Inr events"
    and "int (length (strong_events events)) < arg_min_attack_events args"
    and "json_loads env' = json_loads (in_env i)"
  shows "analyze_once args i f = analyze_once args (i\<lparr>in_env := env'\<rparr>) f"
proof -
  have eq: "poll_rules args (in_env i) p prompt cfg events t n = poll_rules args env' p prompt cfg events t n"
    if "count_attack_evidence (map PDict events) = Inr n" for p prompt cfg t n
    using count_attack_evidence_Inr [OF that] assms(2) by (auto simp: poll_rules_def Let_def)
  show ?thesis
    by (simp add: analyze_once_def assms(1,3) eq cong: rbind_cong if_cong)
qed

definition offline_env :: provider_env where
  "offline_env =
     example_env\<lparr>json_loads := json_loads (in_env example_inputs),
       codex_run := (\<lambda>_ _ _ _. Inl (OSError ''no network''))\<rparr>"

theorem below_threshold_offline_witness:
  "analyze_once (example_args\<lparr>arg_min_attack_events := 4\<rparr>) example_inputs None
   = analyze_once (example_args\<lparr>arg_min_attack_events := 4\<rparr>) (example_inputs\<lparr>in_env := offline_env\<rparr>) None"
proof -
  have "length (strong_events (replicate 3 (example_event ''0123456789abcdef'' ''rate_limited'' ''/''))) = 3"
    by code_simp
  then show ?thesis
    using below_threshold_offline [of example_inputs "example_args\<lparr>arg_min_attack_events := 4\<rparr>"
        "replicate 3 (example_event ''0123456789abcdef'' ''rate_limited'' ''/'')" offline_env None]
      example_read by (simp add: offline_env_def)
qed

text \<open>
  C1. Invariant of the loop: from any initial filter file, however broken, every state the loop
  reaches either still has that file or has one that a poll wrote, which holds at most
  \<open>max(1, max_filters)\<close> rules, all well formed, with distinct ids and distinct keys.
\<close>

theorem main_run_file_good:
  assumes "main_run args P (start_state f) s" and "arg_max_filters args \<le> 10 ^ 92"
  shows "(polls s = 0 \<and> filter_file s = f)
     \<or> (\<exists>fs. filter_file s = write_filters fs \<and> good_rules fs \<and> int (length fs) \<le> max 1 (arg_max_filters args))"
  using assms
proof (induction "start_state f" s rule: main_run.induct)
  case run_refl
  then show ?case by (simp add: start_state_def)
next
  case (run_step t i u)
  have good: "good_rules (written out) \<and> int (length (written out)) \<le> max 1 (arg_max_filters args)"
    if "analyze_once args i (filter_file t) = Inr out" for out
    using that
  proof (rule analyze_once_merge)
    fix old new ttl
    assume "merge_existing_filters old new ttl (arg_max_filters args) = Inr (written out)"
    then show ?thesis using store.merge_good store.merge_cap run_step.prems by blast
  qed
  from run_step.hyps(4) show ?case
    using run_step.hyps(2) [OF run_step.prems] good by cases auto
qed

theorem main_run_file_good_witness:
  "\<exists>s. main_run example_args (\<lambda>_. True) (start_state None) s \<and> polls s = 1
     \<and> (\<exists>fs. filter_file s = write_filters fs \<and> good_rules fs \<and> int (length fs) \<le> 512)"
proof -
  let ?s = "\<lparr>phase = Sleeping, filter_file = write_filters [example_rule], polls = 1, calls = 1\<rparr>"
  have "main_step example_args (start_state None) example_inputs ?s"
    using main_step.poll_again [of "start_state None" example_args example_inputs] example_poll
    by (simp add: start_state_def example_args_def default_args_def)
  then have run: "main_run example_args (\<lambda>_. True) (start_state None) ?s"
    by (blast intro: main_run.intros)
  have cap: "arg_max_filters example_args = 512" by (simp add: example_args_def default_args_def)
  from main_run_file_good [OF run] cap have
    "\<exists>fs. filter_file ?s = write_filters fs \<and> good_rules fs \<and> int (length fs) \<le> 512" by simp
  with run show ?thesis by (intro exI [of _ ?s]) simp
qed

lemma main_run_readable:
  assumes "main_run args (benign_inputs args) (start_state f) s" and "readable_file args f"
    and "arg_max_filters args \<le> 10 ^ 92"
  shows "phase s \<noteq> Crashed e \<and> readable_file args (filter_file s)"
  using assms
proof (induction "start_state f" s rule: main_run.induct)
  case run_refl
  then show ?case by (simp add: start_state_def)
next
  case (run_step t i u)
  note IH = run_step.hyps(2) [OF run_step.prems]
  obtain out where "analyze_once args i (filter_file t) = Inr out"
    using analyze_once_total [OF run_step.hyps(3)] IH by blast
  with run_step.hyps(4) IH show ?case
    using readable_written [OF _ run_step.prems(2)] by cases auto
qed

text \<open>
  C2. The loop survives its provider: if every poll sees a decodable log whose events have a string
  signature and a hashable reason, and a configuration that resolves, then no run that starts from
  a readable filter file crashes, however the provider fails (any exception but \<open>SystemExit\<close>) and
  whatever it returns.
\<close>

theorem main_run_never_crashes:
  assumes "main_run args (benign_inputs args) (start_state f) s" and "readable_file args f"
    and "arg_max_filters args \<le> 10 ^ 92"
  shows "phase s \<noteq> Crashed e"
  using main_run_readable [OF assms] by simp

lemma example_benign: "benign_inputs example_args example_inputs"
proof -
  let ?e = "example_event ''0123456789abcdef'' ''rate_limited'' ''/''"
  have "is_strong ?e = Inr True" by code_simp
  then have "plain_event ?e" by (auto simp: plain_event_def has_signature_def example_event_def)
  then have "list_all plain_event (replicate 3 ?e)" by (simp add: list_all_length)
  moreover have "load_provider_config (in_config example_inputs) = Inr DEFAULT_PROVIDER_CONFIG"
    by (simp add: example_inputs_def load_provider_config_def)
  moreover have "resolve_provider (arg_provider example_args) DEFAULT_PROVIDER_CONFIG = Inr ''codex''"
    by code_simp
  moreover have "\<exists>c. provider_config DEFAULT_PROVIDER_CONFIG ''codex'' (arg_model example_args) = Inr c"
    by (simp add: provider_config_def DEFAULT_PROVIDER_CONFIG_def default_providers_def dget_def
        example_args_def default_args_def)
  moreover have "polite_env (in_env example_inputs)"
    by (simp add: polite_env_def example_inputs_def example_env_def)
  ultimately show ?thesis unfolding benign_inputs_def using example_read by blast
qed

theorem main_run_never_crashes_witness:
  "\<exists>s. main_run example_args (benign_inputs example_args) (start_state None) s \<and> polls s = 1
     \<and> phase s \<noteq> Crashed (OSError ''offline'')"
proof -
  let ?s = "\<lparr>phase = Sleeping, filter_file = write_filters [example_rule], polls = 1, calls = 1\<rparr>"
  have "main_step example_args (start_state None) example_inputs ?s"
    using main_step.poll_again [of "start_state None" example_args example_inputs] example_poll
    by (simp add: start_state_def example_args_def default_args_def)
  then have run: "main_run example_args (benign_inputs example_args) (start_state None) ?s"
    using example_benign by (blast intro: main_run.intros)
  have "readable_file example_args None" by (simp add: readable_file_def read_filter_file_def cleanable_def)
  moreover have "arg_max_filters example_args \<le> 10 ^ 92" by (simp add: example_args_def default_args_def)
  ultimately have "phase ?s \<noteq> Crashed (OSError ''offline'')" by (rule main_run_never_crashes [OF run])
  with run show ?thesis by (intro exI [of _ ?s]) simp
qed

text \<open>
  C10. An idle poll changes nothing: a filter file that a poll wrote is written again unchanged by any
  later poll that finds no event, whatever its default time to live, the configuration and the
  providers are.
\<close>

theorem idle_poll_is_identity:
  assumes "analyze_once args i f = Inr out" and "arg_max_filters args \<le> 10 ^ 92"
    and "arg_max_filters args' = arg_max_filters args"
    and "read_events (json_loads (in_env i')) (in_log i') (arg_events args') (arg_max_events args') = Inr []"
  shows "analyze_once args' i' (write_filters (written out)) = Inr \<lparr>written = written out, provider_called = False\<rparr>"
proof -
  from assms(1) obtain existing new t where
    m: "merge_existing_filters existing new t (arg_max_filters args) = Inr (written out)"
    by (rule analyze_once_merge)
  obtain kept where "read_filter_file (write_filters (written out)) = Inr kept"
    and "merge_existing_filters kept [] (clamp_ttl (arg_ttl_seconds args') 60) (arg_max_filters args) = Inr (written out)"
    using store.reload [OF assms(2) m] by blast
  then show ?thesis using assms(3,4) by (simp add: analyze_once_def)
qed

theorem idle_poll_is_identity_witness:
  "analyze_once example_args (example_inputs\<lparr>in_log := None\<rparr>) (write_filters [example_rule])
     = Inr \<lparr>written = [example_rule], provider_called = False\<rparr>"
proof -
  have "read_events (json_loads (in_env (example_inputs\<lparr>in_log := None\<rparr>))) (in_log (example_inputs\<lparr>in_log := None\<rparr>))
      (arg_events example_args) (arg_max_events example_args) = Inr []" by code_simp
  moreover have "arg_max_filters example_args \<le> 10 ^ 92" by (simp add: example_args_def default_args_def)
  ultimately show ?thesis
    using idle_poll_is_identity [OF example_poll, of example_args "example_inputs\<lparr>in_log := None\<rparr>"] by simp
qed

section \<open>An attack is learned\<close>

lemma poll_not_called:
  assumes "analyze_once args i f = Inr out" and "\<not> provider_called out"
    and "read_events (json_loads (in_env i)) (in_log i) (arg_events args) (arg_max_events args) = Inr events"
    and "events \<noteq> []"
  obtains t old det new where
    "deterministic_filters events (arg_min_count args) t (arg_learn_observed args) = Inr det"
    "sanitized_filter_list (PList (map PDict det)) t = Inr new"
    "merge_existing_filters old new t (arg_max_filters args) = Inr (written out)"
proof -
  let ?t = "clamp_ttl (arg_ttl_seconds args) 60"
  from assms(1,3,4) obtain old p prompt cfg n rules new where
    r: "poll_rules args (in_env i) p prompt cfg events ?t n = Inr rules"
    and new: "(if \<not> arg_no_codex args \<and> \<not> arg_disable_strong_coverage args
        then merge_strong_coverage (fst rules) events (arg_min_count args) ?t (arg_learn_observed args)
        else sanitized_filter_list (PList (map PDict (fst rules))) ?t) = Inr new"
    and m: "merge_existing_filters old new ?t (arg_max_filters args) = Inr (written out)"
    and c: "provider_called out = snd rules"
    by (auto simp: analyze_once_def rbind_Inr_iff)
  from r c assms(2) have det:
    "deterministic_filters events (arg_min_count args) ?t (arg_learn_observed args) = Inr (fst rules)"
    by (auto simp: poll_rules_def Let_def rbind_Inr_iff split: if_splits sum.splits)
  have "sanitized_filter_list (PList (map PDict (fst rules))) ?t = Inr new"
    using new merge_strong_coverage_self [OF det] by (auto split: if_splits)
  with det m that show ?thesis by blast
qed

lemma local_rules_kept:
  assumes "deterministic_filters events mc t lo = Inr det"
    and "sanitized_filter_list (PList (map PDict det)) t = Inr new"
    and "merge_existing_filters old new t maxf = Inr out"
    and "2 * int (length events) \<le> max 1 maxf"
    and "g \<in> set det" and "learned_key k g" and "k = ''signature:'' @ x \<or> k = ''path_shape:'' @ x"
  shows "\<exists>r \<in> set out. filter_key r = k"
proof -
  from assms(6) obtain r where r: "sanitize_filter g t = Inr r" by (auto simp: learned_key_def)
  note kr = learned_key_matcher [OF assms(6,7) r]
  from assms(2) obtain ys where ys: "rmap (\<lambda>x. sanitize_filter x t) det = Inr ys"
    and new: "new = filter filter_has_matcher ys"
    by (auto simp: sanitized_filter_list_def rbind_Inr_iff)
  have "length new \<le> length det"
    using rmap_length [OF ys] length_filter_le [of filter_has_matcher ys] by (simp add: new)
  with deterministic_filters_length [OF assms(1)] assms(4) have len: "int (length new) \<le> max 1 maxf"
    by linarith
  have "r \<in> set ys" using ys assms(5) r list_all2_witness by (fastforce simp: rmap_Inr_iff)
  then have "r \<in> set new" using kr by (simp add: new)
  moreover have "filter_key r \<noteq> ''id:'' @ y" for y using kr assms(7) by auto
  ultimately show ?thesis
    using merge_keeps_new_key [OF assms(3) len _ sanitize_filter_fixed [OF r]] kr by metis
qed

lemma poll_learns:
  assumes "analyze_once args i f = Inr out" and "\<not> provider_called out"
    and "read_events (json_loads (in_env i)) (in_log i) (arg_events args) (arg_max_events args) = Inr events"
    and "2 * arg_max_events args \<le> arg_max_filters args"
  shows "(signature_evidence events (arg_min_count args) (arg_learn_observed args) (PStr s)
            \<and> is_supported_signature s \<longrightarrow> (\<exists>r \<in> set (written out). filter_key r = ''signature:'' @ s))
     \<and> (shape_evidence events (arg_min_count args) (arg_learn_observed args) shape
            \<and> bounded_utf8 shape FILTER_MATCH_VALUE_MAX_BYTES
            \<longrightarrow> (\<exists>r \<in> set (written out). filter_key r = ''path_shape:'' @ shape))"
proof (cases "events = []")
  case True
  then show ?thesis
    by (simp add: signature_evidence_def shape_evidence_def signature_group_def shape_group_def Let_def)
next
  case False
  from poll_not_called [OF assms(1-3) False] obtain t old det new where
    det: "deterministic_filters events (arg_min_count args) t (arg_learn_observed args) = Inr det"
    and new: "sanitized_filter_list (PList (map PDict det)) t = Inr new"
    and m: "merge_existing_filters old new t (arg_max_filters args) = Inr (written out)" .
  have "2 * int (length events) \<le> max 1 (arg_max_filters args)"
    using read_events_length [OF assms(3)] assms(4) by linarith
  note kept = local_rules_kept [OF det new m this]
  note D = deterministic_filters_iff [OF det]
  have "\<exists>r \<in> set (written out). filter_key r = ''signature:'' @ s"
    if ev: "signature_evidence events (arg_min_count args) (arg_learn_observed args) (PStr s)"
      and sup: "is_supported_signature s"
  proof -
    from D ev obtain g where g: "learned_ok [(''signature'', PStr s)] g"
      "\<forall>k. learned_key k g \<longrightarrow> (\<exists>f \<in> set det. learned_key k f)" by blast
    from g(2) learned_signature_key [OF g(1) sup] obtain h
      where "h \<in> set det" "learned_key (''signature:'' @ s) h" by blast
    then show ?thesis by (rule kept) simp
  qed
  moreover have "\<exists>r \<in> set (written out). filter_key r = ''path_shape:'' @ shape"
    if ev: "shape_evidence events (arg_min_count args) (arg_learn_observed args) shape"
      and ok: "bounded_utf8 shape FILTER_MATCH_VALUE_MAX_BYTES"
  proof -
    from D ev obtain g where g: "learned_ok [(''path_shape'', PStr shape)] g"
      "\<forall>k. learned_key k g \<longrightarrow> (\<exists>f \<in> set det. learned_key k f)" by blast
    from g(2) learned_shape_key [OF g(1) ok] obtain h
      where "h \<in> set det" "learned_key (''path_shape:'' @ shape) h" by blast
    then show ?thesis by (rule kept) simp
  qed
  ultimately show ?thesis by blast
qed

text \<open>
  C9. An attack is learned end to end: with a store at least twice the size of the event window (the
  defaults are 512 and 200), a poll that used the local generator leaves in the filter file a rule
  for every supported signature and every learnable path shape with enough evidence in the log,
  whatever the file held before.
\<close>

theorem attack_is_learned:
  assumes "analyze_once args i f = Inr out" and "\<not> provider_called out"
    and "read_events (json_loads (in_env i)) (in_log i) (arg_events args) (arg_max_events args) = Inr events"
    and "2 * arg_max_events args \<le> arg_max_filters args"
  shows "(signature_evidence events (arg_min_count args) (arg_learn_observed args) (PStr s)
            \<and> is_supported_signature s \<longrightarrow> (\<exists>r \<in> set (written out). filter_key r = ''signature:'' @ s))
     \<and> (shape_evidence events (arg_min_count args) (arg_learn_observed args) shape
            \<and> bounded_utf8 shape FILTER_MATCH_VALUE_MAX_BYTES
            \<longrightarrow> (\<exists>r \<in> set (written out). filter_key r = ''path_shape:'' @ shape))"
  using assms by (rule poll_learns)

definition quiet_args :: args where
  "quiet_args = example_args\<lparr>arg_min_attack_events := 4\<rparr>"

theorem attack_is_learned_witness:
  "\<exists>out. analyze_once quiet_args example_inputs None = Inr out
     \<and> (\<exists>r \<in> set (written out). filter_key r = ''signature:0123456789abcdef'')"
proof -
  let ?events = "replicate 3 (example_event ''0123456789abcdef'' ''rate_limited'' ''/'')"
  obtain out where out: "analyze_once quiet_args example_inputs None = Inr out" "\<not> provider_called out"
  proof -
    have "case analyze_once quiet_args example_inputs None of Inr out \<Rightarrow> \<not> provider_called out | Inl _ \<Rightarrow> False"
      by code_simp
    then show thesis using that by (auto split: sum.splits)
  qed
  have read: "read_events (json_loads (in_env example_inputs)) (in_log example_inputs)
      (arg_events quiet_args) (arg_max_events quiet_args) = Inr ?events"
    using example_read by (simp add: quiet_args_def)
  have "2 * arg_max_events quiet_args \<le> arg_max_filters quiet_args"
    and "signature_evidence ?events (arg_min_count quiet_args) (arg_learn_observed quiet_args) (PStr ''0123456789abcdef'')"
    and "is_supported_signature ''0123456789abcdef''"
    by code_simp+
  then have "\<exists>r \<in> set (written out). filter_key r = ''signature:'' @ ''0123456789abcdef''"
    using attack_is_learned [OF out read] by blast
  with out(1) show ?thesis by auto
qed

section \<open>The loop keeps going\<close>

lemma main_run_step_once:
  assumes "main_run args P (start_state f) s" and "\<not> arg_once args"
  shows "phase s \<noteq> Returned"
  using assms
proof (induction "start_state f" s rule: main_run.induct)
  case (run_step t i u)
  from run_step.hyps(4) show ?case using run_step.hyps(2) run_step.prems by cases auto
qed (simp add: start_state_def)

lemma main_step_polling:
  assumes "phase t = Polling" and "\<not> arg_once args" and "analyze_once args i (filter_file t) = Inr out"
  shows "main_step args t i u \<longleftrightarrow>
    u = \<lparr>phase = Sleeping, filter_file = write_filters (written out), polls = Suc (polls t),
         calls = calls t + (if provider_called out then 1 else 0)\<rparr>"
proof
  assume "main_step args t i u"
  then show "u = \<lparr>phase = Sleeping, filter_file = write_filters (written out), polls = Suc (polls t),
      calls = calls t + (if provider_called out then 1 else 0)\<rparr>" using assms by cases auto
qed (use main_step.poll_again [OF assms(1,3,2)] in simp)

lemma no_codex_not_called:
  assumes "analyze_once args i f = Inr out" and "arg_no_codex args"
  shows "\<not> provider_called out"
proof -
  have quiet: "poll_rules args env p prompt cfg events t n \<noteq> Inr (fs, True)" for env p prompt cfg events t n fs
    using assms(2) by (auto simp: poll_rules_def Let_def rbind_Inr_iff)
  from assms(1) show ?thesis by (auto simp: analyze_once_def rbind_Inr_iff quiet split: if_splits)
qed

text \<open>
  C3. An attack is answered: whatever state the polling loop has reached on decodable inputs, if the
  log then shows a supported signature with enough evidence, the loop is not stuck, and the next poll
  of that log (after waking up, when it sleeps) has exactly one outcome, after which the filter file
  holds a rule for the signature.  The local generator is used and the store is at least twice the
  event window.
\<close>

theorem attack_leads_to_rule:
  assumes "main_run args (benign_inputs args) (start_state f) s" and "readable_file args f"
    and "arg_max_filters args \<le> 10 ^ 92" and "\<not> arg_once args" and "arg_no_codex args"
    and "2 * arg_max_events args \<le> arg_max_filters args" and "benign_inputs args i"
    and "read_events (json_loads (in_env i)) (in_log i) (arg_events args) (arg_max_events args) = Inr events"
    and "signature_evidence events (arg_min_count args) (arg_learn_observed args) (PStr sig)"
    and "is_supported_signature sig"
  shows "\<exists>t u fs. (t = s \<or> main_step args s i t) \<and> phase t = Polling
    \<and> main_step args t i u \<and> (\<forall>u'. main_step args t i u' \<longrightarrow> u' = u)
    \<and> polls u = Suc (polls s) \<and> filter_file u = write_filters fs
    \<and> (\<exists>r \<in> set fs. filter_key r = ''signature:'' @ sig)"
proof -
  note alive = main_run_readable [OF assms(1-3)]
  have "phase s = Polling \<or> phase s = Sleeping"
    using alive main_run_step_once [OF assms(1,4)] by (cases "phase s") auto
  then obtain t where t: "t = s \<or> main_step args s i t" "phase t = Polling"
    "filter_file t = filter_file s" "polls t = polls s"
  proof
    assume "phase s = Sleeping"
    then have "main_step args s i (s\<lparr>phase := Polling\<rparr>)" by (rule main_step.wake_up)
    then show thesis by (intro that [of "s\<lparr>phase := Polling\<rparr>"]) simp_all
  qed (use that in blast)
  obtain out where out: "analyze_once args i (filter_file t) = Inr out"
    using analyze_once_total [OF assms(7)] alive t(3) by auto
  note step = main_step_polling [OF t(2) assms(4) out]
  have "\<exists>r \<in> set (written out). filter_key r = ''signature:'' @ sig"
    using poll_learns [OF out no_codex_not_called [OF out assms(5)] assms(8,6)] assms(9,10) by blast
  with t step show ?thesis by force
qed

definition local_args :: args where
  "local_args = example_args\<lparr>arg_no_codex := True\<rparr>"

theorem attack_leads_to_rule_witness:
  "\<exists>t u fs. main_step local_args t example_inputs u \<and> polls u = 1 \<and> filter_file u = write_filters fs
     \<and> (\<exists>r \<in> set fs. filter_key r = ''signature:0123456789abcdef'')"
proof -
  let ?events = "replicate 3 (example_event ''0123456789abcdef'' ''rate_limited'' ''/'')"
  have run: "main_run local_args (benign_inputs local_args) (start_state None) (start_state None)"
    by (rule main_run.run_refl)
  have readable: "readable_file local_args None"
    by (simp add: readable_file_def read_filter_file_def cleanable_def)
  have args: "arg_max_filters local_args \<le> 10 ^ 92" "\<not> arg_once local_args" "arg_no_codex local_args"
    "2 * arg_max_events local_args \<le> arg_max_filters local_args"
    by (simp_all add: local_args_def example_args_def default_args_def)
  have same: "arg_provider local_args = arg_provider example_args" "arg_model local_args = arg_model example_args"
    "arg_events local_args = arg_events example_args" "arg_max_events local_args = arg_max_events example_args"
    by (simp_all add: local_args_def)
  have benign: "benign_inputs local_args example_inputs"
    using example_benign unfolding benign_inputs_def same .
  have read: "read_events (json_loads (in_env example_inputs)) (in_log example_inputs)
      (arg_events local_args) (arg_max_events local_args) = Inr ?events"
    using example_read unfolding same .
  have "signature_evidence ?events (arg_min_count local_args) (arg_learn_observed local_args) (PStr ''0123456789abcdef'')"
    and "is_supported_signature ''0123456789abcdef''" by code_simp+
  from attack_leads_to_rule [OF run readable args benign read this] show ?thesis
    by (auto simp: start_state_def)
qed

end
