(* ===== verification/Provider_Cli.thy ===== *)
theory Provider_Cli
  imports Provider_Config
begin

text \<open>
  The provider setup command \<open>tools/ai_provider_cli.py\<close>: its operations read and write the
  configuration and the secrets file and, for \<open>login\<close>, read lines from the terminal.  An operation
  is a function on the state of the terminal and the two files that returns a value or raises; a
  file written before an exception stays written.  What is only printed, and the probes of
  installed programs whose result is only printed, are left out.
\<close>

section \<open>State\<close>

record cli_state =
  console :: "string list"
  config_file :: json_file
  secrets_file :: json_file

type_synonym 'a io = "cli_state \<Rightarrow> 'a result \<times> cli_state"

definition io_bind :: "'a io \<Rightarrow> ('a \<Rightarrow> 'b io) \<Rightarrow> 'b io" where
  "io_bind m f s = (case m s of (Inl e, s') \<Rightarrow> (Inl e, s') | (Inr x, s') \<Rightarrow> f x s')"

definition io_return :: "'a \<Rightarrow> 'a io" where
  "io_return x s = (Inr x, s)"

definition io_lift :: "'a result \<Rightarrow> 'a io" where
  "io_lift r s = (r, s)"

definition load_config :: "dict io" where
  "load_config s = (load_provider_config (config_file s), s)"

definition save_config :: "dict \<Rightarrow> unit io" where
  "save_config config s = (Inr (), s\<lparr>config_file := write_provider_config config\<rparr>)"

definition load_secrets :: "pyval io" where
  "load_secrets s = (load_provider_secrets (secrets_file s), s)"

definition save_secrets :: "pyval \<Rightarrow> unit io" where
  "save_secrets secrets s = (Inr (), s\<lparr>secrets_file := write_provider_secrets secrets\<rparr>)"

section \<open>Prompts\<close>

definition read_line :: "string io" where
  "read_line s = (case console s of [] \<Rightarrow> (Inl EOFError, s) | l # ls \<Rightarrow> (Inr l, s\<lparr>console := ls\<rparr>))"

definition reply_or :: "string \<Rightarrow> string \<Rightarrow> string" where
  "reply_or current line = (let raw = str_strip line in if raw \<noteq> [] then raw else current)"

definition prompt_default :: "string \<Rightarrow> string io" where
  "prompt_default current = io_bind read_line (\<lambda>line. io_return (reply_or current line))"

text \<open>The loop of \<open>prompt_required\<close> on the lines typed: the answer and the lines left.\<close>

fun required_from :: "string \<Rightarrow> string list \<Rightarrow> (string result \<times> string list)" where
  "required_from current [] = (Inl EOFError, [])"
| "required_from current (line # lines) =
     (let value = str_strip (reply_or current line)
      in if value \<noteq> [] then (Inr value, lines) else required_from current lines)"

definition prompt_required :: "string \<Rightarrow> string io" where
  "prompt_required current s =
     (case required_from current (console s) of (r, lines) \<Rightarrow> (r, s\<lparr>console := lines\<rparr>))"

lemma required_from_shorter:
  "required_from current ls = (Inr v, rest) \<Longrightarrow> length rest < length ls"
  by (induction ls) (auto simp: Let_def split: if_splits)

function choice_from :: "string \<Rightarrow> string list \<Rightarrow> string list \<Rightarrow> (string result \<times> string list)" where
  "choice_from current allowed lines =
     (case required_from current lines of
        (Inl e, rest) \<Rightarrow> (Inl e, rest)
      | (Inr v, rest) \<Rightarrow>
          (let value = str_lower v
           in if value \<in> set allowed then (Inr value, rest) else choice_from current allowed rest))"
  by pat_completeness auto
termination
  by (relation "measure (\<lambda>(current, allowed, lines). length lines)")
    (auto dest: required_from_shorter [OF sym])

declare choice_from.simps [simp del]

definition prompt_choice :: "string \<Rightarrow> string list \<Rightarrow> string io" where
  "prompt_choice current allowed s =
     (case choice_from current allowed (console s) of (r, lines) \<Rightarrow> (r, s\<lparr>console := lines\<rparr>))"

definition CLI_AGENTS :: "string list" where
  "CLI_AGENTS = [''codex'', ''claude'', ''opencode'', ''cursor'', ''grok'']"

definition API_PROVIDERS :: "string list" where
  "API_PROVIDERS = [''openai'', ''anthropic'', ''gemini'', ''openrouter'']"

definition PROVIDERS :: "string list" where
  "PROVIDERS = CLI_AGENTS @ API_PROVIDERS"

text \<open>The loop of \<open>choose_provider\<close>; \<open>int\<close> of a digit string that is not a numeral raises.\<close>

fun choose_from :: "string list \<Rightarrow> (string result \<times> string list)" where
  "choose_from [] = (Inl EOFError, [])"
| "choose_from (line # lines) =
     (let raw = str_strip line
      in if str_isdigit raw
         then (case py_int (PStr raw) of
                 Inl e \<Rightarrow> (Inl e, lines)
               | Inr n \<Rightarrow> if 1 \<le> n \<and> n \<le> int (length PROVIDERS)
                         then (Inr (PROVIDERS ! nat (n - 1)), lines) else choose_from lines)
         else choose_from lines)"

definition choose_provider :: "string io" where
  "choose_provider s = (case choose_from (console s) of (r, lines) \<Rightarrow> (r, s\<lparr>console := lines\<rparr>))"

section \<open>Editing the configuration\<close>

text \<open>
  \<open>providers = config.setdefault("providers", {})\<close>; \<open>entry = providers.setdefault(provider, {})\<close>; then
  \<open>entry[key] = value\<close> for each pair.
\<close>

definition set_entry :: "dict \<Rightarrow> string \<Rightarrow> (string \<times> pyval) list \<Rightarrow> dict result" where
  "set_entry config provider pairs =
     (case dget_or config ''providers'' (PDict []) of
        PDict providers \<Rightarrow>
          (case dget_or providers provider (PDict []) of
             PDict entry \<Rightarrow>
               Inr (dset ''providers''
                      (PDict (dset provider (PDict (foldl (\<lambda>d kv. dset (fst kv) (snd kv) d) entry pairs))
                                providers)) config)
           | v \<Rightarrow> if pairs = [] then Inr config else Inl TypeError)
      | _ \<Rightarrow> Inl AttributeError)"

text \<open>\<open>secrets.setdefault(provider, {})["api_key"] = key\<close>.\<close>

definition set_secret :: "pyval \<Rightarrow> string \<Rightarrow> string \<Rightarrow> pyval result" where
  "set_secret secrets provider key =
     (case secrets of
        PDict s \<Rightarrow>
          (case dget_or s provider (PDict []) of
             PDict own \<Rightarrow> Inr (PDict (dset provider (PDict (dset ''api_key'' (PStr key) own)) s))
           | _ \<Rightarrow> Inl TypeError)
      | _ \<Rightarrow> Inl AttributeError)"

definition select_in :: "string \<Rightarrow> dict \<Rightarrow> dict" where
  "select_in provider config = dset ''selected_provider'' (PStr provider) config"

section \<open>Commands\<close>

definition init_config :: "unit io" where
  "init_config s =
     (case config_file s of
        Some _ \<Rightarrow> (Inr (), s)
      | None \<Rightarrow> save_config DEFAULT_PROVIDER_CONFIG s)"

definition select_provider :: "string \<Rightarrow> unit io" where
  "select_provider provider = io_bind load_config (\<lambda>config. save_config (select_in provider config))"

record set_args =
  set_name :: string
  set_model :: "string option"
  set_base_url :: "string option"
  set_cli_command :: "string option"
  set_api_key_env :: "string option"
  set_api_key :: "string option"
  set_select :: bool

definition opt_pair :: "string \<Rightarrow> string option \<Rightarrow> (string \<times> pyval) list" where
  "opt_pair key value = (case value of None \<Rightarrow> [] | Some v \<Rightarrow> [(key, PStr v)])"

definition store_secret :: "string \<Rightarrow> string \<Rightarrow> unit io" where
  "store_secret provider key =
     io_bind load_secrets (\<lambda>secrets.
       io_bind (io_lift (set_secret secrets provider key)) save_secrets)"

definition set_provider :: "set_args \<Rightarrow> unit io" where
  "set_provider args =
     io_bind load_config (\<lambda>config.
     io_bind (io_lift (set_entry config (set_name args)
         (opt_pair ''model'' (set_model args) @ opt_pair ''command'' (set_cli_command args)
          @ opt_pair ''base_url'' (set_base_url args) @ opt_pair ''api_key_env'' (set_api_key_env args))))
       (\<lambda>config.
     io_bind (save_config (if set_select args then select_in (set_name args) config else config)) (\<lambda>_.
       case set_api_key args of
         Some key \<Rightarrow> if key \<noteq> [] then store_secret (set_name args) key else io_return ()
       | None \<Rightarrow> io_return ())))"

definition str_field :: "dict \<Rightarrow> string \<Rightarrow> string \<Rightarrow> string" where
  "str_field cfg key fallback = py_str (dget_or cfg key (PStr fallback))"

definition login_codex :: "dict \<Rightarrow> dict \<Rightarrow> unit io" where
  "login_codex config cfg =
     io_bind (prompt_required (str_field cfg ''model'' ''gpt-5.5'')) (\<lambda>model.
     io_bind (io_lift (set_entry config ''codex'' [(''model'', PStr model)])) (\<lambda>config.
     io_bind (prompt_choice (str_field cfg ''reasoning_effort'' ''high'')
         [''none'', ''minimal'', ''low'', ''medium'', ''high'', ''xhigh'']) (\<lambda>effort.
     io_bind (io_lift (set_entry config ''codex'' [(''reasoning_effort'', PStr effort)])) (\<lambda>config.
     io_bind (prompt_required (str_field cfg ''service_tier'' ''fast'')) (\<lambda>tier.
     io_bind (io_lift (set_entry config ''codex'' [(''service_tier'', PStr tier)])) (\<lambda>config.
     save_config (select_in ''codex'' config)))))))"

definition login_cli_agent :: "string \<Rightarrow> dict \<Rightarrow> dict \<Rightarrow> unit io" where
  "login_cli_agent provider config cfg =
     io_bind (prompt_default (str_field cfg ''model'' [])) (\<lambda>model.
     io_bind (io_lift (set_entry config provider [(''model'', PStr model)])) (\<lambda>config.
     save_config (select_in provider config)))"

definition login_anthropic :: "string \<Rightarrow> dict \<Rightarrow> dict \<Rightarrow> dict io" where
  "login_anthropic provider cfg config =
     (if provider = ''anthropic''
      then io_bind (prompt_default (str_field cfg ''anthropic_version'' ''2023-06-01'')) (\<lambda>v.
             io_lift (set_entry config provider [(''anthropic_version'', PStr v)]))
      else io_return config)"

definition login_openrouter :: "string \<Rightarrow> dict \<Rightarrow> dict \<Rightarrow> dict io" where
  "login_openrouter provider cfg config =
     (if provider = ''openrouter''
      then io_bind (prompt_default (str_field cfg ''app_title'' ''AlturaProt'')) (\<lambda>title.
           io_bind (io_lift (set_entry config provider [(''app_title'', PStr title)])) (\<lambda>config.
           io_bind (prompt_default (str_field cfg ''http_referer'' [])) (\<lambda>referer.
             if referer \<noteq> [] then io_lift (set_entry config provider [(''http_referer'', PStr referer)])
             else io_return config)))
      else io_return config)"

definition login_secret :: "string \<Rightarrow> unit io" where
  "login_secret provider =
     io_bind read_line (\<lambda>answer.
       if str_lower (str_strip answer) = ''y''
       then io_bind read_line (\<lambda>line.
              let key = str_strip line in if key \<noteq> [] then store_secret provider key else io_return ())
       else io_return ())"

definition login_api :: "string \<Rightarrow> dict \<Rightarrow> dict \<Rightarrow> unit io" where
  "login_api provider config cfg =
     io_bind (prompt_required (str_field cfg ''model'' [])) (\<lambda>model.
     io_bind (prompt_required (str_field cfg ''api_key_env'' [])) (\<lambda>env_name.
     io_bind (prompt_default (str_field cfg ''base_url'' [])) (\<lambda>base_url.
     io_bind (io_lift (set_entry config provider
         [(''model'', PStr model), (''api_key_env'', PStr env_name), (''base_url'', PStr base_url)])) (\<lambda>config.
     io_bind (login_anthropic provider cfg config) (\<lambda>config.
     io_bind (login_openrouter provider cfg config) (\<lambda>config.
     io_bind (login_secret provider) (\<lambda>_.
     save_config (select_in provider config))))))))"

definition login_provider :: "string \<Rightarrow> unit io" where
  "login_provider provider =
     io_bind load_config (\<lambda>config.
     io_bind (io_lift (provider_config config provider None)) (\<lambda>pair.
       case pair of (config, cfg) \<Rightarrow>
         if provider = ''codex'' then login_codex config cfg
         else if provider \<in> set CLI_AGENTS then login_cli_agent provider config cfg
         else login_api provider config cfg))"

datatype command = CInit | CSelect string | CSet set_args | CLogin "string option"

definition run_command :: "command \<Rightarrow> unit io" where
  "run_command c =
     (case c of
        CInit \<Rightarrow> init_config
      | CSelect provider \<Rightarrow> select_provider provider
      | CSet args \<Rightarrow> set_provider args
      | CLogin (Some provider) \<Rightarrow> login_provider provider
      | CLogin None \<Rightarrow> io_bind choose_provider login_provider)"

section \<open>What a command leaves behind\<close>

lemma io_bind_Inr:
  "io_bind m f s = (Inr y, s') \<longleftrightarrow> (\<exists>x s1. m s = (Inr x, s1) \<and> f x s1 = (Inr y, s'))"
  by (auto simp: io_bind_def split: prod.splits sum.splits)

lemmas io_simps = io_bind_Inr io_return_def io_lift_def load_config_def save_config_def
  load_secrets_def save_secrets_def

lemma store_secret_config: "store_secret p k s = (r, s') \<Longrightarrow> config_file s' = config_file s"
  by (auto simp: store_secret_def io_bind_def io_lift_def load_secrets_def save_secrets_def
      split: sum.splits prod.splits)

definition set_pairs :: "set_args \<Rightarrow> (string \<times> pyval) list" where
  "set_pairs args =
     opt_pair ''model'' (set_model args) @ opt_pair ''command'' (set_cli_command args)
     @ opt_pair ''base_url'' (set_base_url args) @ opt_pair ''api_key_env'' (set_api_key_env args)"

lemma set_pairs_str: "(k, v) \<in> set (set_pairs args) \<Longrightarrow> \<exists>s. v = PStr s"
  by (auto simp: set_pairs_def opt_pair_def split: option.splits)

lemma set_pairs_distinct: "distinct (map fst (set_pairs args))"
  by (auto simp: set_pairs_def opt_pair_def split: option.splits)

lemma set_provider_Inr:
  assumes "set_provider args s = (Inr (), s')"
  obtains c0 c1 where "load_provider_config (config_file s) = Inr c0"
    and "set_entry c0 (set_name args) (set_pairs args) = Inr c1"
    and "config_file s' = write_provider_config (if set_select args then select_in (set_name args) c1 else c1)"
proof -
  from assms obtain c0 c1 where c: "load_provider_config (config_file s) = Inr c0"
    "set_entry c0 (set_name args) (set_pairs args) = Inr c1"
    and rest: "(case set_api_key args of
         Some key \<Rightarrow> if key \<noteq> [] then store_secret (set_name args) key else io_return ()
       | None \<Rightarrow> io_return ())
      (s\<lparr>config_file := write_provider_config (if set_select args then select_in (set_name args) c1 else c1)\<rparr>)
      = (Inr (), s')"
    by (auto simp: set_provider_def io_simps set_pairs_def)
  from rest have "config_file s' = write_provider_config (if set_select args then select_in (set_name args) c1 else c1)"
    using store_secret_config
    by (auto simp: io_return_def split: option.splits if_splits dest!: store_secret_config)
  with c show ?thesis by (rule that)
qed

lemma map_of_foldl_update:
  "distinct (map fst pairs) \<Longrightarrow> map_of (foldl (\<lambda>d kv. dset (fst kv) (snd kv) d) entry pairs) k
     = (case map_of pairs k of Some v \<Rightarrow> Some v | None \<Rightarrow> map_of entry k)"
proof (induction pairs arbitrary: entry)
  case Nil
  then show ?case by simp
next
  case (Cons p pairs)
  then have "map_of pairs (fst p) = None" by (simp add: map_of_eq_None_iff)
  with Cons show ?case by (cases p) (auto simp: update_conv' split: option.splits)
qed

lemma wf_foldl_update:
  "wf_val (PDict entry) \<Longrightarrow> \<forall>kv \<in> set pairs. wf_val (snd kv) \<Longrightarrow>
     wf_val (PDict (foldl (\<lambda>d kv. dset (fst kv) (snd kv) d) entry pairs))"
proof (induction pairs arbitrary: entry)
  case Nil
  then show ?case by simp
next
  case (Cons p pairs)
  have "wf_val (PDict (dset (fst p) (snd p) entry))"
    using Cons.prems(2) by (intro wf_update Cons.prems(1)) simp
  from Cons.IH [OF this] Cons.prems(2) show ?case by simp
qed

lemma wf_dget_or: "wf_val (PDict d) \<Longrightarrow> dget_or d k (PDict []) = v \<Longrightarrow> wf_val v"
  using wf_items_value [of d k v] by (cases "map_of d k") (auto simp: dget_or_def)

text \<open>The edited entry is at its path, and the configuration stays well formed.\<close>

lemma set_entry_result:
  assumes "set_entry c0 p pairs = Inr c1" and "wf_val (PDict c0)"
    and "distinct (map fst pairs)" and "\<forall>kv \<in> set pairs. wf_val (snd kv)"
  shows "wf_val (PDict c1)"
    and "(k, v) \<in> set pairs \<Longrightarrow> lookup_path (PDict c1) [''providers'', p, k] = Some v"
proof -
  have "wf_val (PDict c1) \<and> ((k, v) \<in> set pairs \<longrightarrow> lookup_path (PDict c1) [''providers'', p, k] = Some v)"
  proof (cases "dget_or c0 ''providers'' (PDict [])")
    case (PDict providers)
    have wfp: "wf_val (PDict providers)"
      using wf_dget_or [OF assms(2) PDict] .
    show ?thesis
    proof (cases "\<exists>entry. dget_or providers p (PDict []) = PDict entry")
      case True
      then obtain entry where entry: "dget_or providers p (PDict []) = PDict entry" ..
      let ?e = "foldl (\<lambda>d kv. dset (fst kv) (snd kv) d) entry pairs"
      have "wf_val (PDict entry)"
        using wf_dget_or [OF wfp entry] .
      then have "wf_val (PDict ?e)" using assms(4) by (rule wf_foldl_update)
      moreover have c1: "c1 = dset ''providers'' (PDict (dset p (PDict ?e) providers)) c0"
        using assms(1) PDict entry by (simp add: set_entry_def)
      ultimately have "wf_val (PDict c1)" using wf_update [OF assms(2)] wf_update [OF wfp] by simp
      moreover have "lookup_path (PDict c1) [''providers'', p, k] = Some v" if "(k, v) \<in> set pairs"
        using that assms(3) by (simp add: c1 update_conv' map_of_foldl_update)
      ultimately show ?thesis by blast
    next
      case False
      then have "(if pairs = [] then Inr c0 else Inl TypeError) = (Inr c1 :: dict result)"
        using assms(1) PDict by (cases "dget_or providers p (PDict [])") (simp_all add: set_entry_def)
      then have "pairs = [] \<and> c1 = c0" by (simp split: if_splits)
      then show ?thesis using assms(2) by simp
    qed
  qed (use assms(1) in \<open>simp_all add: set_entry_def\<close>)
  then show "wf_val (PDict c1)"
    and "(k, v) \<in> set pairs \<Longrightarrow> lookup_path (PDict c1) [''providers'', p, k] = Some v" by auto
qed

lemma load_file_Inr:
  "load_provider_config (Some r) = Inr c \<Longrightarrow> \<exists>u. r = Inr (PDict u) \<and> c = deep_merge DEFAULT_PROVIDER_CONFIG u"
  by (cases r; cases "projr r") (auto simp: load_provider_config_def)

lemma load_wf:
  assumes "load_provider_config jf = Inr c" and "\<And>u. jf = Some (Inr u) \<Longrightarrow> wf_val u"
  shows "wf_val (PDict c)"
proof (cases jf)
  case None
  then show ?thesis using assms(1) wf_defaults by (simp add: load_provider_config_def)
next
  case (Some r)
  then obtain u where "r = Inr (PDict u)" and "c = deep_merge DEFAULT_PROVIDER_CONFIG u"
    using load_file_Inr assms(1) by blast
  then show ?thesis using wf_deep_merge [OF wf_defaults, of u] assms(2) [of "PDict u"] Some by blast
qed

text \<open>Writing a configuration and loading it back keeps every leaf.\<close>

lemma load_written:
  assumes "wf_val (PDict c)" and "lookup_path (PDict c) (k # ks) = Some (PStr v)"
  shows "load_provider_config (write_provider_config c)
           = Inr (deep_merge DEFAULT_PROVIDER_CONFIG (sorted_dict c))"
    and "lookup_path (PDict (deep_merge DEFAULT_PROVIDER_CONFIG (sorted_dict c))) (k # ks) = Some (PStr v)"
proof -
  show "load_provider_config (write_provider_config c) = Inr (deep_merge DEFAULT_PROVIDER_CONFIG (sorted_dict c))"
    by (simp add: load_provider_config_def write_provider_config_def sort_keys_dict del: sort_keys.simps)
  have "wf_val (PDict (sorted_dict c))"
    using wf_sort_keys(1) [OF assms(1)] by (simp add: sort_keys_dict del: sort_keys.simps)
  moreover have "lookup_path (PDict (sorted_dict c)) (k # ks) = Some (PStr v)"
    using lookup_sort_keys [OF assms(1), of "k # ks"] assms(2)
    by (simp only: sort_keys_dict) simp
  ultimately show "lookup_path (PDict (deep_merge DEFAULT_PROVIDER_CONFIG (sorted_dict c))) (k # ks) = Some (PStr v)"
    by (rule lookup_override) simp
qed

section \<open>Properties of the setup command\<close>

lemma lookup3:
  "lookup_path (PDict c) [a, b, k] = Some v \<longleftrightarrow>
     (\<exists>d e. map_of c a = Some (PDict d) \<and> map_of d b = Some (PDict e) \<and> map_of e k = Some v)"
proof -
  have "lookup_path w [b, k] = Some v \<longleftrightarrow>
      (\<exists>d e. w = PDict d \<and> map_of d b = Some (PDict e) \<and> map_of e k = Some v)" for w
  proof (cases w)
    case (PDict d)
    show ?thesis
    proof (cases "map_of d b")
      case (Some x)
      then show ?thesis using PDict by (cases x) (auto split: option.splits)
    qed (use PDict in auto)
  qed auto
  then show ?thesis by (auto split: option.splits)
qed

lemma provider_default: "p \<in> set PROVIDERS \<Longrightarrow> \<exists>d. map_of default_providers p = Some (PDict d)"
  by (auto simp: PROVIDERS_def CLI_AGENTS_def API_PROVIDERS_def default_providers_def)

lemma providers_supported: "p \<in> set PROVIDERS \<Longrightarrow> p \<in> set ALL_PROVIDERS"
  by (auto simp: PROVIDERS_def CLI_AGENTS_def API_PROVIDERS_def ALL_PROVIDERS_def default_providers_def)

lemma provider_config_field:
  assumes "wf_val (PDict c)" and "p \<in> set PROVIDERS"
    and "lookup_path (PDict c) [''providers'', p, k] = Some (PStr v)"
  shows "\<exists>cfg. provider_config c p None = Inr (c, cfg) \<and> dget cfg k = PStr v"
proof -
  from assms(3) obtain d e where de: "map_of c ''providers'' = Some (PDict d)" "map_of d p = Some (PDict e)"
    "map_of e k = Some (PStr v)" by (simp only: lookup3) blast
  obtain dflt where dflt: "map_of default_providers p = Some (PDict dflt)"
    using provider_default [OF assms(2)] by blast
  have "wf_val (PDict d)" using assms(1) wf_items_value [OF _ de(1)] by simp
  then have "wf_val (PDict e)" using wf_items_value [OF _ de(2)] by simp
  then have "map_of (deep_merge dflt e) k = Some (PStr v)" using de(3) by (simp add: map_of_deep_merge)
  then show ?thesis using de dflt by (simp add: provider_config_def dget_def)
qed

lemma provider_config_total:
  assumes "wf_val (PDict c)" and "p \<in> set PROVIDERS" and "map_of c ''providers'' = Some (PDict d)"
  shows "\<exists>cfg. provider_config c p None = Inr (c, cfg)"
  using provider_default [OF assms(2)] assms(3) by (auto simp: provider_config_def dget_def)

text \<open>
  C19. Setup round trip: after \<open>ai_provider_cli set\<close> returns, the analyzer that loads the written file
  resolves \<open>--provider auto\<close> to the selected provider, and the configuration of that provider holds
  every field given on the command line (model, command, base URL, key variable).
\<close>

theorem set_provider_roundtrip:
  assumes "set_provider args s = (Inr (), s')" and "set_name args \<in> set PROVIDERS"
    and "\<forall>u. config_file s = Some (Inr u) \<longrightarrow> wf_val u"
  shows "\<exists>config. load_provider_config (config_file s') = Inr config
     \<and> (set_select args \<longrightarrow> resolve_provider ''auto'' config = Inr (set_name args))
     \<and> (\<forall>k v. (k, PStr v) \<in> set (set_pairs args) \<longrightarrow>
          (\<exists>cfg. provider_config config (set_name args) None = Inr (config, cfg) \<and> dget cfg k = PStr v))"
proof -
  from assms(1) obtain c0 c1 where c0: "load_provider_config (config_file s) = Inr c0"
    and c1: "set_entry c0 (set_name args) (set_pairs args) = Inr c1"
    and out: "config_file s' = write_provider_config (if set_select args then select_in (set_name args) c1 else c1)"
    by (rule set_provider_Inr)
  let ?c = "if set_select args then select_in (set_name args) c1 else c1"
  let ?l = "deep_merge DEFAULT_PROVIDER_CONFIG (sorted_dict ?c)"
  have wf0: "wf_val (PDict c0)" using load_wf [OF c0] assms(3) by blast
  have strs: "\<forall>kv \<in> set (set_pairs args). wf_val (snd kv)" using set_pairs_str by fastforce
  note e = set_entry_result [OF c1 wf0 set_pairs_distinct strs]
  have wf: "wf_val (PDict ?c)" using e(1) wf_update [OF e(1)] by (simp add: select_in_def)
  have load: "load_provider_config (config_file s') = Inr ?l"
    unfolding out by (simp add: load_provider_config_def write_provider_config_def sort_keys_dict del: sort_keys.simps)
  have wfl: "wf_val (PDict ?l)"
    using load_wf [OF load] wf_sort_keys(1) [OF wf] unfolding out write_provider_config_def by blast
  have "resolve_provider ''auto'' ?l = Inr (set_name args)" if sel: "set_select args"
  proof -
    have "lookup_path (PDict ?c) [''selected_provider''] = Some (PStr (set_name args))"
      using sel by (simp add: select_in_def update_conv')
    from load_written(2) [OF wf this] have "dget ?l ''selected_provider'' = PStr (set_name args)"
      by (cases "map_of ?l ''selected_provider''") (simp_all add: dget_def)
    moreover have "set_name args \<noteq> []"
      using assms(2) by (auto simp: PROVIDERS_def CLI_AGENTS_def API_PROVIDERS_def)
    ultimately show ?thesis
      using providers_supported [OF assms(2)] by (simp add: resolve_provider_def py_or_def)
  qed
  moreover have "\<exists>cfg. provider_config ?l (set_name args) None = Inr (?l, cfg) \<and> dget cfg k = PStr v"
    if kv: "(k, PStr v) \<in> set (set_pairs args)" for k v
  proof -
    have "lookup_path (PDict ?c) [''providers'', set_name args, k] = Some (PStr v)"
      using e(2) [OF kv] by (simp add: select_in_def update_conv')
    from load_written(2) [OF wf this] show ?thesis
      by (rule provider_config_field [OF wfl assms(2)])
  qed
  ultimately show ?thesis using load by blast
qed

definition example_set_args :: set_args where
  "example_set_args =
     \<lparr>set_name = ''claude'', set_model = Some ''opus'', set_base_url = None, set_cli_command = Some ''cc'',
      set_api_key_env = None, set_api_key = Some ''secret'', set_select = True\<rparr>"

definition example_cli_state :: cli_state where
  "example_cli_state =
     \<lparr>console = [], config_file = Some (Inr (PDict example_override)), secrets_file = None\<rparr>"

theorem set_provider_roundtrip_witness:
  "\<exists>config cfg. load_provider_config (config_file (snd (set_provider example_set_args example_cli_state))) = Inr config
     \<and> resolve_provider ''auto'' config = Inr ''claude''
     \<and> provider_config config ''claude'' None = Inr (config, cfg) \<and> dget cfg ''command'' = PStr ''cc''"
proof -
  let ?s' = "snd (set_provider example_set_args example_cli_state)"
  have "fst (set_provider example_set_args example_cli_state) = Inr ()" by code_simp
  then have run: "set_provider example_set_args example_cli_state = (Inr (), ?s')"
    by (metis prod.collapse)
  have "wf_val (PDict example_override)" by code_simp
  then have wf: "\<forall>u. config_file example_cli_state = Some (Inr u) \<longrightarrow> wf_val u"
    by (simp add: example_cli_state_def)
  have name: "set_name example_set_args = ''claude''" "set_select example_set_args"
    and pair: "(''command'', PStr ''cc'') \<in> set (set_pairs example_set_args)"
    by (simp_all add: example_set_args_def set_pairs_def opt_pair_def)
  have "''claude'' \<in> set PROVIDERS" by code_simp
  then show ?thesis
    using set_provider_roundtrip [OF run _ wf] pair unfolding name(1) using name(2) by blast
qed

text \<open>
  A setup command that is given no API key (\<open>init\<close>, \<open>select\<close>, \<open>set\<close> without \<open>--api-key\<close>) leaves the
  secrets file as it was, whether it returns or raises, and \<open>init\<close> never overwrites an existing
  configuration.
\<close>

theorem secrets_untouched:
  "(secrets_file (snd (run_command CInit s)) = secrets_file s)
   \<and> (config_file s \<noteq> None \<longrightarrow> snd (run_command CInit s) = s)
   \<and> (secrets_file (snd (run_command (CSelect p) s)) = secrets_file s)
   \<and> (set_api_key args = None \<or> set_api_key args = Some [] \<longrightarrow>
        secrets_file (snd (run_command (CSet args) s)) = secrets_file s)"
  by (auto simp: run_command_def init_config_def select_provider_def set_provider_def io_bind_def
      io_lift_def io_return_def load_config_def save_config_def split: option.splits sum.splits prod.splits)

theorem secrets_untouched_witness:
  "secrets_file (snd (run_command (CSet (example_set_args\<lparr>set_api_key := None\<rparr>)) example_cli_state)) = None"
proof -
  have "secrets_file example_cli_state = None" by (simp add: example_cli_state_def)
  then show ?thesis
    using secrets_untouched [of example_cli_state _ "example_set_args\<lparr>set_api_key := None\<rparr>"] by simp
qed

end
