(* ===== verification/Py_Datetime.thy ===== *)
theory Py_Datetime
  imports Py_String
begin

text \<open>
  \<open>datetime.fromisoformat\<close> of CPython 3.11 and 3.12: which strings it accepts and the UTC offset of
  the result.  The date, the separator, the time and the offset are scanned by position, as the
  library does, including what it accepts beyond ISO 8601.
\<close>

section \<open>Scanning\<close>

text \<open>The character at a position; past the end it is the terminating NUL.\<close>

definition char_at :: "string \<Rightarrow> nat \<Rightarrow> char" where
  "char_at s i = (if i < length s then s ! i else CHR 0x00)"

fun parse_digits :: "string \<Rightarrow> nat \<Rightarrow> nat \<Rightarrow> nat \<Rightarrow> (nat \<times> nat) option" where
  "parse_digits s p 0 acc = Some (acc, p)"
| "parse_digits s p (Suc n) acc =
     (if is_ascii_digit (char_at s p) then parse_digits s (Suc p) n (10 * acc + digit_val (char_at s p)) else None)"

section \<open>Dates\<close>

definition is_leap :: "nat \<Rightarrow> bool" where
  "is_leap y \<longleftrightarrow> y mod 4 = 0 \<and> (y mod 100 \<noteq> 0 \<or> y mod 400 = 0)"

definition days_in_month :: "nat \<Rightarrow> nat \<Rightarrow> nat" where
  "days_in_month y m =
     (if m = 2 then (if is_leap y then 29 else 28) else if m \<in> {4, 6, 9, 11} then 30 else 31)"

definition valid_date :: "nat \<Rightarrow> nat \<Rightarrow> nat \<Rightarrow> bool" where
  "valid_date y m d \<longleftrightarrow> 1 \<le> y \<and> y \<le> 9999 \<and> 1 \<le> m \<and> m \<le> 12 \<and> 1 \<le> d \<and> d \<le> days_in_month y m"

text \<open>The ordinal of 1 January, its weekday (Monday is 0), and the Monday of ISO week 1.\<close>

definition year_start :: "nat \<Rightarrow> nat" where
  "year_start y = (y - 1) * 365 + (y - 1) div 4 - (y - 1) div 100 + (y - 1) div 400 + 1"

definition first_weekday :: "nat \<Rightarrow> nat" where
  "first_weekday y = (year_start y + 6) mod 7"

definition week1_monday :: "nat \<Rightarrow> int" where
  "week1_monday y =
     int (year_start y) - int (first_weekday y) + (if 3 < first_weekday y then 7 else 0)"

definition valid_iso_week :: "nat \<Rightarrow> nat \<Rightarrow> nat \<Rightarrow> bool" where
  "valid_iso_week y w d \<longleftrightarrow>
     1 \<le> y \<and> y \<le> 9999 \<and> 1 \<le> d \<and> d \<le> 7 \<and> 1 \<le> w
     \<and> (w < 53 \<or> w = 53 \<and> (first_weekday y = 3 \<or> first_weekday y = 2 \<and> is_leap y))
     \<and> (let day = week1_monday y + (int w - 1) * 7 + int d - 1 in 1 \<le> day \<and> day \<le> 3652059)"

definition date_ok :: "string \<Rightarrow> nat \<Rightarrow> bool" where
  "date_ok s sep =
     (case parse_digits s 0 4 0 of
        None \<Rightarrow> False
      | Some (year, p) \<Rightarrow>
          (let dash = (char_at s p = CHR ''-''); p = (if dash then Suc p else p)
           in if char_at s p = CHR ''W'' then
                (case parse_digits s (Suc p) 2 0 of
                   None \<Rightarrow> False
                 | Some (week, p) \<Rightarrow>
                     if p < sep then
                       (if dash \<and> char_at s p \<noteq> CHR ''-'' then False
                        else case parse_digits s (if dash then Suc p else p) 1 0 of
                               None \<Rightarrow> False
                             | Some (day, _) \<Rightarrow> valid_iso_week year week day)
                     else valid_iso_week year week 1)
              else
                (case parse_digits s p 2 0 of
                   None \<Rightarrow> False
                 | Some (month, p) \<Rightarrow>
                     if dash \<and> char_at s p \<noteq> CHR ''-'' then False
                     else case parse_digits s (if dash then Suc p else p) 2 0 of
                            None \<Rightarrow> False
                          | Some (day, _) \<Rightarrow> valid_date year month day)))"

definition separator_at :: "string \<Rightarrow> nat option" where
  "separator_at s =
     (if length s = 7 then Some 7
      else if char_at s 4 = CHR ''-'' then
        (if char_at s 5 = CHR ''W'' then
           (if length s < 8 then None
            else if 8 < length s \<and> char_at s 8 = CHR ''-'' then
              (if length s = 9 then None
               else if 10 < length s \<and> is_ascii_digit (char_at s 10) then Some 8 else Some 10)
            else Some 8)
         else Some 10)
      else if char_at s 4 = CHR ''W'' then
        (let pos = 7 + length (takeWhile is_ascii_digit (drop 7 s))
         in if pos < 9 then Some pos else if even pos then Some 7 else Some 8)
      else Some 8)"

section \<open>Times\<close>

record clock =
  hh :: nat
  mm :: nat
  ss :: nat

text \<open>
  The scan of \<open>HH[:MM[:SS[.f]]]\<close> up to \<open>stop\<close>: \<open>None\<close> is malformed, otherwise the fields and whether
  something follows.  The first argument counts the fields read, the second says whether the first
  separator was a colon.
\<close>

definition set_field :: "nat \<Rightarrow> nat \<Rightarrow> clock \<Rightarrow> clock" where
  "set_field i v c = (if i = 0 then c\<lparr>hh := v\<rparr> else if i = 1 then c\<lparr>mm := v\<rparr> else c\<lparr>ss := v\<rparr>)"

definition scan_fraction :: "string \<Rightarrow> nat \<Rightarrow> nat \<Rightarrow> clock \<Rightarrow> (clock \<times> bool) option" where
  "scan_fraction s p stop c =
     (case parse_digits s p (min 6 (stop - p)) 0 of
        None \<Rightarrow> None
      | Some (_, p) \<Rightarrow>
          (let p = p + length (takeWhile is_ascii_digit (drop p s))
           in Some (c, char_at s p \<noteq> CHR 0x00)))"

fun scan_fields :: "nat \<Rightarrow> bool \<Rightarrow> string \<Rightarrow> nat \<Rightarrow> nat \<Rightarrow> clock \<Rightarrow> (clock \<times> bool) option" where
  "scan_fields 0 colon s p stop c = scan_fraction s p stop c"
| "scan_fields (Suc n) colon s p stop c =
     (case parse_digits s p 2 0 of
        None \<Rightarrow> None
      | Some (v, p) \<Rightarrow>
          (let c = set_field (2 - n) v c; ch = char_at s p; p = Suc p;
               colon = (if n = 2 then ch = CHR '':'' else colon)
           in if stop \<le> p then Some (c, ch \<noteq> CHR 0x00)
              else if colon \<and> ch = CHR '':'' then scan_fields n colon s p stop c
              else if ch = CHR ''.'' \<or> ch = CHR '','' then scan_fraction s p stop c
              else if \<not> colon then scan_fields n colon s (p - 1) stop c
              else None))"

definition scan_clock :: "string \<Rightarrow> nat \<Rightarrow> nat \<Rightarrow> (clock \<times> bool) option" where
  "scan_clock s p stop = scan_fields 3 True s p stop \<lparr>hh = 0, mm = 0, ss = 0\<rparr>"

definition valid_clock :: "clock \<Rightarrow> bool" where
  "valid_clock c \<longleftrightarrow> hh c \<le> 23 \<and> mm c \<le> 59 \<and> ss c \<le> 59"

text \<open>
  The offset in seconds of an accepted time: \<open>None\<close> is malformed, \<open>Some None\<close> has no offset.
\<close>

definition time_offset :: "string \<Rightarrow> nat \<Rightarrow> int option option" where
  "time_offset s p =
     (let is_tz = (\<lambda>c. c = CHR ''+'' \<or> c = CHR ''-'' \<or> c = CHR ''Z'');
          tz = p + length (takeWhile (\<lambda>c. \<not> is_tz c) (drop p s))
      in case scan_clock s p tz of
           None \<Rightarrow> None
         | Some (c, rest) \<Rightarrow>
             if \<not> valid_clock c then None
             else if tz = length s then (if rest then None else Some None)
             else if char_at s tz = CHR ''Z'' then (if char_at s (Suc tz) \<noteq> CHR 0x00 then None else Some (Some 0))
             else case scan_clock s (Suc tz) (length s) of
                    None \<Rightarrow> None
                  | Some (z, rest) \<Rightarrow>
                      if rest then None
                      else let secs = int (hh z * 3600 + mm z * 60 + ss z);
                               off = (if char_at s tz = CHR ''-'' then - secs else secs)
                           in if abs off < 86400 then Some (Some off) else None)"

definition fromisoformat :: "string \<Rightarrow> int option option" where
  "fromisoformat s =
     (if length s < 7 then None
      else case separator_at s of
             None \<Rightarrow> None
           | Some sep \<Rightarrow>
               if \<not> date_ok s sep then None
               else if length s \<le> sep then Some None
               else time_offset s (Suc sep))"

end
