(* ===== verification/Bench_Provenance.thy ===== *)
theory Bench_Provenance
  imports Py_Value Py_Datetime
begin

text \<open>
  \<open>tools/bench_provenance.py\<close>: the timestamp and Git metadata that benchmark reports are stamped
  with, and the check of them that the gates run.  The \<open>git\<close> program is a parameter: its exit code
  and output for each argument list, or \<open>None\<close> when it cannot be run in time.
\<close>

section \<open>Stamping\<close>

definition pad2 :: "nat \<Rightarrow> string" where
  "pad2 n = [digit_char (n div 10 mod 10), digit_char (n mod 10)]"

definition pad4 :: "nat \<Rightarrow> string" where
  "pad4 n = pad2 (n div 100) @ pad2 (n mod 100)"

record utc_time =
  year :: nat
  month :: nat
  day :: nat
  clock :: clock

definition valid_time :: "utc_time \<Rightarrow> bool" where
  "valid_time t \<longleftrightarrow> valid_date (year t) (month t) (day t) \<and> valid_clock (clock t)"

text \<open>\<open>datetime.now(timezone.utc).isoformat(timespec="seconds")\<close> with \<open>+00:00\<close> replaced by \<open>Z\<close>.\<close>

definition iso_seconds :: "utc_time \<Rightarrow> string" where
  "iso_seconds t =
     pad4 (year t) @ ''-'' @ pad2 (month t) @ ''-'' @ pad2 (day t) @ ''T''
     @ pad2 (hh (clock t)) @ '':'' @ pad2 (mm (clock t)) @ '':'' @ pad2 (ss (clock t))"

definition generated_at_utc :: "utc_time \<Rightarrow> string" where
  "generated_at_utc t = iso_seconds t @ ''Z''"

type_synonym git_program = "string list \<Rightarrow> (int \<times> string) option"

definition git_output :: "git_program \<Rightarrow> string list \<Rightarrow> string option" where
  "git_output git args =
     (case git args of
        None \<Rightarrow> None
      | Some (returncode, stdout) \<Rightarrow> if returncode \<noteq> 0 then None else Some (str_strip stdout))"

fun py_opt :: "string option \<Rightarrow> pyval" where
  "py_opt None = PNone"
| "py_opt (Some s) = PStr s"

definition truthy_opt :: "string option \<Rightarrow> bool" where
  "truthy_opt v \<longleftrightarrow> v \<noteq> None \<and> v \<noteq> Some []"

definition source_tree_metadata :: "git_program \<Rightarrow> string \<Rightarrow> dict" where
  "source_tree_metadata git cwd =
     (let git_root = git_output git [''rev-parse'', ''--show-toplevel''];
          git_commit = (if truthy_opt git_root then git_output git [''rev-parse'', ''HEAD''] else None);
          git_status = (if truthy_opt git_root then git_output git [''status'', ''--porcelain''] else None);
          git_dirty = (case git_status of None \<Rightarrow> PNone | Some s \<Rightarrow> PBool (s \<noteq> []))
      in [(''cwd'', PStr cwd), (''git_root'', py_opt git_root), (''git_commit'', py_opt git_commit),
          (''git_commit_short'',
             py_opt (if truthy_opt git_commit then git_output git [''rev-parse'', ''--short=12'', ''HEAD''] else None)),
          (''git_branch'',
             py_opt (if truthy_opt git_commit then git_output git [''rev-parse'', ''--abbrev-ref'', ''HEAD''] else None)),
          (''git_dirty'', git_dirty)])"

section \<open>Checking\<close>

definition timestamp_errors :: "pyval \<Rightarrow> string list" where
  "timestamp_errors generated_at =
     (case generated_at of
        PStr s \<Rightarrow>
          if s = [] then [''report missing generated_at_utc provenance timestamp'']
          else if \<not> ends_with s ''Z''
          then [''report generated_at_utc must be a UTC timestamp ending in Z'']
          else (case fromisoformat (take (length s - 1) s @ ''+00:00'') of
                  None \<Rightarrow> [''report generated_at_utc is not ISO-8601 parseable'']
                | Some offset \<Rightarrow>
                    if offset \<noteq> Some 0 then [''report generated_at_utc must parse as UTC''] else [])
      | _ \<Rightarrow> [''report missing generated_at_utc provenance timestamp''])"

definition name_field_errors :: "dict \<Rightarrow> string \<Rightarrow> string list" where
  "name_field_errors source_tree key =
     (case dget source_tree key of
        PStr s \<Rightarrow> if s = [] then [''report source_tree.'' @ key @ '' must be a non-empty string''] else []
      | _ \<Rightarrow> [''report source_tree.'' @ key @ '' must be a non-empty string''])"

text \<open>The two object-id checks, given the test of the length and the two messages.\<close>

definition object_id_errors :: "pyval \<Rightarrow> (nat \<Rightarrow> bool) \<Rightarrow> string \<Rightarrow> string \<Rightarrow> string list" where
  "object_id_errors v length_ok shape_message hex_message =
     (case v of
        PStr s \<Rightarrow>
          if \<not> length_ok (length s) \<or> \<not> str_isalnum s then [shape_message]
          else if \<not> list_all is_hex s then [hex_message] else []
      | _ \<Rightarrow> [shape_message])"

definition provenance_errors :: "dict \<Rightarrow> string list" where
  "provenance_errors report =
     timestamp_errors (dget report ''generated_at_utc'')
     @ (case dget report ''source_tree'' of
          PDict source_tree \<Rightarrow>
            concat (map (name_field_errors source_tree) [''cwd'', ''git_root'', ''git_branch''])
            @ object_id_errors (dget source_tree ''git_commit'') (\<lambda>n. n = 40 \<or> n = 64)
                ''report source_tree.git_commit must be a full Git object id''
                ''report source_tree.git_commit must be hexadecimal''
            @ object_id_errors (dget source_tree ''git_commit_short'') (\<lambda>n. 7 \<le> n \<and> n \<le> 64)
                ''report source_tree.git_commit_short must be a Git object id prefix''
                ''report source_tree.git_commit_short must be hexadecimal''
            @ (case dget source_tree ''git_dirty'' of
                 PBool _ \<Rightarrow> []
               | _ \<Rightarrow> [''report source_tree.git_dirty must be a boolean''])
        | _ \<Rightarrow> [''report missing source_tree provenance object''])"

section \<open>What a report without errors holds\<close>

definition utc_stamp :: "pyval \<Rightarrow> bool" where
  "utc_stamp v \<longleftrightarrow> (\<exists>s. v = PStr (s @ ''Z'') \<and> fromisoformat (s @ ''+00:00'') = Some (Some 0))"

definition nonempty_str :: "pyval \<Rightarrow> bool" where
  "nonempty_str v \<longleftrightarrow> (\<exists>s. v = PStr s \<and> s \<noteq> [])"

definition object_id :: "(nat \<Rightarrow> bool) \<Rightarrow> pyval \<Rightarrow> bool" where
  "object_id length_ok v \<longleftrightarrow> (\<exists>s. v = PStr s \<and> length_ok (length s) \<and> s \<noteq> [] \<and> list_all is_hex s)"

definition provenance_ok :: "dict \<Rightarrow> bool" where
  "provenance_ok report \<longleftrightarrow>
     utc_stamp (dget report ''generated_at_utc'')
     \<and> (\<exists>tree. dget report ''source_tree'' = PDict tree
        \<and> (\<forall>k \<in> {''cwd'', ''git_root'', ''git_branch''}. nonempty_str (dget tree k))
        \<and> object_id (\<lambda>n. n = 40 \<or> n = 64) (dget tree ''git_commit'')
        \<and> object_id (\<lambda>n. 7 \<le> n \<and> n \<le> 64) (dget tree ''git_commit_short'')
        \<and> (\<exists>b. dget tree ''git_dirty'' = PBool b))"

lemma timestamp_errors_Nil: "timestamp_errors v = [] \<longleftrightarrow> utc_stamp v"
proof (cases v)
  case (PStr s)
  show ?thesis
  proof (cases "ends_with s ''Z''")
    case True
    then obtain t where "s = t @ ''Z''" by (auto simp: ends_with_iff)
    then show ?thesis by (auto simp: PStr timestamp_errors_def utc_stamp_def ends_with_iff split: option.splits)
  next
    case False
    then show ?thesis by (auto simp: PStr timestamp_errors_def utc_stamp_def ends_with_iff)
  qed
qed (simp_all add: timestamp_errors_def utc_stamp_def)

lemma name_field_errors_Nil: "name_field_errors tree k = [] \<longleftrightarrow> nonempty_str (dget tree k)"
  by (cases "dget tree k") (simp_all add: name_field_errors_def nonempty_str_def)

lemma object_id_errors_Nil: "object_id_errors v ok m1 m2 = [] \<longleftrightarrow> object_id ok v"
  by (cases v)
    (auto simp: object_id_errors_def object_id_def str_isalnum_def list_all_iff is_hex_alnum)

lemma provenance_errors_Nil: "provenance_errors report = [] \<longleftrightarrow> provenance_ok report"
proof (cases "dget report ''source_tree''")
  case (PDict tree)
  have "(case dget tree ''git_dirty'' of PBool _ \<Rightarrow> [] | _ \<Rightarrow> [m :: string]) = []
      \<longleftrightarrow> (\<exists>b. dget tree ''git_dirty'' = PBool b)" for m
    by (cases "dget tree ''git_dirty''") simp_all
  with PDict show ?thesis
    by (auto simp: provenance_errors_def provenance_ok_def timestamp_errors_Nil name_field_errors_Nil
        object_id_errors_Nil)
qed (simp_all add: provenance_errors_def provenance_ok_def)

section \<open>A stamp passes the check\<close>

lemma digit_not_mark:
  assumes "is_ascii_digit c"
  shows "c \<noteq> CHR ''+''" "c \<noteq> CHR ''-''" "c \<noteq> CHR ''Z''" "c \<noteq> CHR ''W''" "c \<noteq> CHR '':''"
    "c \<noteq> CHR ''.''" "c \<noteq> CHR '',''" "c \<noteq> CHR 0x00"
  using assms by (auto simp: is_ascii_digit_def cp_def)

lemma parse_digits_2:
  "parse_digits s p 2 0 =
     (if is_ascii_digit (char_at s p) \<and> is_ascii_digit (char_at s (Suc p))
      then Some (10 * digit_val (char_at s p) + digit_val (char_at s (Suc p)), p + 2) else None)"
  by (simp add: numeral_2_eq_2)

lemma parse_digits_4:
  "parse_digits s p 4 0 =
     (if is_ascii_digit (char_at s p) \<and> is_ascii_digit (char_at s (Suc p)) \<and> is_ascii_digit (char_at s (p + 2))
         \<and> is_ascii_digit (char_at s (p + 3))
      then Some (1000 * digit_val (char_at s p) + 100 * digit_val (char_at s (Suc p)) + 10 * digit_val (char_at s (p + 2))
             + digit_val (char_at s (p + 3)), p + 4) else None)"
proof -
  have four: "parse_digits s p 4 0 = parse_digits s p (Suc (Suc (Suc (Suc 0)))) 0"
    by (simp add: eval_nat_numeral)
  have pos: "p + 2 = Suc (Suc p)" "p + 3 = Suc (Suc (Suc p))" "p + 4 = Suc (Suc (Suc (Suc p)))"
    by simp_all
  show ?thesis unfolding four pos by simp
qed

lemma fromisoformat_plain:
  assumes "list_all is_ascii_digit [y0, y1, y2, y3, m0, m1, d0, d1, h0, h1, n0, n1, s0, s1]"
    and "valid_date (1000 * digit_val y0 + 100 * digit_val y1 + 10 * digit_val y2 + digit_val y3)
           (10 * digit_val m0 + digit_val m1) (10 * digit_val d0 + digit_val d1)"
    and "valid_clock \<lparr>hh = 10 * digit_val h0 + digit_val h1, mm = 10 * digit_val n0 + digit_val n1,
           ss = 10 * digit_val s0 + digit_val s1\<rparr>"
  shows "fromisoformat ([y0, y1, y2, y3, CHR ''-'', m0, m1, CHR ''-'', d0, d1, CHR ''T'',
           h0, h1, CHR '':'', n0, n1, CHR '':'', s0, s1] @ ''+00:00'') = Some (Some 0)"
proof -
  let ?s = "[y0, y1, y2, y3, CHR ''-'', m0, m1, CHR ''-'', d0, d1, CHR ''T'',
           h0, h1, CHR '':'', n0, n1, CHR '':'', s0, s1] @ ''+00:00''"
  have digits: "is_ascii_digit y0" "is_ascii_digit y1" "is_ascii_digit y2" "is_ascii_digit y3"
    "is_ascii_digit m0" "is_ascii_digit m1" "is_ascii_digit d0" "is_ascii_digit d1"
    "is_ascii_digit h0" "is_ascii_digit h1" "is_ascii_digit n0" "is_ascii_digit n1"
    "is_ascii_digit s0" "is_ascii_digit s1"
    using assms(1) by simp_all
  have zero: "is_ascii_digit (CHR ''0'')" "digit_val (CHR ''0'') = 0" by code_simp+
  have sep: "separator_at ?s = Some 10"
    using digit_not_mark [OF digits(5)] by (simp add: separator_at_def char_at_def)
  have date: "date_ok ?s 10"
    using digits digit_not_mark [OF digits(5)] assms(2)
    by (simp add: date_ok_def parse_digits_4 parse_digits_2 char_at_def)
  have tz: "takeWhile (\<lambda>c. \<not> (c = CHR ''+'' \<or> c = CHR ''-'' \<or> c = CHR ''Z'')) (drop 11 ?s)
      = [h0, h1, CHR '':'', n0, n1, CHR '':'', s0, s1]"
    using digits(9-14) by (simp add: digit_not_mark)
  have len: "length ?s = 25" by simp
  have local: "scan_clock ?s 11 19 = Some (\<lparr>hh = 10 * digit_val h0 + digit_val h1,
      mm = 10 * digit_val n0 + digit_val n1, ss = 10 * digit_val s0 + digit_val s1\<rparr>, True)"
    using digits(9-14)
    by (simp add: scan_clock_def numeral_3_eq_3 parse_digits_2 char_at_def set_field_def)
  have offset: "scan_clock ?s 20 25 = Some (\<lparr>hh = 0, mm = 0, ss = 0\<rparr>, False)"
    using zero by (simp add: scan_clock_def numeral_3_eq_3 parse_digits_2 char_at_def set_field_def)
  have plus: "char_at ?s 19 = CHR ''+''" by (simp add: char_at_def)
  have "time_offset ?s 11 = Some (Some 0)"
    unfolding time_offset_def Let_def tz len
    using local offset assms(3) plus by (simp del: append_Cons append_Nil)
  then show ?thesis
    using sep date by (simp add: fromisoformat_def)
qed

text \<open>Printing two or four digits and reading them back.\<close>

lemma two_digits: "n < 100 \<Longrightarrow> 10 * (n div 10 mod 10) + n mod 10 = (n :: nat)"
  by (simp add: less_mult_imp_div_less)

lemma four_digits:
  assumes "n < (10000 :: nat)"
  shows "1000 * (n div 100 div 10 mod 10) + 100 * (n div 100 mod 10) + 10 * (n mod 100 div 10 mod 10)
      + n mod 100 mod 10 = n"
proof -
  from assms have "n div 100 < 100" "n mod 100 < 100" by (simp_all add: less_mult_imp_div_less)
  from two_digits [OF this(1)] two_digits [OF this(2)] div_mult_mod_eq [of n 100]
  show ?thesis by linarith
qed

lemma digit_char_mod:
  "is_ascii_digit (digit_char (n mod 10))" "digit_val (digit_char (n mod 10)) = n mod 10"
  by (simp_all add: is_ascii_digit_char)

lemma iso_seconds_accepted:
  assumes "valid_time t"
  shows "fromisoformat (iso_seconds t @ ''+00:00'') = Some (Some 0)"
proof -
  from assms have y: "year t < 10000" and small: "month t < 100" "day t < 100"
    "hh (clock t) < 100" "mm (clock t) < 100" "ss (clock t) < 100"
    by (auto simp: valid_time_def valid_date_def valid_clock_def days_in_month_def split: if_splits)
  have "iso_seconds t = [digit_char (year t div 100 div 10 mod 10), digit_char (year t div 100 mod 10),
      digit_char (year t mod 100 div 10 mod 10), digit_char (year t mod 100 mod 10), CHR ''-'',
      digit_char (month t div 10 mod 10), digit_char (month t mod 10), CHR ''-'',
      digit_char (day t div 10 mod 10), digit_char (day t mod 10), CHR ''T'',
      digit_char (hh (clock t) div 10 mod 10), digit_char (hh (clock t) mod 10), CHR '':'',
      digit_char (mm (clock t) div 10 mod 10), digit_char (mm (clock t) mod 10), CHR '':'',
      digit_char (ss (clock t) div 10 mod 10), digit_char (ss (clock t) mod 10)]"
    unfolding iso_seconds_def pad4_def pad2_def append_Cons append_Nil ..
  moreover have "fromisoformat (\<dots> @ ''+00:00'') = Some (Some 0)"
  proof (rule fromisoformat_plain)
    show "valid_clock \<lparr>hh = 10 * digit_val (digit_char (hh (clock t) div 10 mod 10)) + digit_val (digit_char (hh (clock t) mod 10)),
        mm = 10 * digit_val (digit_char (mm (clock t) div 10 mod 10)) + digit_val (digit_char (mm (clock t) mod 10)),
        ss = 10 * digit_val (digit_char (ss (clock t) div 10 mod 10)) + digit_val (digit_char (ss (clock t) mod 10))\<rparr>"
      using assms small unfolding digit_char_mod by (simp add: two_digits valid_time_def valid_clock_def del: mod_mod_trivial)
  qed (use assms in \<open>simp_all only: digit_char_mod list.pred_inject four_digits [OF y] two_digits small valid_time_def simp_thms\<close>)
  ultimately show ?thesis by simp
qed

section \<open>What a stamped report needs of the checkout\<close>

text \<open>
  The answers of \<open>git\<close> that make the metadata acceptable: the root and the branch have names, the
  two object ids are hexadecimal of the expected length, and the status can be read.
\<close>

definition answers :: "git_program \<Rightarrow> string list \<Rightarrow> (string \<Rightarrow> bool) \<Rightarrow> bool" where
  "answers git args ok = (case git_output git args of None \<Rightarrow> False | Some s \<Rightarrow> s \<noteq> [] \<and> ok s)"

definition usable_checkout :: "git_program \<Rightarrow> bool" where
  "usable_checkout git \<longleftrightarrow>
     answers git [''rev-parse'', ''--show-toplevel''] (\<lambda>_. True)
     \<and> answers git [''rev-parse'', ''HEAD'']
         (\<lambda>s. (length s = 40 \<or> length s = 64) \<and> list_all is_hex s)
     \<and> answers git [''rev-parse'', ''--short=12'', ''HEAD'']
         (\<lambda>s. 7 \<le> length s \<and> length s \<le> 64 \<and> list_all is_hex s)
     \<and> answers git [''rev-parse'', ''--abbrev-ref'', ''HEAD''] (\<lambda>_. True)
     \<and> git_output git [''status'', ''--porcelain''] \<noteq> None"

lemma nonempty_str_py_opt: "nonempty_str (py_opt v) \<longleftrightarrow> (case v of None \<Rightarrow> False | Some s \<Rightarrow> s \<noteq> [])"
  by (cases v) (simp_all add: nonempty_str_def)

lemma object_id_py_opt:
  "object_id ok (py_opt v) \<longleftrightarrow>
     (case v of None \<Rightarrow> False | Some s \<Rightarrow> s \<noteq> [] \<and> ok (length s) \<and> list_all is_hex s)"
  by (cases v) (auto simp: object_id_def)

lemma truthy_opt_iff: "truthy_opt v \<longleftrightarrow> (case v of None \<Rightarrow> False | Some s \<Rightarrow> s \<noteq> [])"
  by (cases v) (simp_all add: truthy_opt_def)

lemma generated_at_utc_stamp: "valid_time t \<Longrightarrow> utc_stamp (PStr (generated_at_utc t))"
  by (auto simp: utc_stamp_def generated_at_utc_def dest: iso_seconds_accepted)

lemma source_tree_ok:
  "(\<forall>k \<in> {''cwd'', ''git_root'', ''git_branch''}. nonempty_str (dget (source_tree_metadata git cwd) k))
   \<and> object_id (\<lambda>n. n = 40 \<or> n = 64) (dget (source_tree_metadata git cwd) ''git_commit'')
   \<and> object_id (\<lambda>n. 7 \<le> n \<and> n \<le> 64) (dget (source_tree_metadata git cwd) ''git_commit_short'')
   \<and> (\<exists>b. dget (source_tree_metadata git cwd) ''git_dirty'' = PBool b)
   \<longleftrightarrow> cwd \<noteq> [] \<and> usable_checkout git"
proof -
  have str: "nonempty_str (PStr s) \<longleftrightarrow> s \<noteq> []" for s by (simp add: nonempty_str_def)
  show ?thesis
    by (cases "git_output git [''rev-parse'', ''--show-toplevel'']";
        cases "git_output git [''rev-parse'', ''HEAD'']";
        cases "git_output git [''status'', ''--porcelain'']")
      (auto simp: source_tree_metadata_def Let_def dget_def str truthy_opt_iff nonempty_str_py_opt
        object_id_py_opt usable_checkout_def answers_def split: option.splits)
qed

text \<open>
  A report that carries the timestamp and the source-tree metadata written by
  \<open>generated_at_utc\<close> and \<open>source_tree_metadata\<close> passes \<open>provenance_errors\<close> exactly when the working
  directory has a name and \<open>git\<close> answers all five queries with a root, a branch, a status and
  hexadecimal ids of the expected lengths; the timestamp itself is always accepted.
\<close>

theorem stamped_report_accepted:
  assumes "valid_time t"
    and "dget report ''generated_at_utc'' = PStr (generated_at_utc t)"
    and "dget report ''source_tree'' = PDict (source_tree_metadata git cwd)"
  shows "provenance_errors report = [] \<longleftrightarrow> cwd \<noteq> [] \<and> usable_checkout git"
  using assms(2,3) generated_at_utc_stamp [OF assms(1)] source_tree_ok [of git cwd]
  by (simp add: provenance_errors_Nil provenance_ok_def)

definition sample_git :: git_program where
  "sample_git args =
     (if args = [''rev-parse'', ''--show-toplevel''] then Some (0, ''/srv/altura'' @ [LF])
      else if args = [''rev-parse'', ''HEAD''] then Some (0, replicate 40 (CHR ''a'') @ [LF])
      else if args = [''rev-parse'', ''--short=12'', ''HEAD''] then Some (0, replicate 12 (CHR ''a'') @ [LF])
      else if args = [''rev-parse'', ''--abbrev-ref'', ''HEAD''] then Some (0, ''main'' @ [LF])
      else if args = [''status'', ''--porcelain''] then Some (0, [])
      else None)"

definition sample_time :: utc_time where
  "sample_time = \<lparr>year = 2024, month = 2, day = 29, clock = \<lparr>hh = 23, mm = 59, ss = 59\<rparr>\<rparr>"

theorem stamped_report_accepted_witness:
  "generated_at_utc sample_time = ''2024-02-29T23:59:59Z''
   \<and> provenance_errors [(''generated_at_utc'', PStr (generated_at_utc sample_time)),
       (''source_tree'', PDict (source_tree_metadata sample_git ''/srv/altura''))] = []"
proof
  show "generated_at_utc sample_time = ''2024-02-29T23:59:59Z''" by code_simp
  have "valid_time sample_time" by code_simp
  moreover have "usable_checkout sample_git" by code_simp
  ultimately show "provenance_errors [(''generated_at_utc'', PStr (generated_at_utc sample_time)),
       (''source_tree'', PDict (source_tree_metadata sample_git ''/srv/altura''))] = []"
    using stamped_report_accepted [of sample_time _ sample_git "''/srv/altura''"] by (simp add: dget_def)
qed

end
