(* ===== verification/Report_Checks.thy ===== *)
theory Report_Checks
  imports Bench_Provenance
begin

text \<open>
  What the two benchmark gates, \<open>tools/assert_defense_bench.py\<close> and \<open>tools/assert_local_bench.py\<close>,
  have in common.  A check returns the messages of what it finds wrong, or raises; a gate is the
  concatenation of its checks.  For each check one lemma says when it finds nothing, and the locale
  \<open>gate\<close> carries such equivalences through lists and sequences of checks.
\<close>

section \<open>Sequences of checks\<close>

text \<open>\<open>errors.extend(c1); errors.extend(c2); ...\<close>: the messages in order, or the first exception.\<close>

definition collect :: "string list result list \<Rightarrow> string list result" where
  "collect rs = rbind (rmap (\<lambda>r. r) rs) (\<lambda>es. Inr (concat es))"

lemma collect_Nil [simp]: "collect [] = Inr []"
  by (simp add: collect_def)

lemma collect_Cons: "collect (r # rs) = rbind r (\<lambda>e. rbind (collect rs) (\<lambda>es. Inr (e @ es)))"
  by (cases r; cases "rmap (\<lambda>r. r) rs") (simp_all add: collect_def)

lemma collect_silent: "collect rs = Inr [] \<longleftrightarrow> (\<forall>r \<in> set rs. r = Inr [])"
  by (induction rs) (auto simp: collect_Cons rbind_Inr_iff)

definition require :: "bool \<Rightarrow> string \<Rightarrow> string list" where
  "require b message = (if b then [] else [message])"

lemma require_Nil [simp]: "require b message = [] \<longleftrightarrow> b"
  by (simp add: require_def)

text \<open>A check that finds nothing exactly on the subjects that satisfy \<open>ok\<close>.\<close>

locale gate =
  fixes check :: "'a \<Rightarrow> string list result" and ok :: "'a \<Rightarrow> bool"
  assumes silent_iff: "check x = Inr [] \<longleftrightarrow> ok x"
begin

lemma silent_map: "collect (map check xs) = Inr [] \<longleftrightarrow> (\<forall>x \<in> set xs. ok x)"
  by (auto simp: collect_silent silent_iff)

lemma silent_when: "(if b then check x else Inr []) = Inr [] \<longleftrightarrow> (b \<longrightarrow> ok x)"
  by (simp add: silent_iff)

lemma complains: "\<not> ok x \<Longrightarrow> (\<exists>e. check x = Inl e) \<or> (\<exists>m ms. check x = Inr (m # ms))"
  using silent_iff [of x] by (cases "check x") (auto simp: neq_Nil_conv)

end

section \<open>Values in reports\<close>

text \<open>\<open>format_value\<close> of \<open>d.get(key, MISSING)\<close>, where \<open>None\<close> is the sentinel.\<close>

definition format_value :: "pyval option \<Rightarrow> string" where
  "format_value v = (case v of None \<Rightarrow> ''<missing>'' | Some x \<Rightarrow> py_repr x)"

text \<open>
  \<open>phase_number\<close> and \<open>score_number\<close>: a value that is an \<open>int\<close> or \<open>float\<close> but no \<open>bool\<close>, as a finite
  float.  \<open>float()\<close> raises on an integer that no double can hold.
\<close>

definition phase_number :: "dict \<Rightarrow> string \<Rightarrow> rat option result" where
  "phase_number phase key =
     (let value = dget phase key
      in if \<not> is_number value then Inr None
         else rbind (to_float value) (\<lambda>numeric. Inr (case numeric of Fin q \<Rightarrow> Some q | _ \<Rightarrow> None)))"

text \<open>The same as a function of the value alone, without the exception.\<close>

definition finite_number :: "pyval \<Rightarrow> rat option" where
  "finite_number v =
     (if \<not> is_number v then None
      else case to_float v of Inr (Fin q) \<Rightarrow> Some q | _ \<Rightarrow> None)"

lemma phase_number_Some: "phase_number d k = Inr (Some q) \<longleftrightarrow> finite_number (dget d k) = Some q"
  by (auto simp: phase_number_def finite_number_def Let_def rbind_Inr_iff
      split: sum.splits pyfloat.splits)

lemma phase_number_InrD:
  "phase_number d k = Inr n \<Longrightarrow> n = finite_number (dget d k)"
  by (cases "to_float (dget d k)")
    (auto simp: phase_number_def finite_number_def Let_def split: pyfloat.splits if_splits)

text \<open>\<open>n = phase_number(d, key); if n is None or not ok(n): errors.append(message)\<close>.\<close>

definition number_check :: "dict \<Rightarrow> string \<Rightarrow> (rat \<Rightarrow> bool) \<Rightarrow> string \<Rightarrow> string list result" where
  "number_check d key ok message =
     rbind (phase_number d key)
       (\<lambda>n. Inr (case n of None \<Rightarrow> [message] | Some q \<Rightarrow> require (ok q) message))"

definition number_where :: "(rat \<Rightarrow> bool) \<Rightarrow> pyval \<Rightarrow> bool" where
  "number_where ok v = (case finite_number v of None \<Rightarrow> False | Some q \<Rightarrow> ok q)"

lemma number_check_silent: "number_check d k ok m = Inr [] \<longleftrightarrow> number_where ok (dget d k)"
proof (cases "phase_number d k")
  case (Inl e)
  then have "finite_number (dget d k) = None"
    using phase_number_Some [of d k] by (cases "finite_number (dget d k)") auto
  with Inl show ?thesis by (simp add: number_check_def number_where_def)
next
  case (Inr n)
  with phase_number_InrD [OF Inr] show ?thesis
    by (auto simp: number_check_def number_where_def split: option.splits)
qed

interpretation number_gate: gate
  "\<lambda>(d, k, ok, m). number_check d k ok m" "\<lambda>(d, k, ok, m). number_where ok (dget d k)"
  by unfold_locales (auto simp: number_check_silent)

section \<open>Expected values\<close>

text \<open>A bound or an expected value that is not given is \<open>None\<close>.\<close>

definition number_at_least_errors :: "dict \<Rightarrow> string \<Rightarrow> pyval \<Rightarrow> string list result" where
  "number_at_least_errors report key minimum =
     (if minimum = PNone then Inr []
      else let value = dget report key
      in if \<not> is_number value then
           Inr [''report '' @ key @ '' must be numeric and >= '' @ py_str minimum
                  @ '', found '' @ format_value (Some value)]
         else rbind (to_float value) (\<lambda>numeric.
           let message = ''report '' @ key @ '' must be >= '' @ py_str minimum @ '', found '' @ py_repr value
           in if \<not> is_finite numeric then Inr [message]
              else rbind (to_float minimum) (\<lambda>bound.
                Inr (if flt numeric bound then [message] else []))))"

definition expected_value_errors :: "dict \<Rightarrow> string \<Rightarrow> pyval \<Rightarrow> string list" where
  "expected_value_errors report key expected =
     (if expected = PNone then []
      else let value = map_of report key
      in if (case value of None \<Rightarrow> True | Some v \<Rightarrow> \<not> py_eq v expected)
         then [''report '' @ key @ '' expected '' @ py_repr expected @ '', found '' @ format_value value]
         else [])"

text \<open>
  What the two checks accept.  A bound that is NaN bounds nothing: no number is below it.
\<close>

definition at_least :: "dict \<Rightarrow> string \<Rightarrow> pyval \<Rightarrow> bool" where
  "at_least report key minimum \<longleftrightarrow>
     minimum = PNone
     \<or> (\<exists>q bound. finite_number (dget report key) = Some q \<and> to_float minimum = Inr bound
          \<and> \<not> flt (Fin q) bound)"

definition has_value :: "dict \<Rightarrow> string \<Rightarrow> pyval \<Rightarrow> bool" where
  "has_value report key expected \<longleftrightarrow>
     expected = PNone \<or> (\<exists>v. map_of report key = Some v \<and> py_eq v expected)"

lemma number_at_least_silent:
  "number_at_least_errors report key minimum = Inr [] \<longleftrightarrow> at_least report key minimum"
  by (cases "to_float (dget report key)")
    (auto simp: number_at_least_errors_def at_least_def finite_number_def Let_def rbind_Inr_iff
      split: pyfloat.splits if_splits sum.splits)

lemma expected_value_errors_Nil:
  "expected_value_errors report key expected = [] \<longleftrightarrow> has_value report key expected"
  by (auto simp: expected_value_errors_def has_value_def Let_def split: option.splits)

interpretation bound_gate: gate
  "\<lambda>(report, key, minimum). number_at_least_errors report key minimum"
  "\<lambda>(report, key, minimum). at_least report key minimum"
  by unfold_locales (auto simp: number_at_least_silent)

interpretation provenance_gate: gate "\<lambda>report. Inr (provenance_errors report)" provenance_ok
  by unfold_locales (simp add: provenance_errors_Nil)

section \<open>Sets of names\<close>

text \<open>A \<open>set\<close> of names is a list without repetitions; \<open>sorted(a - b)\<close>.\<close>

definition sorted_diff :: "string list \<Rightarrow> string list \<Rightarrow> string list" where
  "sorted_diff a b = sort (remdups (filter (\<lambda>x. x \<notin> set b) a))"

lemma sorted_diff_Nil: "sorted_diff a b = [] \<longleftrightarrow> set a \<subseteq> set b"
proof -
  have "sorted_diff a b = [] \<longleftrightarrow> set (sorted_diff a b) = {}" by simp
  also have "\<dots> \<longleftrightarrow> set a \<subseteq> set b" by (auto simp: sorted_diff_def)
  finally show ?thesis .
qed

lemma set_sorted_diff: "set (sorted_diff a b) = set a - set b"
  by (auto simp: sorted_diff_def)

text \<open>The two messages the set comparisons of the gate produce.\<close>

definition name_set_errors :: "string \<Rightarrow> string \<Rightarrow> string list \<Rightarrow> string list \<Rightarrow> string list" where
  "name_set_errors missing_message unexpected_message expected_names actual_names =
     (let missing = sorted_diff expected_names actual_names;
          unexpected = sorted_diff actual_names expected_names
      in (if missing \<noteq> [] then [missing_message @ join_with '', '' missing] else [])
         @ (if unexpected \<noteq> [] then [unexpected_message @ join_with '', '' unexpected] else []))"

lemma name_set_errors_Nil: "name_set_errors m u expected actual = [] \<longleftrightarrow> set expected = set actual"
  by (auto simp: name_set_errors_def Let_def sorted_diff_Nil)

text \<open>\<open>parse_name_set\<close>: comma-separated names, blanks around them and empty ones dropped.\<close>

definition parse_name_set :: "string option \<Rightarrow> string list option" where
  "parse_name_set raw =
     (case raw of
        None \<Rightarrow> None
      | Some s \<Rightarrow> Some (remdups (filter (\<lambda>item. item \<noteq> []) (map str_strip (split_on (CHR '','') s)))))"

section \<open>Values at dotted paths\<close>

text \<open>\<open>path_value\<close>: \<open>None\<close> is the sentinel for a missing part.\<close>

fun path_value_parts :: "pyval \<Rightarrow> string list \<Rightarrow> pyval option" where
  "path_value_parts value [] = Some value"
| "path_value_parts value (part # parts) =
     (case value of
        PDict d \<Rightarrow> (case map_of d part of None \<Rightarrow> None | Some v \<Rightarrow> path_value_parts v parts)
      | _ \<Rightarrow> None)"

definition path_value :: "dict \<Rightarrow> string \<Rightarrow> pyval option" where
  "path_value report dotted_path = path_value_parts (PDict report) (split_on (CHR ''.'') dotted_path)"

end
