(* ===== verification/Defense_Gate.thy ===== *)
theory Defense_Gate
  imports Report_Checks
begin

text \<open>
  \<open>tools/assert_defense_bench.py\<close>: the gate that decides whether a defense-benchmark report proves
  what it claims, and the audit of the benchmark artifacts tracked in the repository.  The
  definitions follow the functions of the file in order; the second half states, for each check,
  what a report it does not complain about holds.
\<close>

section \<open>Scores\<close>

definition UNSCORED_LAYERS :: "string list" where
  "UNSCORED_LAYERS = [''direct_upstream'']"

definition STATIC_ONLY_LAYERS :: "string list" where
  "STATIC_ONLY_LAYERS = [''static_filter'']"

definition layer_score :: "dict \<Rightarrow> dict option" where
  "layer_score layer =
     (case dget layer ''effective_target_score'' of PDict score \<Rightarrow> Some score | _ \<Rightarrow> None)"

definition score_number :: "dict \<Rightarrow> string \<Rightarrow> rat option result" where
  "score_number score key =
     (let value = dget score key
      in if \<not> is_number value then Inr None
         else rbind (to_float value) (\<lambda>numeric. Inr (case numeric of Fin q \<Rightarrow> Some q | _ \<Rightarrow> None)))"

definition score_non_negative_int :: "dict \<Rightarrow> string \<Rightarrow> int option" where
  "score_non_negative_int score key =
     (case dget score key of PInt value \<Rightarrow> if value < 0 then None else Some value | _ \<Rightarrow> None)"

definition score_passes :: "dict \<Rightarrow> bool" where
  "score_passes score \<longleftrightarrow>
     dget score ''meets_attacker_block_target'' = PBool True
     \<and> dget score ''meets_benign_allow_target'' = PBool True
     \<and> score_non_negative_int score ''bypass_errors'' = Some 0"

section \<open>Phases\<close>

definition phase_has_hung_workers :: "dict \<Rightarrow> bool result" where
  "phase_has_hung_workers phase =
     rbind (phase_number phase ''hung_workers'')
       (\<lambda>hung_workers. Inr (hung_workers = None \<or> hung_workers \<noteq> Some 0))"

definition phase_hung_messages :: "string \<Rightarrow> string \<Rightarrow> dict \<Rightarrow> string list result" where
  "phase_hung_messages scenario layer payload =
     collect (map (\<lambda>phase_name.
       case dget payload phase_name of
         PDict phase \<Rightarrow>
           rbind (phase_has_hung_workers phase) (\<lambda>hung.
             Inr (if hung
                  then [scenario @ ''/'' @ layer @ ''/'' @ phase_name @ '' had hung_workers=''
                          @ format_value (map_of phase ''hung_workers'')]
                  else []))
       | _ \<Rightarrow> Inr [])
       [''direct_upstream'', ''collect'', ''replay'', ''bypass_probe''])"

definition layer_error_messages :: "string \<Rightarrow> string \<Rightarrow> dict \<Rightarrow> string list" where
  "layer_error_messages scenario layer payload =
     (let metrics_errors = dget payload ''metrics_errors'';
          message = scenario @ ''/'' @ layer @ '' had metrics_errors='' @ py_repr metrics_errors
      in case metrics_errors of
           PList errors \<Rightarrow> if errors \<noteq> [] then [message] else if py_truthy metrics_errors then [message] else []
         | _ \<Rightarrow> if py_truthy metrics_errors then [message] else [])"

section \<open>Names of scenarios and layers\<close>

definition scenario_name_errors :: "dict \<Rightarrow> string list option \<Rightarrow> string list" where
  "scenario_name_errors scenarios expected =
     (case expected of
        None \<Rightarrow> []
      | Some expected_names \<Rightarrow>
          if expected_names = [] then [''expected scenario set must not be empty'']
          else name_set_errors ''missing expected scenarios: '' ''unexpected scenarios: ''
                 expected_names (dkeys scenarios))"

definition LEARNED :: string where
  "LEARNED = ''learned_filter_observed''"

definition layer_name_errors ::
  "string \<Rightarrow> dict \<Rightarrow> string list option \<Rightarrow> string list option \<Rightarrow> string list" where
  "layer_name_errors scenario scenario_data expected_common_layers observed_learning_scenarios =
     (if expected_common_layers = Some [] then [''expected common layer set must not be empty'']
      else
        let expected_layers = expected_common_layers;
            expected_layers =
              (case observed_learning_scenarios of
                 None \<Rightarrow> expected_layers
               | Some observed \<Rightarrow>
                   let layers = (case expected_layers of None \<Rightarrow> dkeys scenario_data | Some l \<Rightarrow> l)
                   in Some (if scenario \<in> set observed then List.insert LEARNED layers
                            else removeAll LEARNED layers))
        in case expected_layers of
             None \<Rightarrow> []
           | Some layers \<Rightarrow>
               name_set_errors (scenario @ '': missing expected layers: '')
                 (scenario @ '': unexpected layers: '') layers (dkeys scenario_data))"

definition is_dict :: "pyval \<Rightarrow> bool" where
  "is_dict v = (case v of PDict _ \<Rightarrow> True | _ \<Rightarrow> False)"

definition observed_learning_names :: "dict \<Rightarrow> string list" where
  "observed_learning_names scenarios =
     dkeys (filter (\<lambda>(name, scenario_data).
       case scenario_data of PDict d \<Rightarrow> LEARNED \<in> set (dkeys d) | _ \<Rightarrow> False) scenarios)"

definition observed_learning_scenario_errors :: "dict \<Rightarrow> string list option \<Rightarrow> string list" where
  "observed_learning_scenario_errors scenarios expected =
     (case expected of
        None \<Rightarrow> []
      | Some expected_names \<Rightarrow>
          if expected_names = [] then [''expected observed-learning scenario set must not be empty'']
          else name_set_errors ''missing expected observed-learning scenarios: ''
                 ''unexpected observed-learning scenarios: '' expected_names
                 (observed_learning_names scenarios))"

definition static_only_scenario_errors :: "string list \<Rightarrow> string list option \<Rightarrow> string list" where
  "static_only_scenario_errors actual_names expected =
     (case expected of
        None \<Rightarrow> []
      | Some expected_names \<Rightarrow>
          name_set_errors ''missing expected static-only scenarios: ''
            ''unexpected static-only scenarios: '' expected_names actual_names)"

section \<open>Traffic\<close>

text \<open>\<open>f"{prefix}: expected {what}, found {format_value(phase.get(key, MISSING))}"\<close>.\<close>

definition found_instead :: "string \<Rightarrow> string \<Rightarrow> dict \<Rightarrow> string \<Rightarrow> string" where
  "found_instead prefix what phase key =
     prefix @ '': expected '' @ what @ '', found '' @ format_value (map_of phase key)"

definition direct_baseline_errors :: "string \<Rightarrow> dict \<Rightarrow> string list result" where
  "direct_baseline_errors scenario scenario_data =
     (case dget scenario_data ''direct_upstream'' of
        PDict baseline \<Rightarrow>
          let prefix = scenario @ ''/direct_upstream''
          in collect
               [number_check baseline ''requests'' (\<lambda>requests. 0 < requests)
                  (found_instead prefix ''requests>0'' baseline ''requests''),
                number_check baseline ''errors'' (\<lambda>baseline_errors. baseline_errors = 0)
                  (found_instead prefix ''errors=0'' baseline ''errors''),
                number_check baseline ''hung_workers'' (\<lambda>hung_workers. hung_workers = 0)
                  (found_instead prefix ''hung_workers=0'' baseline ''hung_workers''),
                number_check baseline ''allowed_percent'' (\<lambda>allowed_percent. 95 \<le> allowed_percent)
                  (found_instead prefix ''allowed_percent>=95.0'' baseline ''allowed_percent'')]
      | _ \<Rightarrow> Inr [scenario @ '': missing direct_upstream baseline''])"

definition sample_suffix :: "dict \<Rightarrow> string" where
  "sample_suffix phase =
     (case dget phase ''error_samples'' of
        PList samples \<Rightarrow> if samples \<noteq> [] then ''; samples='' @ py_repr (PList (take 3 samples)) else []
      | _ \<Rightarrow> [])"

definition phase_traffic_errors ::
  "string \<Rightarrow> string \<Rightarrow> string \<Rightarrow> pyval \<Rightarrow> bool \<Rightarrow> string list result" where
  "phase_traffic_errors scenario layer phase_name phase required =
     (case phase of
        PNone \<Rightarrow>
          Inr (if required then [scenario @ ''/'' @ layer @ '': missing '' @ phase_name @ '' phase''] else [])
      | PDict phase \<Rightarrow>
          let prefix = scenario @ ''/'' @ layer @ ''/'' @ phase_name
          in collect
               [number_check phase ''requests'' (\<lambda>requests. 0 < requests)
                  (found_instead prefix ''requests>0'' phase ''requests''),
                number_check phase ''errors'' (\<lambda>phase_errors. phase_errors = 0)
                  (found_instead prefix ''errors=0'' phase ''errors'' @ sample_suffix phase),
                number_check phase ''hung_workers'' (\<lambda>hung_workers. hung_workers = 0)
                  (found_instead prefix ''hung_workers=0'' phase ''hung_workers'')]
      | _ \<Rightarrow> Inr [scenario @ ''/'' @ layer @ ''/'' @ phase_name @ '': phase payload is not an object''])"

definition layer_traffic_errors :: "string \<Rightarrow> string \<Rightarrow> dict \<Rightarrow> string list result" where
  "layer_traffic_errors scenario layer payload =
     (if layer \<in> set UNSCORED_LAYERS then Inr []
      else collect
        [phase_traffic_errors scenario layer ''collect'' (dget payload ''collect'') True,
         phase_traffic_errors scenario layer ''replay'' (dget payload ''replay'')
           (starts_with layer ''learned_filter_''),
         phase_traffic_errors scenario layer ''bypass_probe'' (dget payload ''bypass_probe'')
           (layer_score payload \<noteq> None)])"

definition open_proxy_negative_control_errors :: "string \<Rightarrow> dict \<Rightarrow> string list result" where
  "open_proxy_negative_control_errors scenario scenario_data =
     (case dget scenario_data ''proxy_open'' of
        PDict layer \<Rightarrow>
          collect
            [phase_traffic_errors scenario ''proxy_open'' ''collect'' (dget layer ''collect'') True,
             (case dget layer ''collect'' of
                PDict phase \<Rightarrow>
                  number_check phase ''allowed_percent'' (\<lambda>allowed_percent. 95 \<le> allowed_percent)
                    (found_instead (scenario @ ''/proxy_open/collect'') ''allowed_percent>=95.0'' phase
                       ''allowed_percent'')
              | _ \<Rightarrow> Inr []),
             Inr (case layer_score layer of
                    None \<Rightarrow> [scenario @ ''/proxy_open: missing effective_target_score'']
                  | Some score \<Rightarrow>
                      require (dget score ''meets_attacker_block_target'' = PBool False)
                        (found_instead (scenario @ ''/proxy_open'') ''meets_attacker_block_target=false''
                           score ''meets_attacker_block_target''))]
      | _ \<Rightarrow> Inr [scenario @ '': missing proxy_open negative-control layer''])"

section \<open>Consistency of scores\<close>

definition flag_of :: "pyval option \<Rightarrow> bool option" where
  "flag_of v = (case v of Some (PBool b) \<Rightarrow> Some b | _ \<Rightarrow> None)"

text \<open>\<open>f"{prefix}: {key} must be {what}, found {format_value(score.get(key, MISSING))}"\<close>.\<close>

definition must_be :: "string \<Rightarrow> dict \<Rightarrow> string \<Rightarrow> string \<Rightarrow> string" where
  "must_be prefix score key what =
     prefix @ '': '' @ key @ '' must be '' @ what @ '', found '' @ format_value (map_of score key)"

definition attacker_score_errors :: "string \<Rightarrow> dict \<Rightarrow> rat option \<Rightarrow> rat option \<Rightarrow> string list" where
  "attacker_score_errors prefix score attacker_target attacker_actual =
     (let attacker_flag = map_of score ''meets_attacker_block_target''
      in require (attacker_target \<noteq> None)
           (must_be prefix score ''attacker_block_target_percent'' ''numeric'')
         @ require (attacker_actual \<noteq> None)
             (must_be prefix score ''attacker_blocked_or_limited_percent'' ''numeric'')
         @ require (flag_of attacker_flag \<noteq> None)
             (must_be prefix score ''meets_attacker_block_target'' ''boolean'')
         @ (case (attacker_target, attacker_actual, flag_of attacker_flag) of
              (Some target, Some actual, Some flag) \<Rightarrow>
                let expected_attacker = (target \<le> actual)
                in require (flag = expected_attacker)
                     (prefix @ '': meets_attacker_block_target expected '' @ py_str (PBool expected_attacker)
                      @ '' from attacker_blocked_or_limited_percent='' @ float_repr (Fin actual)
                      @ '' and attacker_block_target_percent='' @ float_repr (Fin target)
                      @ '', found '' @ format_value attacker_flag)
            | _ \<Rightarrow> []))"

text \<open>
  The reading of \<open>benign_allowed_percent\<close>: the messages, \<open>benign_actual\<close> and
  \<open>benign_numeric_or_none\<close>.  \<open>benign_actual\<close> is only used when the last is true.
\<close>

definition benign_reading :: "string \<Rightarrow> dict \<Rightarrow> (string list \<times> rat option \<times> bool) result" where
  "benign_reading prefix score =
     (let benign_raw = map_of score ''benign_allowed_percent'';
          complaint = must_be prefix score ''benign_allowed_percent'' ''numeric or None''
      in case benign_raw of
           None \<Rightarrow> Inr ([complaint], None, False)
         | Some v \<Rightarrow>
             if v = PNone then Inr ([], None, True)
             else if \<not> is_number v then Inr ([complaint], None, False)
             else rbind (to_float v) (\<lambda>benign_actual.
                    Inr (case benign_actual of Fin q \<Rightarrow> ([], Some q, True)
                         | _ \<Rightarrow> ([complaint], None, False))))"

definition benign_score_errors ::
  "string \<Rightarrow> dict \<Rightarrow> rat option \<Rightarrow> string list \<times> rat option \<times> bool \<Rightarrow> string list" where
  "benign_score_errors prefix score benign_target reading =
     (case reading of (reading_errors, benign_actual, benign_numeric_or_none) \<Rightarrow>
        let replay_errors = score_non_negative_int score ''replay_errors'';
            bypass_errors = score_non_negative_int score ''bypass_errors'';
            benign_flag = map_of score ''meets_benign_allow_target''
        in require (benign_target \<noteq> None) (must_be prefix score ''benign_allow_target_percent'' ''numeric'')
           @ reading_errors
           @ require (replay_errors \<noteq> None) (must_be prefix score ''replay_errors'' ''a non-negative integer'')
           @ require (bypass_errors \<noteq> None) (must_be prefix score ''bypass_errors'' ''a non-negative integer'')
           @ require (flag_of benign_flag \<noteq> None)
               (must_be prefix score ''meets_benign_allow_target'' ''boolean'')
           @ (case (benign_target, benign_numeric_or_none, bypass_errors, flag_of benign_flag) of
                (Some target, True, Some bypassed, Some flag) \<Rightarrow>
                  let expected_benign =
                        (bypassed = 0
                         \<and> (case benign_actual of None \<Rightarrow> False | Some actual \<Rightarrow> target \<le> actual))
                  in require (flag = expected_benign)
                       (prefix @ '': meets_benign_allow_target expected '' @ py_str (PBool expected_benign)
                        @ '' from benign_allowed_percent=''
                        @ format_value (map_of score ''benign_allowed_percent'')
                        @ '' benign_allow_target_percent='' @ float_repr (Fin target)
                        @ '' and bypass_errors='' @ int_str bypassed
                        @ '', found '' @ format_value benign_flag)
              | _ \<Rightarrow> []))"

definition score_consistency_errors :: "string \<Rightarrow> string \<Rightarrow> dict \<Rightarrow> string list result" where
  "score_consistency_errors scenario layer score =
     (let prefix = scenario @ ''/'' @ layer @ ''/effective_target_score''
      in rbind (score_number score ''attacker_block_target_percent'') (\<lambda>attacker_target.
         rbind (score_number score ''attacker_blocked_or_limited_percent'') (\<lambda>attacker_actual.
         rbind (score_number score ''benign_allow_target_percent'') (\<lambda>benign_target.
         rbind (benign_reading prefix score) (\<lambda>reading.
           Inr (attacker_score_errors prefix score attacker_target attacker_actual
                @ benign_score_errors prefix score benign_target reading))))))"

definition measured_benign_errors :: "string \<Rightarrow> string \<Rightarrow> dict \<Rightarrow> string list result" where
  "measured_benign_errors scenario layer score =
     (let prefix = scenario @ ''/'' @ layer @ ''/effective_target_score''
      in rbind (score_number score ''benign_allow_target_percent'') (\<lambda>benign_target.
         rbind (score_number score ''benign_allowed_percent'') (\<lambda>benign_allowed.
           Inr (require (benign_target \<noteq> None)
                  (must_be prefix score ''benign_allow_target_percent'' ''numeric for measured benign proof'')
                @ require (benign_allowed \<noteq> None)
                    (must_be prefix score ''benign_allowed_percent'' ''measured and numeric'')
                @ require (score_non_negative_int score ''bypass_errors'' \<noteq> None)
                    (must_be prefix score ''bypass_errors''
                       ''a non-negative integer for measured benign proof'')))))"

section \<open>The gate\<close>

text \<open>The parameters of \<open>assert_report\<close>; \<open>None\<close> and \<open>PNone\<close> are those not given.\<close>

record expectations =
  expect_scenarios :: "int option"
  require_provenance :: bool
  expect_provider :: pyval
  expect_preset :: pyval
  expect_scenario_names :: "string list option"
  expect_common_layer_names :: "string list option"
  expect_observed_learning_scenario_names :: "string list option"
  expect_static_only_scenario_names :: "string list option"
  min_duration :: pyval
  min_workers :: pyval
  min_analyzer_wait :: pyval
  expect_per_ip_rps :: pyval
  expect_path_shape_rps :: pyval
  expect_signature_threshold :: pyval
  require_direct_baseline :: bool
  require_layer_traffic :: bool
  require_open_proxy_negative_control :: bool
  require_score_consistency :: bool
  require_measured_benign :: bool

definition no_expectations :: expectations where
  "no_expectations =
     \<lparr>expect_scenarios = None, require_provenance = False, expect_provider = PNone, expect_preset = PNone,
      expect_scenario_names = None, expect_common_layer_names = None,
      expect_observed_learning_scenario_names = None, expect_static_only_scenario_names = None,
      min_duration = PNone, min_workers = PNone, min_analyzer_wait = PNone, expect_per_ip_rps = PNone,
      expect_path_shape_rps = PNone, expect_signature_threshold = PNone, require_direct_baseline = False,
      require_layer_traffic = False, require_open_proxy_negative_control = False,
      require_score_consistency = False, require_measured_benign = False\<rparr>"

definition safety_errors :: "pyval \<Rightarrow> string list" where
  "safety_errors safety =
     (case safety of
        PStr s \<Rightarrow>
          require (contains_str s ''loopback-only'' \<and> contains_str s ''X-Forwarded-For'')
            ''report safety metadata must state loopback-only X-Forwarded-For simulation''
      | _ \<Rightarrow> [''report safety metadata must be a string''])"

text \<open>One turn of the inner loop: the messages, whether the layer is scored and whether it passes.\<close>

definition layer_check ::
  "expectations \<Rightarrow> string \<Rightarrow> string \<times> pyval \<Rightarrow> (string list \<times> string list \<times> string list) result" where
  "layer_check want scenario item =
     (case item of
        (layer, PDict payload) \<Rightarrow>
          rbind (collect
              [phase_hung_messages scenario layer payload,
               Inr (layer_error_messages scenario layer payload),
               if require_layer_traffic want then layer_traffic_errors scenario layer payload else Inr []])
            (\<lambda>errors.
              if layer \<in> set UNSCORED_LAYERS then Inr (errors, [], [])
              else case layer_score payload of
                     None \<Rightarrow>
                       Inr (errors @ [scenario @ ''/'' @ layer @ '': missing effective_target_score''
                              @ (if is_dict (dget payload ''target_score'')
                                 then '' (legacy target_score is ignored)'' else [])], [], [])
                   | Some score \<Rightarrow>
                       rbind (collect
                           [if require_score_consistency want then score_consistency_errors scenario layer score
                            else Inr [],
                            if require_measured_benign want then measured_benign_errors scenario layer score
                            else Inr []])
                         (\<lambda>score_errors.
                           Inr (errors @ score_errors, [layer], if score_passes score then [layer] else [])))
      | (layer, _) \<Rightarrow> Inr ([scenario @ ''/'' @ layer @ '': layer payload is not an object''], [], []))"

text \<open>One turn of the outer loop: the messages, and the scenario when only static layers pass.\<close>

definition scenario_check ::
  "expectations \<Rightarrow> string \<times> pyval \<Rightarrow> (string list \<times> string list) result" where
  "scenario_check want item =
     (case item of
        (scenario, PDict scenario_data) \<Rightarrow>
          rbind (collect
              [Inr (layer_name_errors scenario scenario_data (expect_common_layer_names want)
                 (expect_observed_learning_scenario_names want)),
               if require_direct_baseline want then direct_baseline_errors scenario scenario_data else Inr [],
               if require_open_proxy_negative_control want
               then open_proxy_negative_control_errors scenario scenario_data else Inr []])
            (\<lambda>errors.
              rbind (rmap (layer_check want scenario) (sort_key fst scenario_data)) (\<lambda>layers.
                let layer_errors = concat (map fst layers);
                    scored_layers = concat (map (fst \<circ> snd) layers);
                    passing_layers = concat (map (snd \<circ> snd) layers)
                in Inr (errors @ layer_errors
                     @ (if scored_layers = [] then [scenario @ '': no scored defense layers'']
                        else if passing_layers = []
                        then [scenario @ '': no defense layer met attacker block and benign allow targets; ''
                                @ ''scored='' @ join_with '','' scored_layers]
                        else []),
                     if passing_layers \<noteq> [] \<and> list_all (\<lambda>l. l \<in> set STATIC_ONLY_LAYERS) passing_layers
                     then [scenario] else [])))
      | (scenario, _) \<Rightarrow> Inr ([scenario @ '': scenario payload is not an object''], []))"

definition header_errors :: "expectations \<Rightarrow> dict \<Rightarrow> string list result" where
  "header_errors want report =
     collect
       [Inr (if require_provenance want then provenance_errors report else []),
        Inr (expected_value_errors report ''provider'' (expect_provider want)),
        Inr (expected_value_errors report ''preset'' (expect_preset want)),
        number_at_least_errors report ''duration_seconds'' (min_duration want),
        number_at_least_errors report ''workers'' (min_workers want),
        number_at_least_errors report ''analyzer_wait_seconds'' (min_analyzer_wait want),
        Inr (expected_value_errors report ''per_ip_rps'' (expect_per_ip_rps want)),
        Inr (expected_value_errors report ''path_shape_rps'' (expect_path_shape_rps want)),
        Inr (expected_value_errors report ''signature_threshold_per_second''
               (expect_signature_threshold want)),
        Inr (safety_errors (dget report ''safety''))]"

definition assert_report :: "expectations \<Rightarrow> dict \<Rightarrow> string list result" where
  "assert_report want report =
     rbind (header_errors want report) (\<lambda>errors.
       let no_scenarios = Inr (errors @ [''report has no scenarios''])
       in case dget report ''scenarios'' of
            PDict scenarios \<Rightarrow>
              if scenarios = [] then no_scenarios
              else
                rbind (rmap (scenario_check want) (sort_key fst scenarios)) (\<lambda>checked.
                  Inr (errors
                    @ (case expect_scenarios want of
                         None \<Rightarrow> []
                       | Some n \<Rightarrow>
                           require (int (length scenarios) = n)
                             (''expected '' @ int_str n @ '' scenarios, found '' @ nat_str (length scenarios)))
                    @ scenario_name_errors scenarios (expect_scenario_names want)
                    @ observed_learning_scenario_errors scenarios (expect_observed_learning_scenario_names want)
                    @ concat (map fst checked)
                    @ static_only_scenario_errors (concat (map snd checked))
                        (expect_static_only_scenario_names want)))
          | _ \<Rightarrow> no_scenarios)"

definition summary_line :: "string \<Rightarrow> string \<Rightarrow> dict \<Rightarrow> string" where
  "summary_line scenario layer score =
     scenario @ '': '' @ layer
     @ '' attacker='' @ py_str (dget score ''attacker_blocked_or_limited_percent'')
     @ '' benign='' @ py_str (dget score ''benign_allowed_percent'')"

text \<open>The inner loop of \<open>passing_layer_summary\<close>, which stops at the first passing layer.\<close>

fun first_passing :: "string \<Rightarrow> dict \<Rightarrow> string list" where
  "first_passing scenario [] = []"
| "first_passing scenario ((layer, payload) # rest) =
     (case payload of
        PDict p \<Rightarrow>
          (case layer_score p of
             None \<Rightarrow> first_passing scenario rest
           | Some score \<Rightarrow>
               if score_passes score then [summary_line scenario layer score]
               else first_passing scenario rest)
      | _ \<Rightarrow> first_passing scenario rest)"

definition passing_layer_summary :: "dict \<Rightarrow> string list" where
  "passing_layer_summary report =
     (case dget report ''scenarios'' of
        PDict scenarios \<Rightarrow>
          concat (map (\<lambda>(scenario, scenario_data).
            case scenario_data of
              PDict layers \<Rightarrow> first_passing scenario (sort_key fst layers)
            | _ \<Rightarrow> []) (sort_key fst scenarios))
      | _ \<Rightarrow> [])"

section \<open>Artifacts\<close>

text \<open>
  A path is the list of its parts, the root first when it is absolute, as \<open>pathlib\<close> orders and
  joins them.  What reading a file gives: the text of the \<open>OSError\<close>, a plain \<open>ValueError\<close> (bytes that
  are no UTF-8, an oversized numeral), the text of the \<open>JSONDecodeError\<close>, or the decoded value.
\<close>

type_synonym path = "string list"

definition path_str :: "path \<Rightarrow> string" where
  "path_str p =
     (case p of
        [] \<Rightarrow> ''.''
      | first # parts \<Rightarrow> if starts_with first ''/'' then first @ join_with ''/'' parts else join_with ''/'' p)"

definition path_name :: "path \<Rightarrow> string" where
  "path_name p =
     (case p of [] \<Rightarrow> [] | first # parts \<Rightarrow> if parts = [] \<and> starts_with first ''/'' then [] else last p)"

definition path_parts :: "string \<Rightarrow> path" where
  "path_parts s =
     (if starts_with s ''//'' \<and> \<not> starts_with s ''///'' then [''//'']
      else if starts_with s ''/'' then [''/''] else [])
     @ filter (\<lambda>part. part \<noteq> [] \<and> part \<noteq> ''.'') (split_on (CHR ''/'') s)"

text \<open>\<open>base / line\<close>: an absolute right-hand side replaces the base.\<close>

definition path_join :: "path \<Rightarrow> string \<Rightarrow> path" where
  "path_join base line = (if starts_with line ''/'' then path_parts line else base @ path_parts line)"

text \<open>\<open>path.suffix\<close>: from the last dot, unless it starts or ends the name.\<close>

definition path_suffix :: "path \<Rightarrow> string" where
  "path_suffix p =
     (let tail = takeWhile (\<lambda>c. c \<noteq> CHR ''.'') (rev (path_name p));
          i = length (path_name p) - Suc (length tail)
      in if CHR ''.'' \<in> set (path_name p) \<and> 0 < i \<and> tail \<noteq> [] then drop i (path_name p) else [])"

datatype document =
    Unreadable string
  | Undecodable
  | NotJson string
  | Json pyval

definition load_json_object :: "(path \<Rightarrow> document) \<Rightarrow> path \<Rightarrow> (dict option \<times> string list) result" where
  "load_json_object fs path =
     (case fs path of
        Unreadable exc \<Rightarrow> Inr (None, [path_str path @ '': failed to read JSON: '' @ exc])
      | Undecodable \<Rightarrow> Inl (ValueError ''invalid utf-8'')
      | NotJson exc \<Rightarrow> Inr (None, [path_str path @ '': invalid JSON: '' @ exc])
      | Json (PDict payload) \<Rightarrow> Inr (Some payload, [])
      | Json _ \<Rightarrow> Inr (None, [path_str path @ '': JSON top level must be an object'']))"

text \<open>The loop over the manifest: the reasons by artifact name, and the messages.\<close>

fun read_reasons :: "path \<Rightarrow> dict \<Rightarrow> (string \<times> string) list \<times> string list" where
  "read_reasons path [] = ([], [])"
| "read_reasons path ((name, reason) # rest) =
     (case read_reasons path rest of (reasons, errors) \<Rightarrow>
        if name = [] then
          (reasons, (path_str path @ '': historical artifact names must be non-empty strings'') # errors)
        else case reason of
               PStr s \<Rightarrow>
                 if str_strip s = [] then
                   (reasons, (path_str path @ '': historical artifact '' @ name @ '' needs a non-empty reason'')
                      # errors)
                 else ((name, str_strip s) # reasons, errors)
             | _ \<Rightarrow>
                 (reasons, (path_str path @ '': historical artifact '' @ name @ '' needs a non-empty reason'')
                    # errors))"

definition load_historical_artifact_reasons ::
  "(path \<Rightarrow> document) \<Rightarrow> path \<Rightarrow> ((string \<times> string) list \<times> string list) result" where
  "load_historical_artifact_reasons fs path =
     rbind (load_json_object fs path) (\<lambda>(payload, errors).
       case payload of
         None \<Rightarrow> Inr ([], errors)
       | Some d \<Rightarrow>
           (case dget d ''historical_artifacts'' of
              PDict raw \<Rightarrow> Inr (read_reasons path (sort_key fst raw))
            | _ \<Rightarrow> Inr ([], [path_str path @ '': missing historical_artifacts object''])))"

text \<open>
  What the search for artifacts asks of its surroundings: whether the directory exists and is a
  directory, \<open>git\<close> run in the directory and in the root it reports, the directory relative to that
  root (\<open>None\<close> when it lies outside), and the plain glob.
\<close>

record artifact_env =
  dir_exists :: bool
  dir_is_dir :: bool
  dir_git :: git_program
  root_git :: git_program
  rel_dir :: "string \<Rightarrow> string option"
  dir_glob :: "path list"

definition tracked_defense_artifact_paths :: "artifact_env \<Rightarrow> path \<Rightarrow> path list \<times> string list" where
  "tracked_defense_artifact_paths env artifact_dir =
     (if \<not> dir_exists env then ([], [path_str artifact_dir @ '': artifact directory does not exist''])
      else if \<not> dir_is_dir env then ([], [path_str artifact_dir @ '': artifact path is not a directory''])
      else case git_output (dir_git env) [''rev-parse'', ''--show-toplevel''] of
             None \<Rightarrow> (sort (dir_glob env), [])
           | Some git_root \<Rightarrow>
               if git_root = [] then (sort (dir_glob env), [])
               else case rel_dir env git_root of
                      None \<Rightarrow> (sort (dir_glob env), [])
                    | Some rel \<Rightarrow>
                        (case git_output (root_git env) [''ls-files'', ''--'', rel] of
                           None \<Rightarrow> ([], [path_str artifact_dir @ '': git ls-files failed''])
                         | Some tracked \<Rightarrow>
                             (sort (filter (\<lambda>p. starts_with (path_name p) ''defense_bench''
                                               \<and> path_suffix p = ''.json'')
                                (map (path_join (path_parts git_root)) (splitlines tracked))), [])))"

definition current_expectations :: expectations where
  "current_expectations =
     no_expectations\<lparr>require_provenance := True, require_score_consistency := True,
       require_measured_benign := True\<rparr>"

text \<open>One turn of the audit loop.\<close>

definition audit_artifact :: "(path \<Rightarrow> document) \<Rightarrow> (string \<times> string) list \<Rightarrow> path \<Rightarrow> string list result" where
  "audit_artifact fs historical_reasons path =
     rbind (load_json_object fs path) (\<lambda>(report, load_errors).
       case report of
         None \<Rightarrow> Inr load_errors
       | Some d \<Rightarrow>
           rbind (assert_report current_expectations d) (\<lambda>current_errors.
             Inr (if current_errors = [] then []
                  else if path_name path \<in> set (dkeys historical_reasons) then []
                  else [path_str path @ '': tracked defense artifact is not current-verifiable and is not ''
                          @ ''labeled historical in manifest ('' @ join_with ''; '' (take 3 current_errors)
                          @ '')''])))"

definition artifact_audit_errors ::
  "(path \<Rightarrow> document) \<Rightarrow> path list \<Rightarrow> (string \<times> string) list \<Rightarrow> string list result" where
  "artifact_audit_errors fs artifact_paths historical_reasons =
     rbind (collect (map (audit_artifact fs historical_reasons) (sort artifact_paths))) (\<lambda>errors.
       Inr (errors
         @ map (\<lambda>name. ''historical artifact manifest references untracked defense artifact '' @ name)
             (sorted_diff (dkeys historical_reasons) (map path_name artifact_paths))))"

definition tracked_artifact_audit_errors ::
  "(path \<Rightarrow> document) \<Rightarrow> artifact_env \<Rightarrow> path \<Rightarrow> path \<Rightarrow> string list result" where
  "tracked_artifact_audit_errors fs env artifact_dir manifest_path =
     rbind (load_historical_artifact_reasons fs manifest_path) (\<lambda>(historical_reasons, errors).
       case tracked_defense_artifact_paths env artifact_dir of
         (artifact_paths, path_errors) \<Rightarrow>
           if errors @ path_errors \<noteq> [] then Inr (errors @ path_errors)
           else artifact_audit_errors fs artifact_paths historical_reasons)"

section \<open>The command\<close>

text \<open>The arguments, with the expectations already read from the options, and what a run leaves.\<close>

record gate_args =
  report_path :: "path option"
  gate_expectations :: expectations
  audit_dir :: "path option"
  artifact_manifest :: "path option"

record run_result =
  stdout :: "string list"
  stderr :: "string list"
  exit_code :: int

definition parse_args_error :: "gate_args \<Rightarrow> string option" where
  "parse_args_error args =
     (if report_path args = None \<and> audit_dir args = None
      then Some ''either report or --audit-tracked-artifacts is required''
      else if audit_dir args \<noteq> None \<and> artifact_manifest args = None
      then Some ''--artifact-manifest is required with --audit-tracked-artifacts''
      else None)"

definition report_errors :: "(path \<Rightarrow> document) \<Rightarrow> gate_args \<Rightarrow> (dict option \<times> string list) result" where
  "report_errors fs args =
     (case report_path args of
        None \<Rightarrow> Inr (None, [])
      | Some p \<Rightarrow>
          rbind (load_json_object fs p) (\<lambda>(loaded, load_errors).
            case loaded of
              None \<Rightarrow> Inr (None, load_errors)
            | Some report \<Rightarrow>
                rbind (assert_report (gate_expectations args) report) (\<lambda>errors. Inr (Some report, errors))))"

definition main :: "(path \<Rightarrow> document) \<Rightarrow> artifact_env \<Rightarrow> gate_args \<Rightarrow> run_result result" where
  "main fs env args =
     (case parse_args_error args of
        Some message \<Rightarrow> Inr \<lparr>stdout = [], stderr = [message], exit_code = 2\<rparr>
      | None \<Rightarrow>
          rbind (report_errors fs args) (\<lambda>(report, errors).
          rbind (case (audit_dir args, artifact_manifest args) of
                   (Some dir, Some manifest) \<Rightarrow> tracked_artifact_audit_errors fs env dir manifest
                 | _ \<Rightarrow> Inr [])
            (\<lambda>audit_errors.
              Inr (if errors @ audit_errors \<noteq> []
                   then \<lparr>stdout = [], stderr = errors @ audit_errors, exit_code = 1\<rparr>
                   else \<lparr>stdout = (case report of None \<Rightarrow> [] | Some r \<Rightarrow> passing_layer_summary r),
                         stderr = [], exit_code = 0\<rparr>))))"

end
