(* ===== verification/Defense_Gate_Correct.thy ===== *)
theory Defense_Gate_Correct
  imports Defense_Gate
begin

text \<open>
  What the defense-benchmark gate accepts.  For every check of \<open>Defense_Gate\<close> a predicate on the part
  of the report it reads, and a lemma that the check finds nothing exactly when the predicate holds;
  then the gate as a whole, what acceptance implies about the measured percentages, and the artifact
  audit.
\<close>

section \<open>What each check accepts\<close>

named_theorems silent \<open>when a check finds nothing\<close>

lemmas [silent] = number_check_silent number_at_least_silent

lemma score_number_eq [simp]: "score_number = phase_number"
  by (simp add: fun_eq_iff score_number_def phase_number_def)

definition no_hung_workers :: "dict \<Rightarrow> bool" where
  "no_hung_workers payload \<longleftrightarrow>
     (\<forall>name \<in> {''direct_upstream'', ''collect'', ''replay'', ''bypass_probe''}. \<forall>phase.
        dget payload name = PDict phase \<longrightarrow> number_where (\<lambda>q. q = 0) (dget phase ''hung_workers''))"

lemma phase_has_hung_workers_False:
  "phase_has_hung_workers phase = Inr False \<longleftrightarrow> number_where (\<lambda>q. q = 0) (dget phase ''hung_workers'')"
proof -
  have "phase_has_hung_workers phase = Inr False \<longleftrightarrow> phase_number phase ''hung_workers'' = Inr (Some 0)"
    by (auto simp: phase_has_hung_workers_def rbind_Inr_iff)
  also have "\<dots> \<longleftrightarrow> number_where (\<lambda>q. q = 0) (dget phase ''hung_workers'')"
    by (auto simp: phase_number_Some number_where_def split: option.splits)
  finally show ?thesis .
qed

lemma phase_hung_messages_silent [silent]:
  "phase_hung_messages scenario layer payload = Inr [] \<longleftrightarrow> no_hung_workers payload"
proof -
  have one: "(case v of
         PDict phase \<Rightarrow> rbind (phase_has_hung_workers phase) (\<lambda>hung. Inr (if hung then [m phase] else []))
       | _ \<Rightarrow> Inr []) = Inr ([] :: string list)
     \<longleftrightarrow> (\<forall>phase. v = PDict phase \<longrightarrow> number_where (\<lambda>q. q = 0) (dget phase ''hung_workers''))" for v m
    by (cases v) (auto simp: rbind_Inr_iff phase_has_hung_workers_False [symmetric] split: if_splits)
  show ?thesis
    unfolding phase_hung_messages_def collect_silent no_hung_workers_def
    by (simp add: one)
qed

lemma layer_error_messages_Nil [silent]:
  "layer_error_messages scenario layer payload = [] \<longleftrightarrow> \<not> py_truthy (dget payload ''metrics_errors'')"
  by (cases "dget payload ''metrics_errors''") (simp_all add: layer_error_messages_def Let_def)

definition names_match :: "string list option \<Rightarrow> string list \<Rightarrow> bool" where
  "names_match expected actual \<longleftrightarrow>
     (\<forall>names. expected = Some names \<longrightarrow> names \<noteq> [] \<and> set actual = set names)"

lemma scenario_name_errors_Nil [silent]:
  "scenario_name_errors scenarios expected = [] \<longleftrightarrow> names_match expected (dkeys scenarios)"
  by (auto simp: scenario_name_errors_def names_match_def name_set_errors_Nil split: option.splits)

lemma observed_learning_scenario_errors_Nil [silent]:
  "observed_learning_scenario_errors scenarios expected = []
   \<longleftrightarrow> names_match expected (observed_learning_names scenarios)"
  by (auto simp: observed_learning_scenario_errors_def names_match_def name_set_errors_Nil
      split: option.splits)

lemma static_only_scenario_errors_Nil [silent]:
  "static_only_scenario_errors actual expected = []
   \<longleftrightarrow> (\<forall>names. expected = Some names \<longrightarrow> set actual = set names)"
  by (auto simp: static_only_scenario_errors_def name_set_errors_Nil split: option.splits)

text \<open>
  The layers of a scenario: the common ones, with the observed-learning layer exactly in the
  scenarios that are to have it.
\<close>

definition layers_match :: "string list option \<Rightarrow> string list option \<Rightarrow> string \<Rightarrow> string list \<Rightarrow> bool" where
  "layers_match common observed scenario layers \<longleftrightarrow>
     common \<noteq> Some []
     \<and> (\<forall>names. observed = Some names \<longrightarrow> (LEARNED \<in> set layers \<longleftrightarrow> scenario \<in> set names))
     \<and> (\<forall>names. common = Some names \<longrightarrow>
          (if observed = None then set layers = set names
           else set layers - {LEARNED} = set names - {LEARNED}))"

lemma layer_name_errors_Nil [silent]:
  "layer_name_errors scenario scenario_data common observed = []
   \<longleftrightarrow> layers_match common observed scenario (dkeys scenario_data)"
proof -
  define layers where "layers = dkeys scenario_data"
  show ?thesis
    unfolding layer_name_errors_def layers_match_def layers_def [symmetric]
    by (cases common; cases observed) (auto simp: name_set_errors_Nil Let_def)
qed

definition traffic_ok :: "dict \<Rightarrow> bool" where
  "traffic_ok phase \<longleftrightarrow>
     number_where (\<lambda>q. 0 < q) (dget phase ''requests'')
     \<and> number_where (\<lambda>q. q = 0) (dget phase ''errors'')
     \<and> number_where (\<lambda>q. q = 0) (dget phase ''hung_workers'')"

definition phase_ok :: "bool \<Rightarrow> pyval \<Rightarrow> bool" where
  "phase_ok required v = (case v of PNone \<Rightarrow> \<not> required | PDict phase \<Rightarrow> traffic_ok phase | _ \<Rightarrow> False)"

lemma phase_traffic_errors_silent [silent]:
  "phase_traffic_errors scenario layer name v required = Inr [] \<longleftrightarrow> phase_ok required v"
  by (cases v) (simp_all add: phase_traffic_errors_def phase_ok_def traffic_ok_def Let_def
      collect_silent number_check_silent)

definition allowed_95 :: "dict \<Rightarrow> bool" where
  "allowed_95 phase \<longleftrightarrow> number_where (\<lambda>q. 95 \<le> q) (dget phase ''allowed_percent'')"

definition baseline_ok :: "dict \<Rightarrow> bool" where
  "baseline_ok layers \<longleftrightarrow>
     (\<exists>baseline. dget layers ''direct_upstream'' = PDict baseline \<and> traffic_ok baseline \<and> allowed_95 baseline)"

lemma direct_baseline_errors_silent [silent]:
  "direct_baseline_errors scenario layers = Inr [] \<longleftrightarrow> baseline_ok layers"
  by (cases "dget layers ''direct_upstream''")
    (auto simp: direct_baseline_errors_def baseline_ok_def traffic_ok_def allowed_95_def Let_def
      collect_silent number_check_silent)

definition layer_traffic_ok :: "string \<Rightarrow> dict \<Rightarrow> bool" where
  "layer_traffic_ok layer payload \<longleftrightarrow>
     layer \<in> set UNSCORED_LAYERS
     \<or> phase_ok True (dget payload ''collect'')
       \<and> phase_ok (starts_with layer ''learned_filter_'') (dget payload ''replay'')
       \<and> phase_ok (layer_score payload \<noteq> None) (dget payload ''bypass_probe'')"

lemma layer_traffic_errors_silent [silent]:
  "layer_traffic_errors scenario layer payload = Inr [] \<longleftrightarrow> layer_traffic_ok layer payload"
  by (auto simp: layer_traffic_errors_def layer_traffic_ok_def collect_silent phase_traffic_errors_silent)

text \<open>The open proxy lets the attack through and its score admits it.\<close>

definition control_ok :: "dict \<Rightarrow> bool" where
  "control_ok layers \<longleftrightarrow>
     (\<exists>layer phase score. dget layers ''proxy_open'' = PDict layer
        \<and> dget layer ''collect'' = PDict phase \<and> traffic_ok phase \<and> allowed_95 phase
        \<and> layer_score layer = Some score \<and> dget score ''meets_attacker_block_target'' = PBool False)"

lemma open_proxy_negative_control_errors_silent [silent]:
  "open_proxy_negative_control_errors scenario layers = Inr [] \<longleftrightarrow> control_ok layers"
proof (cases "dget layers ''proxy_open''")
  case (PDict layer)
  show ?thesis
    by (cases "dget layer ''collect''"; cases "layer_score layer")
      (simp_all add: open_proxy_negative_control_errors_def control_ok_def PDict collect_silent
        phase_traffic_errors_silent phase_ok_def number_check_silent allowed_95_def)
qed (simp_all add: open_proxy_negative_control_errors_def control_ok_def)

text \<open>
  A consistent score: its numbers are numbers, and each flag says exactly whether the measured
  percentage reaches the target (for the benign flag: with no bypass errors).
\<close>

definition attacker_consistent :: "dict \<Rightarrow> bool" where
  "attacker_consistent score \<longleftrightarrow>
     (\<exists>target actual.
        finite_number (dget score ''attacker_block_target_percent'') = Some target
        \<and> finite_number (dget score ''attacker_blocked_or_limited_percent'') = Some actual
        \<and> dget score ''meets_attacker_block_target'' = PBool (target \<le> actual))"

definition benign_consistent :: "dict \<Rightarrow> bool" where
  "benign_consistent score \<longleftrightarrow>
     (\<exists>target measured replayed bypassed.
        finite_number (dget score ''benign_allow_target_percent'') = Some target
        \<and> map_of score ''benign_allowed_percent'' = Some measured
        \<and> (measured = PNone \<or> finite_number measured \<noteq> None)
        \<and> score_non_negative_int score ''replay_errors'' = Some replayed
        \<and> score_non_negative_int score ''bypass_errors'' = Some bypassed
        \<and> dget score ''meets_benign_allow_target''
            = PBool (bypassed = 0 \<and> number_where (\<lambda>actual. target \<le> actual) measured))"

lemma flag_of_map_of: "flag_of (map_of d k) = Some b \<longleftrightarrow> dget d k = PBool b"
  by (auto simp: flag_of_def dget_def split: option.splits pyval.splits)

lemma attacker_score_errors_Nil:
  "attacker_score_errors prefix score target actual = []
   \<longleftrightarrow> (\<exists>t a. target = Some t \<and> actual = Some a
        \<and> dget score ''meets_attacker_block_target'' = PBool (t \<le> a))"
  unfolding flag_of_map_of [symmetric] attacker_score_errors_def Let_def
  by (cases target; cases actual; cases "flag_of (map_of score ''meets_attacker_block_target'')") auto

lemma benign_score_errors_Nil:
  "benign_score_errors prefix score target (es, actual, known) = []
   \<longleftrightarrow> es = [] \<and> (\<exists>t r b. target = Some t
        \<and> score_non_negative_int score ''replay_errors'' = Some r
        \<and> score_non_negative_int score ''bypass_errors'' = Some b
        \<and> (if known
           then dget score ''meets_benign_allow_target''
                  = PBool (b = 0 \<and> (case actual of None \<Rightarrow> False | Some a \<Rightarrow> t \<le> a))
           else \<exists>f. dget score ''meets_benign_allow_target'' = PBool f))"
  unfolding flag_of_map_of [symmetric] benign_score_errors_def Let_def prod.case
  by (cases target; cases known; cases "score_non_negative_int score ''replay_errors''";
      cases "score_non_negative_int score ''bypass_errors''";
      cases "flag_of (map_of score ''meets_benign_allow_target'')") auto

lemma benign_reading_Nil:
  "benign_reading prefix score = Inr ([], actual, known)
   \<longleftrightarrow> known \<and> (\<exists>v. map_of score ''benign_allowed_percent'' = Some v
        \<and> (v = PNone \<or> finite_number v \<noteq> None) \<and> actual = finite_number v)"
proof (cases "map_of score ''benign_allowed_percent''")
  case (Some v)
  then show ?thesis
    by (cases "to_float v")
      (auto simp: benign_reading_def finite_number_def Let_def split: pyfloat.splits)
qed (simp add: benign_reading_def)

lemma score_consistency_errors_silent [silent]:
  "score_consistency_errors scenario layer score = Inr []
   \<longleftrightarrow> attacker_consistent score \<and> benign_consistent score" (is "?L \<longleftrightarrow> ?R")
proof
  assume ?L
  then obtain target actual bt es ba known where
    n: "phase_number score ''attacker_block_target_percent'' = Inr target"
      "phase_number score ''attacker_blocked_or_limited_percent'' = Inr actual"
      "phase_number score ''benign_allow_target_percent'' = Inr bt"
      "benign_reading (scenario @ ''/'' @ layer @ ''/effective_target_score'') score = Inr (es, ba, known)"
    and e: "attacker_score_errors (scenario @ ''/'' @ layer @ ''/effective_target_score'') score target actual = []"
      "benign_score_errors (scenario @ ''/'' @ layer @ ''/effective_target_score'') score bt (es, ba, known) = []"
    by (auto simp: score_consistency_errors_def Let_def rbind_Inr_iff)
  from e(2) have "es = []" by (simp add: benign_score_errors_Nil)
  with n(4) have r: "benign_reading (scenario @ ''/'' @ layer @ ''/effective_target_score'') score = Inr ([], ba, known)"
    by simp
  show ?R
    using e r n(1-3) unfolding attacker_score_errors_Nil benign_score_errors_Nil benign_reading_Nil
    by (auto simp: attacker_consistent_def benign_consistent_def number_where_def phase_number_Some)
next
  assume ?R
  then obtain target actual bt v r b where
    n: "phase_number score ''attacker_block_target_percent'' = Inr (Some target)"
      "phase_number score ''attacker_blocked_or_limited_percent'' = Inr (Some actual)"
      "phase_number score ''benign_allow_target_percent'' = Inr (Some bt)"
    and v: "map_of score ''benign_allowed_percent'' = Some v" "v = PNone \<or> finite_number v \<noteq> None"
    and flags: "dget score ''meets_attacker_block_target'' = PBool (target \<le> actual)"
      "dget score ''meets_benign_allow_target'' = PBool (b = 0 \<and> number_where (\<lambda>a. bt \<le> a) v)"
    and counts: "score_non_negative_int score ''replay_errors'' = Some r"
      "score_non_negative_int score ''bypass_errors'' = Some b"
    unfolding attacker_consistent_def benign_consistent_def phase_number_Some by blast
  have "benign_reading prefix score = Inr ([], finite_number v, True)" for prefix
    using v by (simp add: benign_reading_Nil)
  with n flags counts show ?L
    by (simp add: score_consistency_errors_def Let_def attacker_score_errors_Nil benign_score_errors_Nil
        number_where_def)
qed

definition benign_measured :: "dict \<Rightarrow> bool" where
  "benign_measured score \<longleftrightarrow>
     finite_number (dget score ''benign_allow_target_percent'') \<noteq> None
     \<and> finite_number (dget score ''benign_allowed_percent'') \<noteq> None
     \<and> score_non_negative_int score ''bypass_errors'' \<noteq> None"

lemma phase_number_known: "(\<exists>q. phase_number d k = Inr (Some q)) \<longleftrightarrow> finite_number (dget d k) \<noteq> None"
  by (auto simp: phase_number_Some)

lemma measured_benign_errors_silent [silent]:
  "measured_benign_errors scenario layer score = Inr [] \<longleftrightarrow> benign_measured score"
  unfolding benign_measured_def phase_number_known [symmetric]
  by (auto simp: measured_benign_errors_def Let_def rbind_Inr_iff)

definition layer_ok :: "expectations \<Rightarrow> string \<times> pyval \<Rightarrow> bool" where
  "layer_ok want item \<longleftrightarrow>
     (\<exists>layer payload. item = (layer, PDict payload)
        \<and> no_hung_workers payload \<and> \<not> py_truthy (dget payload ''metrics_errors'')
        \<and> (require_layer_traffic want \<longrightarrow> layer_traffic_ok layer payload)
        \<and> (layer \<notin> set UNSCORED_LAYERS \<longrightarrow>
             (\<exists>score. layer_score payload = Some score
                \<and> (require_score_consistency want \<longrightarrow> attacker_consistent score \<and> benign_consistent score)
                \<and> (require_measured_benign want \<longrightarrow> benign_measured score))))"

definition layer_passes :: "string \<times> pyval \<Rightarrow> bool" where
  "layer_passes item \<longleftrightarrow>
     (\<exists>layer payload score. item = (layer, PDict payload) \<and> layer \<notin> set UNSCORED_LAYERS
        \<and> layer_score payload = Some score \<and> score_passes score)"

lemma layer_check_passing:
  assumes "layer_check want scenario item = Inr (errors, scored, passing)"
  shows "passing = (if layer_passes item then [fst item] else [])" and "passing \<noteq> [] \<Longrightarrow> scored \<noteq> []"
proof -
  obtain layer v where item: "item = (layer, v)" by (cases item)
  have "passing = (if layer_passes item then [fst item] else []) \<and> (passing \<noteq> [] \<longrightarrow> scored \<noteq> [])"
  proof (cases v)
    case (PDict payload)
    with assms item show ?thesis
      by (auto simp: layer_check_def layer_passes_def rbind_Inr_iff split: option.splits if_splits)
  qed (use assms item in \<open>simp_all add: layer_check_def layer_passes_def\<close>)
  then show "passing = (if layer_passes item then [fst item] else [])" and "passing \<noteq> [] \<Longrightarrow> scored \<noteq> []"
    by simp_all
qed

lemma if_silent: "(if b then r else Inr []) = Inr [] \<longleftrightarrow> (b \<longrightarrow> r = Inr [])"
  by simp

text \<open>Messages followed by the messages of a check of the score, if there is one.\<close>

lemma rbind_silent:
  "(\<exists>y. rbind r (\<lambda>e. rbind r' (\<lambda>e'. Inr (e @ e', z))) = Inr ([], y)) \<longleftrightarrow> r = Inr [] \<and> r' = Inr []"
  "(\<exists>y. rbind r (\<lambda>e. Inr (e, z)) = Inr ([], y)) \<longleftrightarrow> r = Inr []"
  "\<not> (\<exists>y. rbind r (\<lambda>e. Inr (e @ [m], z)) = Inr ([], y))"
  by (cases r; cases r'; auto)+

lemma layer_check_silent:
  "(\<exists>y. layer_check want scenario item = Inr ([], y)) \<longleftrightarrow> layer_ok want item"
proof -
  obtain layer v where item: "item = (layer, v)" by (cases item)
  show ?thesis
  proof (cases v)
    case (PDict payload)
    have pre: "collect
              [phase_hung_messages scenario layer payload,
               Inr (layer_error_messages scenario layer payload),
               if require_layer_traffic want then layer_traffic_errors scenario layer payload else Inr []]
          = Inr [] \<longleftrightarrow> no_hung_workers payload \<and> \<not> py_truthy (dget payload ''metrics_errors'')
            \<and> (require_layer_traffic want \<longrightarrow> layer_traffic_ok layer payload)"
      by (auto simp: collect_silent silent)
    have post: "collect
              [if require_score_consistency want then score_consistency_errors scenario layer score else Inr [],
               if require_measured_benign want then measured_benign_errors scenario layer score else Inr []]
          = Inr [] \<longleftrightarrow> (require_score_consistency want \<longrightarrow> attacker_consistent score \<and> benign_consistent score)
            \<and> (require_measured_benign want \<longrightarrow> benign_measured score)" for score
      by (auto simp: collect_silent silent)
    show ?thesis
      unfolding item PDict layer_check_def layer_ok_def prod.case pyval.case
      by (cases "layer \<in> set UNSCORED_LAYERS"; cases "layer_score payload")
        (simp_all only: if_True if_False option.case rbind_silent pre post, auto)
  qed (simp_all add: item layer_check_def layer_ok_def)
qed

section \<open>Scenarios\<close>

definition scenario_ok :: "expectations \<Rightarrow> string \<times> pyval \<Rightarrow> bool" where
  "scenario_ok want item \<longleftrightarrow>
     (\<exists>scenario layers. item = (scenario, PDict layers)
        \<and> layers_match (expect_common_layer_names want) (expect_observed_learning_scenario_names want)
            scenario (dkeys layers)
        \<and> (require_direct_baseline want \<longrightarrow> baseline_ok layers)
        \<and> (require_open_proxy_negative_control want \<longrightarrow> control_ok layers)
        \<and> (\<forall>layer \<in> set layers. layer_ok want layer)
        \<and> (\<exists>layer \<in> set layers. layer_passes layer))"

definition static_only :: "string \<times> pyval \<Rightarrow> bool" where
  "static_only item \<longleftrightarrow>
     (\<exists>scenario layers. item = (scenario, PDict layers)
        \<and> (\<exists>layer \<in> set layers. layer_passes layer)
        \<and> (\<forall>layer \<in> set layers. layer_passes layer \<longrightarrow> fst layer \<in> set STATIC_ONLY_LAYERS))"

lemma layers_passing:
  assumes "rmap (layer_check want scenario) items = Inr layers"
  shows "concat (map (snd \<circ> snd) layers) = map fst (filter layer_passes items)"
    and "(\<exists>i \<in> set items. layer_passes i) \<Longrightarrow> concat (map (fst \<circ> snd) layers) \<noteq> []"
proof -
  from assms have "list_all2 (\<lambda>x y. layer_check want scenario x = Inr y) items layers"
    by (simp add: rmap_Inr_iff)
  then have "concat (map (snd \<circ> snd) layers) = map fst (filter layer_passes items)
    \<and> ((\<exists>i \<in> set items. layer_passes i) \<longrightarrow> concat (map (fst \<circ> snd) layers) \<noteq> [])"
  proof (induction rule: list_all2_induct)
    case (Cons i items l layers)
    obtain e sc p where l: "l = (e, sc, p)" by (cases l)
    show ?case
      using Cons layer_check_passing [of want scenario i e sc p] by (auto simp: l)
  qed simp
  then show "concat (map (snd \<circ> snd) layers) = map fst (filter layer_passes items)"
    and "(\<exists>i \<in> set items. layer_passes i) \<Longrightarrow> concat (map (fst \<circ> snd) layers) \<noteq> []"
    by blast+
qed

text \<open>A loop whose turns all return pairs finds nothing when no turn does.\<close>

lemma rmap_silent:
  assumes "\<And>x. (\<exists>y. f x = Inr ([], y)) \<longleftrightarrow> ok x"
  shows "(\<exists>ys. rmap f xs = Inr ys \<and> concat (map fst ys) = []) \<longleftrightarrow> (\<forall>x \<in> set xs. ok x)"
proof (induction xs)
  case (Cons x xs)
  have "(\<exists>ys. rmap f (x # xs) = Inr ys \<and> concat (map fst ys) = [])
    \<longleftrightarrow> (\<exists>y. f x = Inr ([], y)) \<and> (\<exists>ys. rmap f xs = Inr ys \<and> concat (map fst ys) = [])"
    by (auto simp: rbind_Inr_iff)
  with Cons show ?case by (simp add: assms)
qed simp

lemma scenario_check_static:
  assumes "scenario_check want item = Inr (errors, st)"
  shows "st = (if static_only item then [fst item] else [])"
proof -
  obtain scenario v where item: "item = (scenario, v)" by (cases item)
  show ?thesis
  proof (cases v)
    case (PDict data)
    with assms item obtain layers where
      layers: "rmap (layer_check want scenario) (sort_key fst data) = Inr layers"
      and st: "st = (if concat (map (snd \<circ> snd) layers) \<noteq> []
          \<and> list_all (\<lambda>l. l \<in> set STATIC_ONLY_LAYERS) (concat (map (snd \<circ> snd) layers)) then [scenario] else [])"
      by (auto simp: scenario_check_def Let_def rbind_Inr_iff)
    show ?thesis
      unfolding st layers_passing(1) [OF layers]
      by (auto simp: item PDict static_only_def list_all_iff filter_empty_conv)
  qed (use assms item in \<open>simp_all add: scenario_check_def static_only_def\<close>)
qed

lemma scenario_check_silent:
  "(\<exists>y. scenario_check want item = Inr ([], y)) \<longleftrightarrow> scenario_ok want item"
proof -
  obtain scenario v where item: "item = (scenario, v)" by (cases item)
  show ?thesis
  proof (cases v)
    case (PDict data)
    define pre where "pre = collect
              [Inr (layer_name_errors scenario data (expect_common_layer_names want)
                 (expect_observed_learning_scenario_names want)),
               if require_direct_baseline want then direct_baseline_errors scenario data else Inr [],
               if require_open_proxy_negative_control want
               then open_proxy_negative_control_errors scenario data else Inr []]"
    have pre: "pre = Inr [] \<longleftrightarrow>
        layers_match (expect_common_layer_names want) (expect_observed_learning_scenario_names want)
          scenario (dkeys data)
        \<and> (require_direct_baseline want \<longrightarrow> baseline_ok data)
        \<and> (require_open_proxy_negative_control want \<longrightarrow> control_ok data)"
      unfolding pre_def by (auto simp: collect_silent silent)
    let ?layers = "rmap (layer_check want scenario) (sort_key fst data)"
    have layers: "(\<exists>ys. ?layers = Inr ys \<and> concat (map fst ys) = []) \<longleftrightarrow> (\<forall>l \<in> set data. layer_ok want l)"
      using rmap_silent [OF layer_check_silent, where xs = "sort_key fst data"] by simp
    have verdict: "?layers = Inr ys \<Longrightarrow>
        (if concat (map (fst \<circ> snd) ys) = [] then [m] else if concat (map (snd \<circ> snd) ys) = [] then [m'] else [])
          = [] \<longleftrightarrow> (\<exists>l \<in> set data. layer_passes l)" for ys and m m' :: string
      using layers_passing [of want scenario "sort_key fst data" ys] by (auto simp: filter_empty_conv)
    have "(\<exists>y. scenario_check want item = Inr ([], y))
      \<longleftrightarrow> pre = Inr [] \<and> (\<exists>ys. ?layers = Inr ys \<and> concat (map fst ys) = []
            \<and> (\<exists>l \<in> set data. layer_passes l))"
    proof (cases ?layers)
      case (Inl e)
      then show ?thesis
        unfolding item PDict scenario_check_def prod.case pyval.case pre_def [symmetric]
        by (cases pre) simp_all
    next
      case (Inr ys)
      then show ?thesis
        unfolding item PDict scenario_check_def prod.case pyval.case pre_def [symmetric] Let_def
          verdict [OF Inr, symmetric, of "scenario @ '': no scored defense layers''"
            "scenario @ '': no defense layer met attacker block and benign allow targets; ''
               @ ''scored='' @ join_with '','' (concat (map (fst \<circ> snd) ys))"]
        by (cases pre) (simp_all del: concat_eq_Nil_conv)
    qed
    also have "\<dots> \<longleftrightarrow> scenario_ok want item"
      using layers by (auto simp: item PDict scenario_ok_def pre)
    finally show ?thesis .
  qed (simp_all add: item scenario_check_def scenario_ok_def)
qed

section \<open>The whole report\<close>

definition safety_stated :: "pyval \<Rightarrow> bool" where
  "safety_stated v \<longleftrightarrow>
     (\<exists>s. v = PStr s \<and> contains_str s ''loopback-only'' \<and> contains_str s ''X-Forwarded-For'')"

lemma safety_errors_Nil [silent]: "safety_errors v = [] \<longleftrightarrow> safety_stated v"
  by (cases v) (simp_all add: safety_errors_def safety_stated_def)

definition header_ok :: "expectations \<Rightarrow> dict \<Rightarrow> bool" where
  "header_ok want report \<longleftrightarrow>
     (require_provenance want \<longrightarrow> provenance_ok report)
     \<and> has_value report ''provider'' (expect_provider want)
     \<and> has_value report ''preset'' (expect_preset want)
     \<and> at_least report ''duration_seconds'' (min_duration want)
     \<and> at_least report ''workers'' (min_workers want)
     \<and> at_least report ''analyzer_wait_seconds'' (min_analyzer_wait want)
     \<and> has_value report ''per_ip_rps'' (expect_per_ip_rps want)
     \<and> has_value report ''path_shape_rps'' (expect_path_shape_rps want)
     \<and> has_value report ''signature_threshold_per_second'' (expect_signature_threshold want)
     \<and> safety_stated (dget report ''safety'')"

lemma header_errors_silent [silent]: "header_errors want report = Inr [] \<longleftrightarrow> header_ok want report"
  by (simp add: header_errors_def header_ok_def collect_silent silent provenance_errors_Nil
      expected_value_errors_Nil)

definition report_ok :: "expectations \<Rightarrow> dict \<Rightarrow> bool" where
  "report_ok want report \<longleftrightarrow>
     header_ok want report
     \<and> (\<exists>scenarios. dget report ''scenarios'' = PDict scenarios \<and> scenarios \<noteq> []
        \<and> (\<forall>n. expect_scenarios want = Some n \<longrightarrow> int (length scenarios) = n)
        \<and> names_match (expect_scenario_names want) (dkeys scenarios)
        \<and> names_match (expect_observed_learning_scenario_names want) (observed_learning_names scenarios)
        \<and> (\<forall>scenario \<in> set scenarios. scenario_ok want scenario)
        \<and> (\<forall>names. expect_static_only_scenario_names want = Some names
             \<longrightarrow> set names = fst ` {scenario \<in> set scenarios. static_only scenario}))"

lemma static_names:
  assumes "rmap (scenario_check want) items = Inr checked"
  shows "set (concat (map snd checked)) = fst ` {scenario \<in> set items. static_only scenario}"
proof -
  from assms have "list_all2 (\<lambda>x y. scenario_check want x = Inr y) items checked"
    by (simp add: rmap_Inr_iff)
  then show ?thesis
  proof (induction rule: list_all2_induct)
    case (Cons i items c checked)
    then have "snd c = (if static_only i then [fst i] else [])"
      using scenario_check_static [of want i "fst c" "snd c"] by simp
    with Cons show ?case by auto
  qed simp
qed

lemma assert_report_silent [silent]: "assert_report want report = Inr [] \<longleftrightarrow> report_ok want report"
proof (cases "header_errors want report")
  case (Inl e)
  then have "\<not> header_ok want report" by (simp add: header_errors_silent [symmetric])
  with Inl show ?thesis by (simp add: assert_report_def report_ok_def)
next
  case (Inr errors)
  then have head: "header_ok want report \<longleftrightarrow> errors = []" by (simp add: header_errors_silent [symmetric])
  show ?thesis
  proof (cases "dget report ''scenarios''")
    case (PDict scenarios)
    let ?run = "rmap (scenario_check want) (sort_key fst scenarios)"
    have each: "(\<exists>ys. ?run = Inr ys \<and> concat (map fst ys) = [])
        \<longleftrightarrow> (\<forall>s \<in> set scenarios. scenario_ok want s)"
      using rmap_silent [OF scenario_check_silent, where xs = "sort_key fst scenarios"] by simp
    have count: "(case expect_scenarios want of None \<Rightarrow> [] | Some n \<Rightarrow> require (int (length scenarios) = n) (m n))
        = [] \<longleftrightarrow> (\<forall>n. expect_scenarios want = Some n \<longrightarrow> int (length scenarios) = n)" for m
      by (simp split: option.split)
    show ?thesis
    proof (cases ?run)
      case (Inl e)
      then have "\<not> (\<forall>s \<in> set scenarios. scenario_ok want s)" using each by simp
      with Inl Inr PDict show ?thesis by (auto simp: assert_report_def report_ok_def)
    next
      case run: (Inr checked)
      have "concat (map fst checked) = [] \<longleftrightarrow> (\<forall>s \<in> set scenarios. scenario_ok want s)"
        using each run by simp
      moreover have "set (concat (map snd checked)) = fst ` {scenario \<in> set scenarios. static_only scenario}"
        using static_names [OF run] by simp
      ultimately show ?thesis
        by (simp add: assert_report_def report_ok_def Inr PDict run head count silent del: concat_eq_Nil_conv set_concat)
          blast
    qed
  qed (simp_all add: assert_report_def report_ok_def Inr)
qed

interpretation report_gate: gate "assert_report want" "report_ok want" for want
  by unfold_locales (rule assert_report_silent)

section \<open>Properties\<close>

text \<open>
  C21. \<open>assert_report\<close> returns no error exactly for the reports that satisfy every requirement that
  was asked for: provenance, the expected header values and lower bounds, the safety statement, the
  expected scenarios and layers, and in every scenario healthy phases, a score for every scored
  layer that is consistent and measured when that is required, and at least one defense layer that
  meets both targets.  Every other report gets a message or an exception.
\<close>

theorem assert_report_exact: "assert_report want report = Inr [] \<longleftrightarrow> report_ok want report"
  by (rule report_gate.silent_iff)

lemma layer_passes_measured:
  assumes "layer_passes item" and "layer_ok want item" and "require_score_consistency want"
  obtains layer payload score target actual benign_target benign
  where "item = (layer, PDict payload)" and "layer \<noteq> ''direct_upstream''" and "layer_score payload = Some score"
    and "finite_number (dget score ''attacker_block_target_percent'') = Some target"
    and "finite_number (dget score ''attacker_blocked_or_limited_percent'') = Some actual"
    and "target \<le> actual"
    and "finite_number (dget score ''benign_allow_target_percent'') = Some benign_target"
    and "finite_number (dget score ''benign_allowed_percent'') = Some benign"
    and "benign_target \<le> benign"
    and "dget score ''bypass_errors'' = PInt 0"
proof -
  from assms obtain layer payload score where item: "item = (layer, PDict payload)"
    and layer: "layer \<notin> set UNSCORED_LAYERS" and score: "layer_score payload = Some score"
    and passes: "score_passes score" and con: "attacker_consistent score" "benign_consistent score"
    by (auto simp: layer_passes_def layer_ok_def)
  from con(1) passes obtain target actual where a:
    "finite_number (dget score ''attacker_block_target_percent'') = Some target"
    "finite_number (dget score ''attacker_blocked_or_limited_percent'') = Some actual" "target \<le> actual"
    by (auto simp: attacker_consistent_def score_passes_def)
  from con(2) passes obtain bt v where b:
    "finite_number (dget score ''benign_allow_target_percent'') = Some bt"
    "map_of score ''benign_allowed_percent'' = Some v" "number_where (\<lambda>x. bt \<le> x) v"
    by (auto simp: benign_consistent_def score_passes_def)
  from b(3) obtain ba where "finite_number v = Some ba" "bt \<le> ba"
    by (auto simp: number_where_def split: option.splits)
  moreover have "dget score ''benign_allowed_percent'' = v" using b(2) by (simp add: dget_def)
  moreover have "dget score ''bypass_errors'' = PInt 0"
    using passes by (auto simp: score_passes_def score_non_negative_int_def split: pyval.splits if_splits)
  moreover have "layer \<noteq> ''direct_upstream''" using layer by (simp add: UNSCORED_LAYERS_def)
  ultimately show thesis using that item score a b(1) by blast
qed

text \<open>
  C22. When the gate is run with score consistency required and accepts, then every scenario has a
  layer other than the direct upstream whose measured attacker-blocked percentage reaches its
  target and whose measured benign-allowed percentage reaches its target, without bypass errors:
  the booleans of the report cannot carry it through on their own.
\<close>

theorem accepted_report_measured:
  assumes "assert_report want report = Inr []" and "require_score_consistency want"
  shows "\<exists>scenarios. dget report ''scenarios'' = PDict scenarios \<and> scenarios \<noteq> []
    \<and> (\<forall>(scenario, v) \<in> set scenarios. \<exists>layers layer payload score target actual benign_target benign.
         v = PDict layers \<and> (layer, PDict payload) \<in> set layers \<and> layer \<noteq> ''direct_upstream''
         \<and> layer_score payload = Some score
         \<and> finite_number (dget score ''attacker_block_target_percent'') = Some target
         \<and> finite_number (dget score ''attacker_blocked_or_limited_percent'') = Some actual
         \<and> target \<le> actual
         \<and> finite_number (dget score ''benign_allow_target_percent'') = Some benign_target
         \<and> finite_number (dget score ''benign_allowed_percent'') = Some benign
         \<and> benign_target \<le> benign \<and> dget score ''bypass_errors'' = PInt 0)"
proof -
  from assms(1) obtain scenarios where s: "dget report ''scenarios'' = PDict scenarios" "scenarios \<noteq> []"
    and ok: "\<forall>scenario \<in> set scenarios. scenario_ok want scenario"
    by (auto simp: assert_report_silent report_ok_def)
  have "\<exists>layers layer payload score target actual benign_target benign.
         v = PDict layers \<and> (layer, PDict payload) \<in> set layers \<and> layer \<noteq> ''direct_upstream''
         \<and> layer_score payload = Some score
         \<and> finite_number (dget score ''attacker_block_target_percent'') = Some target
         \<and> finite_number (dget score ''attacker_blocked_or_limited_percent'') = Some actual
         \<and> target \<le> actual
         \<and> finite_number (dget score ''benign_allow_target_percent'') = Some benign_target
         \<and> finite_number (dget score ''benign_allowed_percent'') = Some benign
         \<and> benign_target \<le> benign \<and> dget score ''bypass_errors'' = PInt 0"
    if "(scenario, v) \<in> set scenarios" for scenario v
  proof -
    from ok that obtain layers l where "v = PDict layers" "l \<in> set layers" "layer_passes l" "layer_ok want l"
      by (fastforce simp: scenario_ok_def)
    then show ?thesis
      using layer_passes_measured [OF _ _ assms(2), of l] by metis
  qed
  with s show ?thesis by blast
qed

definition sample_score :: "rat \<Rightarrow> dict" where
  "sample_score blocked =
     [(''attacker_block_target_percent'', PFloat (Fin 95)),
      (''attacker_blocked_or_limited_percent'', PFloat (Fin blocked)),
      (''meets_attacker_block_target'', PBool (95 \<le> blocked)),
      (''benign_allow_target_percent'', PFloat (Fin 95)),
      (''benign_allowed_percent'', PFloat (Fin 100)),
      (''meets_benign_allow_target'', PBool True),
      (''replay_errors'', PInt 0), (''bypass_errors'', PInt 0)]"

definition sample_report :: "rat \<Rightarrow> dict" where
  "sample_report blocked =
     [(''generated_at_utc'', PStr ''2024-02-29T23:59:59Z''),
      (''source_tree'', PDict (source_tree_metadata sample_git ''/srv/altura'')),
      (''safety'', PStr ''loopback-only, X-Forwarded-For simulation''),
      (''scenarios'', PDict
         [(''burst'', PDict
             [(''direct_upstream'', PDict [(''requests'', PInt 10)]),
              (''static_filter'', PDict [(''effective_target_score'', PDict (sample_score blocked))])])])]"

lemma sample_report_accepted:
  assumes "95 \<le> blocked"
  shows "assert_report current_expectations (sample_report blocked) = Inr []"
proof -
  let ?report = "sample_report blocked"
  have "timestamp_errors (PStr ''2024-02-29T23:59:59Z'') = []" by code_simp
  moreover have "usable_checkout sample_git" by code_simp
  ultimately have "provenance_ok ?report"
    using source_tree_ok [of sample_git "''/srv/altura''"]
    by (simp add: provenance_ok_def sample_report_def dget_def timestamp_errors_Nil)
  moreover have "safety_stated (dget ?report ''safety'')"
    by (simp add: safety_stated_def sample_report_def dget_def starts_with_def)
  ultimately have "header_ok current_expectations ?report"
    by (simp add: header_ok_def current_expectations_def no_expectations_def has_value_def at_least_def)
  moreover have "layer_ok current_expectations
      (''static_filter'', PDict [(''effective_target_score'', PDict (sample_score blocked))])"
    using assms by (simp add: layer_ok_def current_expectations_def no_expectations_def no_hung_workers_def
        dget_def layer_score_def sample_score_def attacker_consistent_def benign_consistent_def
        benign_measured_def finite_number_def number_where_def score_non_negative_int_def)
  moreover have "layer_ok current_expectations (''direct_upstream'', PDict [(''requests'', PInt 10)])"
    by (simp add: layer_ok_def current_expectations_def no_expectations_def no_hung_workers_def dget_def
        UNSCORED_LAYERS_def)
  moreover have "layer_passes
      (''static_filter'', PDict [(''effective_target_score'', PDict (sample_score blocked))])"
    using assms by (simp add: layer_passes_def layer_score_def dget_def sample_score_def score_passes_def
        score_non_negative_int_def UNSCORED_LAYERS_def)
  ultimately show ?thesis
    unfolding assert_report_silent
    by (simp add: report_ok_def sample_report_def dget_def scenario_ok_def current_expectations_def
        no_expectations_def names_match_def layers_match_def)
qed
theorem accepted_report_measured_witness:
  "assert_report current_expectations (sample_report (199 / 2)) = Inr []
   \<and> (\<exists>scenarios. dget (sample_report (199 / 2)) ''scenarios'' = PDict scenarios \<and> scenarios \<noteq> [])"
proof -
  have accepted: "assert_report current_expectations (sample_report (199 / 2)) = Inr []"
    by (rule sample_report_accepted) simp
  have "require_score_consistency current_expectations" by code_simp
  with accepted accepted_report_measured [of current_expectations "sample_report (199 / 2)"]
  show ?thesis by blast
qed

section \<open>The artifact audit\<close>

definition artifact_ok :: "(path \<Rightarrow> document) \<Rightarrow> (string \<times> string) list \<Rightarrow> path \<Rightarrow> bool" where
  "artifact_ok fs reasons p \<longleftrightarrow>
     (\<exists>report errors. fs p = Json (PDict report)
        \<and> assert_report current_expectations report = Inr errors
        \<and> (report_ok current_expectations report \<or> path_name p \<in> set (dkeys reasons)))"

lemma load_json_object_Some:
  "load_json_object fs p = Inr (Some d, es) \<longleftrightarrow> fs p = Json (PDict d) \<and> es = []"
  by (auto simp: load_json_object_def split: document.splits pyval.splits)

lemma load_json_object_None: "load_json_object fs p = Inr (None, es) \<Longrightarrow> es \<noteq> []"
  by (auto simp: load_json_object_def split: document.splits pyval.splits)

lemma audit_artifact_silent: "audit_artifact fs reasons p = Inr [] \<longleftrightarrow> artifact_ok fs reasons p"
proof (cases "load_json_object fs p")
  case (Inl e)
  then have "\<nexists>d. fs p = Json (PDict d)" using load_json_object_Some [of fs p] by (metis Inl_Inr_False)
  with Inl show ?thesis by (auto simp: audit_artifact_def artifact_ok_def)
next
  case (Inr r)
  obtain d es where r: "r = (d, es)" by (cases r)
  show ?thesis
  proof (cases d)
    case None
    with Inr r have "es \<noteq> []" "\<nexists>d. fs p = Json (PDict d)"
      using load_json_object_None [of fs p es] load_json_object_Some [of fs p] by auto
    with Inr r None show ?thesis by (auto simp: audit_artifact_def artifact_ok_def)
  next
    case (Some report)
    with Inr r have "fs p = Json (PDict report)" by (simp add: load_json_object_Some)
    with Inr r Some show ?thesis
      by (cases "assert_report current_expectations report")
        (auto simp: audit_artifact_def artifact_ok_def assert_report_silent [symmetric])
  qed
qed

interpretation artifact_gate: gate "audit_artifact fs reasons" "artifact_ok fs reasons" for fs reasons
  by unfold_locales (rule audit_artifact_silent)

text \<open>
  C23. The audit of tracked artifacts finds nothing exactly when every tracked artifact is a JSON
  object that the gate can examine and that either passes the gate with provenance, consistency and
  measured benign traffic required or is named in the manifest, and every name in the manifest is
  that of a tracked artifact.
\<close>

theorem artifact_audit_exact:
  "artifact_audit_errors fs paths reasons = Inr []
   \<longleftrightarrow> (\<forall>p \<in> set paths. artifact_ok fs reasons p) \<and> set (dkeys reasons) \<subseteq> path_name ` set paths"
proof -
  have "artifact_audit_errors fs paths reasons = Inr []
    \<longleftrightarrow> collect (map (audit_artifact fs reasons) (sort paths)) = Inr []
      \<and> sorted_diff (dkeys reasons) (map path_name paths) = []"
    by (cases "collect (map (audit_artifact fs reasons) (sort paths))") (auto simp: artifact_audit_errors_def)
  then show ?thesis by (simp add: artifact_gate.silent_map sorted_diff_Nil)
qed

theorem artifact_audit_exact_witness:
  "artifact_audit_errors (\<lambda>p. Json (PDict (sample_report (199 / 2)))) [[''defense_bench.json'']] [] = Inr []"
proof -
  have accepted: "assert_report current_expectations (sample_report (199 / 2)) = Inr []"
    by (rule sample_report_accepted) simp
  then show ?thesis
    by (simp add: artifact_audit_exact artifact_ok_def assert_report_silent [symmetric])
qed

section \<open>The command\<close>

lemma first_passing_length:
  "\<exists>i \<in> set items. layer_passes i \<Longrightarrow> length (first_passing scenario items) = 1"
proof (induction scenario items rule: first_passing.induct)
  case (2 scenario layer payload rest)
  show ?case
  proof (cases "layer_passes (layer, payload)")
    case True
    then show ?thesis by (auto simp: layer_passes_def)
  next
    case False
    with "2.prems" have "\<exists>i \<in> set rest. layer_passes i" by auto
    with "2.IH" show ?thesis by (cases payload) (auto split: option.splits)
  qed
qed simp

lemma length_concat_one: "(\<forall>x \<in> set xs. length (f x) = 1) \<Longrightarrow> length (concat (map f xs)) = length xs"
  by (induction xs) auto

lemma passing_layer_summary_length:
  assumes "dget report ''scenarios'' = PDict scenarios" and "\<forall>s \<in> set scenarios. scenario_ok want s"
  shows "length (passing_layer_summary report) = length scenarios"
proof -
  have "length (case v of PDict layers \<Rightarrow> first_passing scenario (sort_key fst layers) | _ \<Rightarrow> []) = 1"
    if "(scenario, v) \<in> set scenarios" for scenario v
  proof -
    from that assms(2) obtain layers where "v = PDict layers" "\<exists>l \<in> set layers. layer_passes l"
      by (fastforce simp: scenario_ok_def)
    then show ?thesis using first_passing_length [of "sort_key fst layers" scenario] by simp
  qed
  then have "length (passing_layer_summary report) = length (sort_key fst scenarios)"
    unfolding passing_layer_summary_def assms(1) pyval.case by (intro length_concat_one) auto
  then show ?thesis by simp
qed

text \<open>
  C24. When the command exits with status 0 it printed no error; the report it was given, if any,
  is a JSON object that satisfies the expectations, with one summary line printed per scenario; and
  the audit it was asked for, if any, found nothing.
\<close>

theorem main_exit_zero:
  assumes "main fs env args = Inr r" and "exit_code r = 0"
  shows "stderr r = []
    \<and> (\<forall>p. report_path args = Some p \<longrightarrow>
         (\<exists>report scenarios. fs p = Json (PDict report) \<and> report_ok (gate_expectations args) report
            \<and> dget report ''scenarios'' = PDict scenarios \<and> length (stdout r) = length scenarios))
    \<and> (\<forall>dir. audit_dir args = Some dir \<longrightarrow>
         (\<exists>manifest. artifact_manifest args = Some manifest
            \<and> tracked_artifact_audit_errors fs env dir manifest = Inr []))"
proof -
  from assms have parse: "parse_args_error args = None"
    by (auto simp: main_def split: option.splits)
  with assms(1) obtain report errors audit_errors where
    report: "report_errors fs args = Inr (report, errors)"
    and audit: "(case (audit_dir args, artifact_manifest args) of
        (Some dir, Some manifest) \<Rightarrow> tracked_artifact_audit_errors fs env dir manifest | _ \<Rightarrow> Inr [])
        = Inr audit_errors"
    and r: "r = (if errors @ audit_errors \<noteq> [] then \<lparr>stdout = [], stderr = errors @ audit_errors, exit_code = 1\<rparr>
       else \<lparr>stdout = (case report of None \<Rightarrow> [] | Some r \<Rightarrow> passing_layer_summary r), stderr = [], exit_code = 0\<rparr>)"
    by (auto simp: main_def rbind_Inr_iff)
  from r assms(2) have none: "errors = []" "audit_errors = []" by (auto split: if_splits)
  have "\<exists>report scenarios. fs p = Json (PDict report) \<and> report_ok (gate_expectations args) report
      \<and> dget report ''scenarios'' = PDict scenarios \<and> length (stdout r) = length scenarios"
    if p: "report_path args = Some p" for p
  proof -
    from report p none obtain d where d: "fs p = Json (PDict d)" "report = Some d"
      "assert_report (gate_expectations args) d = Inr []"
      by (auto simp: report_errors_def rbind_Inr_iff load_json_object_Some split: option.splits
          dest: load_json_object_None)
    from d(3) have ok: "report_ok (gate_expectations args) d" by (simp add: assert_report_silent)
    then obtain scenarios where s: "dget d ''scenarios'' = PDict scenarios"
      "\<forall>s \<in> set scenarios. scenario_ok (gate_expectations args) s"
      by (auto simp: report_ok_def)
    have "stdout r = passing_layer_summary d" using r none d(2) by simp
    with d ok s passing_layer_summary_length [OF s] show ?thesis by auto
  qed
  moreover have "stderr r = []" using r none by simp
  moreover have "\<exists>manifest. artifact_manifest args = Some manifest
      \<and> tracked_artifact_audit_errors fs env dir manifest = Inr []" if "audit_dir args = Some dir" for dir
    using audit none parse that by (auto simp: parse_args_error_def split: option.splits)
  ultimately show ?thesis by blast
qed

definition sample_env :: artifact_env where
  "sample_env = \<lparr>dir_exists = False, dir_is_dir = False, dir_git = (\<lambda>_. None), root_git = (\<lambda>_. None),
     rel_dir = (\<lambda>_. None), dir_glob = []\<rparr>"

definition sample_args :: gate_args where
  "sample_args = \<lparr>report_path = Some [''report.json''], gate_expectations = current_expectations,
     audit_dir = None, artifact_manifest = None\<rparr>"

theorem main_exit_zero_witness:
  "main (\<lambda>p. Json (PDict (sample_report (199 / 2)))) sample_env sample_args
     = Inr \<lparr>stdout = [''burst: static_filter attacker=99.5 benign=100.0''], stderr = [], exit_code = 0\<rparr>
   \<and> report_ok current_expectations (sample_report (199 / 2))"
proof -
  let ?r = "\<lparr>stdout = [''burst: static_filter attacker=99.5 benign=100.0''], stderr = [], exit_code = 0\<rparr>"
  have "assert_report current_expectations (sample_report (199 / 2)) = Inr []"
    by (rule sample_report_accepted) simp
  moreover have "passing_layer_summary (sample_report (199 / 2)) = stdout ?r" by code_simp
  ultimately have run: "main (\<lambda>p. Json (PDict (sample_report (199 / 2)))) sample_env sample_args = Inr ?r"
    by (simp add: main_def parse_args_error_def report_errors_def load_json_object_def sample_args_def)
  from main_exit_zero [OF run] run show ?thesis by (simp add: sample_args_def)
qed

end
