(* ===== verification/Local_Gate.thy ===== *)
theory Local_Gate
  imports Report_Checks Local_Tables
begin

text \<open>
  \<open>tools/assert_local_bench.py\<close>: the gate on the report of the local benchmark.  Every guardrail
  probe of the benchmark appears in the report under a dotted path, and the gate requires the listed
  paths to be \<open>true\<close> or to have the listed value.
\<close>

section \<open>The checks\<close>

text \<open>
  One of the two numbers of a benchmark surface: absent counts as 0; the test and the two messages
  follow the value.
\<close>

definition surface_number_errors :: "dict \<Rightarrow> string \<Rightarrow> (rat \<Rightarrow> bool) \<Rightarrow> string \<Rightarrow> string \<Rightarrow> string list result" where
  "surface_number_errors payload key ok not_numeric wrong =
     (let value = dget_or payload key (PInt 0)
      in if \<not> is_number value then Inr [not_numeric @ format_value (Some value)]
         else rbind (to_float value) (\<lambda>numeric.
           Inr (require (case numeric of Fin q \<Rightarrow> ok q | _ \<Rightarrow> False) (wrong @ py_repr value))))"

definition surface_errors :: "dict \<Rightarrow> string \<times> string \<Rightarrow> string list result" where
  "surface_errors report item =
     (case item of (surface, count_key) \<Rightarrow>
        case dget report surface of
          PDict payload \<Rightarrow>
            collect
              [surface_number_errors payload ''errors'' (\<lambda>n. n = 0)
                 (surface @ '': errors must be numeric, found '')
                 (surface @ '': expected errors=0, found ''),
               surface_number_errors payload count_key (\<lambda>n. 0 < n)
                 (surface @ '': '' @ count_key @ '' must be numeric, found '')
                 (surface @ '': expected '' @ count_key @ ''>0, found '')]
        | _ \<Rightarrow> Inr [surface @ '': missing benchmark surface''])"

definition SURFACES :: "(string \<times> string) list" where
  "SURFACES = [(''proxy'', ''requests''), (''health'', ''requests''), (''tcp'', ''messages'')]"

definition append_surface_errors :: "dict \<Rightarrow> string list result" where
  "append_surface_errors report = collect (map (surface_errors report) SURFACES)"

definition true_check_errors :: "dict \<Rightarrow> string \<times> string \<Rightarrow> string list" where
  "true_check_errors report item =
     (case item of (dotted_path, description) \<Rightarrow>
        let value = path_value report dotted_path
        in require (value = Some (PBool True))
             (dotted_path @ '': expected true ('' @ description @ ''), found '' @ format_value value))"

definition value_check_errors :: "dict \<Rightarrow> string \<times> pyval \<times> string \<Rightarrow> string list" where
  "value_check_errors report item =
     (case item of (dotted_path, expected, description) \<Rightarrow>
        let value = path_value report dotted_path
        in require (case value of None \<Rightarrow> False | Some v \<Rightarrow> py_eq v expected)
             (dotted_path @ '': expected '' @ py_repr expected @ '' ('' @ description @ ''), found ''
              @ format_value value))"

text \<open>The parameters of \<open>assert_report\<close>; \<open>PNone\<close> are those not given.\<close>

record local_expectations =
  local_provenance :: bool
  local_min_duration :: pyval
  local_min_workers :: pyval
  min_tcp_workers :: pyval
  expect_binary :: pyval

definition local_header_errors :: "local_expectations \<Rightarrow> dict \<Rightarrow> string list result" where
  "local_header_errors want report =
     collect
       [Inr (if local_provenance want then provenance_errors report else []),
        number_at_least_errors report ''duration_seconds'' (local_min_duration want),
        number_at_least_errors report ''workers'' (local_min_workers want),
        number_at_least_errors report ''tcp_workers'' (min_tcp_workers want),
        Inr (expected_value_errors report ''binary'' (expect_binary want)),
        append_surface_errors report]"

definition assert_local_report :: "local_expectations \<Rightarrow> dict \<Rightarrow> string list result" where
  "assert_local_report want report =
     rbind (local_header_errors want report) (\<lambda>errors.
       case dget report ''guardrails'' of
         PDict guardrails \<Rightarrow>
           Inr (errors
             @ concat (map (true_check_errors report) REQUIRED_TRUE_CHECKS)
             @ concat (map (value_check_errors report) REQUIRED_VALUE_CHECKS))
       | _ \<Rightarrow> Inr (errors @ [''report has no guardrails object'']))"

definition passing_guardrail_summary :: "dict \<Rightarrow> string list" where
  "passing_guardrail_summary report =
     concat (map (\<lambda>(dotted_path, description).
         if path_value report dotted_path = Some (PBool True) then [dotted_path @ '': '' @ description] else [])
       REQUIRED_TRUE_CHECKS)
     @ concat (map (\<lambda>(dotted_path, expected, description).
         if (case path_value report dotted_path of None \<Rightarrow> False | Some v \<Rightarrow> py_eq v expected)
         then [dotted_path @ '': '' @ description] else [])
       REQUIRED_VALUE_CHECKS)"

text \<open>
  The command: what reading the report gives is a parameter; \<open>.get\<close> on a value that is no dict
  raises.
\<close>

definition local_main :: "local_expectations \<Rightarrow> pyval result \<Rightarrow> (string list \<times> string list \<times> int) result" where
  "local_main want loaded =
     rbind loaded (\<lambda>payload.
       case payload of
         PDict report \<Rightarrow>
           rbind (assert_local_report want report) (\<lambda>errors.
             Inr (if errors \<noteq> [] then ([], errors, 1) else (passing_guardrail_summary report, [], 0)))
       | _ \<Rightarrow> Inl AttributeError)"

section \<open>What the gate accepts\<close>

definition surface_ok :: "dict \<Rightarrow> string \<times> string \<Rightarrow> bool" where
  "surface_ok report item \<longleftrightarrow>
     (\<exists>surface count_key payload. item = (surface, count_key) \<and> dget report surface = PDict payload
        \<and> number_where (\<lambda>n. n = 0) (dget_or payload ''errors'' (PInt 0))
        \<and> number_where (\<lambda>n. 0 < n) (dget_or payload count_key (PInt 0)))"

lemma surface_number_silent:
  "surface_number_errors payload key ok m w = Inr [] \<longleftrightarrow> number_where ok (dget_or payload key (PInt 0))"
  by (cases "to_float (dget_or payload key (PInt 0))")
    (auto simp: surface_number_errors_def number_where_def finite_number_def Let_def
      split: pyfloat.splits option.splits)

interpretation surface_gate: gate "surface_errors report" "surface_ok report" for report
proof
  fix item :: "string \<times> string"
  obtain surface count_key where item: "item = (surface, count_key)" by (cases item)
  show "surface_errors report item = Inr [] \<longleftrightarrow> surface_ok report item"
    by (cases "dget report surface")
      (simp_all add: item surface_errors_def surface_ok_def collect_silent surface_number_silent)
qed

definition local_report_ok :: "local_expectations \<Rightarrow> dict \<Rightarrow> bool" where
  "local_report_ok want report \<longleftrightarrow>
     (local_provenance want \<longrightarrow> provenance_ok report)
     \<and> at_least report ''duration_seconds'' (local_min_duration want)
     \<and> at_least report ''workers'' (local_min_workers want)
     \<and> at_least report ''tcp_workers'' (min_tcp_workers want)
     \<and> has_value report ''binary'' (expect_binary want)
     \<and> (\<forall>surface \<in> set SURFACES. surface_ok report surface)
     \<and> (\<forall>(path, _) \<in> set REQUIRED_TRUE_CHECKS. path_value report path = Some (PBool True))
     \<and> (\<forall>(path, expected, _) \<in> set REQUIRED_VALUE_CHECKS.
          \<exists>v. path_value report path = Some v \<and> py_eq v expected)"

lemma local_header_silent:
  "local_header_errors want report = Inr [] \<longleftrightarrow>
     (local_provenance want \<longrightarrow> provenance_ok report)
     \<and> at_least report ''duration_seconds'' (local_min_duration want)
     \<and> at_least report ''workers'' (local_min_workers want)
     \<and> at_least report ''tcp_workers'' (min_tcp_workers want)
     \<and> has_value report ''binary'' (expect_binary want)
     \<and> (\<forall>surface \<in> set SURFACES. surface_ok report surface)"
  by (simp add: local_header_errors_def collect_silent provenance_errors_Nil number_at_least_silent
      expected_value_errors_Nil append_surface_errors_def surface_gate.silent_map surface_gate.silent_iff)

lemma true_checks_Nil:
  "concat (map (true_check_errors report) cs) = []
   \<longleftrightarrow> (\<forall>(path, _) \<in> set cs. path_value report path = Some (PBool True))"
  by (auto simp: true_check_errors_def Let_def)

lemma value_checks_Nil:
  "concat (map (value_check_errors report) cs) = []
   \<longleftrightarrow> (\<forall>(path, expected, _) \<in> set cs. \<exists>v. path_value report path = Some v \<and> py_eq v expected)"
  by (fastforce simp: value_check_errors_def Let_def split: option.splits)

text \<open>A guardrail path has its value only when \<open>guardrails\<close> is an object.\<close>

lemma path_value_object:
  assumes "path_value report path = Some v" and "split_on (CHR ''.'') path = k # ks" and "ks \<noteq> []"
  obtains d where "dget report k = PDict d"
proof -
  obtain w where w: "map_of report k = Some w" "path_value_parts w ks = Some v"
    using assms(1,2) by (auto simp: path_value_def split: option.splits)
  then obtain d where "w = PDict d" using assms(3) by (cases ks; cases w) simp_all
  with w(1) show thesis using that by (simp add: dget_def)
qed

lemma first_true_check:
  "(''guardrails.path_shape_rate.hot_path_shape_limited'',
    ''long-token path-shape rate bucket must shed repeated route-family bursts'') \<in> set REQUIRED_TRUE_CHECKS"
  by (simp add: REQUIRED_TRUE_CHECKS_def REQUIRED_TRUE_CHECKS_1_def)

lemma guardrails_object:
  assumes "\<forall>(path, _) \<in> set REQUIRED_TRUE_CHECKS. path_value report path = Some (PBool True)"
  obtains d where "dget report ''guardrails'' = PDict d"
proof -
  have "path_value report ''guardrails.path_shape_rate.hot_path_shape_limited'' = Some (PBool True)"
    using assms first_true_check by fastforce
  then show thesis by (rule path_value_object [where ks = "[''path_shape_rate'', ''hot_path_shape_limited'']"])
      (use that in simp_all)
qed

lemma assert_local_report_silent: "assert_local_report want report = Inr [] \<longleftrightarrow> local_report_ok want report"
proof (cases "\<exists>d. dget report ''guardrails'' = PDict d")
  case True
  then obtain d where "dget report ''guardrails'' = PDict d" ..
  then have "assert_local_report want report = Inr [] \<longleftrightarrow>
      local_header_errors want report = Inr []
      \<and> concat (map (true_check_errors report) REQUIRED_TRUE_CHECKS) = []
      \<and> concat (map (value_check_errors report) REQUIRED_VALUE_CHECKS) = []"
    by (cases "local_header_errors want report") (simp_all add: assert_local_report_def del: concat_eq_Nil_conv)
  then show ?thesis
    unfolding local_header_silent true_checks_Nil value_checks_Nil local_report_ok_def by blast
next
  case False
  then have "assert_local_report want report \<noteq> Inr []"
    by (cases "local_header_errors want report"; cases "dget report ''guardrails''")
      (auto simp: assert_local_report_def)
  moreover have "\<not> local_report_ok want report"
    using False guardrails_object [of report] by (auto simp: local_report_ok_def)
  ultimately show ?thesis by blast
qed

interpretation local_gate: gate "assert_local_report want" "local_report_ok want" for want
  by unfold_locales (rule assert_local_report_silent)

section \<open>Properties\<close>

text \<open>The line printed for a check that passed.\<close>

definition guardrail_line :: "string \<Rightarrow> string \<Rightarrow> string" where
  "guardrail_line path description = path @ '': '' @ description"

lemma concat_singletons: "\<forall>x \<in> set xs. f x = [g x] \<Longrightarrow> concat (map f xs) = map g xs"
  by (induction xs) auto

lemma passing_guardrail_summary_ok:
  assumes "local_report_ok want report"
  shows "passing_guardrail_summary report =
     map (\<lambda>(path, description). guardrail_line path description) REQUIRED_TRUE_CHECKS
     @ map (\<lambda>(path, _, description). guardrail_line path description) REQUIRED_VALUE_CHECKS"
  unfolding passing_guardrail_summary_def
  using assms by (intro arg_cong2 [of _ _ _ _ "(@)"] concat_singletons)
    (fastforce simp: local_report_ok_def guardrail_line_def)+

text \<open>
  C25. The command on a report that is a JSON object exits with status 0 exactly when the report
  satisfies every requirement: the asked-for provenance and bounds, three live error-free surfaces,
  \<open>true\<close> at each of the listed guardrail paths and the listed value at the others.  It then prints no
  error and one line per listed check, in the order of the tables.
\<close>

theorem local_main_exact:
  "local_main want (Inr (PDict report)) = Inr (out, errors, 0)
   \<longleftrightarrow> local_report_ok want report \<and> errors = []
     \<and> out = map (\<lambda>(path, description). guardrail_line path description) REQUIRED_TRUE_CHECKS
           @ map (\<lambda>(path, _, description). guardrail_line path description) REQUIRED_VALUE_CHECKS"
proof (cases "assert_local_report want report")
  case (Inl e)
  then have "\<not> local_report_ok want report" by (simp add: assert_local_report_silent [symmetric])
  with Inl show ?thesis by (simp add: local_main_def)
next
  case (Inr found)
  then have "local_report_ok want report \<longleftrightarrow> found = []" by (simp add: assert_local_report_silent [symmetric])
  with Inr show ?thesis
    by (auto simp: local_main_def passing_guardrail_summary_ok)
qed

end
