(* ===== verification/Py_Ipaddress.thy ===== *)
theory Py_Ipaddress
  imports Py_Value "HOL-Library.Word"
begin

text \<open>
  The part of Python's \<open>ipaddress\<close> (3.11) that the tools use: reading and printing addresses, and
  membership in a network.  Addresses are words of 32 and 128 bits; an IPv6 address may carry a scope.
\<close>

unbundle bit_operations_syntax

section \<open>Addresses\<close>

datatype ip = V4 "32 word" | V6 "128 word" "string option"

text \<open>The decimal octet: digits only, at most three, no leading zero, at most 255.\<close>

definition parse_octet :: "string \<Rightarrow> nat option" where
  "parse_octet s =
     (if s = [] \<or> \<not> list_all is_ascii_digit s \<or> 3 < length s \<or> (s \<noteq> ''0'' \<and> hd s = CHR ''0'')
         \<or> 255 < digits_val s
      then None else Some (digits_val s))"

definition ipv4_int :: "string \<Rightarrow> nat option" where
  "ipv4_int s =
     (if CHR ''/'' \<in> set s then None
      else case map parse_octet (split_on (CHR ''.'') s) of
             [Some a, Some b, Some c, Some d] \<Rightarrow> Some (((a * 256 + b) * 256 + c) * 256 + d)
           | _ \<Rightarrow> None)"

definition hex_val :: "char \<Rightarrow> nat" where
  "hex_val c =
     (if is_ascii_digit c then cp c - 48 else if 97 \<le> cp c then cp c - 87 else cp c - 55)"

definition parse_hextet :: "string \<Rightarrow> nat option" where
  "parse_hextet s =
     (if s = [] \<or> \<not> list_all is_hex s \<or> 4 < length s then None
      else Some (foldl (\<lambda>a c. 16 * a + hex_val c) 0 s))"

fun hex_str :: "nat \<Rightarrow> string" where
  "hex_str n = (if n < 16 then [hex_digit n] else hex_str (n div 16) @ [hex_digit (n mod 16)])"

declare hex_str.simps [simp del]

text \<open>An IPv4 suffix becomes two hextets.\<close>

definition expand_suffix :: "string list \<Rightarrow> string list option" where
  "expand_suffix parts =
     (if CHR ''.'' \<in> set (last parts) then
        map_option (\<lambda>n. butlast parts @ [hex_str (n div 65536), hex_str (n mod 65536)]) (ipv4_int (last parts))
      else Some parts)"

fun all_some :: "'a option list \<Rightarrow> 'a list option" where
  "all_some [] = Some []"
| "all_some (None # xs) = None"
| "all_some (Some x # xs) = map_option (\<lambda>ys. x # ys) (all_some xs)"

text \<open>The eight hextets of the parts between the colons; an empty inner part is the \<open>::\<close>.\<close>

definition hextets_of_parts :: "string list \<Rightarrow> nat list option" where
  "hextets_of_parts parts =
     (case filter (\<lambda>i. parts ! i = []) [1..<length parts - 1] of
        [] \<Rightarrow> if length parts = 8 then all_some (map parse_hextet parts) else None
      | [skip_index] \<Rightarrow>
          (let parts_hi = skip_index; parts_lo = length parts - skip_index - 1;
               parts_hi' = (if hd parts = [] then parts_hi - 1 else parts_hi);
               parts_lo' = (if last parts = [] then parts_lo - 1 else parts_lo)
           in if (hd parts = [] \<and> parts_hi' \<noteq> 0) \<or> (last parts = [] \<and> parts_lo' \<noteq> 0)
                 \<or> 8 \<le> parts_hi' + parts_lo' then None
              else case (all_some (map parse_hextet (take parts_hi' parts)),
                         all_some (map parse_hextet (drop (length parts - parts_lo') parts))) of
                     (Some hi, Some lo) \<Rightarrow> Some (hi @ replicate (8 - (parts_hi' + parts_lo')) 0 @ lo)
                   | _ \<Rightarrow> None)
      | _ \<Rightarrow> None)"

definition ipv6_int :: "string \<Rightarrow> nat option" where
  "ipv6_int s =
     (let parts = split_on (CHR '':'') s
      in if s = [] \<or> length parts < 3 then None
         else case expand_suffix parts of
                None \<Rightarrow> None
              | Some parts \<Rightarrow>
                  if 9 < length parts then None
                  else map_option (foldl (\<lambda>a h. 65536 * a + h) 0) (hextets_of_parts parts))"

text \<open>\<open>IPv6Address\<close>: an optional scope after \<open>%\<close>, not empty and without another \<open>%\<close>.\<close>

definition parse_ipv6 :: "string \<Rightarrow> ip option" where
  "parse_ipv6 s =
     (if CHR ''/'' \<in> set s then None
      else case split_once (CHR ''%'') s of
             (a, None) \<Rightarrow> map_option (\<lambda>n. V6 (word_of_nat n) None) (ipv6_int a)
           | (a, Some scope) \<Rightarrow>
               if scope = [] \<or> CHR ''%'' \<in> set scope then None
               else map_option (\<lambda>n. V6 (word_of_nat n) (Some scope)) (ipv6_int a))"

definition ip_address :: "string \<Rightarrow> ip result" where
  "ip_address s =
     (case ipv4_int s of
        Some n \<Rightarrow> Inr (V4 (word_of_nat n))
      | None \<Rightarrow>
          (case parse_ipv6 s of
             Some a \<Rightarrow> Inr a
           | None \<Rightarrow> Inl (ValueError (str_repr s @ '' does not appear to be an IPv4 or IPv6 address''))))"

section \<open>Networks\<close>

text \<open>\<open>ip in network\<close>: the masked address is the network address.\<close>

definition in_net :: "'a::len word \<Rightarrow> 'a word \<times> nat \<Rightarrow> bool" where
  "in_net w net = (w AND NOT (mask (LENGTH('a) - snd net)) = fst net)"

definition dotted :: "nat \<Rightarrow> nat \<Rightarrow> nat \<Rightarrow> nat \<Rightarrow> 32 word" where
  "dotted a b c d = word_of_nat (((a * 256 + b) * 256 + c) * 256 + d)"

definition top_hextet :: "nat \<Rightarrow> 128 word" where
  "top_hextet h = push_bit 112 (word_of_nat h)"

fun is_loopback :: "ip \<Rightarrow> bool" where
  "is_loopback (V4 w) = in_net w (dotted 127 0 0 0, 8)"
| "is_loopback (V6 w scope) = (w = 1)"

fun ipv4_mapped :: "ip \<Rightarrow> ip option" where
  "ipv4_mapped (V4 w) = None"
| "ipv4_mapped (V6 w scope) =
     (if drop_bit 32 w = 0xFFFF then Some (V4 (ucast w)) else None)"

text \<open>Membership in a network is an interval of addresses.\<close>

lemma in_net_interval:
  fixes w net :: "'a::len word"
  assumes "net AND mask k = 0" and "k \<le> LENGTH('a)"
  shows "w AND NOT (mask k) = net \<longleftrightarrow> unat net \<le> unat w \<and> unat w < unat net + 2 ^ k"
proof -
  have split: "unat w = unat (w AND NOT (mask k)) + unat (w AND mask k)"
  proof -
    have "(w AND NOT (mask k)) AND (w AND mask k) = 0" by (rule bit_eqI) (auto simp: bit_simps)
    then have "(w AND NOT (mask k)) + (w AND mask k) = (w AND NOT (mask k)) OR (w AND mask k)"
      by (rule disjunctive_add_eq_or)
    also have "\<dots> = w" by (rule bit_eqI) (auto simp: bit_simps)
    finally have sum: "(w AND NOT (mask k)) + (w AND mask k) = w" .
    have "(w AND NOT (mask k)) \<le> w" by (rule word_and_le2)
    have "w - (w AND NOT (mask k)) = w AND mask k" using sum by (metis add_diff_cancel_left')
    then have "unat (w AND mask k) = unat w - unat (w AND NOT (mask k))"
      using \<open>(w AND NOT (mask k)) \<le> w\<close> by (metis unat_sub)
    moreover have "unat (w AND NOT (mask k)) \<le> unat w"
      using \<open>(w AND NOT (mask k)) \<le> w\<close> by (simp add: word_le_nat_alt)
    ultimately show ?thesis by simp
  qed
  have low: "unat (w AND mask k) < 2 ^ k"
    by (simp flip: take_bit_eq_mask add: unsigned_take_bit_eq)
  have "(w AND NOT (mask k)) AND mask k = 0" by (rule bit_eqI) (auto simp: bit_simps)
  with assms(1) have dvd: "2 ^ k dvd unat (w AND NOT (mask k))" "2 ^ k dvd unat net"
    unfolding and_mask_dvd_nat by simp_all
  show ?thesis
  proof
    assume "w AND NOT (mask k) = net"
    with split low show "unat net \<le> unat w \<and> unat w < unat net + 2 ^ k" by simp
  next
    assume r: "unat net \<le> unat w \<and> unat w < unat net + 2 ^ k"
    obtain a b where ab: "unat (w AND NOT (mask k)) = 2 ^ k * a" "unat net = 2 ^ k * b" using dvd by (elim dvdE)
    have "a = unat w div 2 ^ k" using split low ab(1) by simp
    moreover have "unat w div 2 ^ k = b"
      using r ab(2) by (intro div_nat_eqI) (simp_all add: algebra_simps)
    ultimately have "unat (w AND NOT (mask k)) = unat net" using ab by simp
    then show "w AND NOT (mask k) = net" by (simp add: word_unat_eq_iff)
  qed
qed

section \<open>Printing\<close>

definition ipv4_str :: "nat \<Rightarrow> string" where
  "ipv4_str n =
     nat_str (n div 16777216 mod 256) @ ''.'' @ nat_str (n div 65536 mod 256) @ ''.''
     @ nat_str (n div 256 mod 256) @ ''.'' @ nat_str (n mod 256)"

definition hextet_strs :: "nat \<Rightarrow> string list" where
  "hextet_strs n = map (\<lambda>i. hex_str (n div 65536 ^ (7 - i) mod 65536)) [0..<8]"

text \<open>The first longest run of zero hextets: where it starts and how long it is.\<close>

fun zero_run :: "string list \<Rightarrow> nat \<Rightarrow> nat \<Rightarrow> nat \<times> nat \<Rightarrow> nat \<times> nat" where
  "zero_run [] index len best = best"
| "zero_run (h # hs) index len best =
     (if h = ''0'' then
        (let len = Suc len
         in zero_run hs (Suc index) len (if snd best < len then (Suc index - len, len) else best))
      else zero_run hs (Suc index) 0 best)"

definition compress_hextets :: "string list \<Rightarrow> string list" where
  "compress_hextets hs =
     (case zero_run hs 0 0 (0, 0) of (start, len) \<Rightarrow>
        if 1 < len then
          (if start = 0 then [[]] else []) @ take start hs @ [[]] @ drop (start + len) hs
          @ (if start + len = length hs then [[]] else [])
        else hs)"

fun ip_str :: "ip \<Rightarrow> string" where
  "ip_str (V4 w) = ipv4_str (unat w)"
| "ip_str (V6 w scope) =
     join_with '':'' (compress_hextets (hextet_strs (unat w)))
     @ (case scope of None \<Rightarrow> [] | Some s \<Rightarrow> CHR ''%'' # s)"

section \<open>Printed addresses are read back\<close>

lemma hd_nat_str: "0 < n \<Longrightarrow> hd (nat_str n) \<noteq> CHR ''0''"
proof (induction n rule: nat_str.induct)
  case (1 n)
  show ?case
  proof (cases "n < 10")
    case True
    then have "n \<in> {1, 2, 3, 4, 5, 6, 7, 8, 9}" using 1(2) by auto
    then show ?thesis by (elim insertE emptyE) (simp_all, code_simp+)
  next
    case False
    then have "hd (nat_str (n div 10)) \<noteq> CHR ''0''" using 1 by auto
    with False show ?thesis by (subst nat_str.simps) simp
  qed
qed

lemma parse_octet_nat_str:
  assumes "n < 256"
  shows "parse_octet (nat_str n) = Some n"
proof -
  have "list_all is_ascii_digit (nat_str n)" using nat_str_digits by (auto simp: list_all_iff)
  moreover have "length (nat_str n) \<le> 3" using length_nat_str [of n 2] assms by simp
  moreover have "nat_str n = ''0'' \<or> hd (nat_str n) \<noteq> CHR ''0''"
    using hd_nat_str [of n] by (cases "n = 0") (simp, code_simp, simp)
  ultimately show ?thesis using assms by (auto simp: parse_octet_def)
qed

lemma split_on_append: "c \<notin> set a \<Longrightarrow> split_on c (a @ c # b) = a # split_on c b"
  by (induction a) auto

lemma nat_str_free: "\<not> is_ascii_digit c \<Longrightarrow> c \<notin> set (nat_str n)"
  using nat_str_digits by blast

lemma ip_address_quad:
  assumes "a < 256" "b < 256" "c < 256" "d < 256"
  shows "ip_address (nat_str a @ ''.'' @ nat_str b @ ''.'' @ nat_str c @ ''.'' @ nat_str d) = Inr (V4 (dotted a b c d))"
proof -
  have dot: "CHR ''.'' \<notin> set (nat_str n)" and slash: "CHR ''/'' \<notin> set (nat_str n)" for n
    by (rule nat_str_free; code_simp)+
  have "split_on (CHR ''.'') (nat_str a @ ''.'' @ nat_str b @ ''.'' @ nat_str c @ ''.'' @ nat_str d)
      = [nat_str a, nat_str b, nat_str c, nat_str d]"
    by (simp add: split_on_append dot split_on_absent)
  then show ?thesis
    by (simp add: ip_address_def ipv4_int_def slash parse_octet_nat_str assms dotted_def)
qed

end
