(* ===== verification/Bench_Traffic.thy ===== *)
theory Bench_Traffic
  imports Py_Ipaddress "HOL-Library.State_Monad"
begin

text \<open>
  The traffic of \<open>tools/run_defense_bench.py\<close>: which paths, methods, headers and claimed client
  addresses a scenario draws.  A generator \<open>random.Random\<close> is the sequence of its draws; one that has
  run out draws zero.
\<close>

section \<open>Draws\<close>

type_synonym 'a rand = "(nat list, 'a) state"

definition randrange :: "nat \<Rightarrow> nat rand" where
  "randrange n = State (\<lambda>draws. case draws of [] \<Rightarrow> (0, []) | d # rest \<Rightarrow> (d mod n, rest))"

definition choice :: "'a list \<Rightarrow> 'a rand" where
  "choice xs = do { i \<leftarrow> randrange (length xs); State_Monad.return (xs ! i) }"

text \<open>\<open>rng.sample(xs, k)\<close>: \<open>k\<close> elements at different places.\<close>

fun sample :: "nat \<Rightarrow> 'a list \<Rightarrow> 'a list rand" where
  "sample 0 xs = State_Monad.return []"
| "sample (Suc k) xs =
     do { i \<leftarrow> randrange (length xs);
          rest \<leftarrow> sample k (take i xs @ drop (Suc i) xs);
          State_Monad.return (xs ! i # rest) }"

definition slug :: "nat \<Rightarrow> string \<Rightarrow> string rand" where
  "slug n alphabet = State_Monad.traverse_list (\<lambda>_. choice alphabet) [0..<n]"

text \<open>\<open>str(rng.randrange(n))\<close> and \<open>f"{rng.randrange(16**k):0kx}"\<close>.\<close>

definition number :: "nat \<Rightarrow> string rand" where
  "number n = do { i \<leftarrow> randrange n; State_Monad.return (nat_str i) }"

definition hex_number :: "nat \<Rightarrow> string rand" where
  "hex_number k =
     do { i \<leftarrow> randrange (16 ^ k);
          State_Monad.return (zeros (k - length (hex_str i)) @ hex_str i) }"

section \<open>Tables\<close>

definition TEST_NETS :: "string list" where
  "TEST_NETS = [''192.0.2'', ''198.51.100'', ''203.0.113'']"

definition SMART_ENDPOINTS :: "string list" where
  "SMART_ENDPOINTS = [''login'', ''search'', ''item'', ''object'', ''cart'', ''profile'']"

definition POLYMORPHIC_QUERY_KEYS :: "string list" where
  "POLYMORPHIC_QUERY_KEYS =
     [''a'', ''b'', ''cache'', ''client'', ''cursor'', ''debug'', ''feature'', ''filter'', ''id'', ''page'', ''q'',
      ''ref'', ''region'', ''session'', ''sort'', ''ts'', ''view'', ''x'', ''y'', ''z'']"

definition BYPASS_DICTIONARY_SLUGS :: "string list" where
  "BYPASS_DICTIONARY_SLUGS =
     [''subscription'', ''dashboard'', ''catalog'', ''inventory'', ''marketplace'', ''onboarding'',
      ''configuration'', ''authentication'', ''notifications'', ''transactions'', ''organization'',
      ''fulfillment'', ''warehouses'']"

definition ACCEPT_VARIANTS :: "string list" where
  "ACCEPT_VARIANTS =
     [''*/*'', ''text/html,application/xhtml+xml'', ''application/json'', ''text/plain;q=0.9,*/*;q=0.8'',
      ''application/vnd.api+json'']"

definition METHOD_VARIANTS :: "string list" where
  "METHOD_VARIANTS = [''GET'', ''HEAD'', ''OPTIONS'']"

definition ADVANCED_SCENARIOS :: "string list" where
  "ADVANCED_SCENARIOS =
     [''catalog-mimic-xff'', ''dictionary-slug-xff'', ''hex-slug-xff'', ''v2-polymorphic-xff'',
      ''method-spray-xff'', ''accept-spray-xff'', ''legit-interleave-xff'', ''slow-xff-polymorphic'',
      ''mozilla-polymorphic-xff'']"

definition BASE_SCENARIOS :: "string list" where
  "BASE_SCENARIOS =
     [''basic'', ''cachebuster'', ''rotating-path'', ''uuid-path'', ''mixed-user-agent'', ''smart-api-mix'',
      ''xff-single'', ''xff-rotating'', ''xff-polymorphic'']"

definition KNOWN_SCENARIOS :: "string list" where
  "KNOWN_SCENARIOS = BASE_SCENARIOS @ ADVANCED_SCENARIOS"

text \<open>The options \<open>--preset\<close> and \<open>--scenarios\<close>.\<close>

definition resolve_scenarios :: "string option \<Rightarrow> string \<Rightarrow> string list" where
  "resolve_scenarios preset scenarios =
     (if preset = Some ''base'' then BASE_SCENARIOS
      else if preset = Some ''advanced'' then ADVANCED_SCENARIOS
      else if preset = Some ''all'' then BASE_SCENARIOS @ ADVANCED_SCENARIOS
      else filter (\<lambda>item. item \<noteq> []) (map str_strip (split_on (CHR '','') scenarios)))"

section \<open>Paths\<close>

definition catalog_mimic_path :: "string rand" where
  "catalog_mimic_path =
     do { item \<leftarrow> number 10000; page \<leftarrow> number 8; sorting \<leftarrow> choice [''asc'', ''desc''];
          State_Monad.return (''/api/catalog/'' @ item @ ''?page='' @ page @ ''&sort='' @ sorting) }"

definition dictionary_slug_path :: "string rand" where
  "dictionary_slug_path =
     do { word \<leftarrow> choice BYPASS_DICTIONARY_SLUGS; item \<leftarrow> number 10000; ref \<leftarrow> number (10 ^ 6);
          State_Monad.return (''/api/'' @ word @ ''/'' @ item @ ''?ref='' @ ref) }"

definition hex_slug_path :: "string rand" where
  "hex_slug_path =
     do { word \<leftarrow> slug 20 ''0123456789abcdef''; item \<leftarrow> number (10 ^ 5);
          State_Monad.return (''/api/'' @ word @ ''/'' @ item @ ''?view=compact'') }"

definition lowercase :: string where
  "lowercase = ''abcdefghijklmnopqrstuvwxyz''"

definition query_values :: "string list \<Rightarrow> string rand" where
  "query_values keys =
     do { pairs \<leftarrow> State_Monad.traverse_list
            (\<lambda>key. do { v \<leftarrow> number (10 ^ 9); State_Monad.return (key @ ''='' @ v) }) keys;
          State_Monad.return (join_with ''&'' pairs) }"

definition v2_polymorphic_path :: "string rand" where
  "v2_polymorphic_path =
     do { word \<leftarrow> slug 10 lowercase; n \<leftarrow> randrange 3; keys \<leftarrow> sample (1 + n) POLYMORPHIC_QUERY_KEYS;
          search \<leftarrow> query_values keys; item \<leftarrow> number (10 ^ 5);
          State_Monad.return (''/api/v2/'' @ word @ ''/'' @ item @ ''?'' @ search) }"

definition polymorphic_path :: "string rand" where
  "polymorphic_path =
     do { word \<leftarrow> slug 10 lowercase; n \<leftarrow> randrange 4; keys \<leftarrow> sample (1 + n) POLYMORPHIC_QUERY_KEYS;
          search \<leftarrow> query_values keys; item \<leftarrow> number (10 ^ 5);
          State_Monad.return (''/api/'' @ word @ ''/'' @ item @ ''?'' @ search) }"

definition legit_interleave_path :: "string rand" where
  "legit_interleave_path =
     do { n \<leftarrow> randrange 100; if n < 70 then catalog_mimic_path else polymorphic_path }"

definition cachebuster_path :: "string rand" where
  "cachebuster_path =
     do { bust \<leftarrow> number (10 ^ 12); i \<leftarrow> number 1000;
          State_Monad.return (''/api/search?cachebust='' @ bust @ ''&id='' @ i) }"

definition rotating_path :: "string rand" where
  "rotating_path =
     do { item \<leftarrow> number (10 ^ 9); State_Monad.return (''/api/item/'' @ item @ ''?view=full'') }"

definition uuid_path :: "string rand" where
  "uuid_path =
     do { a \<leftarrow> hex_number 8; b \<leftarrow> hex_number 4; c \<leftarrow> hex_number 4; d \<leftarrow> hex_number 4; e \<leftarrow> hex_number 12;
          State_Monad.return
            (''/api/object/'' @ a @ ''-'' @ b @ ''-'' @ c @ ''-'' @ d @ ''-'' @ e @ ''?view=full'') }"

definition smart_api_mix_path :: "string rand" where
  "smart_api_mix_path =
     do { endpoint \<leftarrow> choice SMART_ENDPOINTS;
          if endpoint = ''login'' then State_Monad.return ''/api/login''
          else if endpoint = ''search'' then cachebuster_path
          else if endpoint = ''item'' then rotating_path
          else if endpoint = ''object'' then uuid_path
          else if endpoint = ''cart''
          then do { cart \<leftarrow> number (10 ^ 7); step \<leftarrow> choice [''ship'', ''pay'', ''review''];
                    State_Monad.return (''/api/cart/'' @ cart @ ''/checkout?step='' @ step) }
          else do { profile \<leftarrow> number (10 ^ 8); part \<leftarrow> choice [''orders'', ''settings'', ''teams''];
                    State_Monad.return (''/api/profile/'' @ profile @ ''?include='' @ part) } }"

definition scenario_path_builder :: "string \<Rightarrow> bool \<Rightarrow> string rand" where
  "scenario_path_builder scenario bypass =
     (if bypass then
        if scenario = ''cachebuster'' then
          do { q \<leftarrow> number (10 ^ 6); page \<leftarrow> number 10;
               State_Monad.return (''/api/search?q='' @ q @ ''&page='' @ page) }
        else if scenario \<in> {''rotating-path'', ''uuid-path''} then
          do { item \<leftarrow> number (10 ^ 9); State_Monad.return (''/api/product/'' @ item @ ''?view=compact'') }
        else if scenario \<in> {''smart-api-mix'', ''xff-polymorphic''} \<union> set ADVANCED_SCENARIOS then
          do { item \<leftarrow> number 1000; page \<leftarrow> number 5;
               State_Monad.return (''/api/catalog/'' @ item @ ''?page='' @ page) }
        else State_Monad.return ''/api/login?legit=1''
      else if scenario = ''catalog-mimic-xff'' then catalog_mimic_path
      else if scenario = ''dictionary-slug-xff'' then dictionary_slug_path
      else if scenario = ''hex-slug-xff'' then hex_slug_path
      else if scenario = ''v2-polymorphic-xff'' then v2_polymorphic_path
      else if scenario = ''legit-interleave-xff'' then legit_interleave_path
      else if scenario
             \<in> {''method-spray-xff'', ''accept-spray-xff'', ''slow-xff-polymorphic'', ''mozilla-polymorphic-xff''}
      then polymorphic_path
      else if scenario = ''smart-api-mix'' then smart_api_mix_path
      else if scenario = ''xff-polymorphic'' then polymorphic_path
      else if scenario = ''cachebuster'' then cachebuster_path
      else if scenario = ''rotating-path'' then rotating_path
      else if scenario = ''uuid-path'' then uuid_path
      else State_Monad.return ''/api/login'')"

section \<open>Headers\<close>

definition scenario_user_agents :: "string \<Rightarrow> bool \<Rightarrow> string list" where
  "scenario_user_agents scenario bypass =
     (if bypass then [''Mozilla/5.0 altura-legit-probe'']
      else if scenario = ''mozilla-polymorphic-xff'' then
        [''Mozilla/5.0 (Windows NT 10.0; Win64; x64) AppleWebKit/537.36'',
         ''Mozilla/5.0 (Macintosh; Intel Mac OS X 14_5) AppleWebKit/605.1.15'',
         ''Mozilla/5.0 (X11; Linux x86_64; rv:128.0) Gecko/20100101 Firefox/128.0'']
      else if scenario \<in> {''mixed-user-agent'', ''smart-api-mix'', ''xff-polymorphic''} \<union> set ADVANCED_SCENARIOS
      then [''curl/8.0'', ''python-requests/2.32'', ''Mozilla/5.0 altura-e2e'', ''node-fetch/3'']
      else [''curl/8.0''])"

definition scenario_xff :: "string \<Rightarrow> bool \<Rightarrow> string option rand" where
  "scenario_xff scenario bypass =
     (if bypass \<and> (scenario = ''xff-single''
         \<or> scenario \<in> {''xff-rotating'', ''xff-polymorphic''} \<union> set ADVANCED_SCENARIOS)
      then State_Monad.return (Some ''198.51.100.250'')
      else if scenario = ''xff-single'' then State_Monad.return (Some ''198.51.100.10'')
      else if scenario \<in> {''xff-rotating'', ''xff-polymorphic''} \<union> set ADVANCED_SCENARIOS then
        do { n \<leftarrow> randrange (length TEST_NETS); h \<leftarrow> randrange 240;
             State_Monad.return (Some (TEST_NETS ! n @ ''.'' @ nat_str (1 + h))) }
      else State_Monad.return None)"

definition scenario_method :: "string \<Rightarrow> string rand" where
  "scenario_method scenario =
     (if scenario = ''method-spray-xff'' then choice METHOD_VARIANTS else State_Monad.return ''GET'')"

definition scenario_accept :: "string \<Rightarrow> string rand" where
  "scenario_accept scenario =
     (if scenario = ''accept-spray-xff'' then choice ACCEPT_VARIANTS else State_Monad.return ''*/*'')"

definition scenario_per_request_sleep :: "string \<Rightarrow> rat" where
  "scenario_per_request_sleep scenario = (if scenario = ''slow-xff-polymorphic'' then 4 / 100 else 0)"

definition scenario_worker_count :: "string \<Rightarrow> int \<Rightarrow> bool \<Rightarrow> bool \<Rightarrow> int" where
  "scenario_worker_count scenario workers bypass direct_baseline =
     (if \<not> bypass \<and> \<not> direct_baseline \<and> scenario = ''slow-xff-polymorphic'' then max workers 128 else workers)"

definition scenario_description :: "string \<Rightarrow> string" where
  "scenario_description scenario =
     (case map_of
        [(''catalog-mimic-xff'', ''Rotating XFF with benign catalog-shaped paths to evade :token filters''),
         (''dictionary-slug-xff'', ''Rotating XFF with dictionary API slugs that avoid :token normalization''),
         (''hex-slug-xff'', ''Rotating XFF with long hex path segments mapped to :hex instead of :token''),
         (''v2-polymorphic-xff'',
          ''Rotating XFF on /api/v2/:token/:num paths outside learned /api/:token/:num shape''),
         (''method-spray-xff'', ''Rotating XFF plus GET/HEAD/OPTIONS method spray to diversify signatures''),
         (''accept-spray-xff'', ''Rotating XFF plus Accept-header spray to diversify signatures''),
         (''legit-interleave-xff'',
          ''Rotating XFF mixing 70% catalog traffic with 30% polymorphic attack paths''),
         (''slow-xff-polymorphic'',
          ''Low-and-slow rotating-XFF polymorphic flood under per-IP and shape thresholds''),
         (''mozilla-polymorphic-xff'',
          ''Rotating XFF polymorphic paths with browser-like Mozilla user agents only'')] scenario of
        None \<Rightarrow> [] | Some text \<Rightarrow> text)"

definition scenario_needs_xff_trust :: "string \<Rightarrow> bool" where
  "scenario_needs_xff_trust scenario \<longleftrightarrow>
     starts_with scenario ''xff-'' \<or> scenario \<in> set ADVANCED_SCENARIOS"

definition scenario_runs_observed_learning :: "string \<Rightarrow> bool" where
  "scenario_runs_observed_learning scenario \<longleftrightarrow>
     scenario = ''smart-api-mix'' \<or> scenario_needs_xff_trust scenario"

text \<open>One request of a worker: the method, the path and the headers.\<close>

record bench_request =
  req_method :: string
  req_path :: string
  req_headers :: "(string \<times> string) list"

definition draw_request :: "string \<Rightarrow> bool \<Rightarrow> bench_request rand" where
  "draw_request scenario bypass =
     do { agent \<leftarrow> choice (scenario_user_agents scenario bypass);
          accepted \<leftarrow> scenario_accept scenario;
          xff \<leftarrow> scenario_xff scenario bypass;
          verb \<leftarrow> scenario_method scenario;
          path \<leftarrow> scenario_path_builder scenario bypass;
          State_Monad.return
            \<lparr>req_method = verb, req_path = path,
             req_headers = [(''User-Agent'', agent), (''Accept'', accepted)]
               @ (case xff of None \<Rightarrow> [] | Some a \<Rightarrow> [(''X-Forwarded-For'', a)])\<rparr> }"

section \<open>Claimed addresses\<close>

text \<open>The networks reserved for documentation.\<close>

definition DOCUMENTATION_NETS :: "(32 word \<times> nat) list" where
  "DOCUMENTATION_NETS = [(dotted 192 0 2 0, 24), (dotted 198 51 100 0, 24), (dotted 203 0 113 0, 24)]"

definition documentation_address :: "string \<Rightarrow> bool" where
  "documentation_address a \<longleftrightarrow> (\<exists>w. ip_address a = Inr (V4 w) \<and> list_ex (in_net w) DOCUMENTATION_NETS)"

lemma in_net_24:
  assumes "((a * 256 + b) * 256 + c) * 256 + 255 < (2 :: nat) ^ 32" and "d < 256"
  shows "in_net (dotted a b c d) (dotted a b c 0, 24)"
proof -
  have n: "unat (dotted a b c e) = ((a * 256 + b) * 256 + c) * 256 + e" if "e < 256" for e
    unfolding dotted_def unsigned_of_nat using assms(1) that by (subst take_bit_nat_eq_self) auto
  have "unat (dotted a b c 0) = 2 ^ 8 * ((a * 256 + b) * 256 + c)" using n [of 0] by simp
  then have "2 ^ 8 dvd unat (dotted a b c 0)" by (metis dvd_triv_left)
  then have "dotted a b c 0 AND mask 8 = 0" unfolding and_mask_dvd_nat .
  moreover have "(8 :: nat) \<le> LENGTH(32)" by simp
  ultimately show ?thesis
    unfolding in_net_def using in_net_interval [of "dotted a b c 0" 8 "dotted a b c d"] n [of 0] n [of d] assms(2)
    by simp
qed

lemma documentation_quad:
  assumes "(a, b, c) \<in> {(192, 0, 2), (198, 51, 100), (203, 0, 113)}" and "d < 256"
  shows "documentation_address (nat_str a @ ''.'' @ nat_str b @ ''.'' @ nat_str c @ ''.'' @ nat_str d)"
proof -
  have "a < 256" "b < 256" "c < 256" using assms(1) by auto
  then have "ip_address (nat_str a @ ''.'' @ nat_str b @ ''.'' @ nat_str c @ ''.'' @ nat_str d) = Inr (V4 (dotted a b c d))"
    using assms(2) by (rule ip_address_quad)
  moreover have "list_ex (in_net (dotted a b c d)) DOCUMENTATION_NETS"
    using assms(1) in_net_24 [OF _ assms(2)] by (auto simp: DOCUMENTATION_NETS_def)
  ultimately show ?thesis by (auto simp: documentation_address_def)
qed

lemma test_net_address:
  assumes "i < 3" and "d < 256"
  shows "documentation_address (TEST_NETS ! i @ ''.'' @ nat_str d)"
proof -
  have nets: "TEST_NETS = map (\<lambda>(a, b, c). nat_str a @ ''.'' @ nat_str b @ ''.'' @ nat_str c)
      [(192, 0, 2), (198, 51, 100), (203, 0, 113)]" by code_simp
  from assms(1) have "i \<in> {0, 1, 2}" by auto
  then show ?thesis unfolding nets using documentation_quad [OF _ assms(2)] by auto
qed

lemma scenario_xff_documented:
  assumes "run_state (scenario_xff scenario bypass) draws = (Some a, rest)"
  shows "documentation_address a"
proof -
  have fixed: "documentation_address ''198.51.100.250''" "documentation_address ''198.51.100.10''"
  proof -
    have "''198.51.100.250'' = TEST_NETS ! 1 @ ''.'' @ nat_str 250" "''198.51.100.10'' = TEST_NETS ! 1 @ ''.'' @ nat_str 10"
      by code_simp+
    then show "documentation_address ''198.51.100.250''" "documentation_address ''198.51.100.10''"
      using test_net_address [of 1 250] test_net_address [of 1 10] by simp_all
  qed
  have drawn: "i < n" if "run_state (randrange n) draws = (i, rest)" "0 < n" for i n draws rest
    using that by (auto simp: randrange_def split: list.splits)
  have rotating: "documentation_address (TEST_NETS ! i @ CHR ''.'' # nat_str (Suc h))" if "i < 3" "h < 240" for i h
    using test_net_address [of i "Suc h"] that by simp
  have "length TEST_NETS = 3" by (simp add: TEST_NETS_def)
  with assms fixed show ?thesis
    by (auto simp: scenario_xff_def split: prod.splits if_splits dest!: drawn intro!: rotating)
qed

text \<open>
  C28. The spoof simulations only claim addresses reserved for documentation: whatever is drawn, an
  \<open>X-Forwarded-For\<close> header of a benchmark request is an IPv4 address of 192.0.2.0/24, 198.51.100.0/24
  or 203.0.113.0/24.
\<close>

theorem spoofed_addresses_documented:
  assumes "run_state (draw_request scenario bypass) draws = (request, rest)"
    and "(''X-Forwarded-For'', a) \<in> set (req_headers request)"
  shows "\<exists>w. ip_address a = Inr (V4 w)
    \<and> (in_net w (dotted 192 0 2 0, 24) \<or> in_net w (dotted 198 51 100 0, 24) \<or> in_net w (dotted 203 0 113 0, 24))"
proof -
  from assms obtain draws' rest' where "run_state (scenario_xff scenario bypass) draws' = (Some a, rest')"
    by (auto simp: draw_request_def split: prod.splits option.splits)
  then have "documentation_address a" by (rule scenario_xff_documented)
  then show ?thesis by (auto simp: documentation_address_def DOCUMENTATION_NETS_def)
qed

theorem spoofed_addresses_documented_witness:
  "\<exists>request rest w. run_state (draw_request ''xff-rotating'' False) [0, 5, 0, 6] = (request, rest)
     \<and> (''X-Forwarded-For'', ''203.0.113.1'') \<in> set (req_headers request) \<and> ip_address ''203.0.113.1'' = Inr (V4 w)"
proof -
  have "case run_state (draw_request ''xff-rotating'' False) [0, 5, 0, 6] of (request, rest) \<Rightarrow>
      (''X-Forwarded-For'', ''203.0.113.1'') \<in> set (req_headers request)" by code_simp
  then obtain request rest where "run_state (draw_request ''xff-rotating'' False) [0, 5, 0, 6] = (request, rest)"
    "(''X-Forwarded-For'', ''203.0.113.1'') \<in> set (req_headers request)" by (auto split: prod.splits)
  then show ?thesis using spoofed_addresses_documented by blast
qed

end
