(* ===== verification/Py_Url.thy ===== *)
theory Py_Url
  imports Py_Ipaddress
begin

text \<open>
  \<open>urllib.parse.urlparse\<close> (3.11) with the \<open>hostname\<close> and \<open>port\<close> of its result.  On the repertoire of
  \<open>Py_String\<close> the NFKC check of the network location never fails.
\<close>

section \<open>Splitting\<close>

definition after_first :: "char \<Rightarrow> string \<Rightarrow> string" where
  "after_first c s = tl (dropWhile (\<lambda>x. x \<noteq> c) s)"

definition before_first :: "char \<Rightarrow> string \<Rightarrow> string" where
  "before_first c s = takeWhile (\<lambda>x. x \<noteq> c) s"

definition after_last :: "char \<Rightarrow> string \<Rightarrow> string" where
  "after_last c s = rev (takeWhile (\<lambda>x. x \<noteq> c) (rev s))"

definition up_to_last :: "char \<Rightarrow> string \<Rightarrow> string" where
  "up_to_last c s = rev (dropWhile (\<lambda>x. x \<noteq> c) (rev s))"

definition is_ascii_alpha :: "char \<Rightarrow> bool" where
  "is_ascii_alpha c \<longleftrightarrow> is_ascii_upper c \<or> is_ascii_lower c"

definition is_scheme_char :: "char \<Rightarrow> bool" where
  "is_scheme_char c \<longleftrightarrow> is_ascii_alpha c \<or> is_ascii_digit c \<or> c \<in> {CHR ''+'', CHR ''-'', CHR ''.''}"

record parse_result =
  scheme :: string
  netloc :: string
  url_path :: string
  query :: string

definition USES_PARAMS :: "string list" where
  "USES_PARAMS = [[], ''ftp'', ''hdl'', ''prospero'', ''http'', ''https'', ''shttp'', ''rtsp'', ''rtspu'',
     ''sip'', ''sips'', ''mms'', ''sftp'', ''tel'']"

definition split_scheme :: "string \<Rightarrow> string \<times> string" where
  "split_scheme url =
     (let s = before_first (CHR '':'') url
      in if CHR '':'' \<in> set url \<and> s \<noteq> [] \<and> is_ascii_alpha (hd s) \<and> list_all is_scheme_char s
         then (str_lower s, after_first (CHR '':'') url) else ([], url))"

definition split_netloc :: "string \<Rightarrow> string \<times> string" where
  "split_netloc url =
     (if starts_with url ''//'' then
        (let is_end = (\<lambda>c. c \<in> {CHR ''/'', CHR ''?'', CHR ''#''})
         in (takeWhile (\<lambda>c. \<not> is_end c) (drop 2 url), dropWhile (\<lambda>c. \<not> is_end c) (drop 2 url)))
      else ([], url))"

text \<open>
  \<open>_check_bracketed_host\<close>: an IPv6 address, or the form \<open>v<hex>.<any>\<close> reserved for later versions
  (\<open>.+\<close> does not match a line feed, which is removed before).
\<close>

definition bracketed_host_ok :: "string \<Rightarrow> bool" where
  "bracketed_host_ok h =
     (if starts_with h ''v'' then
        (let version = takeWhile is_hex (tl h); rest = dropWhile is_hex (tl h)
         in version \<noteq> [] \<and> starts_with rest ''.'' \<and> 1 < length rest)
      else case ip_address h of Inr (V6 _ _) \<Rightarrow> True | _ \<Rightarrow> False)"

definition netloc_ok :: "string \<Rightarrow> bool" where
  "netloc_ok n \<longleftrightarrow>
     (CHR ''['' \<in> set n \<longleftrightarrow> CHR '']'' \<in> set n)
     \<and> (CHR ''['' \<in> set n \<longrightarrow>
          bracketed_host_ok (before_first (CHR '']'') (after_first (CHR ''['') n)))"

definition split_params :: "string \<Rightarrow> string" where
  "split_params url =
     (if CHR ''/'' \<in> set url
      then up_to_last (CHR ''/'') url @ before_first (CHR '';'') (after_last (CHR ''/'') url)
      else before_first (CHR '';'') url)"

definition urlparse :: "string \<Rightarrow> parse_result result" where
  "urlparse raw =
     (let url = filter (\<lambda>c. cp c \<notin> {9, 10, 13}) (dropWhile (\<lambda>c. cp c \<le> 32) raw)
      in case split_scheme url of (s, rest) \<Rightarrow>
         case split_netloc rest of (n, rest) \<Rightarrow>
           if \<not> netloc_ok n then Inl (ValueError ''Invalid IPv6 URL'')
           else let rest = before_first (CHR ''#'') rest;
                    path = before_first (CHR ''?'') rest
                in Inr \<lparr>scheme = s, netloc = n,
                        url_path = (if s \<in> set USES_PARAMS then split_params path else path),
                        query = after_first (CHR ''?'') rest\<rparr>)"

section \<open>Host and port\<close>

definition hostinfo :: "parse_result \<Rightarrow> string \<times> string" where
  "hostinfo p =
     (let h = after_last (CHR ''@'') (netloc p)
      in if CHR ''['' \<in> set h then
           (let bracketed = after_first (CHR ''['') h
            in (before_first (CHR '']'') bracketed,
                after_first (CHR '':'') (after_first (CHR '']'') bracketed)))
         else (before_first (CHR '':'') h, after_first (CHR '':'') h))"

definition hostname :: "parse_result \<Rightarrow> string" where
  "hostname p =
     (let h = fst (hostinfo p)
      in str_lower (before_first (CHR ''%'') h) @ dropWhile (\<lambda>c. c \<noteq> CHR ''%'') h)"

text \<open>The port, 0 when it is not given; the exception is the one \<open>port\<close> raises.\<close>

definition url_port :: "parse_result \<Rightarrow> nat result" where
  "url_port p =
     (let s = snd (hostinfo p)
      in if s = [] then Inr 0
         else if \<not> list_all is_ascii_digit s
         then Inl (ValueError (''Port could not be cast to integer value as '' @ str_repr s))
         else if max_int_digits < length s
         then Inl (ValueError (''Exceeds the limit (4300 digits) for integer string conversion: value has ''
                     @ nat_str (length s) @ '' digits; use sys.set_int_max_str_digits() to increase the limit''))
         else if 65535 < digits_val s then Inl (ValueError ''Port out of range 0-65535'')
         else Inr (digits_val s))"

end
