(* ===== verification/Flood_Guard.thy ===== *)
theory Flood_Guard
  imports Py_Url
begin

text \<open>
  \<open>tools/local_http_flood.py\<close>: the guard that decides which targets the flood helper may hit, the
  loop of a worker, and the report.  Name resolution, the clock and the outcome of each request are
  parameters.
\<close>

section \<open>The guard\<close>

definition OWNED_LAN_IPV4_NETWORKS :: "(32 word \<times> nat) list" where
  "OWNED_LAN_IPV4_NETWORKS =
     [(dotted 10 0 0 0, 8), (dotted 172 16 0 0, 12), (dotted 192 168 0 0, 16), (dotted 169 254 0 0, 16)]"

definition OWNED_LAN_IPV6_NETWORKS :: "(128 word \<times> nat) list" where
  "OWNED_LAN_IPV6_NETWORKS = [(top_hextet 0xFC00, 7), (top_hextet 0xFE80, 10)]"

definition is_owned_lan_address :: "ip \<Rightarrow> bool" where
  "is_owned_lan_address ip =
     (let ip = (case ipv4_mapped ip of None \<Rightarrow> ip | Some mapped \<Rightarrow> mapped)
      in case ip of
           V4 w \<Rightarrow> list_ex (in_net w) OWNED_LAN_IPV4_NETWORKS
         | V6 w scope \<Rightarrow> list_ex (in_net w) OWNED_LAN_IPV6_NETWORKS)"

definition default_port :: "string \<Rightarrow> nat" where
  "default_port s = (if s = ''https'' then 443 else 80)"

text \<open>\<open>parsed.port or default_port(parsed.scheme)\<close>.\<close>

definition port_or_default :: "string \<Rightarrow> nat \<Rightarrow> nat" where
  "port_or_default s given = (if given = 0 then default_port s else given)"

text \<open>The loop over the resolved addresses: the text of each, or the first refusal.\<close>

fun check_infos :: "bool \<Rightarrow> string \<Rightarrow> string list \<Rightarrow> string list result" where
  "check_infos allow host [] = Inr []"
| "check_infos allow host (info # infos) =
     rbind (ip_address info) (\<lambda>ip.
       if is_loopback ip \<or> (allow \<and> is_owned_lan_address ip)
       then rbind (check_infos allow host infos) (\<lambda>ips. Inr (ip_str ip # ips))
       else if allow
       then Inl (SystemExit (''refusing public or non-local target '' @ host @ '' resolved to '' @ ip_str ip
              @ ''; --allow-non-loopback only permits loopback, RFC1918/ULA, and link-local targets''))
       else Inl (SystemExit (''refusing non-loopback target '' @ host @ '' resolved to '' @ ip_str ip
              @ ''; pass --allow-non-loopback only for owned LAN tests'')))"

type_synonym resolver = "string \<Rightarrow> nat \<Rightarrow> string list result"

text \<open>\<open>socket.getaddrinfo\<close> is the parameter \<open>resolve\<close>: the addresses of a host and port, as text.\<close>

definition assert_loopback :: "resolver \<Rightarrow> string \<Rightarrow> bool \<Rightarrow> parse_result result" where
  "assert_loopback resolve url allow_non_loopback =
     rbind (urlparse url) (\<lambda>parsed.
       if scheme parsed \<notin> {''http'', ''https''}
       then Inl (SystemExit ''only http:// and https:// URLs are supported'')
       else if hostname parsed = [] then Inl (SystemExit ''URL must include a host'')
       else case url_port parsed of
              Inl e \<Rightarrow>
                (case e of
                   ValueError exc \<Rightarrow> Inl (SystemExit (''invalid URL port: '' @ exc))
                 | _ \<Rightarrow> Inl e)
            | Inr given \<Rightarrow>
                (let port = port_or_default (scheme parsed) given
                 in rbind (resolve (hostname parsed) port) (\<lambda>infos.
                    rbind (check_infos allow_non_loopback (hostname parsed) infos) (\<lambda>resolved_ips.
                      if resolved_ips \<noteq> [] then Inr parsed
                      else Inl (SystemExit (''refusing target '' @ hostname parsed
                                  @ ''; no loopback addresses resolved''))))))"

section \<open>What the guard permits\<close>

text \<open>
  The private and link-local ranges by their first and last address: 10.0.0.0 to 10.255.255.255,
  172.16.0.0 to 172.31.255.255, 192.168.0.0 to 192.168.255.255, 169.254.0.0 to 169.254.255.255; and
  for IPv6 fc00:: to fdff:ffff..., fe80:: to febf:ffff....
\<close>

definition private_v4 :: "nat \<Rightarrow> bool" where
  "private_v4 n \<longleftrightarrow>
     (10 * 2 ^ 24 \<le> n \<and> n < 11 * 2 ^ 24)
     \<or> (172 * 2 ^ 24 + 16 * 2 ^ 16 \<le> n \<and> n < 172 * 2 ^ 24 + 32 * 2 ^ 16)
     \<or> (192 * 2 ^ 24 + 168 * 2 ^ 16 \<le> n \<and> n < 192 * 2 ^ 24 + 169 * 2 ^ 16)
     \<or> (169 * 2 ^ 24 + 254 * 2 ^ 16 \<le> n \<and> n < 169 * 2 ^ 24 + 255 * 2 ^ 16)"

definition private_v6 :: "nat \<Rightarrow> bool" where
  "private_v6 n \<longleftrightarrow>
     (0xFC00 * 2 ^ 112 \<le> n \<and> n < 0xFE00 * 2 ^ 112) \<or> (0xFE80 * 2 ^ 112 \<le> n \<and> n < 0xFEC0 * 2 ^ 112)"

definition loopback_v4 :: "nat \<Rightarrow> bool" where
  "loopback_v4 n \<longleftrightarrow> 127 * 2 ^ 24 \<le> n \<and> n < 128 * 2 ^ 24"

text \<open>
  The addresses a run may hit: loopback always; private and link-local ones, also as IPv4-mapped
  IPv6 addresses, only when that was asked for.
\<close>

fun permitted :: "bool \<Rightarrow> ip \<Rightarrow> bool" where
  "permitted allow (V4 w) = (loopback_v4 (unat w) \<or> (allow \<and> private_v4 (unat w)))"
| "permitted allow (V6 w scope) =
     (w = 1 \<or> (allow \<and> (if unat w div 2 ^ 32 = 0xFFFF then private_v4 (unat w mod 2 ^ 32)
                        else private_v6 (unat w))))"

lemma in_net_range:
  fixes w net :: "'a::len word"
  assumes "net AND mask (LENGTH('a) - n) = 0"
  shows "in_net w (net, n) \<longleftrightarrow> unat net \<le> unat w \<and> unat w < unat net + 2 ^ (LENGTH('a) - n)"
  using in_net_interval [OF assms] by (simp add: in_net_def)

lemma private_v4_nets: "list_ex (in_net w) OWNED_LAN_IPV4_NETWORKS \<longleftrightarrow> private_v4 (unat w)"
proof -
  have "in_net w (dotted 10 0 0 0, 8) \<longleftrightarrow> 10 * 2 ^ 24 \<le> unat w \<and> unat w < 11 * 2 ^ 24"
    by (subst in_net_range) (simp_all add: dotted_def mask_numeral)
  moreover have "in_net w (dotted 172 16 0 0, 12) \<longleftrightarrow>
      172 * 2 ^ 24 + 16 * 2 ^ 16 \<le> unat w \<and> unat w < 172 * 2 ^ 24 + 32 * 2 ^ 16"
    by (subst in_net_range) (simp_all add: dotted_def mask_numeral)
  moreover have "in_net w (dotted 192 168 0 0, 16) \<longleftrightarrow>
      192 * 2 ^ 24 + 168 * 2 ^ 16 \<le> unat w \<and> unat w < 192 * 2 ^ 24 + 169 * 2 ^ 16"
    by (subst in_net_range) (simp_all add: dotted_def mask_numeral)
  moreover have "in_net w (dotted 169 254 0 0, 16) \<longleftrightarrow>
      169 * 2 ^ 24 + 254 * 2 ^ 16 \<le> unat w \<and> unat w < 169 * 2 ^ 24 + 255 * 2 ^ 16"
    by (subst in_net_range) (simp_all add: dotted_def mask_numeral)
  ultimately show ?thesis by (simp add: OWNED_LAN_IPV4_NETWORKS_def private_v4_def)
qed

lemma loopback_v4_net: "in_net w (dotted 127 0 0 0, 8) \<longleftrightarrow> loopback_v4 (unat w)"
  by (subst in_net_range) (simp_all add: dotted_def mask_numeral loopback_v4_def)

lemma private_v6_nets: "list_ex (in_net w) OWNED_LAN_IPV6_NETWORKS \<longleftrightarrow> private_v6 (unat w)"
proof -
  have "in_net w (top_hextet 0xFC00, 7) \<longleftrightarrow> 0xFC00 * 2 ^ 112 \<le> unat w \<and> unat w < 0xFE00 * 2 ^ 112"
    by (subst in_net_range) (simp_all add: top_hextet_def mask_numeral push_bit_eq_mult)
  moreover have "in_net w (top_hextet 0xFE80, 10) \<longleftrightarrow> 0xFE80 * 2 ^ 112 \<le> unat w \<and> unat w < 0xFEC0 * 2 ^ 112"
    by (subst in_net_range) (simp_all add: top_hextet_def mask_numeral push_bit_eq_mult)
  ultimately show ?thesis by (simp add: OWNED_LAN_IPV6_NETWORKS_def private_v6_def)
qed

lemma mapped_iff:
  fixes w :: "128 word"
  shows "drop_bit 32 w = 0xFFFF \<longleftrightarrow> unat w div 2 ^ 32 = 0xFFFF"
proof -
  have "drop_bit 32 w = 0xFFFF \<longleftrightarrow> unat (drop_bit 32 w) = unat (0xFFFF :: 128 word)"
    by (simp only: word_unat_eq_iff)
  then show ?thesis by (simp add: unat_div drop_bit_eq_div)
qed

lemma mapped_unat:
  fixes w :: "128 word"
  shows "unat (ucast w :: 32 word) = unat w mod 2 ^ 32"
  by (simp add: unsigned_ucast_eq take_bit_eq_mod)

lemma guard_permits: "is_loopback ip \<or> (allow \<and> is_owned_lan_address ip) \<longleftrightarrow> permitted allow ip"
proof (cases ip)
  case (V4 w)
  then show ?thesis by (simp add: loopback_v4_net private_v4_nets is_owned_lan_address_def)
next
  case (V6 w scope)
  then show ?thesis
    by (simp add: is_owned_lan_address_def private_v4_nets private_v6_nets mapped_iff mapped_unat)
qed

lemma check_infos_ok:
  "(\<exists>ips. check_infos allow host infos = Inr ips \<and> length ips = length infos)
   \<longleftrightarrow> (\<forall>info \<in> set infos. \<exists>ip. ip_address info = Inr ip \<and> permitted allow ip)"
  "check_infos allow host infos = Inr ips \<Longrightarrow> length ips = length infos"
proof -
  show "(\<exists>ips. check_infos allow host infos = Inr ips \<and> length ips = length infos)
   \<longleftrightarrow> (\<forall>info \<in> set infos. \<exists>ip. ip_address info = Inr ip \<and> permitted allow ip)"
  proof (induction infos)
    case (Cons info infos)
    then show ?case
      by (cases "ip_address info"; cases "check_infos allow host infos")
        (auto simp: guard_permits simp del: permitted.simps)
  qed simp
  show "check_infos allow host infos = Inr ips \<Longrightarrow> length ips = length infos"
    by (induction infos arbitrary: ips) (auto simp: rbind_Inr_iff split: if_splits)
qed

text \<open>
  C26. The guard lets a run go ahead exactly for \<open>http\<close> and \<open>https\<close> URLs with a host and a valid port
  whose name resolves to at least one address, every one of which is loopback or, only under
  \<open>--allow-non-loopback\<close>, in a private or link-local range.  A public address among the answers
  always refuses the target.
\<close>

theorem assert_loopback_exact:
  "assert_loopback resolve url allow = Inr parsed
   \<longleftrightarrow> urlparse url = Inr parsed \<and> scheme parsed \<in> {''http'', ''https''} \<and> hostname parsed \<noteq> []
     \<and> (\<exists>given infos. url_port parsed = Inr given
          \<and> resolve (hostname parsed) (port_or_default (scheme parsed) given) = Inr infos
          \<and> infos \<noteq> []
          \<and> (\<forall>info \<in> set infos. \<exists>ip. ip_address info = Inr ip \<and> permitted allow ip))"
proof (cases "urlparse url")
  case (Inr p)
  show ?thesis
  proof (cases "url_port p")
    case (Inl e)
    then show ?thesis by (cases e) (auto simp: assert_loopback_def Inr)
  next
    case port: (Inr given)
    show ?thesis
    proof (cases "resolve (hostname p) (port_or_default (scheme p) given)")
      case (Inl e)
      with port show ?thesis by (auto simp: assert_loopback_def Inr Let_def)
    next
      case infos: (Inr infos)
      have "(\<exists>ips. check_infos allow (hostname p) infos = Inr ips \<and> ips \<noteq> [])
        \<longleftrightarrow> infos \<noteq> [] \<and> (\<forall>info \<in> set infos. \<exists>ip. ip_address info = Inr ip \<and> permitted allow ip)"
        using check_infos_ok [of allow "hostname p" infos] by fastforce
      with port infos show ?thesis
        by (cases "check_infos allow (hostname p) infos")
          (auto simp: assert_loopback_def Inr Let_def)
    qed
  qed
qed (auto simp: assert_loopback_def)

definition sample_resolver :: resolver where
  "sample_resolver host port =
     (if host = ''localhost'' then Inr [''127.0.0.1'', ''::1'']
      else if host = ''lan'' then Inr [''192.168.1.20''] else Inr [''127.0.0.1'', ''8.8.8.8''])"

theorem assert_loopback_exact_witness:
  "(\<exists>parsed. assert_loopback sample_resolver ''http://LOCALHOST:8080/x?y=1'' False = Inr parsed)
   \<and> (\<nexists>parsed. assert_loopback sample_resolver ''http://rebound.example/'' True = Inr parsed)"
proof
  have url: "urlparse ''http://LOCALHOST:8080/x?y=1''
      = Inr \<lparr>scheme = ''http'', netloc = ''LOCALHOST:8080'', url_path = ''/x'', query = ''y=1''\<rparr>" (is "_ = Inr ?p")
    by code_simp
  have host: "hostname ?p = ''localhost''" and port: "url_port ?p = Inr 8080" by code_simp+
  have ips: "ip_address ''127.0.0.1'' = Inr (V4 2130706433)" "ip_address ''::1'' = Inr (V6 1 None)"
    by code_simp+
  have "assert_loopback sample_resolver ''http://LOCALHOST:8080/x?y=1'' False = Inr ?p"
    unfolding assert_loopback_exact
    by (simp add: url host port ips sample_resolver_def loopback_v4_def)
  then show "\<exists>parsed. assert_loopback sample_resolver ''http://LOCALHOST:8080/x?y=1'' False = Inr parsed" ..
  have url': "urlparse ''http://rebound.example/''
      = Inr \<lparr>scheme = ''http'', netloc = ''rebound.example'', url_path = ''/'', query = []\<rparr>" (is "_ = Inr ?q")
    by code_simp
  have host': "hostname ?q = ''rebound.example''" by code_simp
  have public: "ip_address ''8.8.8.8'' = Inr (V4 134744072)" by code_simp
  show "\<nexists>parsed. assert_loopback sample_resolver ''http://rebound.example/'' True = Inr parsed"
    by (auto simp: assert_loopback_exact url' host' public sample_resolver_def loopback_v4_def private_v4_def)
qed

end
