(* ===== verification/Flood_Worker.thy ===== *)
theory Flood_Worker
  imports Flood_Guard "HOL-Library.Multiset"
begin

text \<open>
  The load side of \<open>tools/local_http_flood.py\<close>: the request loop of a worker, the percentiles, and
  the report over all workers.  The clock readings at the head of the loop and what comes of each
  request are parameters.
\<close>

section \<open>Workers\<close>

record worker_result =
  requests :: nat
  errors :: nat
  error_types :: "(string \<times> nat) list"
  statuses :: "(int \<times> nat) list"
  latencies_ms :: "rat list"

definition new_result :: worker_result where
  "new_result = \<lparr>requests = 0, errors = 0, error_types = [], statuses = [], latencies_ms = []\<rparr>"

text \<open>\<open>d[k] = d.get(k, 0) + n\<close>.\<close>

definition add_count :: "'k \<Rightarrow> nat \<Rightarrow> ('k \<times> nat) list \<Rightarrow> ('k \<times> nat) list" where
  "add_count k n d = dset k ((case map_of d k of None \<Rightarrow> 0 | Some m \<Rightarrow> m) + n) d"

text \<open>A request is answered with a status after some milliseconds, or an exception of some class is raised.\<close>

datatype attempt = Answered int rat | Raised string

definition LATENCY_CAP :: nat where
  "LATENCY_CAP = 20000"

text \<open>One turn of the loop; the flag says whether a connection is open.\<close>

fun worker_turn :: "attempt \<Rightarrow> bool \<times> worker_result \<Rightarrow> bool \<times> worker_result" where
  "worker_turn (Answered status elapsed_ms) (conn, result) =
     (True, result\<lparr>requests := requests result + 1,
        statuses := add_count status 1 (statuses result),
        latencies_ms := (if length (latencies_ms result) < LATENCY_CAP
                         then latencies_ms result @ [elapsed_ms] else latencies_ms result)\<rparr>)"
| "worker_turn (Raised exc) (conn, result) =
     (False, result\<lparr>errors := errors result + 1, error_types := add_count exc 1 (error_types result)\<rparr>)"

text \<open>The loop \<open>while time.perf_counter() < stop_at\<close>; not returning is \<open>None\<close>.\<close>

partial_function (option) worker_loop ::
  "(nat \<Rightarrow> rat) \<Rightarrow> (nat \<Rightarrow> attempt) \<Rightarrow> rat \<Rightarrow> nat \<Rightarrow> bool \<times> worker_result \<Rightarrow> worker_result option" where
  "worker_loop clock attempts stop_at i state =
     (if clock i < stop_at
      then worker_loop clock attempts stop_at (Suc i) (worker_turn (attempts i) state)
      else Some (snd state))"

definition worker :: "(nat \<Rightarrow> rat) \<Rightarrow> (nat \<Rightarrow> attempt) \<Rightarrow> rat \<Rightarrow> worker_result option" where
  "worker clock attempts stop_at = worker_loop clock attempts stop_at 0 (False, new_result)"

section \<open>The report\<close>

definition percentile :: "rat list \<Rightarrow> rat \<Rightarrow> rat option" where
  "percentile values pct =
     (if values = [] then None
      else let sorted_values = sort values;
               idx = min (length values - 1) (nat (round_half_even (pct / 100 * of_nat (length values - 1))))
           in Some (sorted_values ! idx))"

text \<open>\<open>round(x, n)\<close>.\<close>

definition round_to :: "nat \<Rightarrow> rat \<Rightarrow> rat" where
  "round_to n q = of_int (round_half_even (q * 10 ^ n)) / 10 ^ n"

record flood_report =
  duration_seconds :: rat
  total_requests :: nat
  total_errors :: nat
  report_error_types :: "(string \<times> nat) list"
  requests_per_second :: rat
  report_statuses :: "(int \<times> nat) list"
  latency_avg :: "rat option"
  latency_p50 :: "rat option"
  latency_p95 :: "rat option"
  latency_p99 :: "rat option"

definition merge_counts :: "('k \<times> nat) list \<Rightarrow> ('k \<times> nat) list \<Rightarrow> ('k \<times> nat) list" where
  "merge_counts new d = fold (\<lambda>(k, n). add_count k n) new d"

definition summarize :: "rat \<Rightarrow> worker_result list \<Rightarrow> flood_report" where
  "summarize measured results =
     (let elapsed = max (1 / 1000) measured;
          total = sum_list (map requests results);
          types = fold (\<lambda>r. merge_counts (error_types r)) results [];
          codes = fold (\<lambda>r. merge_counts (statuses r)) results [];
          latencies = concat (map latencies_ms results)
      in \<lparr>duration_seconds = round_to 3 elapsed,
          total_requests = total,
          total_errors = sum_list (map errors results),
          report_error_types = sort_key fst types,
          requests_per_second = round_to 2 (of_nat total / elapsed),
          report_statuses = sort_key fst codes,
          latency_avg =
            (if latencies = [] then None
             else Some (round_to 3 (sum_list latencies / of_nat (length latencies)))),
          latency_p50 = map_option (round_to 3) (percentile latencies 50),
          latency_p95 = map_option (round_to 3) (percentile latencies 95),
          latency_p99 = map_option (round_to 3) (percentile latencies 99)\<rparr>)"

section \<open>The command\<close>

text \<open>The path and query a worker requests.\<close>

definition request_target :: "parse_result \<Rightarrow> string" where
  "request_target parsed =
     (if url_path parsed = [] then ''/'' else url_path parsed)
     @ (if query parsed \<noteq> [] then ''?'' @ query parsed else [])"

record flood_args =
  flood_url :: string
  flood_duration :: rat
  flood_workers :: int
  flood_allow_non_loopback :: bool

text \<open>
  The run after the option parser: the guard, the workers, the report.  \<open>now\<close> is the clock when the
  deadline is set and \<open>measured\<close> the time the threads took; \<open>clock\<close> and \<open>attempts\<close> are those of each
  worker, the latter for the target it requests.  \<open>None\<close> means that some worker does not return.
\<close>

definition flood_main ::
  "resolver \<Rightarrow> rat \<Rightarrow> rat \<Rightarrow> (nat \<Rightarrow> nat \<Rightarrow> rat) \<Rightarrow> (string \<Rightarrow> nat \<Rightarrow> nat \<Rightarrow> attempt) \<Rightarrow> flood_args
   \<Rightarrow> flood_report option result" where
  "flood_main resolve now measured clock attempts args =
     rbind (assert_loopback resolve (flood_url args) (flood_allow_non_loopback args)) (\<lambda>parsed.
       let stop_at = now + flood_duration args;
           results = those (map (\<lambda>w. worker (clock w) (attempts (request_target parsed) w) stop_at)
             [0..<nat (max 1 (flood_workers args))])
       in Inr (map_option (summarize measured) results))"

section \<open>The worker returns\<close>

definition after_turns :: "(nat \<Rightarrow> attempt) \<Rightarrow> nat \<Rightarrow> bool \<times> worker_result \<Rightarrow> bool \<times> worker_result" where
  "after_turns attempts n state = fold (\<lambda>i. worker_turn (attempts i)) [0..<n] state"

lemma worker_loop_returns:
  assumes "stop_at \<le> clock (i + n)" and "\<forall>j < n. clock (i + j) < stop_at"
  shows "worker_loop clock attempts stop_at i state
    = Some (snd (fold (\<lambda>j. worker_turn (attempts j)) [i..<i + n] state))"
  using assms
proof (induction n arbitrary: i state)
  case 0
  then show ?case by (subst worker_loop.simps) simp
next
  case (Suc n)
  from Suc.prems(2) have now: "clock i < stop_at" by (metis add_0_right zero_less_Suc)
  have "\<forall>j < n. clock (Suc i + j) < stop_at" using Suc.prems(2) by (metis Suc_less_eq add_Suc_shift)
  with Suc.prems(1) have "worker_loop clock attempts stop_at (Suc i) (worker_turn (attempts i) state)
      = Some (snd (fold (\<lambda>j. worker_turn (attempts j)) [Suc i..<Suc i + n] (worker_turn (attempts i) state)))"
    by (intro Suc.IH) simp_all
  moreover have "[i..<i + Suc n] = i # [Suc i..<Suc i + n]" by (simp add: upt_conv_Cons)
  ultimately show ?case using now by (subst worker_loop.simps) simp
qed

lemma turns_count:
  "requests (snd (after_turns attempts n (conn, r))) + errors (snd (after_turns attempts n (conn, r)))
     = requests r + errors r + n"
proof (induction n)
  case (Suc n)
  obtain c s where s: "after_turns attempts n (conn, r) = (c, s)" by (cases "after_turns attempts n (conn, r)")
  with Suc have "requests s + errors s = requests r + errors r + n" by simp
  moreover have "after_turns attempts (Suc n) (conn, r) = worker_turn (attempts n) (c, s)"
    using s by (simp add: after_turns_def)
  ultimately show ?case by (cases "attempts n") simp_all
qed (simp add: after_turns_def)

lemma clock_progress:
  fixes clock :: "nat \<Rightarrow> rat"
  assumes "\<forall>i. clock i + step \<le> clock (Suc i)"
  shows "clock 0 + of_nat n * step \<le> clock n"
proof (induction n)
  case (Suc n)
  have "clock 0 + of_nat (Suc n) * step = clock 0 + of_nat n * step + step" by (simp add: algebra_simps)
  also have "\<dots> \<le> clock n + step" using Suc by simp
  also have "\<dots> \<le> clock (Suc n)" using assms by simp
  finally show ?case .
qed simp

text \<open>
  When every turn of the loop takes at least some positive time, a worker returns: after no more
  turns than fit into the time left at its start, each of which counts as one request or one error.
\<close>

theorem worker_returns:
  assumes "0 < step" and "\<forall>i. clock i + step \<le> clock (Suc i)"
  shows "\<exists>n r. worker clock attempts stop_at = Some r \<and> requests r + errors r = n
    \<and> n \<le> nat \<lceil>(stop_at - clock 0) / step\<rceil>"
proof -
  let ?bound = "nat \<lceil>(stop_at - clock 0) / step\<rceil>"
  have "(stop_at - clock 0) / step \<le> of_nat ?bound" by linarith
  then have "stop_at - clock 0 \<le> of_nat ?bound * step" using assms(1) by (simp add: divide_le_eq)
  with clock_progress [OF assms(2), of ?bound] have reached: "stop_at \<le> clock ?bound" by linarith
  define n where "n = (LEAST n. stop_at \<le> clock n)"
  have "stop_at \<le> clock n" unfolding n_def using reached by (rule LeastI)
  moreover have "clock j < stop_at" if "j < n" for j
    using not_less_Least [of j "\<lambda>n. stop_at \<le> clock n"] that by (simp add: n_def not_le)
  ultimately have "worker clock attempts stop_at = Some (snd (after_turns attempts n (False, new_result)))"
    using worker_loop_returns [of stop_at clock 0 n] by (simp add: worker_def after_turns_def)
  moreover have "n \<le> ?bound" unfolding n_def using reached by (rule Least_le)
  ultimately show ?thesis
    using turns_count [of attempts n False new_result] by (simp add: new_result_def)
qed

theorem worker_returns_witness:
  "\<exists>n r. worker (\<lambda>i. of_nat i / 10) (\<lambda>i. if even i then Answered 200 5 else Raised ''TimeoutError'') 1 = Some r
    \<and> requests r + errors r = n \<and> n \<le> nat \<lceil>(1 - (of_nat 0 / 10)) / (1 / 10 :: rat)\<rceil>"
  by (rule worker_returns) simp_all

section \<open>The report adds up\<close>

abbreviation count_sum :: "('k \<times> nat) list \<Rightarrow> nat" where
  "count_sum d \<equiv> sum_list (map snd d)"

lemma total_update:
  "count_sum (dset k (v + n) d) = count_sum d + n" if "map_of d k = Some v"
  using that by (induction d) auto

lemma total_add_count: "count_sum (add_count k n d) = count_sum d + n"
  by (cases "map_of d k") (simp_all add: add_count_def total_update update_new)

lemma total_merge_counts: "count_sum (merge_counts new d) = count_sum d + count_sum new"
  by (induction new arbitrary: d) (auto simp: merge_counts_def total_add_count)

lemma total_merge_all:
  "count_sum (fold (\<lambda>r. merge_counts (f r)) rs d) = count_sum d + sum_list (map (\<lambda>r. count_sum (f r)) rs)"
  by (induction rs arbitrary: d) (simp_all add: total_merge_counts)

lemma total_sort_key: "count_sum (sort_key key d) = count_sum d"
  by (metis mset_map mset_sort sum_mset_sum_list)

definition result_ok :: "worker_result \<Rightarrow> bool" where
  "result_ok r \<longleftrightarrow>
     requests r = count_sum (statuses r) \<and> errors r = count_sum (error_types r)
     \<and> length (latencies_ms r) = min LATENCY_CAP (requests r)"

lemma worker_turn_ok: "result_ok (snd s) \<Longrightarrow> result_ok (snd (worker_turn a s))"
  by (cases s; cases a) (auto simp: result_ok_def total_add_count)

lemma worker_loop_ok:
  assumes "worker_loop clock attempts stop_at i s = Some r"
  shows "result_ok (snd s) \<longrightarrow> result_ok r"
  using assms
proof (rule worker_loop.raw_induct [where P = "\<lambda>_ _ _ _ s r. result_ok (snd s) \<longrightarrow> result_ok r", rotated])
  fix loop clock attempts stop_at i s r
  assume "\<And>a b c d e f. loop a b c d e = Some f \<Longrightarrow> result_ok (snd e) \<longrightarrow> result_ok f"
    and "(if clock i < stop_at then loop clock attempts stop_at (Suc i) (worker_turn (attempts i) s)
          else Some (snd s)) = Some r"
  then show "result_ok (snd s) \<longrightarrow> result_ok r" using worker_turn_ok by (metis option.inject)
qed

lemma worker_ok: "worker clock attempts stop_at = Some r \<Longrightarrow> result_ok r"
  unfolding worker_def
  using worker_loop_ok by (force simp: result_ok_def new_result_def)

lemma round_half_even_mono:
  assumes "a \<le> b"
  shows "round_half_even a \<le> round_half_even b"
proof (cases "\<lfloor>a\<rfloor> = \<lfloor>b\<rfloor>")
  case True
  with assms show ?thesis by (simp add: round_half_even_def Let_def)
next
  case False
  with assms have "\<lfloor>a\<rfloor> + 1 \<le> \<lfloor>b\<rfloor>" using floor_mono [OF assms] by simp
  moreover have "round_half_even a \<le> \<lfloor>a\<rfloor> + 1" by (simp add: round_half_even_def Let_def)
  moreover have "\<lfloor>b\<rfloor> \<le> round_half_even b" by (simp add: round_half_even_def Let_def)
  ultimately show ?thesis by linarith
qed

lemma round_to_mono: "a \<le> b \<Longrightarrow> round_to n a \<le> round_to n b"
  by (simp add: round_to_def divide_right_mono round_half_even_mono mult_right_mono)

lemma percentile_mono:
  assumes "p \<le> q" and "percentile xs p = Some a" and "percentile xs q = Some b"
  shows "a \<le> b"
proof -
  let ?i = "\<lambda>p. min (length xs - 1) (nat (round_half_even (p / 100 * of_nat (length xs - 1))))"
  from assms have ne: "xs \<noteq> []" and a: "a = sort xs ! ?i p" and b: "b = sort xs ! ?i q"
    by (auto simp: percentile_def Let_def split: if_splits)
  have "p / 100 * of_nat (length xs - 1) \<le> q / 100 * of_nat (length xs - 1)"
    using assms(1) by (intro mult_right_mono divide_right_mono) simp_all
  then have le: "?i p \<le> ?i q" by (intro min.mono nat_mono round_half_even_mono) simp_all
  have lt: "?i q < length (sort xs)" using ne by (cases xs) simp_all
  show ?thesis unfolding a b by (rule sorted_nth_mono [OF _ le lt]) simp
qed

lemma percentile_known: "xs \<noteq> [] \<Longrightarrow> \<exists>v \<in> set xs. percentile xs p = Some v"
proof -
  assume ne: "xs \<noteq> []"
  let ?i = "min (length xs - 1) (nat (round_half_even (p / 100 * of_nat (length xs - 1))))"
  have "?i < length (sort xs)" using ne by (cases xs) simp_all
  then have "sort xs ! ?i \<in> set (sort xs)" by (rule nth_mem)
  with ne show ?thesis by (simp add: percentile_def Let_def)
qed

text \<open>
  The report over workers that returned adds up: the requests are the sum of the status counts,
  the errors the sum of the error counts, and the latency percentiles are there exactly when some
  request was answered and are then in order.
\<close>

theorem summarize_consistent:
  assumes "\<forall>r \<in> set results. \<exists>clock attempts stop_at. worker clock attempts stop_at = Some r"
  shows "total_requests (summarize elapsed results) = count_sum (report_statuses (summarize elapsed results))
    \<and> total_errors (summarize elapsed results) = count_sum (report_error_types (summarize elapsed results))
    \<and> (if total_requests (summarize elapsed results) = 0
       then latency_p50 (summarize elapsed results) = None
       else \<exists>p50 p95 p99. latency_p50 (summarize elapsed results) = Some p50
          \<and> latency_p95 (summarize elapsed results) = Some p95
          \<and> latency_p99 (summarize elapsed results) = Some p99 \<and> p50 \<le> p95 \<and> p95 \<le> p99)"
proof -
  have ok: "\<forall>r \<in> set results. result_ok r" using assms worker_ok by blast
  then have sums: "map requests results = map (\<lambda>r. count_sum (statuses r)) results"
    "map errors results = map (\<lambda>r. count_sum (error_types r)) results"
    by (simp_all add: result_ok_def)
  let ?lat = "concat (map latencies_ms results)"
  have "?lat = [] \<longleftrightarrow> (\<forall>r \<in> set results. length (latencies_ms r) = 0)" by auto
  also have "\<dots> \<longleftrightarrow> (\<forall>r \<in> set results. requests r = 0)"
  proof -
    have "min LATENCY_CAP n = 0 \<longleftrightarrow> n = 0" for n by (auto simp: LATENCY_CAP_def min_def)
    with ok show ?thesis by (metis result_ok_def)
  qed
  also have "\<dots> \<longleftrightarrow> sum_list (map requests results) = 0" by (simp add: sum_list_eq_0_iff)
  finally have empty: "?lat = [] \<longleftrightarrow> sum_list (map requests results) = 0" .
  have "\<exists>p50 p95 p99. map_option (round_to 3) (percentile ?lat 50) = Some p50
      \<and> map_option (round_to 3) (percentile ?lat 95) = Some p95
      \<and> map_option (round_to 3) (percentile ?lat 99) = Some p99 \<and> p50 \<le> p95 \<and> p95 \<le> p99" if "?lat \<noteq> []"
  proof -
    from percentile_known [OF that] obtain a b c where
      "percentile ?lat 50 = Some a" "percentile ?lat 95 = Some b" "percentile ?lat 99 = Some c" by metis
    moreover from this have "a \<le> b" "b \<le> c"
      using percentile_mono [of 50 95 ?lat a b] percentile_mono [of 95 99 ?lat b c] by simp_all
    ultimately show ?thesis by (simp add: round_to_mono)
  qed
  with empty show ?thesis
    by (simp add: summarize_def Let_def total_sort_key total_merge_all sums percentile_def)
qed

definition sample_result :: worker_result where
  "sample_result = snd (worker_turn (Answered 200 5) (False, new_result))"

theorem summarize_consistent_witness:
  "total_requests (summarize 1 [sample_result]) = 1
   \<and> (\<exists>p50 p95 p99. latency_p50 (summarize 1 [sample_result]) = Some p50
        \<and> latency_p95 (summarize 1 [sample_result]) = Some p95
        \<and> latency_p99 (summarize 1 [sample_result]) = Some p99 \<and> p50 \<le> p95 \<and> p95 \<le> p99)"
proof -
  have "worker (\<lambda>i. of_nat i) (\<lambda>i. Answered 200 5) 1 = Some sample_result"
    unfolding worker_def sample_result_def by (subst worker_loop.simps, subst worker_loop.simps) simp
  then have "\<forall>r \<in> set [sample_result]. \<exists>clock attempts stop_at. worker clock attempts stop_at = Some r"
    by auto
  moreover have one: "total_requests (summarize 1 [sample_result]) = 1"
    by (simp add: summarize_def Let_def sample_result_def new_result_def)
  ultimately show ?thesis
    using summarize_consistent [of "[sample_result]" 1] unfolding one if_not_P [OF one_neq_zero] by blast
qed

section \<open>The counters are bags\<close>

text \<open>A counter behind an interface: what is in it is a bag.\<close>

locale counter =
  fixes empty :: 'd and add :: "'k \<Rightarrow> nat \<Rightarrow> 'd \<Rightarrow> 'd" and bag :: "'d \<Rightarrow> 'k multiset"
  assumes bag_empty: "bag empty = {#}"
    and bag_add: "bag (add k n d) = bag d + replicate_mset n k"
begin

lemma bag_fold: "bag (fold (\<lambda>(k, n). add k n) kns d) = bag d + (\<Sum>(k, n) \<leftarrow> kns. replicate_mset n k)"
  by (induction kns arbitrary: d) (auto simp: bag_add)

lemma bag_tally: "bag (fold (\<lambda>k. add k 1) ks empty) = mset ks"
proof -
  have "bag (fold (\<lambda>k. add k 1) ks d) = bag d + mset ks" for d
    by (induction ks arbitrary: d) (simp_all add: bag_add)
  then show ?thesis by (simp add: bag_empty)
qed

end

definition count_bag :: "('k \<times> nat) list \<Rightarrow> 'k multiset" where
  "count_bag d = (\<Sum>(k, n) \<leftarrow> d. replicate_mset n k)"

lemma replicate_mset_add: "replicate_mset (m + n) k = replicate_mset m k + replicate_mset n k"
  by (induction m) simp_all

lemma count_bag_update: "map_of d k = Some m \<Longrightarrow> count_bag (dset k (m + n) d) = count_bag d + replicate_mset n k"
  by (induction d) (auto simp: count_bag_def replicate_mset_add)

interpretation cnt: counter "[]" add_count count_bag
proof
  show "count_bag [] = {#}" by (simp add: count_bag_def)
  show "count_bag (add_count k n d) = count_bag d + replicate_mset n k" for k :: 'k and n d
  proof (cases "map_of d k")
    case None
    then have "dset k n d = d @ [(k, n)]" by (simp add: update_new)
    with None show ?thesis by (simp add: add_count_def count_bag_def)
  qed (simp add: add_count_def count_bag_update)
qed

lemma count_bag_merge: "count_bag (merge_counts new d) = count_bag d + count_bag new"
  unfolding merge_counts_def cnt.bag_fold by (simp add: count_bag_def)

lemma count_bag_merge_all:
  "count_bag (fold (\<lambda>r. merge_counts (f r)) rs d) = count_bag d + (\<Sum>r \<leftarrow> rs. count_bag (f r))"
  by (induction rs arbitrary: d) (simp_all add: count_bag_merge)

lemma count_bag_sort: "count_bag (sort_key key d) = count_bag d"
  unfolding count_bag_def by (metis mset_map mset_sort sum_mset_sum_list)

lemma size_count_bag: "size (count_bag d) = count_sum d"
  by (induction d) (auto simp: count_bag_def)

section \<open>The report is a tally of what happened\<close>

text \<open>What a sequence of attempts amounts to, without counters.\<close>

definition answers :: "attempt list \<Rightarrow> int list" where
  "answers trail = concat (map (\<lambda>a. case a of Answered s _ \<Rightarrow> [s] | Raised _ \<Rightarrow> []) trail)"

definition faults :: "attempt list \<Rightarrow> string list" where
  "faults trail = concat (map (\<lambda>a. case a of Answered _ _ \<Rightarrow> [] | Raised e \<Rightarrow> [e]) trail)"

text \<open>The abstraction of a result, and the effect of one attempt on it.\<close>

definition result_bags :: "worker_result \<Rightarrow> int multiset \<times> string multiset" where
  "result_bags r = (count_bag (statuses r), count_bag (error_types r))"

fun bag_turn :: "attempt \<Rightarrow> int multiset \<times> string multiset \<Rightarrow> int multiset \<times> string multiset" where
  "bag_turn (Answered s _) (a, f) = (add_mset s a, f)"
| "bag_turn (Raised e) (a, f) = (a, add_mset e f)"

lemma worker_turn_refines: "result_bags (snd (worker_turn a s)) = bag_turn a (result_bags (snd s))"
  by (cases s; cases a) (simp_all add: result_bags_def cnt.bag_add)

lemma bag_turns: "fold bag_turn trail (a, f) = (a + mset (answers trail), f + mset (faults trail))"
  by (induction trail arbitrary: a f) (auto simp: answers_def faults_def split: attempt.splits)

lemma turns_refine:
  "result_bags (snd (fold (\<lambda>i. worker_turn (attempts i)) is s)) = fold bag_turn (map attempts is) (result_bags (snd s))"
  by (induction "is" arbitrary: s) (simp_all add: worker_turn_refines)

text \<open>The attempts of a worker: its attempts up to its deadline.\<close>

definition worker_log :: "(nat \<Rightarrow> rat) \<Rightarrow> (nat \<Rightarrow> attempt) \<Rightarrow> rat \<Rightarrow> attempt list \<Rightarrow> bool" where
  "worker_log clock attempts stop_at trail \<longleftrightarrow>
     (\<exists>n. trail = map attempts [0..<n] \<and> (\<forall>i < n. clock i < stop_at) \<and> stop_at \<le> clock n)"

lemma worker_loop_stops:
  assumes "worker_loop clock attempts stop_at i s = Some r"
  shows "\<exists>n \<ge> i. stop_at \<le> clock n \<and> (\<forall>j. i \<le> j \<longrightarrow> j < n \<longrightarrow> clock j < stop_at)"
  using assms
proof (rule worker_loop.raw_induct
    [where P = "\<lambda>clock _ stop_at i _ _. \<exists>n \<ge> i. stop_at \<le> clock n \<and> (\<forall>j. i \<le> j \<longrightarrow> j < n \<longrightarrow> clock j < stop_at)", rotated])
  fix loop :: "(nat \<Rightarrow> rat) \<Rightarrow> (nat \<Rightarrow> attempt) \<Rightarrow> rat \<Rightarrow> nat \<Rightarrow> bool \<times> worker_result \<Rightarrow> worker_result option"
    and clock attempts stop_at i s r
  assume IH: "\<And>clock attempts stop_at i s r. loop clock attempts stop_at i s = Some r \<Longrightarrow>
      \<exists>n \<ge> i. stop_at \<le> clock n \<and> (\<forall>j. i \<le> j \<longrightarrow> j < n \<longrightarrow> clock j < stop_at)"
    and eq: "(if clock i < stop_at then loop clock attempts stop_at (Suc i) (worker_turn (attempts i) s)
          else Some (snd s)) = Some r"
  show "\<exists>n \<ge> i. stop_at \<le> clock n \<and> (\<forall>j. i \<le> j \<longrightarrow> j < n \<longrightarrow> clock j < stop_at)"
  proof (cases "clock i < stop_at")
    case True
    with eq IH obtain n where "n \<ge> Suc i" "stop_at \<le> clock n" "\<forall>j. Suc i \<le> j \<longrightarrow> j < n \<longrightarrow> clock j < stop_at"
      by metis
    with True show ?thesis by (metis Suc_leD le_antisym not_less_eq_eq)
  qed auto
qed

lemma new_bags: "result_bags new_result = ({#}, {#})"
  by (simp add: result_bags_def new_result_def cnt.bag_empty)

lemma worker_refines:
  assumes "worker clock attempts stop_at = Some r"
  shows "\<exists>trail. worker_log clock attempts stop_at trail \<and> result_bags r = (mset (answers trail), mset (faults trail))"
proof -
  from worker_loop_stops [OF assms [unfolded worker_def]] obtain n where
    n: "stop_at \<le> clock n" "\<forall>j < n. clock j < stop_at" by auto
  from worker_loop_returns [of stop_at clock 0 n attempts] n assms
  have "r = snd (fold (\<lambda>j. worker_turn (attempts j)) [0..<n] (False, new_result))"
    by (simp add: worker_def)
  then have "result_bags r = (mset (answers (map attempts [0..<n])), mset (faults (map attempts [0..<n])))"
    using new_bags by (simp add: turns_refine bag_turns)
  moreover have "worker_log clock attempts stop_at (map attempts [0..<n])"
    using n by (auto simp: worker_log_def)
  ultimately show ?thesis by blast
qed

lemma workers_refine:
  assumes "those (map (\<lambda>w. worker (clock w) (attempts w) stop_at) ws) = Some results"
  shows "\<exists>trails. list_all2 (\<lambda>w. worker_log (clock w) (attempts w) stop_at) ws trails
    \<and> map result_bags results = map (\<lambda>trail. (mset (answers trail), mset (faults trail))) trails
    \<and> list_all result_ok results"
  using assms
proof (induction ws arbitrary: results)
  case (Cons w ws)
  then obtain r rs where "worker (clock w) (attempts w) stop_at = Some r" and results: "results = r # rs"
    and rest: "those (map (\<lambda>w. worker (clock w) (attempts w) stop_at) ws) = Some rs"
    by (auto split: option.splits)
  moreover from this(1) obtain trail where "worker_log (clock w) (attempts w) stop_at trail"
    "result_bags r = (mset (answers trail), mset (faults trail))" using worker_refines by blast
  moreover obtain trails where "list_all2 (\<lambda>w. worker_log (clock w) (attempts w) stop_at) ws trails"
    "map result_bags rs = map (\<lambda>trail. (mset (answers trail), mset (faults trail))) trails" "list_all result_ok rs"
    using Cons.IH [OF rest] by blast
  ultimately show ?case using worker_ok by (intro exI [of _ "trail # trails"]) simp
qed simp

text \<open>
  C27. The flood report is a tally of what happened: a run gives a report only for a target the guard
  permits, and then the status counts and the error counts of the report are, as bags, exactly the
  answers and the faults of all attempts the workers made before the deadline, one sequence per worker,
  and the totals are their numbers.
\<close>

theorem flood_report_refines_log:
  assumes "flood_main resolve now measured clock attempts args = Inr (Some report)"
  shows "\<exists>parsed trails. assert_loopback resolve (flood_url args) (flood_allow_non_loopback args) = Inr parsed
          \<and> list_all2 (\<lambda>w. worker_log (clock w) (attempts (request_target parsed) w) (now + flood_duration args))
              [0..<nat (max 1 (flood_workers args))] trails
          \<and> count_bag (report_statuses report) = mset (concat (map answers trails))
          \<and> count_bag (report_error_types report) = mset (concat (map faults trails))
          \<and> total_requests report = length (concat (map answers trails))
          \<and> total_errors report = length (concat (map faults trails))"
proof -
  let ?ws = "[0..<nat (max 1 (flood_workers args))]" and ?stop = "now + flood_duration args"
  from assms obtain parsed results where
    guard: "assert_loopback resolve (flood_url args) (flood_allow_non_loopback args) = Inr parsed"
    and results: "those (map (\<lambda>w. worker (clock w) (attempts (request_target parsed) w) ?stop) ?ws) = Some results"
    and report: "report = summarize measured results"
    by (auto simp: flood_main_def rbind_Inr_iff Let_def)
  from workers_refine [OF results] obtain trails where
    trails: "list_all2 (\<lambda>w. worker_log (clock w) (attempts (request_target parsed) w) ?stop) ?ws trails"
    and bags: "map result_bags results = map (\<lambda>trail. (mset (answers trail), mset (faults trail))) trails"
    and ok: "list_all result_ok results" by blast
  have st: "map (\<lambda>r. count_bag (statuses r)) results = map (\<lambda>trail. mset (answers trail)) trails"
    and er: "map (\<lambda>r. count_bag (error_types r)) results = map (\<lambda>trail. mset (faults trail)) trails"
    using arg_cong [OF bags, of "map fst"] arg_cong [OF bags, of "map snd"]
    by (simp_all add: result_bags_def comp_def)
  have concat: "(\<Sum>xs \<leftarrow> xss. mset xs) = mset (concat xss)" for xss :: "'b list list"
    by (induction xss) simp_all
  have statuses: "count_bag (report_statuses report) = mset (concat (map answers trails))"
    using st concat [of "map answers trails"]
    by (simp add: report summarize_def Let_def count_bag_sort count_bag_merge_all cnt.bag_empty comp_def)
  have types: "count_bag (report_error_types report) = mset (concat (map faults trails))"
    using er concat [of "map faults trails"]
    by (simp add: report summarize_def Let_def count_bag_sort count_bag_merge_all cnt.bag_empty comp_def)
  have "sum_list (map requests results) = (\<Sum>r \<leftarrow> results. count_sum (statuses r))"
    and "sum_list (map errors results) = (\<Sum>r \<leftarrow> results. count_sum (error_types r))"
    using ok by (auto simp: list_all_iff result_ok_def intro!: arg_cong [where f = sum_list])
  then have "total_requests report = count_sum (report_statuses report)"
    "total_errors report = count_sum (report_error_types report)"
    by (simp_all add: report summarize_def Let_def total_sort_key total_merge_all)
  with statuses types have "total_requests report = length (concat (map answers trails))"
    "total_errors report = length (concat (map faults trails))"
    by (metis size_count_bag size_mset)+
  with guard trails statuses types show ?thesis by blast
qed

definition sample_flood :: flood_args where
  "sample_flood = \<lparr>flood_url = ''http://localhost/'', flood_duration = 1, flood_workers = 0,
     flood_allow_non_loopback = False\<rparr>"

theorem flood_report_refines_log_witness:
  "\<exists>report trails. flood_main sample_resolver 0 1 (\<lambda>w i. of_nat i) (\<lambda>target w i. Answered 200 5) sample_flood = Inr (Some report)
     \<and> list_all2 (\<lambda>w. worker_log (\<lambda>i. of_nat i) (\<lambda>i. Answered 200 5) 1) [0 :: nat] trails
     \<and> count_bag (report_statuses report) = mset (concat (map answers trails))"
proof -
  have guard: "\<exists>parsed. assert_loopback sample_resolver ''http://localhost/'' False = Inr parsed"
  proof -
    have "case assert_loopback sample_resolver ''http://localhost/'' False of Inr _ \<Rightarrow> True | Inl _ \<Rightarrow> False"
      by code_simp
    then show ?thesis by (auto split: sum.splits)
  qed
  have "worker (\<lambda>i. of_nat i) (\<lambda>i. Answered 200 5) 1 = Some sample_result"
    unfolding worker_def sample_result_def by (subst worker_loop.simps, subst worker_loop.simps) simp
  with guard obtain report where run:
    "flood_main sample_resolver 0 1 (\<lambda>w i. of_nat i) (\<lambda>target w i. Answered 200 5) sample_flood = Inr (Some report)"
    by (auto simp: flood_main_def sample_flood_def)
  have args: "[0..<nat (max 1 (flood_workers sample_flood))] = [0]" "0 + flood_duration sample_flood = 1"
    by (simp_all add: sample_flood_def)
  from flood_report_refines_log [OF run] run show ?thesis unfolding args by blast
qed

end
