(* ===== verification/Bench_Phase.thy ===== *)
theory Bench_Phase
  imports Bench_Traffic Flood_Worker
begin

text \<open>
  A phase of \<open>tools/run_defense_bench.py\<close>: what a worker sends and counts, how the counts of the
  workers are put together while some of them may hang, the summary of a phase, and the score of an
  attack phase and a probe of benign traffic.  Clock readings, random draws and what comes of each
  request are parameters.
\<close>

section \<open>Results of a phase\<close>

record phase_result =
  ph_requests :: nat
  ph_errors :: nat
  ph_hung_workers :: nat
  ph_workers :: int
  ph_statuses :: "(int \<times> nat) list"
  ph_first_status_at :: "(int \<times> rat) list"
  ph_latencies_ms :: "rat list"
  ph_error_samples :: "string list"
  ph_elapsed_seconds :: rat

definition new_phase :: phase_result where
  "new_phase = \<lparr>ph_requests = 0, ph_errors = 0, ph_hung_workers = 0, ph_workers = 0, ph_statuses = [],
     ph_first_status_at = [], ph_latencies_ms = [], ph_error_samples = [], ph_elapsed_seconds = 0\<rparr>"

definition ERROR_SAMPLE_LIMIT :: nat where
  "ERROR_SAMPLE_LIMIT = 8"

definition PHASE_LATENCY_CAP :: nat where
  "PHASE_LATENCY_CAP = 5000"

text \<open>What \<open>record_error\<close> is given: a text, or an exception with its class and its text.\<close>

datatype fault = Message string | Exception string string

fun fault_text :: "fault \<Rightarrow> string" where
  "fault_text (Message s) = s"
| "fault_text (Exception exc s) = exc @ '': '' @ s"

definition record_error :: "fault \<Rightarrow> phase_result \<Rightarrow> phase_result" where
  "record_error err r =
     r\<lparr>ph_errors := ph_errors r + 1,
       ph_error_samples :=
         (if length (ph_error_samples r) < ERROR_SAMPLE_LIMIT
          then ph_error_samples r @ [take 240 (fault_text err)] else ph_error_samples r)\<rparr>"

section \<open>A worker\<close>

text \<open>A response: the status, the \<open>Connection\<close> header, \<open>will_close\<close>, and the clock when it was read.\<close>

record response =
  resp_status :: int
  resp_connection :: "string option"
  resp_will_close :: bool
  resp_now :: rat

definition response_closes_connection :: "response \<Rightarrow> bool" where
  "response_closes_connection resp =
     (let connection = (case resp_connection resp of None \<Rightarrow> [] | Some s \<Rightarrow> s);
          tokens = map (\<lambda>token. str_lower (str_strip token)) (split_on (CHR '','') connection)
      in ''close'' \<in> set tokens \<or> resp_will_close resp)"

text \<open>
  A request is answered; or the connection is lost (\<open>RemoteDisconnected\<close>, \<open>BrokenPipeError\<close>,
  \<open>ConnectionResetError\<close>, \<open>TimeoutError\<close>); or another exception is raised.
\<close>

datatype exchange = Response response | Lost fault | Failed fault

definition record_response :: "rat \<Rightarrow> rat \<Rightarrow> response \<Rightarrow> phase_result \<Rightarrow> phase_result" where
  "record_response started req_started resp r =
     (let now = resp_now resp;
          elapsed_ms = (now - req_started) * 1000
      in r\<lparr>ph_requests := ph_requests r + 1,
           ph_statuses := add_count (resp_status resp) 1 (ph_statuses r),
           ph_first_status_at :=
             (case map_of (ph_first_status_at r) (resp_status resp) of
                None \<Rightarrow> dset (resp_status resp) (now - started) (ph_first_status_at r)
              | Some _ \<Rightarrow> ph_first_status_at r),
           ph_latencies_ms :=
             (if length (ph_latencies_ms r) < PHASE_LATENCY_CAP
              then ph_latencies_ms r @ [elapsed_ms] else ph_latencies_ms r)\<rparr>)"

text \<open>
  The loop \<open>for attempt in range(2)\<close>.  \<open>send\<close> is given the attempt and whether a connection is open;
  the state is whether one is, and the counts of the worker.
\<close>

fun request_attempts ::
  "(nat \<Rightarrow> bool \<Rightarrow> exchange) \<Rightarrow> rat \<Rightarrow> rat \<Rightarrow> nat list \<Rightarrow> bool \<times> phase_result \<Rightarrow> bool \<times> phase_result" where
  "request_attempts send started req_started [] state = state"
| "request_attempts send started req_started (attempt # rest) (conn, local) =
     (case send attempt conn of
        Response resp \<Rightarrow>
          (\<not> response_closes_connection resp, record_response started req_started resp local)
      | Lost err \<Rightarrow>
          if attempt = 0 then request_attempts send started req_started rest (False, local)
          else (False, record_error err local)
      | Failed err \<Rightarrow> (False, record_error err local))"

text \<open>
  What a worker meets: the clock at the head of each turn and at the start of each request, the draws
  of its generator, and what comes of a request (by turn, attempt and whether the connection was open).
\<close>

record worker_world =
  head_clock :: "nat \<Rightarrow> rat"
  request_clock :: "nat \<Rightarrow> rat"
  worker_draws :: "nat list"
  send_request :: "nat \<Rightarrow> nat \<Rightarrow> bool \<Rightarrow> bench_request \<Rightarrow> exchange"

definition bench_turn ::
  "string \<Rightarrow> bool \<Rightarrow> rat \<Rightarrow> worker_world \<Rightarrow> nat \<Rightarrow> nat list \<times> bool \<times> phase_result
   \<Rightarrow> nat list \<times> bool \<times> phase_result" where
  "bench_turn scenario bypass started world i state =
     (case state of (draws, conn, local) \<Rightarrow>
        case run_state (draw_request scenario bypass) draws of (request, draws') \<Rightarrow>
          (draws', request_attempts (\<lambda>attempt open. send_request world i attempt open request)
                     started (request_clock world i) [0, 1] (conn, local)))"

partial_function (option) bench_loop ::
  "string \<Rightarrow> bool \<Rightarrow> rat \<Rightarrow> rat \<Rightarrow> worker_world \<Rightarrow> nat \<Rightarrow> nat list \<times> bool \<times> phase_result \<Rightarrow> phase_result option" where
  "bench_loop scenario bypass started stop_at world i state =
     (if head_clock world i < stop_at
      then bench_loop scenario bypass started stop_at world (Suc i)
             (bench_turn scenario bypass started world i state)
      else Some (snd (snd state)))"

definition bench_worker :: "string \<Rightarrow> bool \<Rightarrow> rat \<Rightarrow> rat \<Rightarrow> worker_world \<Rightarrow> phase_result option" where
  "bench_worker scenario bypass started stop_at world =
     bench_loop scenario bypass started stop_at world 0 (worker_draws world, False, new_phase)"

section \<open>A phase\<close>

text \<open>The part of a worker under the lock.\<close>

definition earliest :: "int \<times> rat \<Rightarrow> (int \<times> rat) list \<Rightarrow> (int \<times> rat) list" where
  "earliest entry d =
     (case entry of (status, first_at) \<Rightarrow>
        case map_of d status of
          None \<Rightarrow> dset status first_at d
        | Some known \<Rightarrow> if first_at < known then dset status first_at d else d)"

definition merge_local :: "phase_result \<Rightarrow> phase_result \<Rightarrow> phase_result" where
  "merge_local local r =
     r\<lparr>ph_requests := ph_requests r + ph_requests local,
       ph_errors := ph_errors r + ph_errors local,
       ph_statuses := merge_counts (ph_statuses local) (ph_statuses r),
       ph_latencies_ms := ph_latencies_ms r @ ph_latencies_ms local,
       ph_error_samples :=
         ph_error_samples r
         @ take (ERROR_SAMPLE_LIMIT - length (ph_error_samples r)) (ph_error_samples local),
       ph_first_status_at := fold earliest (ph_first_status_at local) (ph_first_status_at r)\<rparr>"

definition add_hung :: "nat \<Rightarrow> phase_result \<Rightarrow> phase_result" where
  "add_hung n r =
     r\<lparr>ph_hung_workers := ph_hung_workers r + n,
       ph_errors := ph_errors r + n,
       ph_error_samples :=
         ph_error_samples r
         @ replicate (min n (ERROR_SAMPLE_LIMIT - length (ph_error_samples r)))
             ''hung worker exceeded phase join deadline''\<rparr>"

text \<open>
  What happens to the shared result, in order: a worker comes to the lock with its counts, or the join
  deadline has passed and some number of threads was still alive.  Once threads were given up, workers
  that come late drop their counts.
\<close>

datatype phase_event = Merges nat | Overdue nat

fun phase_step ::
  "(nat \<Rightarrow> phase_result option) \<Rightarrow> phase_event \<Rightarrow> bool \<times> phase_result \<Rightarrow> bool \<times> phase_result" where
  "phase_step locals (Merges w) (abandoned, r) =
     (if abandoned then (abandoned, r)
      else case locals w of None \<Rightarrow> (abandoned, r) | Some local \<Rightarrow> (abandoned, merge_local local r))"
| "phase_step locals (Overdue n) (abandoned, r) =
     (if n = 0 then (abandoned, r) else (True, add_hung n r))"

text \<open>
  The surroundings of a phase: the clock when the deadline is set, when the measurement starts and
  when it ends; the generator of a seed; the world of each worker; and the order of events.
\<close>

record phase_world =
  deadline_clock :: rat
  started_clock :: rat
  ended_clock :: rat
  generator :: "nat \<Rightarrow> nat list"
  worker_worlds :: "nat \<Rightarrow> worker_world"
  phase_events :: "phase_event list"

text \<open>What worker \<open>w\<close> counts, if there is such a worker and it returns.\<close>

definition phase_local :: "phase_world \<Rightarrow> string \<Rightarrow> rat \<Rightarrow> int \<Rightarrow> bool \<Rightarrow> nat \<Rightarrow> phase_result option" where
  "phase_local world scenario duration phase_workers bypass w =
     (if int w < max 1 phase_workers
      then bench_worker scenario bypass (started_clock world) (deadline_clock world + duration)
             ((worker_worlds world w)\<lparr>worker_draws := generator world ((w + 1) * 7919)\<rparr>)
      else None)"

definition run_phase ::
  "phase_world \<Rightarrow> string \<Rightarrow> rat \<Rightarrow> int \<Rightarrow> bool \<Rightarrow> bool \<Rightarrow> phase_result" where
  "run_phase world scenario duration workers bypass direct_baseline =
     (let phase_workers = scenario_worker_count scenario workers bypass direct_baseline;
          locals = phase_local world scenario duration phase_workers bypass;
          r = snd (fold (phase_step locals) (phase_events world) (False, new_phase\<lparr>ph_workers := phase_workers\<rparr>))
      in r\<lparr>ph_elapsed_seconds := max (1 / 1000) (ended_clock world - started_clock world)\<rparr>)"

section \<open>The summary and the score\<close>

definition status_count :: "phase_result \<Rightarrow> int \<Rightarrow> nat" where
  "status_count r status = (case map_of (ph_statuses r) status of None \<Rightarrow> 0 | Some n \<Rightarrow> n)"

definition allowed_count :: "phase_result \<Rightarrow> nat" where
  "allowed_count r = sum_list (map snd (filter (\<lambda>(status, n). 200 \<le> status \<and> status < 300) (ph_statuses r)))"

text \<open>\<open>round((n / max(1, requests)) * 100, 2)\<close>.\<close>

definition percent_of :: "phase_result \<Rightarrow> nat \<Rightarrow> rat" where
  "percent_of r n = round_to 2 (of_nat n / of_nat (max 1 (ph_requests r)) * 100)"

definition rounded :: "nat \<Rightarrow> rat option \<Rightarrow> pyval" where
  "rounded n v = (case v of None \<Rightarrow> PNone | Some q \<Rightarrow> PFloat (Fin (round_to n q)))"

definition summarize_phase :: "phase_result \<Rightarrow> dict" where
  "summarize_phase r =
     [(''requests'', PInt (int (ph_requests r))),
      (''errors'', PInt (int (ph_errors r))),
      (''error_samples'', PList (map PStr (ph_error_samples r))),
      (''hung_workers'', PInt (int (ph_hung_workers r))),
      (''workers'', PInt (ph_workers r)),
      (''requests_per_second'',
         PFloat (Fin (round_to 2 (of_nat (ph_requests r) / max (1 / 1000) (ph_elapsed_seconds r))))),
      (''statuses'', PDict (map (\<lambda>(status, n). (int_str status, PInt (int n))) (sort_key fst (ph_statuses r)))),
      (''allowed_percent'', PFloat (Fin (percent_of r (allowed_count r)))),
      (''blocked_percent'', PFloat (Fin (percent_of r (status_count r 403)))),
      (''limited_percent'', PFloat (Fin (percent_of r (status_count r 429)))),
      (''first_block_seconds'', rounded 3 (map_of (ph_first_status_at r) 403)),
      (''first_limit_seconds'', rounded 3 (map_of (ph_first_status_at r) 429)),
      (''latency_ms'',
         PDict [(''p50'', rounded 3 (percentile (ph_latencies_ms r) 50)),
                (''p95'', rounded 3 (percentile (ph_latencies_ms r) 95)),
                (''p99'', rounded 3 (percentile (ph_latencies_ms r) 99))])]"

text \<open>The share of an attack that was stopped: blocked, limited, or failed.\<close>

definition attacker_stopped_percent :: "phase_result \<Rightarrow> rat" where
  "attacker_stopped_percent r =
     (let stopped = (percent_of r (status_count r 403) + percent_of r (status_count r 429)) / 100
            * of_nat (ph_requests r);
          attempts = ph_requests r + ph_errors r
      in if attempts = 0 then 0
         else min 100 ((stopped + of_nat (ph_errors r)) / of_nat attempts * 100))"

definition target_score :: "phase_result option \<Rightarrow> phase_result option \<Rightarrow> dict" where
  "target_score replay bypass =
     (let blocked = (case replay of None \<Rightarrow> 0 | Some r \<Rightarrow> percent_of r (status_count r 403));
          limited = (case replay of None \<Rightarrow> 0 | Some r \<Rightarrow> percent_of r (status_count r 429));
          replay_errors = (case replay of None \<Rightarrow> 0 | Some r \<Rightarrow> ph_errors r);
          attacker_stopped = (case replay of None \<Rightarrow> 0 | Some r \<Rightarrow> attacker_stopped_percent r);
          benign_allowed = map_option (\<lambda>r. percent_of r (allowed_count r)) bypass;
          bypass_errors = (case bypass of None \<Rightarrow> 0 | Some r \<Rightarrow> ph_errors r)
      in [(''attacker_block_target_percent'', PFloat (Fin 90)),
          (''benign_allow_target_percent'', PFloat (Fin 95)),
          (''attacker_blocked_percent'', PFloat (Fin blocked)),
          (''attacker_limited_percent'', PFloat (Fin limited)),
          (''attacker_blocked_or_limited_percent'', PFloat (Fin attacker_stopped)),
          (''benign_allowed_percent'', (case benign_allowed of None \<Rightarrow> PNone | Some q \<Rightarrow> PFloat (Fin q))),
          (''replay_errors'', PInt (int replay_errors)),
          (''bypass_errors'', PInt (int bypass_errors)),
          (''meets_attacker_block_target'', PBool (90 \<le> attacker_stopped)),
          (''meets_benign_allow_target'',
             PBool ((case benign_allowed of None \<Rightarrow> False | Some q \<Rightarrow> 95 \<le> q) \<and> bypass_errors = 0))])"

section \<open>What the counts of a phase satisfy\<close>

definition phase_inv :: "phase_result \<Rightarrow> bool" where
  "phase_inv r \<longleftrightarrow>
     distinct (map fst (ph_statuses r)) \<and> ph_requests r = count_sum (ph_statuses r)
     \<and> length (ph_error_samples r) = min ERROR_SAMPLE_LIMIT (ph_errors r)
     \<and> (\<forall>s \<in> set (ph_error_samples r). length s \<le> 240)
     \<and> ph_hung_workers r \<le> ph_errors r"

named_theorems phase_kept \<open>steps that keep the invariant of a phase\<close>

lemma phase_inv_new [phase_kept]: "phase_inv (new_phase\<lparr>ph_workers := n\<rparr>)" "phase_inv new_phase"
  by (simp_all add: phase_inv_def new_phase_def)

lemma distinct_add_count: "distinct (map fst d) \<Longrightarrow> distinct (map fst (add_count k n d))"
  unfolding add_count_def by (rule distinct_update)

lemma distinct_merge_counts: "distinct (map fst d) \<Longrightarrow> distinct (map fst (merge_counts new d))"
  unfolding merge_counts_def by (induction new arbitrary: d) (auto simp: distinct_add_count)

lemma phase_inv_error [phase_kept]: "phase_inv r \<Longrightarrow> phase_inv (record_error err r)"
  by (auto simp: phase_inv_def record_error_def)

lemma phase_inv_response [phase_kept]: "phase_inv r \<Longrightarrow> phase_inv (record_response started req_started resp r)"
  by (simp add: phase_inv_def record_response_def Let_def total_add_count distinct_add_count)

lemma phase_inv_merge [phase_kept]:
  assumes "phase_inv local" and "phase_inv r"
  shows "phase_inv (merge_local local r)"
  using assms by (auto simp: phase_inv_def merge_local_def total_merge_counts distinct_merge_counts dest!: in_set_takeD)

lemma phase_inv_hung [phase_kept]: "phase_inv r \<Longrightarrow> phase_inv (add_hung n r)"
  by (auto simp: phase_inv_def add_hung_def)

lemma request_attempts_inv [phase_kept]:
  "phase_inv (snd state) \<Longrightarrow> phase_inv (snd (request_attempts send started req_started attempts state))"
  by (induction send started req_started attempts state rule: request_attempts.induct)
    (auto split: exchange.splits intro: phase_kept)

lemma bench_turn_inv [phase_kept]:
  "phase_inv (snd (snd state)) \<Longrightarrow> phase_inv (snd (snd (bench_turn scenario bypass started world i state)))"
  by (cases state) (simp add: bench_turn_def request_attempts_inv del: request_attempts.simps split: prod.splits)

lemma bench_loop_inv:
  assumes "bench_loop scenario bypass started stop_at world i state = Some r"
  shows "phase_inv (snd (snd state)) \<longrightarrow> phase_inv r"
  using assms
proof (rule bench_loop.raw_induct [where P = "\<lambda>_ _ _ _ _ _ state r. phase_inv (snd (snd state)) \<longrightarrow> phase_inv r", rotated])
  fix loop scenario bypass started stop_at world i state r
  assume "\<And>a b c d e f g h. loop a b c d e f g = Some h \<Longrightarrow> phase_inv (snd (snd g)) \<longrightarrow> phase_inv h"
    and "(if head_clock world i < stop_at
          then loop scenario bypass started stop_at world (Suc i) (bench_turn scenario bypass started world i state)
          else Some (snd (snd state))) = Some r"
  then show "phase_inv (snd (snd state)) \<longrightarrow> phase_inv r" using bench_turn_inv by (metis option.inject)
qed

lemma bench_worker_inv: "bench_worker scenario bypass started stop_at world = Some r \<Longrightarrow> phase_inv r"
  unfolding bench_worker_def using bench_loop_inv phase_inv_new by fastforce

lemma phase_step_inv:
  assumes "\<And>w local. locals w = Some local \<Longrightarrow> phase_inv local" and "phase_inv (snd state)"
  shows "phase_inv (snd (phase_step locals event state))"
  using assms by (cases state; cases event) (auto split: option.splits intro: phase_kept)

lemma phase_fold_inv:
  assumes "\<And>w local. locals w = Some local \<Longrightarrow> phase_inv local" and "phase_inv (snd state)"
  shows "phase_inv (snd (fold (phase_step locals) events state))"
  using assms(2) by (induction events arbitrary: state) (simp_all add: phase_step_inv [OF assms(1)])

lemma run_phase_inv: "phase_inv (run_phase world scenario duration workers bypass direct_baseline)"
proof -
  have elapsed: "phase_inv (r\<lparr>ph_elapsed_seconds := t\<rparr>) \<longleftrightarrow> phase_inv r" for r t by (simp add: phase_inv_def)
  show ?thesis
    unfolding run_phase_def Let_def elapsed
    by (rule phase_fold_inv) (auto simp: phase_local_def split: if_splits intro: bench_worker_inv phase_kept)
qed

section \<open>How exact the score is\<close>

lemma round_half_even_error: "\<bar>of_int (round_half_even q) - q\<bar> \<le> 1 / 2"
proof -
  have "0 \<le> q - of_int \<lfloor>q\<rfloor>" "q - of_int \<lfloor>q\<rfloor> < 1" by linarith+
  then show ?thesis by (simp add: round_half_even_def Let_def abs_le_iff)
qed

lemma round_to_error: "\<bar>round_to 2 q - q\<bar> \<le> 1 / 200"
proof -
  have "round_to 2 q * 100 = of_int (round_half_even (q * 100))" by (simp add: round_to_def)
  with round_half_even_error [of "q * 100"] show ?thesis by linarith
qed

lemma round_to_nonneg: "0 \<le> q \<Longrightarrow> 0 \<le> round_to n q"
  using round_to_mono [of 0 q n] by (simp add: round_to_def round_half_even_def)

lemma status_count_le:
  assumes "a \<noteq> b"
  shows "status_count r a + status_count r b \<le> count_sum (ph_statuses r)"
proof -
  have one: "(case map_of d k of None \<Rightarrow> 0 | Some n \<Rightarrow> n) \<le> count_sum d" for d :: "(int \<times> nat) list" and k
    by (induction d) (auto split: option.splits)
  have "(case map_of d a of None \<Rightarrow> 0 | Some n \<Rightarrow> n) + (case map_of d b of None \<Rightarrow> 0 | Some n \<Rightarrow> n) \<le> count_sum d"
    for d :: "(int \<times> nat) list"
  proof (induction d)
    case (Cons x d)
    then show ?case using assms one [of d a] one [of d b] by (cases x) auto
  qed simp
  then show ?thesis by (simp add: status_count_def)
qed

lemma allowed_count_le: "allowed_count r \<le> count_sum (ph_statuses r)"
proof -
  have "sum_list (map snd (filter P d)) \<le> count_sum d" for P and d :: "(int \<times> nat) list"
    by (induction d) auto
  then show ?thesis by (simp add: allowed_count_def)
qed

text \<open>Percentages as they are, not as they are rounded.\<close>

definition exact_allowed :: "phase_result \<Rightarrow> rat" where
  "exact_allowed r = 100 * of_nat (allowed_count r) / of_nat (ph_requests r)"

definition exact_stopped :: "phase_result \<Rightarrow> rat" where
  "exact_stopped r =
     100 * of_nat (status_count r 403 + status_count r 429 + ph_errors r) / of_nat (ph_requests r + ph_errors r)"

lemma percent_of_error:
  assumes "n \<le> ph_requests r"
  shows "\<bar>percent_of r n - 100 * of_nat n / of_nat (ph_requests r)\<bar> \<le> 1 / 200"
    and "0 \<le> percent_of r n" and "percent_of r n \<le> 100"
proof -
  let ?q = "of_nat n / of_nat (max 1 (ph_requests r)) * 100 :: rat"
  have q: "?q = 100 * of_nat n / of_nat (ph_requests r)" using assms by (cases "ph_requests r = 0") auto
  show "\<bar>percent_of r n - 100 * of_nat n / of_nat (ph_requests r)\<bar> \<le> 1 / 200"
    using round_to_error [of ?q] unfolding q percent_of_def by simp
  show "0 \<le> percent_of r n" unfolding percent_of_def by (rule round_to_nonneg) simp
  have "of_nat n / of_nat (max 1 (ph_requests r)) \<le> (1 :: rat)" using assms by (simp add: divide_le_eq max_def)
  then have "?q \<le> 1 * 100" by (rule mult_right_mono) simp
  then have "?q \<le> 100" by simp
  from round_to_mono [OF this, of 2] show "percent_of r n \<le> 100"
    by (simp add: percent_of_def round_to_def round_half_even_def)
qed

lemma percent_difference:
  "(p / 100 * n + e) / a * 100 - 100 * (s + e) / a = (p * n - 100 * s) / (a :: rat)"
  by (simp add: add_divide_distrib diff_divide_distrib ring_distribs)

lemma clipped_error: "\<bar>q - x\<bar> \<le> d \<Longrightarrow> x \<le> 100 \<Longrightarrow> \<bar>min 100 q - x\<bar> \<le> (d :: rat)"
  by (auto simp: min_def abs_le_iff)

lemma stopped_error:
  assumes "phase_inv r"
  shows "\<bar>attacker_stopped_percent r - exact_stopped r\<bar> \<le> 1 / 100"
    and "0 \<le> attacker_stopped_percent r" and "attacker_stopped_percent r \<le> 100"
proof -
  define n e b l where ne: "n = ph_requests r" "e = ph_errors r"
    and bl: "b = status_count r 403" "l = status_count r 429"
  have le: "b + l \<le> n" using assms status_count_le [of 403 429 r] by (simp add: phase_inv_def ne bl)
  let ?p = "percent_of r b + percent_of r l"
  let ?raw = "(?p / 100 * of_nat n + of_nat e) / of_nat (n + e) * 100"
  have "100 * of_nat (b + l) / of_nat n = 100 * of_nat b / of_nat n + (100 * of_nat l / of_nat n :: rat)"
    by (simp add: add_divide_distrib ring_distribs)
  moreover have "b \<le> ph_requests r" "l \<le> ph_requests r" using le by (simp_all add: ne)
  ultimately have p: "\<bar>?p - 100 * of_nat (b + l) / of_nat n\<bar> \<le> 1 / 100" "0 \<le> ?p"
    using percent_of_error [of b r] percent_of_error [of l r] unfolding ne by linarith+
  have score: "attacker_stopped_percent r = (if n + e = 0 then 0 else min 100 ?raw)"
    by (simp add: attacker_stopped_percent_def Let_def ne bl)
  have exact: "exact_stopped r = 100 * (of_nat (b + l) + of_nat e) / of_nat (n + e)"
    by (simp add: exact_stopped_def ne bl)
  show "attacker_stopped_percent r \<le> 100" by (simp add: score)
  show "0 \<le> attacker_stopped_percent r" using p(2) by (simp add: score)
  show "\<bar>attacker_stopped_percent r - exact_stopped r\<bar> \<le> 1 / 100"
  proof (cases "n + e = 0")
    case False
    then have pos: "0 < (of_nat (n + e) :: rat)" unfolding of_nat_0_less_iff by simp
    have "?p * of_nat n - 100 * of_nat (b + l) = (?p - 100 * of_nat (b + l) / of_nat n) * of_nat n"
      using le by (cases "n = 0") (simp_all add: left_diff_distrib)
    then have "\<bar>?p * of_nat n - 100 * of_nat (b + l)\<bar> = \<bar>?p - 100 * of_nat (b + l) / of_nat n\<bar> * of_nat n"
      by (simp only: abs_mult abs_of_nat)
    also have "\<dots> \<le> 1 / 100 * of_nat n" using p(1) by (rule mult_right_mono) simp
    also have "\<dots> \<le> 1 / 100 * of_nat (n + e)" by simp
    finally have top: "\<bar>?p * of_nat n - 100 * of_nat (b + l)\<bar> \<le> 1 / 100 * of_nat (n + e)" .
    have "?raw - exact_stopped r = (?p * of_nat n - 100 * of_nat (b + l)) / of_nat (n + e)"
      unfolding exact by (rule percent_difference)
    then have raw: "\<bar>?raw - exact_stopped r\<bar> \<le> 1 / 100" using top pos by (simp add: abs_divide divide_le_eq)
    have "exact_stopped r \<le> 100" using le pos by (simp add: exact divide_le_eq flip: of_nat_add)
    moreover have "attacker_stopped_percent r = min 100 ?raw" using False by (simp only: score if_False)
    ultimately show ?thesis using clipped_error [OF raw] by simp
  qed (simp add: score exact)
qed


section \<open>Workers that hang\<close>

definition returned :: "(nat \<Rightarrow> phase_result option) \<Rightarrow> nat list \<Rightarrow> phase_result list" where
  "returned locals ws = concat (map (\<lambda>w. case locals w of None \<Rightarrow> [] | Some r \<Rightarrow> [r]) ws)"

lemma merges_before:
  "fold (phase_step locals) (map Merges ws) (False, r) = (False, fold merge_local (returned locals ws) r)"
  by (induction ws arbitrary: r) (simp_all add: returned_def split: option.split)

lemma merges_late: "fold (phase_step locals) (map Merges ws) (True, r) = (True, r)"
  by (induction ws) simp_all

lemma merge_local_sums:
  "ph_requests (fold merge_local rs r) = ph_requests r + sum_list (map ph_requests rs)"
  "ph_errors (fold merge_local rs r) = ph_errors r + sum_list (map ph_errors rs)"
  "ph_hung_workers (fold merge_local rs r) = ph_hung_workers r"
  "count_bag (ph_statuses (fold merge_local rs r)) = count_bag (ph_statuses r) + (\<Sum>l \<leftarrow> rs. count_bag (ph_statuses l))"
  by (induction rs arbitrary: r) (simp_all add: merge_local_def count_bag_merge)

text \<open>
  C6. A phase in which threads hang is accounted for in full: the requests, errors and statuses are
  those of the workers that came to the lock before the others were given up, each of the \<open>n\<close> threads
  given up counts once as hung and once as an error, and nothing that a worker brings later changes the
  result; the requests are the sum of the status counts, and as many errors are sampled as there are, up
  to eight.
\<close>

theorem run_phase_accounts:
  fixes world scenario duration workers bypass direct_baseline
  defines "r \<equiv> run_phase world scenario duration workers bypass direct_baseline"
    and "locals \<equiv> phase_local world scenario duration
      (scenario_worker_count scenario workers bypass direct_baseline) bypass"
  assumes "phase_events world = map Merges ws @ Overdue n # map Merges late" and "0 < n"
  shows "ph_requests r = sum_list (map ph_requests (returned locals ws))
    \<and> ph_errors r = sum_list (map ph_errors (returned locals ws)) + n
    \<and> ph_hung_workers r = n
    \<and> count_bag (ph_statuses r) = (\<Sum>l \<leftarrow> returned locals ws. count_bag (ph_statuses l))
    \<and> ph_requests r = count_sum (ph_statuses r)
    \<and> length (ph_error_samples r) = min ERROR_SAMPLE_LIMIT (ph_errors r)"
proof -
  have "phase_inv r" unfolding r_def by (rule run_phase_inv)
  then show ?thesis
    using assms(3,4)
    by (simp add: phase_inv_def r_def run_phase_def Let_def locals_def [symmetric] merges_before merges_late
        add_hung_def merge_local_sums new_phase_def cnt.bag_empty)
qed

text \<open>Three workers: the first is blocked once and comes to the lock, two are given up, one of them late.\<close>

definition sample_worker :: "int \<Rightarrow> worker_world" where
  "sample_worker status = \<lparr>head_clock = of_nat, request_clock = of_nat, worker_draws = [],
     send_request = (\<lambda>i attempt open request.
       Response \<lparr>resp_status = status, resp_connection = Some ''Close'', resp_will_close = False,
         resp_now = of_nat i + 1 / 8\<rparr>)\<rparr>"

definition sample_phase :: "int \<Rightarrow> phase_event list \<Rightarrow> phase_world" where
  "sample_phase status events = \<lparr>deadline_clock = 0, started_clock = 0, ended_clock = 4, generator = (\<lambda>seed. [seed]),
     worker_worlds = (\<lambda>w. sample_worker status), phase_events = events\<rparr>"

lemma sample_worker_returns:
  assumes "0 < stop_at" and "stop_at \<le> 1"
  shows "\<exists>r. bench_worker scenario bypass 0 stop_at (sample_worker status\<lparr>worker_draws := draws\<rparr>) = Some r
     \<and> ph_requests r = 1 \<and> ph_errors r = 0 \<and> ph_statuses r = [(status, 1)]"
  using assms unfolding bench_worker_def
  by (subst bench_loop.simps, subst bench_loop.simps)
    (simp add: sample_worker_def bench_turn_def new_phase_def record_response_def add_count_def
      Let_def split: prod.split)

theorem run_phase_accounts_witness:
  "ph_requests (run_phase (sample_phase 403 [Merges 0, Overdue 2, Merges 1]) ''basic'' 1 3 False False) = 1
   \<and> ph_errors (run_phase (sample_phase 403 [Merges 0, Overdue 2, Merges 1]) ''basic'' 1 3 False False) = 2
   \<and> ph_hung_workers (run_phase (sample_phase 403 [Merges 0, Overdue 2, Merges 1]) ''basic'' 1 3 False False) = 2
   \<and> count_bag (ph_statuses (run_phase (sample_phase 403 [Merges 0, Overdue 2, Merges 1]) ''basic'' 1 3 False False)) = {#403#}"
proof -
  let ?world = "sample_phase 403 [Merges 0, Overdue 2, Merges 1]"
  have "phase_events ?world = map Merges [0] @ Overdue 2 # map Merges [1]" by (simp add: sample_phase_def)
  note run = run_phase_accounts [OF this, of "''basic''" 1 3 False False, simplified]
  from sample_worker_returns [of 1 "''basic''" False "[7919]" 403] obtain r where
    r: "bench_worker ''basic'' False 0 1 (sample_worker 403\<lparr>worker_draws := [7919]\<rparr>) = Some r"
      "ph_requests r = 1" "ph_errors r = 0" "ph_statuses r = [(403, 1)]" by auto
  have "scenario_worker_count ''basic'' 3 False False = 3" by (simp add: scenario_worker_count_def)
  with r(1) have "returned (phase_local ?world ''basic'' 1 (scenario_worker_count ''basic'' 3 False False) False) [0] = [r]"
    by (simp add: returned_def phase_local_def sample_phase_def)
  with run r(2-4) show ?thesis by (simp add: count_bag_def)
qed

end
