(* ===== verification/Bench_Probe.thy ===== *)
theory Bench_Probe
  imports Flood_Worker
begin

text \<open>
  How \<open>tools/run_defense_bench.py\<close> sets up a proxy and looks at it: the configuration it writes, the
  health and metrics probes, the wait for learned filters, and the reading of events and filters.  The
  clock, the answers of the proxy, the contents of files and the JSON decoder are parameters; a loop
  that does not end is \<open>None\<close>.
\<close>

section \<open>Configuration\<close>

definition write_limits :: "int \<Rightarrow> bool \<Rightarrow> dict \<Rightarrow> dict" where
  "write_limits per_ip_rps trusted_xff limit_overrides =
     fold (\<lambda>(k, v). dset k v) limit_overrides
       ([(''per_ip_rps'', PInt per_ip_rps), (''per_ip_burst'', PInt per_ip_rps),
         (''global_rps'', PInt 100000), (''global_burst'', PInt 100000),
         (''per_ip_connects_per_second'', PInt 1000000), (''per_ip_connect_burst'', PInt 1000000),
         (''global_connects_per_second'', PInt 1000000), (''global_connect_burst'', PInt 1000000),
         (''max_connections'', PInt 20000), (''max_connections_per_ip'', PInt 20000),
         (''max_in_flight_requests'', PInt 20000), (''max_in_flight_requests_per_ip'', PInt 20000),
         (''max_tracked_ips'', PInt 65536)]
        @ (if trusted_xff
           then [(''trusted_proxy_rps'', PInt per_ip_rps), (''trusted_proxy_burst'', PInt per_ip_rps)] else []))"

definition static_rule :: dict where
  "static_rule =
     [(''id'', PStr ''bench-static-api-filter''), (''enabled'', PBool True), (''adaptive'', PBool False),
      (''priority'', PInt 200), (''condition'', PDict [(''path_prefix'', PStr ''/api/'')]),
      (''action'', PDict [(''kind'', PStr ''block''), (''status'', PInt 403),
         (''body'', PStr (''blocked by static filter'' @ [LF]))])]"

record bench_files =
  config_path :: string
  filters_path :: string
  events_path :: string

definition bench_paths :: "string \<Rightarrow> nat \<Rightarrow> bench_files" where
  "bench_paths base proxy_port =
     \<lparr>config_path = base @ ''/config-'' @ nat_str proxy_port @ ''.json'',
      filters_path = base @ ''/filters-'' @ nat_str proxy_port @ ''.json'',
      events_path = base @ ''/events-'' @ nat_str proxy_port @ ''.jsonl''\<rparr>"

text \<open>The configuration written, with the paths of the files it names.\<close>

definition write_config ::
  "string \<Rightarrow> nat \<Rightarrow> nat \<Rightarrow> int \<Rightarrow> int \<Rightarrow> bool \<Rightarrow> bool \<Rightarrow> bool \<Rightarrow> dict \<Rightarrow> dict \<times> bench_files" where
  "write_config base proxy_port upstream_port per_ip_rps signature_threshold adaptive_enabled trusted_xff
     static_filter limit_overrides =
     (let files = bench_paths base proxy_port
      in ([(''http'', PDict
              ([(''listen'', PStr (''127.0.0.1:'' @ nat_str proxy_port)),
                (''upstream'', PStr (''http://127.0.0.1:'' @ nat_str upstream_port)),
                (''preserve_host'', PBool True), (''admin_token'', PStr ''bench-token''),
                (''downstream_keep_alive'', PBool True),
                (''limits'', PDict (write_limits per_ip_rps trusted_xff limit_overrides))]
               @ (if trusted_xff
                  then [(''client_ip'', PDict [(''header'', PStr ''x-forwarded-for''),
                           (''trusted_proxies'', PList [PStr ''127.0.0.1/32''])])] else []))),
           (''tcp'', PList []),
           (''filters'', PDict
              [(''runtime_file'', PStr (filters_path files)), (''reload_seconds'', PInt 1),
               (''static_rules'', PList (if static_filter then [PDict static_rule] else []))]),
           (''adaptive'', PDict
              [(''enabled'', PBool adaptive_enabled),
               (''signature_threshold_per_second'', PInt signature_threshold),
               (''activation_ttl_seconds'', PInt 20), (''event_log'', PStr (events_path files)),
               (''event_cooldown_seconds'', PInt 1)])],
          files))"

definition high_request_limit_overrides :: "int \<Rightarrow> dict" where
  "high_request_limit_overrides value =
     [(''global_rps'', PInt value), (''global_burst'', PInt value),
      (''trusted_proxy_rps'', PInt value), (''trusted_proxy_burst'', PInt value),
      (''signature_rps'', PInt value), (''signature_burst'', PInt value),
      (''max_tracked_signatures'', PInt 65536),
      (''path_shape_rps'', PInt value), (''path_shape_burst'', PInt value),
      (''max_tracked_path_shapes'', PInt 65536)]"

text \<open>The command line of the analyzer.\<close>

definition analyzer_command :: "string \<Rightarrow> string \<Rightarrow> string \<Rightarrow> bool \<Rightarrow> bench_files \<Rightarrow> bool \<Rightarrow> string list" where
  "analyzer_command python tools_dir provider no_codex files learn_observed =
     [python, tools_dir @ ''/codexsdgate.py'', ''--events'', events_path files,
      ''--filters'', filters_path files, ''--provider'', provider, ''--interval'', ''1'',
      ''--min-count'', ''1'', ''--ttl-seconds'', ''20'']
     @ (if no_codex then [''--no-codex''] else [])
     @ (if learn_observed then [''--learn-observed''] else [])"

section \<open>Health\<close>

text \<open>An HTTP exchange with the proxy: a status and a body, or an exception with its class and text.\<close>

datatype probe = Answer int string | Fault string string

text \<open>
  The \<open>i\<close>-th turn of a probe loop: the clock at its head and at its end, whether the process has
  exited by then, and the exchange.  \<open>log_tail\<close> is the end of the log of the process.
\<close>

record probe_world =
  probe_start :: rat
  probe_clock :: "nat \<Rightarrow> rat"
  probe_end_clock :: "nat \<Rightarrow> rat"
  probe_exited :: "nat \<Rightarrow> int option"
  probe_reply :: "nat \<Rightarrow> probe"
  log_tail :: string

definition show_opt :: "string option \<Rightarrow> string" where
  "show_opt v = (case v of None \<Rightarrow> ''None'' | Some s \<Rightarrow> s)"

partial_function (option) health_loop ::
  "probe_world \<Rightarrow> rat \<Rightarrow> nat \<Rightarrow> int option \<Rightarrow> string option \<Rightarrow> unit result option" where
  "health_loop world deadline i last_status last_error =
     (if probe_clock world i < deadline
      then case probe_exited world i of
             Some returncode \<Rightarrow>
               Some (Inl (RuntimeError
                 (''proxy exited before ready with status '' @ int_str returncode @ '': '' @ log_tail world)))
           | None \<Rightarrow>
               (case probe_reply world i of
                  Answer status body \<Rightarrow>
                    if status = 200 then Some (Inr ())
                    else health_loop world deadline (Suc i) (Some status) last_error
                | Fault exc msg \<Rightarrow> health_loop world deadline (Suc i) last_status (Some exc))
      else Some (Inl (RuntimeError
             (''proxy did not become ready; last_status='' @ show_opt (map_option int_str last_status)
              @ ''; last_error='' @ show_opt last_error
              @ (if log_tail world = [] then [] else '': '' @ log_tail world)))))"

definition wait_health :: "probe_world \<Rightarrow> unit result option" where
  "wait_health world = health_loop world (probe_start world + 15) 0 None None"

section \<open>Metrics\<close>

definition metric_line :: "string \<Rightarrow> (string \<times> pyfloat) list \<Rightarrow> (string \<times> pyfloat) list" where
  "metric_line line metrics =
     (if line = [] \<or> starts_with line ''#'' then metrics
      else case split_ws line of
             [name, value] \<Rightarrow> (case float_of_str value of None \<Rightarrow> metrics | Some f \<Rightarrow> dset name f metrics)
           | _ \<Rightarrow> metrics)"

definition parse_metrics :: "string \<Rightarrow> (string \<times> pyfloat) list" where
  "parse_metrics body = fold metric_line (splitlines body) []"

text \<open>
  \<open>fetch_metrics\<close>: \<open>probe_clock\<close> is the clock after an exchange, \<open>probe_end_clock\<close> at the end of a turn.
\<close>

partial_function (option) metrics_loop ::
  "probe_world \<Rightarrow> rat \<Rightarrow> nat \<Rightarrow> (string \<times> pyfloat) list result option" where
  "metrics_loop world deadline i =
     (case probe_reply world i of
        Answer status body \<Rightarrow>
          if status = 200 then Some (Inr (parse_metrics body))
          else if status \<noteq> 429 \<or> deadline \<le> probe_clock world i
          then Some (Inl (RuntimeError (''metrics returned HTTP '' @ int_str status)))
          else if deadline \<le> probe_end_clock world i
          then Some (Inl (RuntimeError (''metrics request failed: HTTP '' @ int_str status)))
          else metrics_loop world deadline (Suc i)
      | Fault exc msg \<Rightarrow>
          if deadline \<le> probe_clock world i \<or> deadline \<le> probe_end_clock world i
          then Some (Inl (RuntimeError (''metrics request failed: '' @ exc @ '': '' @ msg)))
          else metrics_loop world deadline (Suc i))"

definition fetch_metrics :: "probe_world \<Rightarrow> (string \<times> pyfloat) list result option" where
  "fetch_metrics world = metrics_loop world (probe_start world + 20) 0"

text \<open>\<open>try_fetch_metrics\<close>: no metrics and a message when \<open>RuntimeError\<close> is raised.\<close>

definition try_fetch_metrics :: "probe_world \<Rightarrow> ((string \<times> pyfloat) list \<times> string option) result option" where
  "try_fetch_metrics world =
     map_option (\<lambda>r. case r of
         Inr metrics \<Rightarrow> Inr (metrics, None)
       | Inl (RuntimeError msg) \<Rightarrow> Inr ([], Some msg)
       | Inl e \<Rightarrow> Inl e) (fetch_metrics world)"

definition DEFENSE_METRIC_KEYS :: "string list" where
  "DEFENSE_METRIC_KEYS =
     [''altura_http_blocked'', ''altura_http_rate_limited'', ''altura_http_trusted_proxy_rate_limited'',
      ''altura_http_trusted_proxy_in_flight_rejected'', ''altura_http_signature_rate_limited'',
      ''altura_http_path_shape_rate_limited'']"

fun fsub :: "pyfloat \<Rightarrow> pyfloat \<Rightarrow> pyfloat" where
  "fsub (Fin a) (Fin b) = Fin (a - b)"
| "fsub (Fin a) PInf = NInf"
| "fsub (Fin a) NInf = PInf"
| "fsub PInf (Fin b) = PInf"
| "fsub PInf NInf = PInf"
| "fsub NInf (Fin b) = NInf"
| "fsub NInf PInf = NInf"
| "fsub _ _ = NaN"

definition selected_metrics_delta ::
  "(string \<times> pyfloat) list \<Rightarrow> (string \<times> pyfloat) list \<Rightarrow> (string \<times> int) list result" where
  "selected_metrics_delta before after =
     (let reading = (\<lambda>metrics key. case map_of metrics key of None \<Rightarrow> Fin 0 | Some f \<Rightarrow> f)
      in rmap (\<lambda>key. rbind (py_int (PFloat (fsub (reading after key) (reading before key))))
                (\<lambda>n. Inr (key, n))) DEFENSE_METRIC_KEYS)"

section \<open>Learned filters\<close>

definition dicts_of :: "pyval list \<Rightarrow> dict list" where
  "dicts_of xs = concat (map (\<lambda>v. case v of PDict d \<Rightarrow> [d] | _ \<Rightarrow> []) xs)"

text \<open>
  \<open>read_filters\<close>: a file that cannot be read or decoded has no filters; iterating over a value that is
  not iterable raises \<open>TypeError\<close>.
\<close>

definition read_filters :: "pyval result \<Rightarrow> dict list result" where
  "read_filters doc =
     (case doc of
        Inl _ \<Rightarrow> Inr []
      | Inr data \<Rightarrow>
          (case (case data of PDict d \<Rightarrow> dget_or d ''filters'' (PList []) | _ \<Rightarrow> PList []) of
             PList items \<Rightarrow> Inr (dicts_of items)
           | PStr _ \<Rightarrow> Inr []
           | PDict _ \<Rightarrow> Inr []
           | _ \<Rightarrow> Inl TypeError))"

text \<open>The \<open>i\<close>-th turn of the wait: the clock at its head, the file, and the clock after it was read.\<close>

record filters_world =
  filters_now :: rat
  filters_clock :: "nat \<Rightarrow> rat"
  filters_doc :: "nat \<Rightarrow> pyval result"
  filters_found :: "nat \<Rightarrow> rat"

partial_function (option) filters_loop ::
  "filters_world \<Rightarrow> rat \<Rightarrow> rat \<Rightarrow> nat \<Rightarrow> (dict list \<times> rat option) result option" where
  "filters_loop world started deadline i =
     (if filters_clock world i < deadline
      then case read_filters (filters_doc world i) of
             Inl e \<Rightarrow> Some (Inl e)
           | Inr filters \<Rightarrow>
               if filters \<noteq> [] then Some (Inr (filters, Some (filters_found world i - started)))
               else filters_loop world started deadline (Suc i)
      else Some (Inr ([], None)))"

definition wait_for_filters ::
  "filters_world \<Rightarrow> rat \<Rightarrow> rat \<Rightarrow> (dict list \<times> rat option) result option" where
  "wait_for_filters world started timeout = filters_loop world started (filters_now world + timeout) 0"

section \<open>Events\<close>

text \<open>\<open>read_events\<close> of the benchmark; the file is absent or has a text.\<close>

definition read_bench_events :: "(string \<Rightarrow> pyval result) \<Rightarrow> string option \<Rightarrow> dict list" where
  "read_bench_events loads contents =
     (case contents of
        None \<Rightarrow> []
      | Some s \<Rightarrow>
          concat (map (\<lambda>line. if str_strip line = [] then []
                     else case loads line of Inr (PDict event) \<Rightarrow> [event] | _ \<Rightarrow> [])
            (splitlines s)))"

definition first_detection :: "int \<Rightarrow> dict list \<Rightarrow> rat option" where
  "first_detection start_unix_ms events =
     fold (\<lambda>event first.
         case py_isint (dget event ''ts_unix_ms'') of
           Some ts \<Rightarrow>
             if start_unix_ms \<le> ts
             then let delta = of_int (ts - start_unix_ms) / 1000
                  in Some (case first of None \<Rightarrow> delta | Some f \<Rightarrow> min f delta)
             else first
         | None \<Rightarrow> first) events None"

definition add_basis :: "dict \<Rightarrow> (string \<times> string) list \<Rightarrow> (string \<times> string) list" where
  "add_basis event bases =
     (case (dget event ''signature'', dget event ''signature_basis'') of
        (PStr signature, PStr basis) \<Rightarrow>
          (case map_of bases signature of None \<Rightarrow> bases @ [(signature, basis)] | Some _ \<Rightarrow> bases)
      | _ \<Rightarrow> bases)"

definition signature_bases :: "dict list \<Rightarrow> (string \<times> string) list" where
  "signature_bases events = fold add_basis events []"

definition summarize_events :: "dict list \<Rightarrow> int \<Rightarrow> dict" where
  "summarize_events events start_unix_ms =
     (let reasons = fold (\<lambda>event. add_count (py_str (dget event ''reason'')) 1) events [];
          signatures = remdups (map (\<lambda>event. py_str (dget event ''signature''))
            (filter (\<lambda>event. py_truthy (dget event ''signature'')) events))
      in [(''count'', PInt (int (length events))),
          (''reasons'', PDict (map (\<lambda>(k, n). (k, PInt (int n))) (sort_key fst reasons))),
          (''unique_signatures'', PInt (int (length signatures))),
          (''first_detection_seconds'',
             (case first_detection start_unix_ms events of
                None \<Rightarrow> PNone | Some q \<Rightarrow> PFloat (Fin (round_to 3 q)))),
          (''signature_bases'',
             PDict (map (\<lambda>(k, b). (k, PStr b)) (sort_key fst (signature_bases events))))])"

section \<open>What a filter amounts to\<close>

definition filter_kind :: "dict \<Rightarrow> string option \<Rightarrow> string \<times> string" where
  "filter_kind condition basis =
     (case dget condition ''signature'' of
        PStr _ \<Rightarrow>
          (case basis of
             Some b \<Rightarrow>
               if list_ex (contains_str b) ['':num'', '':uuid'', '':hex'', ''cachebust,id'']
               then (''normalized_signature'', ''pattern'') else (''exact_signature'', ''exact_request_shape'')
           | None \<Rightarrow> (''exact_signature'', ''exact_request_shape''))
      | _ \<Rightarrow>
          if py_truthy (dget condition ''path_exact'') then (''exact_path'', ''narrow'')
          else if py_truthy (dget condition ''path_shape'') then (''path_shape'', ''pattern'')
          else if py_truthy (dget condition ''path_prefix'') \<or> py_truthy (dget condition ''path_contains'')
          then (''path_pattern'', ''medium'')
          else if condition = [] then (''empty_condition'', ''unsafe_broad'')
          else (''compound_condition'', ''condition_based''))"

definition interpret_filter :: "dict \<Rightarrow> (string \<times> string) list \<Rightarrow> dict" where
  "interpret_filter item bases =
     (let condition = dict_or_empty (dget item ''condition'');
          signature = dget condition ''signature'';
          basis = (case signature of PStr s \<Rightarrow> map_of bases s | _ \<Rightarrow> None);
          (kind, precision) = filter_kind condition basis
      in [(''id'', dget item ''id''), (''kind'', PStr kind), (''precision'', PStr precision),
          (''condition_keys'', PList (map PStr (sort (dkeys condition)))),
          (''signature'', signature),
          (''signature_basis'', (case basis of None \<Rightarrow> PNone | Some b \<Rightarrow> PStr b)),
          (''not_ip_based'', PBool (''client_ip'' \<notin> set (dkeys condition) \<and> ''ip'' \<notin> set (dkeys condition))),
          (''adaptive'', PBool (py_truthy (dget item ''adaptive'')))])"

definition interpret_filters :: "dict list \<Rightarrow> dict list \<Rightarrow> dict list" where
  "interpret_filters filters events = map (\<lambda>item. interpret_filter item (signature_bases events)) filters"

section \<open>The waits end\<close>

text \<open>Every turn takes some time.\<close>

definition ticking :: "(nat \<Rightarrow> rat) \<Rightarrow> bool" where
  "ticking c \<longleftrightarrow> (\<exists>step > 0. \<forall>i. c i + step \<le> c (Suc i))"

lemma deadline_reached:
  fixes clock :: "nat \<Rightarrow> rat"
  assumes "0 < step" and "\<forall>i. clock i + step \<le> clock (Suc i)"
  obtains n where "deadline \<le> clock n" and "n \<le> nat \<lceil>(deadline - clock 0) / step\<rceil>"
proof
  let ?n = "nat \<lceil>(deadline - clock 0) / step\<rceil>"
  have "(deadline - clock 0) / step \<le> of_nat ?n" by linarith
  then have "deadline - clock 0 \<le> of_nat ?n * step" using assms(1) by (simp add: divide_le_eq)
  with clock_progress [OF assms(2), of ?n] show "deadline \<le> clock ?n" by linarith
qed simp

text \<open>A loop that stops as soon as the clock has passed some reading returns.\<close>

lemma stops_by:
  assumes "\<And>i s. stop i \<Longrightarrow> \<exists>r. loop i s = Some r"
    and "\<And>i s. (\<exists>r. loop i s = Some r) \<or> (\<exists>s'. loop i s = loop (Suc i) s')"
    and "stop (i + n)"
  shows "\<exists>r. loop i s = Some r"
  using assms(3)
proof (induction n arbitrary: i s)
  case (Suc n)
  then have "\<exists>r. loop (Suc i) s' = Some r" for s' by simp
  with assms(2) [of i s] show ?case by metis
qed (use assms(1) in simp)

lemma wait_health_returns:
  assumes "0 < step" and "\<forall>i. probe_clock world i + step \<le> probe_clock world (Suc i)"
  shows "\<exists>r. wait_health world = Some r"
proof -
  obtain n where n: "probe_start world + 15 \<le> probe_clock world n"
    using deadline_reached [OF assms] by blast
  let ?loop = "\<lambda>i (s, e). health_loop world (probe_start world + 15) i s e"
  have "\<exists>r. ?loop 0 (None, None) = Some r"
  proof (rule stops_by [where loop = ?loop and n = n
        and stop = "\<lambda>i. probe_start world + 15 \<le> probe_clock world i"])
    show "\<exists>r. ?loop i s = Some r" if "probe_start world + 15 \<le> probe_clock world i" for i s
      using that by (cases s) (simp add: health_loop.simps not_less)
    show "(\<exists>r. ?loop i s = Some r) \<or> (\<exists>s'. ?loop i s = ?loop (Suc i) s')" for i s
      by (cases s, simp, subst (1 2) health_loop.simps) (auto split: option.split probe.split)
    show "probe_start world + 15 \<le> probe_clock world (0 + n)" using n by simp
  qed
  then show ?thesis by (simp add: wait_health_def)
qed

lemma fetch_metrics_returns:
  assumes "0 < step" and "\<forall>i. probe_end_clock world i + step \<le> probe_end_clock world (Suc i)"
  shows "\<exists>r. fetch_metrics world = Some r"
proof -
  obtain n where n: "probe_start world + 20 \<le> probe_end_clock world n"
    using deadline_reached [OF assms] by blast
  let ?loop = "\<lambda>i (s :: unit). metrics_loop world (probe_start world + 20) i"
  have "\<exists>r. ?loop 0 () = Some r"
  proof (rule stops_by [where loop = ?loop and n = n
        and stop = "\<lambda>i. probe_start world + 20 \<le> probe_end_clock world i"])
    show "\<exists>r. ?loop i s = Some r" if "probe_start world + 20 \<le> probe_end_clock world i" for i s
      using that by (subst metrics_loop.simps) (simp split: probe.split)
    show "(\<exists>r. ?loop i s = Some r) \<or> (\<exists>s'. ?loop i s = ?loop (Suc i) s')" for i s
      by (subst (1 2) metrics_loop.simps) (auto split: probe.split)
    show "probe_start world + 20 \<le> probe_end_clock world (0 + n)" using n by simp
  qed
  then show ?thesis by (simp add: fetch_metrics_def)
qed

lemma wait_for_filters_returns:
  assumes "0 < step" and "\<forall>i. filters_clock world i + step \<le> filters_clock world (Suc i)"
  shows "\<exists>r. wait_for_filters world started timeout = Some r"
proof -
  obtain n where n: "filters_now world + timeout \<le> filters_clock world n"
    using deadline_reached [OF assms] by blast
  let ?loop = "\<lambda>i (s :: unit). filters_loop world started (filters_now world + timeout) i"
  have "\<exists>r. ?loop 0 () = Some r"
  proof (rule stops_by [where loop = ?loop and n = n
        and stop = "\<lambda>i. filters_now world + timeout \<le> filters_clock world i"])
    show "\<exists>r. ?loop i s = Some r" if "filters_now world + timeout \<le> filters_clock world i" for i s
      using that by (subst filters_loop.simps) simp
    show "(\<exists>r. ?loop i s = Some r) \<or> (\<exists>s'. ?loop i s = ?loop (Suc i) s')" for i s
      by (subst (1 2) filters_loop.simps) (auto split: sum.split)
    show "filters_now world + timeout \<le> filters_clock world (0 + n)" using n by simp
  qed
  then show ?thesis by (simp add: wait_for_filters_def)
qed

end
