(* ===== verification/Bench_Runner.thy ===== *)
theory Bench_Runner
  imports Bench_Phase Bench_Probe Defense_Gate_Correct
begin

text \<open>
  The runs of \<open>tools/run_defense_bench.py\<close>: the layers of a scenario, the report, and the table; and
  what the gate of \<open>tools/assert_defense_bench.py\<close> makes of such a report.  What a proxy with some
  configuration does is a parameter.
\<close>

section \<open>Steps that may raise or not return\<close>

definition orbind :: "'a result option \<Rightarrow> ('a \<Rightarrow> 'b result option) \<Rightarrow> 'b result option" where
  "orbind m f = (case m of None \<Rightarrow> None | Some (Inl e) \<Rightarrow> Some (Inl e) | Some (Inr x) \<Rightarrow> f x)"

fun ormap :: "('a \<Rightarrow> 'b result option) \<Rightarrow> 'a list \<Rightarrow> 'b list result option" where
  "ormap f [] = Some (Inr [])"
| "ormap f (x # xs) = orbind (f x) (\<lambda>y. orbind (ormap f xs) (\<lambda>ys. Some (Inr (y # ys))))"

lemma orbind_Inr_iff: "orbind m f = Some (Inr y) \<longleftrightarrow> (\<exists>x. m = Some (Inr x) \<and> f x = Some (Inr y))"
  by (auto simp: orbind_def split: option.splits sum.splits)

lemma ormap_Inr_iff: "ormap f xs = Some (Inr ys) \<longleftrightarrow> list_all2 (\<lambda>x y. f x = Some (Inr y)) xs ys"
  by (induction xs arbitrary: ys) (auto simp: orbind_Inr_iff list_all2_Cons1)

section \<open>A layer\<close>

record bench_args =
  arg_provider :: string
  arg_no_codex :: bool
  arg_duration :: rat
  arg_workers :: int
  arg_analyzer_wait :: rat
  arg_per_ip_rps :: int
  arg_path_shape_rps :: int
  arg_signature_threshold :: int
  arg_scenarios :: string
  arg_preset :: "string option"
  arg_json_only :: bool

text \<open>Where the runner runs: the temporary directory, the port of the upstream, and the programs it uses.\<close>

record bench_site =
  site_base :: string
  site_upstream_port :: nat
  site_python :: string
  site_tools_dir :: string
  site_loads :: "string \<Rightarrow> pyval result"
  site_git :: git_program
  site_cwd :: string
  site_time :: utc_time

text \<open>What is met while a layer is measured.\<close>

record proxy_world =
  pw_before :: probe_world
  pw_after :: probe_world
  pw_collect :: phase_world
  pw_replay :: phase_world
  pw_bypass :: phase_world
  pw_collect_mono :: rat
  pw_collect_unix_ms :: int
  pw_filters :: filters_world
  pw_events :: "string option"
  pw_analyzer_log :: "string option"

text \<open>
  The free port and the health of each start, and what a proxy with some configuration does beside an
  analyzer with some command line.
\<close>

record layer_world =
  lw_port :: "nat \<Rightarrow> nat"
  lw_health :: "nat \<Rightarrow> dict \<Rightarrow> probe_world"
  lw_proxy :: "dict \<Rightarrow> string list option \<Rightarrow> proxy_world"

text \<open>The arguments that tell the layers of a scenario apart.\<close>

record layer_plan =
  plan_layer :: string
  plan_per_ip_rps :: int
  plan_adaptive :: bool
  plan_static_filter :: bool
  plan_analyzer :: bool
  plan_learn_observed :: bool
  plan_overrides :: dict

definition layer_config ::
  "bench_site \<Rightarrow> bench_args \<Rightarrow> string \<Rightarrow> layer_plan \<Rightarrow> nat \<Rightarrow> dict \<times> bench_files" where
  "layer_config site args scenario plan proxy_port =
     write_config (site_base site) proxy_port (site_upstream_port site) (plan_per_ip_rps plan)
       (arg_signature_threshold args) (plan_adaptive plan) (scenario_needs_xff_trust scenario)
       (plan_static_filter plan) (plan_overrides plan)"

text \<open>
  The loop \<open>for attempt in range(1, 4)\<close>: the configuration and the files of the first proxy that becomes
  ready.
\<close>

fun start_attempts ::
  "(nat \<Rightarrow> dict \<times> bench_files) \<Rightarrow> (nat \<Rightarrow> dict \<Rightarrow> probe_world) \<Rightarrow> nat list \<Rightarrow> string list
   \<Rightarrow> (dict \<times> bench_files) result option" where
  "start_attempts config health [] startup_errors = None"
| "start_attempts config health (attempt # rest) startup_errors =
     (case wait_health (health attempt (fst (config attempt))) of
        None \<Rightarrow> None
      | Some (Inr _) \<Rightarrow> Some (Inr (config attempt))
      | Some (Inl (RuntimeError err)) \<Rightarrow>
          let startup_errors' = startup_errors @ [''attempt '' @ nat_str attempt @ '': '' @ err]
          in if attempt = 3
             then Some (Inl (RuntimeError
                    (''proxy did not become ready after 3 attempts'' @ [LF] @ join_with [LF] startup_errors')))
             else start_attempts config health rest startup_errors'
      | Some (Inl e) \<Rightarrow> Some (Inl e))"

record layer_measure =
  lm_collect :: phase_result
  lm_replay :: "phase_result option"
  lm_bypass :: phase_result
  lm_events :: "dict list"
  lm_unix_ms :: int
  lm_metrics_delta :: "(string \<times> int) list"
  lm_metrics_errors :: "string list"
  lm_filters :: "dict list"
  lm_write_seconds :: "rat option"
  lm_log_tail :: "string list"

definition metrics_errors :: "string option \<Rightarrow> string option \<Rightarrow> string list" where
  "metrics_errors before after =
     (case before of None \<Rightarrow> [] | Some e \<Rightarrow> [''before: '' @ e])
     @ (case after of None \<Rightarrow> [] | Some e \<Rightarrow> [''after: '' @ e])"

definition measure_layer ::
  "bench_site \<Rightarrow> bench_args \<Rightarrow> layer_world \<Rightarrow> string \<Rightarrow> layer_plan \<Rightarrow> layer_measure result option" where
  "measure_layer site args world scenario plan =
     orbind (start_attempts (\<lambda>attempt. layer_config site args scenario plan (lw_port world attempt))
               (lw_health world) [1, 2, 3] []) (\<lambda>(config, files).
     let command = (if plan_analyzer plan
           then Some (analyzer_command (site_python site) (site_tools_dir site) (arg_provider args)
                        (arg_no_codex args) files (plan_learn_observed plan)) else None);
         met = lw_proxy world config command;
         attack = (\<lambda>phase. run_phase phase scenario (arg_duration args) (arg_workers args) False False);
         events = read_bench_events (site_loads site) (pw_events met)
     in orbind (try_fetch_metrics (pw_before met)) (\<lambda>(before, before_error).
        orbind (if plan_analyzer plan
                then wait_for_filters (pw_filters met) (pw_collect_mono met) (arg_analyzer_wait args)
                else Some (Inr ([], None))) (\<lambda>(filters, write_seconds).
        orbind (try_fetch_metrics (pw_after met)) (\<lambda>(after, after_error).
        orbind (Some (selected_metrics_delta before after)) (\<lambda>delta.
          Some (Inr
            \<lparr>lm_collect = attack (pw_collect met),
             lm_replay = (if plan_analyzer plan then Some (attack (pw_replay met)) else None),
             lm_bypass = run_phase (pw_bypass met) scenario (3 / 4) 1 True False,
             lm_events = events, lm_unix_ms = pw_collect_unix_ms met,
             lm_metrics_delta = delta, lm_metrics_errors = metrics_errors before_error after_error,
             lm_filters = filters, lm_write_seconds = write_seconds,
             lm_log_tail = (case pw_analyzer_log met of None \<Rightarrow> [] | Some s \<Rightarrow> last_n 8 (splitlines s))\<rparr>))))))"

definition attack_phase :: "layer_measure \<Rightarrow> phase_result" where
  "attack_phase m = (case lm_replay m of None \<Rightarrow> lm_collect m | Some r \<Rightarrow> r)"

definition layer_payload :: "string \<Rightarrow> layer_plan \<Rightarrow> layer_measure \<Rightarrow> dict" where
  "layer_payload scenario plan m =
     [(''layer'', PStr (plan_layer plan)),
      (''trusted_xff'', PBool (scenario_needs_xff_trust scenario)),
      (''learn_observed'', PBool (plan_learn_observed plan)),
      (''collect'', PDict (summarize_phase (lm_collect m))),
      (''replay'', (case lm_replay m of None \<Rightarrow> PNone | Some r \<Rightarrow> PDict (summarize_phase r))),
      (''bypass_probe'', PDict (summarize_phase (lm_bypass m))),
      (''events'', PDict (summarize_events (lm_events m) (lm_unix_ms m))),
      (''metrics_delta'', PDict (map (\<lambda>(k, n). (k, PInt n)) (lm_metrics_delta m))),
      (''metrics_errors'', PList (map PStr (lm_metrics_errors m))),
      (''filters_learned'', PInt (int (length (lm_filters m)))),
      (''filter_write_seconds'', rounded 3 (lm_write_seconds m)),
      (''learned_filters'', PList (map PDict (lm_filters m))),
      (''filter_interpretation'', PList (map PDict (interpret_filters (lm_filters m) (lm_events m)))),
      (''analyzer_log_tail'', PList (map PStr (lm_log_tail m))),
      (''target_score'', PDict (target_score (lm_replay m) (Some (lm_bypass m)))),
      (''effective_target_score'', PDict (target_score (Some (attack_phase m)) (Some (lm_bypass m)))),
      (''scenario_description'', PStr (scenario_description scenario))]"

definition run_proxy_layer ::
  "bench_site \<Rightarrow> bench_args \<Rightarrow> layer_world \<Rightarrow> string \<Rightarrow> layer_plan \<Rightarrow> dict result option" where
  "run_proxy_layer site args world scenario plan =
     orbind (measure_layer site args world scenario plan) (\<lambda>m. Some (Inr (layer_payload scenario plan m)))"

section \<open>A scenario\<close>

definition HIGH_RPS :: int where
  "HIGH_RPS = 1000000"

definition path_shape_overrides :: "bench_args \<Rightarrow> dict" where
  "path_shape_overrides args =
     dset ''path_shape_burst'' (PInt (arg_path_shape_rps args))
       (dset ''path_shape_rps'' (PInt (arg_path_shape_rps args)) (high_request_limit_overrides HIGH_RPS))"

text \<open>The layers of a scenario besides the direct baseline, with their names in the report.\<close>

definition scenario_plans :: "bench_args \<Rightarrow> string \<Rightarrow> (string \<times> layer_plan) list" where
  "scenario_plans args scenario =
     (let high = high_request_limit_overrides HIGH_RPS;
          rps = arg_per_ip_rps args
      in [(''proxy_open'',
             \<lparr>plan_layer = ''proxy-open'', plan_per_ip_rps = HIGH_RPS, plan_adaptive = False, plan_static_filter = False,
              plan_analyzer = False, plan_learn_observed = False, plan_overrides = high\<rparr>),
          (''rate_limit'',
             \<lparr>plan_layer = ''rate-limit'', plan_per_ip_rps = rps, plan_adaptive = True, plan_static_filter = False,
              plan_analyzer = False, plan_learn_observed = False, plan_overrides = []\<rparr>),
          (''path_shape_rate_limit'',
             \<lparr>plan_layer = ''path-shape-rate-limit'', plan_per_ip_rps = HIGH_RPS, plan_adaptive = True,
              plan_static_filter = False, plan_analyzer = False, plan_learn_observed = False,
              plan_overrides = path_shape_overrides args\<rparr>),
          (''static_filter'',
             \<lparr>plan_layer = ''static-filter'', plan_per_ip_rps = HIGH_RPS, plan_adaptive = True, plan_static_filter = True,
              plan_analyzer = False, plan_learn_observed = False, plan_overrides = high\<rparr>),
          (''learned_filter_strict'',
             \<lparr>plan_layer = ''learned-strict'', plan_per_ip_rps = rps, plan_adaptive = True, plan_static_filter = False,
              plan_analyzer = True, plan_learn_observed = False, plan_overrides = []\<rparr>)]
         @ (if scenario_runs_observed_learning scenario
            then [(''learned_filter_observed'',
                     \<lparr>plan_layer = ''learned-observed'', plan_per_ip_rps = rps, plan_adaptive = True,
                      plan_static_filter = False, plan_analyzer = True, plan_learn_observed = True,
                      plan_overrides = []\<rparr>)] else []))"

record scenario_world =
  sw_direct :: phase_world
  sw_layer :: "string \<Rightarrow> layer_world"

definition run_scenario ::
  "bench_site \<Rightarrow> bench_args \<Rightarrow> scenario_world \<Rightarrow> string \<Rightarrow> dict result option" where
  "run_scenario site args world scenario =
     (let direct = run_phase (sw_direct world) scenario (arg_duration args) (arg_workers args) False True
      in orbind (ormap (\<lambda>(key, plan). orbind (run_proxy_layer site args (sw_layer world key) scenario plan)
                    (\<lambda>payload. Some (Inr (key, PDict payload)))) (scenario_plans args scenario))
           (\<lambda>layers. Some (Inr ((''direct_upstream'', PDict (summarize_phase direct)) # layers))))"

section \<open>The report\<close>

definition report_header :: "bench_site \<Rightarrow> bench_args \<Rightarrow> dict" where
  "report_header site args =
     [(''generated_at_utc'', PStr (generated_at_utc (site_time site))),
      (''provider'', PStr (if arg_no_codex args then ''deterministic'' else arg_provider args)),
      (''preset'', PStr (case arg_preset args of None \<Rightarrow> ''custom'' | Some p \<Rightarrow> if p = [] then ''custom'' else p)),
      (''source_tree'', PDict (source_tree_metadata (site_git site) (site_cwd site))),
      (''workdir'', PStr (site_base site)),
      (''duration_seconds'', PFloat (Fin (arg_duration args))),
      (''workers'', PInt (arg_workers args)),
      (''analyzer_wait_seconds'', PFloat (Fin (arg_analyzer_wait args))),
      (''per_ip_rps'', PInt (arg_per_ip_rps args)),
      (''path_shape_rps'', PInt (arg_path_shape_rps args)),
      (''signature_threshold_per_second'', PInt (arg_signature_threshold args)),
      (''safety'', PStr (''loopback-only; spoof cases use X-Forwarded-For headers from trusted localhost, ''
         @ ''not packet spoofing''))]"

definition run_all ::
  "bench_site \<Rightarrow> bench_args \<Rightarrow> (nat \<Rightarrow> scenario_world) \<Rightarrow> string list \<Rightarrow> dict result option" where
  "run_all site args worlds scenarios =
     orbind (ormap (\<lambda>(i, scenario). orbind (run_scenario site args (worlds i) scenario)
               (\<lambda>d. Some (Inr (scenario, PDict d)))) (enumerate 0 scenarios))
       (\<lambda>items. Some (Inr (fold (\<lambda>(k, v). dset k v) items [])))"

text \<open>The report \<open>main\<close> prints; \<open>binary_exists\<close> says whether \<open>args.binary\<close> is there.\<close>

definition bench_main ::
  "bench_site \<Rightarrow> bench_args \<Rightarrow> string \<Rightarrow> bool \<Rightarrow> (nat \<Rightarrow> scenario_world) \<Rightarrow> dict result option" where
  "bench_main site args binary binary_exists worlds =
     (if \<not> binary_exists
      then Some (Inl (SystemExit (''binary not found: '' @ binary @ ''; run cargo build --release first'')))
      else let scenarios = resolve_scenarios (arg_preset args) (arg_scenarios args);
               unknown = filter (\<lambda>item. item \<notin> set KNOWN_SCENARIOS) scenarios
           in if unknown \<noteq> [] then Some (Inl (SystemExit (''unknown scenarios: '' @ join_with '', '' unknown)))
              else orbind (run_all site args worlds scenarios)
                     (\<lambda>items. Some (Inr (report_header site args @ [(''scenarios'', PDict items)]))))"

section \<open>What the gate makes of the runner's scores\<close>

text \<open>A layer was measured without hung workers and with both readings of the metrics.\<close>

definition layer_clean :: "layer_measure \<Rightarrow> bool" where
  "layer_clean m \<longleftrightarrow>
     ph_hung_workers (lm_collect m) = 0 \<and> (\<forall>r. lm_replay m = Some r \<longrightarrow> ph_hung_workers r = 0)
     \<and> ph_hung_workers (lm_bypass m) = 0 \<and> lm_metrics_errors m = []"

text \<open>A layer stops the attack and lets the probe through.\<close>

definition layer_defends :: "layer_measure \<Rightarrow> bool" where
  "layer_defends m \<longleftrightarrow>
     90 \<le> attacker_stopped_percent (attack_phase m)
     \<and> 95 \<le> percent_of (lm_bypass m) (allowed_count (lm_bypass m)) \<and> ph_errors (lm_bypass m) = 0"

named_theorems runner_fields \<open>what the runner writes under each name\<close>

lemma payload_fields [runner_fields]:
  "dget (layer_payload scenario plan m) ''direct_upstream'' = PNone"
  "dget (layer_payload scenario plan m) ''collect'' = PDict (summarize_phase (lm_collect m))"
  "dget (layer_payload scenario plan m) ''replay''
     = (case lm_replay m of None \<Rightarrow> PNone | Some r \<Rightarrow> PDict (summarize_phase r))"
  "dget (layer_payload scenario plan m) ''bypass_probe'' = PDict (summarize_phase (lm_bypass m))"
  "dget (layer_payload scenario plan m) ''metrics_errors'' = PList (map PStr (lm_metrics_errors m))"
  "layer_score (layer_payload scenario plan m) = Some (target_score (Some (attack_phase m)) (Some (lm_bypass m)))"
  by (simp_all add: layer_payload_def dget_def layer_score_def)

lemma summary_fields [runner_fields]:
  "dget (summarize_phase r) ''hung_workers'' = PInt (int (ph_hung_workers r))"
  "dget (summarize_phase r) ''direct_upstream'' = PNone"
  "dget (summarize_phase r) ''collect'' = PNone"
  "dget (summarize_phase r) ''replay'' = PNone"
  "dget (summarize_phase r) ''bypass_probe'' = PNone"
  "dget (summarize_phase r) ''metrics_errors'' = PNone"
  by (simp_all add: summarize_phase_def dget_def)

lemma number_zero: "number_where (\<lambda>q. q = 0) (PInt (int n)) \<longleftrightarrow> n = 0"
  by (auto simp: number_where_def finite_number_def float_of_int_def)

lemma target_score_consistent:
  "attacker_consistent (target_score (Some a) (Some b))" "benign_consistent (target_score (Some a) (Some b))"
  "benign_measured (target_score (Some a) (Some b))"
  by (auto simp: attacker_consistent_def benign_consistent_def benign_measured_def target_score_def Let_def
      dget_def finite_number_def number_where_def score_non_negative_int_def)

lemma target_score_passes:
  "score_passes (target_score (Some a) (Some b))
   \<longleftrightarrow> 90 \<le> attacker_stopped_percent a \<and> 95 \<le> percent_of b (allowed_count b) \<and> ph_errors b = 0"
  by (auto simp: score_passes_def target_score_def Let_def dget_def score_non_negative_int_def)

lemma runner_layer_ok:
  assumes "key \<noteq> ''direct_upstream''"
  shows "layer_ok current_expectations (key, PDict (layer_payload scenario plan m)) \<longleftrightarrow> layer_clean m"
    and "layer_passes (key, PDict (layer_payload scenario plan m)) \<longleftrightarrow> layer_defends m"
  using assms
  by (auto simp: layer_ok_def layer_clean_def layer_passes_def layer_defends_def no_hung_workers_def runner_fields
      current_expectations_def no_expectations_def UNSCORED_LAYERS_def number_zero target_score_consistent
      target_score_passes split: option.splits)

lemma runner_direct_ok:
  "layer_ok current_expectations (''direct_upstream'', PDict (summarize_phase r))"
  "\<not> layer_passes (''direct_upstream'', PDict (summarize_phase r))"
  by (simp_all add: layer_ok_def layer_passes_def no_hung_workers_def runner_fields
      current_expectations_def no_expectations_def UNSCORED_LAYERS_def)

lemma ormap_set: "ormap f xs = Some (Inr ys) \<Longrightarrow> set ys = {y. \<exists>x \<in> set xs. f x = Some (Inr y)}"
proof (induction xs arbitrary: ys)
  case (Cons x xs)
  then obtain y zs where "f x = Some (Inr y)" "ormap f xs = Some (Inr zs)" "ys = y # zs"
    by (auto simp: orbind_Inr_iff)
  with Cons.IH show ?case by auto
qed simp

lemma current_fields:
  "require_provenance current_expectations" "expect_scenarios current_expectations = None"
  "expect_provider current_expectations = PNone" "expect_preset current_expectations = PNone"
  "expect_scenario_names current_expectations = None" "expect_common_layer_names current_expectations = None"
  "expect_observed_learning_scenario_names current_expectations = None"
  "expect_static_only_scenario_names current_expectations = None"
  "min_duration current_expectations = PNone" "min_workers current_expectations = PNone"
  "min_analyzer_wait current_expectations = PNone" "expect_per_ip_rps current_expectations = PNone"
  "expect_path_shape_rps current_expectations = PNone" "expect_signature_threshold current_expectations = PNone"
  "\<not> require_direct_baseline current_expectations"
  "\<not> require_open_proxy_negative_control current_expectations"
  by (simp_all add: current_expectations_def no_expectations_def)

text \<open>The measurements of a scenario.\<close>

definition layer_measures ::
  "bench_site \<Rightarrow> bench_args \<Rightarrow> scenario_world \<Rightarrow> string \<Rightarrow> layer_measure set" where
  "layer_measures site args world scenario =
     {m. \<exists>(key, plan) \<in> set (scenario_plans args scenario).
           measure_layer site args (sw_layer world key) scenario plan = Some (Inr m)}"

lemma plan_keys: "(key, plan) \<in> set (scenario_plans args scenario) \<Longrightarrow> key \<noteq> ''direct_upstream''"
  by (auto simp: scenario_plans_def Let_def split: if_splits)

lemma run_scenario_ok:
  assumes "run_scenario site args world scenario = Some (Inr d)"
  shows "scenario_ok current_expectations (scenario, PDict d)
    \<longleftrightarrow> (\<forall>m \<in> layer_measures site args world scenario. layer_clean m)
      \<and> (\<exists>m \<in> layer_measures site args world scenario. layer_defends m)"
proof -
  let ?run = "\<lambda>(key, plan). orbind (run_proxy_layer site args (sw_layer world key) scenario plan)
                    (\<lambda>payload. Some (Inr (key, PDict payload)))"
  from assms obtain direct layers where run: "ormap ?run (scenario_plans args scenario) = Some (Inr layers)"
    and d: "d = (''direct_upstream'', PDict (summarize_phase direct)) # layers"
    by (auto simp: run_scenario_def Let_def orbind_Inr_iff)
  have one: "?run x = Some (Inr l) \<longleftrightarrow> (\<exists>m. measure_layer site args (sw_layer world (fst x)) scenario (snd x) = Some (Inr m)
      \<and> l = (fst x, PDict (layer_payload scenario (snd x) m)))" for x l
    by (cases x) (auto simp: run_proxy_layer_def orbind_Inr_iff)
  have layers: "l \<in> set layers \<longleftrightarrow> (\<exists>x \<in> set (scenario_plans args scenario). \<exists>m.
      measure_layer site args (sw_layer world (fst x)) scenario (snd x) = Some (Inr m)
      \<and> l = (fst x, PDict (layer_payload scenario (snd x) m)))" for l
    by (simp only: ormap_set [OF run] mem_Collect_eq one)
  have measures: "m \<in> layer_measures site args world scenario \<longleftrightarrow> (\<exists>x \<in> set (scenario_plans args scenario).
      measure_layer site args (sw_layer world (fst x)) scenario (snd x) = Some (Inr m))" for m
    by (auto simp: layer_measures_def split_beta)
  have key: "fst x \<noteq> ''direct_upstream''" if "x \<in> set (scenario_plans args scenario)" for x
    using plan_keys [of "fst x" "snd x"] that by simp
  have "(\<forall>l \<in> set layers. layer_ok current_expectations l)
      \<longleftrightarrow> (\<forall>m \<in> layer_measures site args world scenario. layer_clean m)"
    unfolding Ball_def layers measures using runner_layer_ok(1) [OF key] by blast
  moreover have "(\<exists>l \<in> set layers. layer_passes l) \<longleftrightarrow> (\<exists>m \<in> layer_measures site args world scenario. layer_defends m)"
    unfolding Bex_def layers measures using runner_layer_ok(2) [OF key] by blast
  ultimately show ?thesis
    by (simp add: scenario_ok_def d runner_direct_ok layers_match_def current_fields)
qed

lemma dset_fresh: "distinct (map fst items) \<Longrightarrow> set (map fst items) \<inter> set (map fst d) = {}
   \<Longrightarrow> fold (\<lambda>(k, v). dset k v) items d = d @ items"
proof (induction items arbitrary: d)
  case (Cons item items)
  obtain k v where item: "item = (k, v)" by (cases item)
  with Cons.prems have "map_of d k = None" unfolding map_of_eq_None_iff by simp
  then have "dset k v d = d @ [(k, v)]" by (rule update_new)
  with Cons item show ?case by auto
qed simp

lemma header_fields [runner_fields]:
  "dget (report_header site args @ tail) ''generated_at_utc'' = PStr (generated_at_utc (site_time site))"
  "dget (report_header site args @ tail) ''source_tree''
     = PDict (source_tree_metadata (site_git site) (site_cwd site))"
  "safety_stated (dget (report_header site args @ tail) ''safety'')"
  "dget (report_header site args @ [(''scenarios'', v)]) ''scenarios'' = v"
proof -
  have "contains_str s ''loopback-only'' \<and> contains_str s ''X-Forwarded-For''"
    if "s = ''loopback-only; spoof cases use X-Forwarded-For headers from trusted localhost, '' @ ''not packet spoofing''"
    for s unfolding that by code_simp
  then show "safety_stated (dget (report_header site args @ tail) ''safety'')"
    by (simp add: report_header_def dget_def safety_stated_def)
qed (simp_all add: report_header_def dget_def)

lemma runner_header_ok:
  assumes "valid_time (site_time site)"
  shows "header_ok current_expectations (report_header site args @ tail)
    \<longleftrightarrow> site_cwd site \<noteq> [] \<and> usable_checkout (site_git site)"
  using source_tree_ok [of "site_git site" "site_cwd site"] generated_at_utc_stamp [OF assms]
  by (simp add: header_ok_def current_fields runner_fields has_value_def at_least_def provenance_ok_def)

lemma run_all_items:
  assumes "run_all site args worlds scenarios = Some (Inr items)" and "distinct scenarios"
  shows "length items = length scenarios
    \<and> (\<forall>i < length scenarios. \<exists>d. items ! i = (scenarios ! i, PDict d)
         \<and> run_scenario site args (worlds i) (scenarios ! i) = Some (Inr d))"
proof -
  let ?run = "\<lambda>(i, scenario). orbind (run_scenario site args (worlds i) scenario)
      (\<lambda>d. Some (Inr (scenario, PDict d)))"
  from assms(1) obtain built where built: "ormap ?run (enumerate 0 scenarios) = Some (Inr built)"
    and items: "items = fold (\<lambda>(k, v). dset k v) built []"
    by (auto simp: run_all_def orbind_Inr_iff)
  then have all: "list_all2 (\<lambda>x y. ?run x = Some (Inr y)) (enumerate 0 scenarios) built"
    by (simp add: ormap_Inr_iff)
  then have len: "length built = length scenarios" by (auto dest: list_all2_lengthD)
  have each: "\<exists>d. built ! i = (scenarios ! i, PDict d) \<and> run_scenario site args (worlds i) (scenarios ! i) = Some (Inr d)"
    if "i < length scenarios" for i
    using list_all2_nthD [OF all, of i] that by (auto simp: nth_enumerate_eq orbind_Inr_iff)
  have "map fst built = scenarios"
  proof (rule nth_equalityI)
    show "map fst built ! i = scenarios ! i" if "i < length (map fst built)" for i
      using each [of i] that len by auto
  qed (simp add: len)
  with assms(2) have "items = built" unfolding items using dset_fresh [of built "[]"] by simp
  with len each show ?thesis by simp
qed

text \<open>
  C4. The runner and the gate agree: a report that \<open>run_defense_bench.py\<close> prints for different
  scenarios is accepted by the gate, with provenance, score consistency and measured benign traffic
  required, exactly when git answers properly, at least one scenario was run, and in each scenario
  every proxy layer was measured without hung workers and with both readings of the metrics and some
  layer stopped at least 90 percent of the attack while the probe passed at 95 percent and without
  errors.  The scores themselves never fail the gate's cross-checks, and the direct baseline plays no
  part.
\<close>

theorem runner_report_accepted:
  assumes "bench_main site args binary binary_exists worlds = Some (Inr report)"
    and "scenarios = resolve_scenarios (arg_preset args) (arg_scenarios args)" and "distinct scenarios"
    and "valid_time (site_time site)"
  shows "assert_report current_expectations report = Inr []
    \<longleftrightarrow> site_cwd site \<noteq> [] \<and> usable_checkout (site_git site) \<and> scenarios \<noteq> []
      \<and> (\<forall>i < length scenarios.
           (\<forall>m \<in> layer_measures site args (worlds i) (scenarios ! i). layer_clean m)
           \<and> (\<exists>m \<in> layer_measures site args (worlds i) (scenarios ! i). layer_defends m))"
proof -
  from assms(1,2) obtain items where run: "run_all site args worlds scenarios = Some (Inr items)"
    and report: "report = report_header site args @ [(''scenarios'', PDict items)]"
    by (auto simp: bench_main_def Let_def orbind_Inr_iff split: if_splits)
  from run_all_items [OF run assms(3)] have len: "length items = length scenarios"
    and item: "\<And>i. i < length scenarios \<Longrightarrow> \<exists>d. items ! i = (scenarios ! i, PDict d)
         \<and> run_scenario site args (worlds i) (scenarios ! i) = Some (Inr d)" by auto
  have "(\<forall>item \<in> set items. scenario_ok current_expectations item)
    \<longleftrightarrow> (\<forall>i < length scenarios. scenario_ok current_expectations (items ! i))"
    by (simp add: all_set_conv_all_nth len)
  also have "\<dots> \<longleftrightarrow> (\<forall>i < length scenarios.
           (\<forall>m \<in> layer_measures site args (worlds i) (scenarios ! i). layer_clean m)
           \<and> (\<exists>m \<in> layer_measures site args (worlds i) (scenarios ! i). layer_defends m))"
    using item run_scenario_ok by metis
  finally show ?thesis
    using len runner_header_ok [OF assms(4)]
    by (auto simp: assert_report_silent report_ok_def report runner_fields current_fields names_match_def)
qed

section \<open>A run that is accepted\<close>

lemma ormap_total:
  assumes "\<And>x. x \<in> set xs \<Longrightarrow> \<exists>y. f x = Some (Inr y)"
  shows "\<exists>ys. ormap f xs = Some (Inr ys)"
  using assms
proof (induction xs)
  case (Cons x xs)
  obtain y where "f x = Some (Inr y)" using Cons.prems [of x] by auto
  moreover obtain ys where "ormap f xs = Some (Inr ys)" using Cons by auto
  ultimately show ?case by (simp add: orbind_def)
qed simp

lemma sample_phase_run:
  assumes "0 < duration" and "duration \<le> 1"
  shows "ph_requests (run_phase (sample_phase status [Merges 0]) scenario duration workers bypass direct) = 1
    \<and> ph_errors (run_phase (sample_phase status [Merges 0]) scenario duration workers bypass direct) = 0
    \<and> ph_hung_workers (run_phase (sample_phase status [Merges 0]) scenario duration workers bypass direct) = 0
    \<and> ph_statuses (run_phase (sample_phase status [Merges 0]) scenario duration workers bypass direct) = [(status, 1)]"
proof -
  from sample_worker_returns [OF assms, of scenario bypass "[7919]" status] obtain r where
    "bench_worker scenario bypass 0 duration (sample_worker status\<lparr>worker_draws := [7919]\<rparr>) = Some r"
    "ph_requests r = 1" "ph_errors r = 0" "ph_statuses r = [(status, 1)]" by auto
  then show ?thesis
    by (simp add: run_phase_def phase_local_def sample_phase_def Let_def merge_local_def new_phase_def
        merge_counts_def add_count_def)
qed

definition sample_probe :: probe_world where
  "sample_probe = \<lparr>probe_start = 0, probe_clock = (\<lambda>i. 0), probe_end_clock = (\<lambda>i. 0), probe_exited = (\<lambda>i. None),
     probe_reply = (\<lambda>i. Answer 200 []), log_tail = []\<rparr>"

definition sample_met :: proxy_world where
  "sample_met = \<lparr>pw_before = sample_probe, pw_after = sample_probe, pw_collect = sample_phase 403 [Merges 0],
     pw_replay = sample_phase 429 [Merges 0], pw_bypass = sample_phase 204 [Merges 0], pw_collect_mono = 0,
     pw_collect_unix_ms = 0,
     pw_filters = \<lparr>filters_now = 0, filters_clock = (\<lambda>i. 0),
       filters_doc = (\<lambda>i. Inr (PDict [(''filters'', PList [PDict []])])), filters_found = (\<lambda>i. 2)\<rparr>,
     pw_events = None, pw_analyzer_log = None\<rparr>"

definition sample_layer :: layer_world where
  "sample_layer = \<lparr>lw_port = (\<lambda>i. 40000 + i), lw_health = (\<lambda>i config. sample_probe),
     lw_proxy = (\<lambda>config command. sample_met)\<rparr>"

definition sample_site :: bench_site where
  "sample_site = \<lparr>site_base = ''/tmp/bench'', site_upstream_port = 40000, site_python = ''python3'',
     site_tools_dir = ''tools'', site_loads = (\<lambda>line. Inl JSONDecodeError), site_git = sample_git,
     site_cwd = ''/srv/altura'', site_time = sample_time\<rparr>"

definition sample_bench :: bench_args where
  "sample_bench = \<lparr>arg_provider = ''codex'', arg_no_codex = True, arg_duration = 1, arg_workers = 1, arg_analyzer_wait = 30,
     arg_per_ip_rps = 80, arg_path_shape_rps = 80, arg_signature_threshold = 60, arg_scenarios = '' basic, xff-rotating,'',
     arg_preset = None, arg_json_only = True\<rparr>"

lemma sample_metrics: "try_fetch_metrics sample_probe = Some (Inr ([], None))"
proof -
  have "parse_metrics [] = []" by code_simp
  then show ?thesis
    unfolding try_fetch_metrics_def fetch_metrics_def
    by (subst metrics_loop.simps) (simp add: sample_probe_def)
qed

lemma sample_health: "wait_health sample_probe = Some (Inr ())"
  unfolding wait_health_def by (subst health_loop.simps) (simp add: sample_probe_def)

lemma sample_filters: "wait_for_filters (pw_filters sample_met) 0 30 = Some (Inr ([[]], Some 2))"
  unfolding wait_for_filters_def
  by (subst filters_loop.simps) (simp add: sample_met_def read_filters_def dget_or_def dicts_of_def)

lemma sample_measure:
  "\<exists>m. measure_layer sample_site sample_bench sample_layer scenario plan = Some (Inr m)
     \<and> layer_clean m \<and> layer_defends m"
proof -
  have delta: "\<exists>d. selected_metrics_delta [] [] = Inr d"
    by (simp add: selected_metrics_delta_def DEFENSE_METRIC_KEYS_def)
  let ?attack = "\<lambda>status. run_phase (sample_phase status [Merges 0]) scenario 1 1 False False"
  let ?probe = "run_phase (sample_phase 204 [Merges 0]) scenario (3 / 4) 1 True False"
  have stopped: "attacker_stopped_percent (?attack status) = 100" if "status = 403 \<or> status = 429" for status
    using sample_phase_run [of 1 status scenario 1 False False] that
    by (auto simp: attacker_stopped_percent_def Let_def percent_of_def status_count_def round_to_def round_half_even_def)
  have allowed: "percent_of ?probe (allowed_count ?probe) = 100" "ph_errors ?probe = 0"
    using sample_phase_run [of "3 / 4" 204 scenario 1 True False]
    by (simp_all add: percent_of_def allowed_count_def round_to_def round_half_even_def)
  show ?thesis
    using delta stopped allowed sample_phase_run [of "3 / 4" 204 scenario 1 True False]
      sample_phase_run [of 1 _ scenario 1 False False] sample_filters
    by (auto simp: measure_layer_def sample_layer_def sample_health sample_metrics orbind_def sample_met_def sample_bench_def
        layer_clean_def layer_defends_def attack_phase_def metrics_errors_def Let_def)
qed

lemma sample_scenario:
  "\<exists>d. run_scenario sample_site sample_bench \<lparr>sw_direct = sample_phase 204 [Merges 0], sw_layer = (\<lambda>key. sample_layer)\<rparr> scenario
     = Some (Inr d)"
proof -
  let ?f = "\<lambda>(key :: string, plan). orbind (run_proxy_layer sample_site sample_bench sample_layer scenario plan)
      (\<lambda>payload. Some (Inr (key, PDict payload)))"
  have "\<exists>y. ?f x = Some (Inr y)" for x
    using sample_measure [of scenario "snd x"] by (cases x) (auto simp: run_proxy_layer_def orbind_def)
  from ormap_total [of "scenario_plans sample_bench scenario" ?f, OF this] show ?thesis
    by (auto simp: run_scenario_def Let_def orbind_def)
qed

theorem runner_report_accepted_witness:
  "\<exists>report. bench_main sample_site sample_bench ''altura-prot'' True
       (\<lambda>i. \<lparr>sw_direct = sample_phase 204 [Merges 0], sw_layer = (\<lambda>key. sample_layer)\<rparr>) = Some (Inr report)
     \<and> assert_report current_expectations report = Inr []"
proof -
  let ?world = "\<lparr>sw_direct = sample_phase 204 [Merges 0], sw_layer = (\<lambda>key. sample_layer)\<rparr>"
  have scenarios: "resolve_scenarios (arg_preset sample_bench) (arg_scenarios sample_bench) = [''basic'', ''xff-rotating'']"
    by code_simp
  have known: "set [''basic'', ''xff-rotating''] \<subseteq> set KNOWN_SCENARIOS" by code_simp
  let ?f = "\<lambda>(i :: nat, scenario). orbind (run_scenario sample_site sample_bench ?world scenario)
      (\<lambda>d. Some (Inr (scenario, PDict d)))"
  have "\<exists>y. ?f x = Some (Inr y)" for x using sample_scenario [of "snd x"] by (cases x) (auto simp: orbind_def)
  from ormap_total [of "enumerate 0 [''basic'', ''xff-rotating'']" ?f, OF this] obtain items where
    "run_all sample_site sample_bench (\<lambda>i. ?world) [''basic'', ''xff-rotating''] = Some (Inr items)"
    by (auto simp: run_all_def orbind_def simp del: enumerate_simps)
  with known obtain report where run:
    "bench_main sample_site sample_bench ''altura-prot'' True (\<lambda>i. ?world) = Some (Inr report)"
    by (simp add: bench_main_def scenarios orbind_def)
  have "layer_clean m \<and> layer_defends m" if "m \<in> layer_measures sample_site sample_bench ?world scenario" for m scenario
  proof -
    from that obtain plan where "measure_layer sample_site sample_bench sample_layer scenario plan = Some (Inr m)"
      by (auto simp: layer_measures_def)
    with sample_measure [of scenario plan] show ?thesis by simp
  qed
  moreover have "\<exists>m. m \<in> layer_measures sample_site sample_bench ?world scenario" for scenario
    using sample_measure [of scenario] by (fastforce simp: layer_measures_def scenario_plans_def Let_def)
  moreover have "valid_time (site_time sample_site)" "site_cwd sample_site \<noteq> []" "usable_checkout (site_git sample_site)"
    by code_simp+
  ultimately have "assert_report current_expectations report = Inr []"
    by (subst runner_report_accepted [OF run scenarios [symmetric]]) (simp, simp, blast)
  with run show ?thesis by blast
qed

section \<open>The runner returns\<close>

definition layer_ticks :: "layer_world \<Rightarrow> bool" where
  "layer_ticks world \<longleftrightarrow>
     (\<forall>attempt config. ticking (probe_clock (lw_health world attempt config)))
     \<and> (\<forall>config command.
          ticking (probe_end_clock (pw_before (lw_proxy world config command)))
          \<and> ticking (probe_end_clock (pw_after (lw_proxy world config command)))
          \<and> ticking (filters_clock (pw_filters (lw_proxy world config command))))"

lemma orbind_None: "orbind m f = None \<longleftrightarrow> m = None \<or> (\<exists>x. m = Some (Inr x) \<and> f x = None)"
  by (auto simp: orbind_def split: option.splits sum.splits)

lemma ormap_returns: "(\<And>x. f x \<noteq> None) \<Longrightarrow> ormap f xs \<noteq> None"
  by (induction xs) (simp_all add: orbind_None)

lemma ticking_waits:
  "ticking (probe_clock w) \<Longrightarrow> wait_health w \<noteq> None"
  "ticking (probe_end_clock w) \<Longrightarrow> try_fetch_metrics w \<noteq> None"
  "ticking (filters_clock v) \<Longrightarrow> wait_for_filters v started timeout \<noteq> None"
  using wait_health_returns [of _ w] fetch_metrics_returns [of _ w] wait_for_filters_returns [of _ v started timeout]
  by (auto simp: ticking_def try_fetch_metrics_def)

lemma start_attempts_returns:
  assumes "\<And>attempt c. ticking (probe_clock (health attempt c))" and "3 \<in> set attempts"
  shows "start_attempts config health attempts startup_errors \<noteq> None"
  using assms(2)
proof (induction attempts arbitrary: startup_errors)
  case (Cons attempt rest)
  obtain r where r: "wait_health (health attempt (fst (config attempt))) = Some r"
    using ticking_waits(1) [OF assms(1)] by blast
  show ?case
  proof (cases "\<exists>err. r = Inl (RuntimeError err)")
    case True
    with r Cons show ?thesis by (auto simp: Let_def)
  qed (use r in \<open>auto split: sum.split exn.split\<close>)
qed simp

lemma measure_layer_returns:
  assumes "layer_ticks world"
  shows "measure_layer site args world scenario plan \<noteq> None"
proof -
  have "\<And>attempt c. ticking (probe_clock (lw_health world attempt c))" using assms by (simp add: layer_ticks_def)
  then have start: "start_attempts config (lw_health world) [1, 2, 3] [] \<noteq> None" for config
    by (rule start_attempts_returns) simp
  have "try_fetch_metrics (pw_before (lw_proxy world c k)) \<noteq> None"
    "try_fetch_metrics (pw_after (lw_proxy world c k)) \<noteq> None"
    "wait_for_filters (pw_filters (lw_proxy world c k)) t u \<noteq> None" for c k t u
    using assms ticking_waits by (simp_all add: layer_ticks_def)
  then show ?thesis
    using start by (auto simp: measure_layer_def orbind_None Let_def split: if_splits)
qed


text \<open>A proxy that never becomes ready.\<close>

definition dead_layer :: layer_world where
  "dead_layer = \<lparr>lw_port = (\<lambda>i. 40000 + i),
     lw_health = (\<lambda>i config. sample_probe\<lparr>probe_clock := of_nat, probe_reply := (\<lambda>i. Answer 503 [])\<rparr>),
     lw_proxy = (\<lambda>config command. sample_met
       \<lparr>pw_before := sample_probe\<lparr>probe_end_clock := of_nat\<rparr>, pw_after := sample_probe\<lparr>probe_end_clock := of_nat\<rparr>,
        pw_filters := (pw_filters sample_met)\<lparr>filters_clock := of_nat\<rparr>\<rparr>)\<rparr>"


end
