(* ===== verification/Bench_Table.thy ===== *)
theory Bench_Table
  imports Bench_Runner
begin

text \<open>
  The table \<open>tools/run_defense_bench.py\<close> prints of a report, as the list of the texts printed, and that
  printing the table of the runner's own reports does not raise.
\<close>

section \<open>Formatting\<close>

definition rjust :: "nat \<Rightarrow> string \<Rightarrow> string" where
  "rjust width s = replicate (width - length s) (CHR '' '') @ s"

definition ljust :: "nat \<Rightarrow> string \<Rightarrow> string" where
  "ljust width s = s @ replicate (width - length s) (CHR '' '')"

definition fixed_2 :: "rat \<Rightarrow> string" where
  "fixed_2 q =
     (let n = nat \<bar>round_half_even (q * 100)\<bar>
      in (if q < 0 then ''-'' else []) @ nat_str (n div 100) @ ''.'' @ pad2 (n mod 100))"

text \<open>\<open>f"{v:>6.2f}"\<close>.\<close>

definition format_6_2f :: "pyval \<Rightarrow> string result" where
  "format_6_2f v =
     (case num_of v of
        Some (Fin q) \<Rightarrow> Inr (rjust 6 (fixed_2 q))
      | Some PInf \<Rightarrow> Inr (rjust 6 ''inf'')
      | Some NInf \<Rightarrow> Inr (rjust 6 ''-inf'')
      | Some NaN \<Rightarrow> Inr (rjust 6 ''nan'')
      | None \<Rightarrow> (case v of PStr _ \<Rightarrow> Inl (ValueError ''Unknown format code'') | _ \<Rightarrow> Inl TypeError))"

text \<open>\<open>d[k]\<close>, and a value that is used as an object.\<close>

definition ditem :: "dict \<Rightarrow> string \<Rightarrow> pyval result" where
  "ditem d k = (case map_of d k of None \<Rightarrow> Inl (KeyError k) | Some v \<Rightarrow> Inr v)"

fun as_dict :: "pyval \<Rightarrow> dict result" where
  "as_dict (PDict d) = Inr d"
| "as_dict _ = Inl AttributeError"

fun as_list :: "pyval \<Rightarrow> pyval list result" where
  "as_list (PList xs) = Inr xs"
| "as_list _ = Inl TypeError"

section \<open>The table\<close>

text \<open>\<open>layer_score\<close> of the runner, the text of a row.\<close>

definition layer_score_text :: "dict \<Rightarrow> string result" where
  "layer_score_text layer =
     rbind (as_dict (py_or (py_or (dget layer ''replay'') (dget layer ''collect'')) (PDict []))) (\<lambda>phase.
     rbind (format_6_2f (dget_or phase ''allowed_percent'' (PInt 0))) (\<lambda>allowed.
     rbind (format_6_2f (dget_or phase ''blocked_percent'' (PInt 0))) (\<lambda>blocked.
     rbind (format_6_2f (dget_or phase ''limited_percent'' (PInt 0))) (\<lambda>limited.
       Inr (''allowed='' @ allowed @ ''% blocked='' @ blocked @ ''% limited='' @ limited @ ''% rps=''
            @ py_str (dget_or phase ''requests_per_second'' (PInt 0)))))))"

definition TABLE_LAYERS :: "string list" where
  "TABLE_LAYERS =
     [''proxy_open'', ''rate_limit'', ''path_shape_rate_limit'', ''static_filter'', ''learned_filter_strict'',
      ''learned_filter_observed'']"

definition filter_line :: "pyval \<Rightarrow> string result" where
  "filter_line v =
     rbind (as_dict v) (\<lambda>item.
       Inr (ljust 19 ''filter'' @ '' kind='' @ py_str (dget item ''kind'') @ '' precision=''
            @ py_str (dget item ''precision'') @ '' basis='' @ py_str (dget item ''signature_basis'')))"

definition bypass_lines :: "pyval \<Rightarrow> string list result" where
  "bypass_lines v =
     (if \<not> py_truthy v then Inr []
      else rbind (as_dict v) (\<lambda>bypass.
           rbind (rbind (ditem bypass ''allowed_percent'') format_6_2f) (\<lambda>allowed.
           rbind (rbind (ditem bypass ''blocked_percent'') format_6_2f) (\<lambda>blocked.
           rbind (ditem bypass ''requests_per_second'') (\<lambda>rps.
             Inr [ljust 19 ''bypass_probe'' @ '' allowed='' @ allowed @ ''% blocked='' @ blocked @ ''% rps=''
                  @ py_str rps])))))"

definition layer_lines :: "dict \<Rightarrow> string \<Rightarrow> string list result" where
  "layer_lines data key =
     (case map_of data key of
        None \<Rightarrow> Inr []
      | Some v \<Rightarrow>
          rbind (as_dict v) (\<lambda>layer.
          rbind (as_dict (dget_or layer ''events'' (PDict []))) (\<lambda>events.
          rbind (layer_score_text layer) (\<lambda>score.
          rbind (rbind (as_list (dget_or layer ''filter_interpretation'' (PList []))) (rmap filter_line)) (\<lambda>filters.
          rbind (bypass_lines (dget layer ''bypass_probe'')) (\<lambda>bypass.
            Inr ([ljust 19 key @ '' '' @ score @ '' detect='' @ py_str (dget events ''first_detection_seconds'')
                  @ ''s filters='' @ py_str (dget layer ''filters_learned'')
                  @ '' write='' @ py_str (dget layer ''filter_write_seconds'') @ ''s'']
                 @ filters @ bypass)))))))"

definition scenario_lines :: "string \<times> pyval \<Rightarrow> string list result" where
  "scenario_lines item =
     rbind (as_dict (snd item)) (\<lambda>data.
     rbind (rbind (ditem data ''direct_upstream'') as_dict) (\<lambda>direct.
     rbind (rbind (ditem direct ''allowed_percent'') format_6_2f) (\<lambda>allowed.
     rbind (ditem direct ''requests_per_second'') (\<lambda>rps.
     rbind (rmap (layer_lines data) TABLE_LAYERS) (\<lambda>layers.
       Inr ([[LF] @ ''['' @ fst item @ '']'', ''direct_upstream     allowed='' @ allowed @ ''% rps='' @ py_str rps]
            @ concat layers))))))"

definition print_table :: "dict \<Rightarrow> string list result" where
  "print_table report =
     rbind (ditem report ''provider'') (\<lambda>provider.
     rbind (ditem report ''workdir'') (\<lambda>workdir.
     rbind (rbind (ditem report ''scenarios'') as_dict) (\<lambda>scenarios.
     rbind (rmap scenario_lines scenarios) (\<lambda>lines.
       Inr ([[LF] @ ''AlturaProt local defense benchmark'',
             ''provider='' @ py_str provider @ '' workdir='' @ py_str workdir] @ concat lines)))))"

section \<open>Tables of the runner's reports\<close>

lemma rmap_returns: "(\<And>x. x \<in> set xs \<Longrightarrow> \<exists>y. f x = Inr y) \<Longrightarrow> \<exists>ys. rmap f xs = Inr ys"
proof (induction xs)
  case (Cons x xs)
  obtain y where "f x = Inr y" using Cons.prems [of x] by auto
  moreover obtain ys where "rmap f xs = Inr ys" using Cons by auto
  ultimately show ?case by simp
qed simp

lemma summary_items:
  "map_of (summarize_phase r) ''allowed_percent'' = Some (PFloat (Fin (percent_of r (allowed_count r))))"
  "map_of (summarize_phase r) ''blocked_percent'' = Some (PFloat (Fin (percent_of r (status_count r 403))))"
  "map_of (summarize_phase r) ''limited_percent'' = Some (PFloat (Fin (percent_of r (status_count r 429))))"
  "map_of (summarize_phase r) ''requests_per_second''
     = Some (PFloat (Fin (round_to 2 (of_nat (ph_requests r) / max (1 / 1000) (ph_elapsed_seconds r)))))"
  "summarize_phase r \<noteq> []"
  by (simp_all add: summarize_phase_def)

lemma layer_score_text_returns: "\<exists>s. layer_score_text (layer_payload scenario plan m) = Inr s"
  by (cases "lm_replay m")
    (auto simp: layer_score_text_def runner_fields py_or_def dget_or_def summary_items format_6_2f_def)

lemma payload_items:
  "map_of (layer_payload scenario plan m) ''events'' = Some (PDict (summarize_events (lm_events m) (lm_unix_ms m)))"
  "map_of (layer_payload scenario plan m) ''filter_interpretation''
     = Some (PList (map PDict (interpret_filters (lm_filters m) (lm_events m))))"
  by (simp_all add: layer_payload_def)

lemma filter_lines_return: "\<exists>ys. rmap filter_line (map PDict ds) = Inr ys"
  by (rule rmap_returns) (auto simp: filter_line_def)

lemma bypass_lines_return: "\<exists>ys. bypass_lines (PDict (summarize_phase r)) = Inr ys"
  by (simp add: bypass_lines_def summary_items ditem_def format_6_2f_def)

lemma layer_lines_return:
  assumes "\<forall>v. map_of data key = Some v \<longrightarrow> (\<exists>scenario plan m. v = PDict (layer_payload scenario plan m))"
  shows "\<exists>ys. layer_lines data key = Inr ys"
proof (cases "map_of data key")
  case (Some v)
  with assms obtain scenario plan m where v: "v = PDict (layer_payload scenario plan m)" by blast
  with Some layer_score_text_returns [of scenario plan m] bypass_lines_return [of "lm_bypass m"]
    filter_lines_return [of "interpret_filters (lm_filters m) (lm_events m)"]
  show ?thesis by (auto simp: layer_lines_def dget_or_def payload_items runner_fields)
qed (simp add: layer_lines_def)

lemma scenario_lines_return:
  assumes "run_scenario site args world scenario = Some (Inr d)"
  shows "\<exists>ys. scenario_lines (scenario, PDict d) = Inr ys"
proof -
  let ?run = "\<lambda>(key, plan). orbind (run_proxy_layer site args (sw_layer world key) scenario plan)
                    (\<lambda>payload. Some (Inr (key, PDict payload)))"
  from assms obtain direct layers where run: "ormap ?run (scenario_plans args scenario) = Some (Inr layers)"
    and d: "d = (''direct_upstream'', PDict (summarize_phase direct)) # layers"
    by (auto simp: run_scenario_def Let_def orbind_Inr_iff)
  have payload: "\<exists>scenario plan m. v = PDict (layer_payload scenario plan m)" if "(key, v) \<in> set layers" for key v
    using that unfolding ormap_set [OF run] by (auto simp: run_proxy_layer_def orbind_Inr_iff) blast
  have "\<exists>ys. layer_lines d key = Inr ys" if "key \<in> set TABLE_LAYERS" for key
  proof (rule layer_lines_return)
    from that have "key \<noteq> ''direct_upstream''" by (auto simp: TABLE_LAYERS_def)
    then show "\<forall>v. map_of d key = Some v \<longrightarrow> (\<exists>scenario plan m. v = PDict (layer_payload scenario plan m))"
      using payload by (auto simp: d dest!: map_of_SomeD)
  qed
  then have "\<exists>ys. rmap (layer_lines d) TABLE_LAYERS = Inr ys" by (rule rmap_returns)
  then show ?thesis
    by (auto simp: scenario_lines_def d ditem_def summary_items format_6_2f_def)
qed

text \<open>Printing the table of a report of the runner does not raise.\<close>

theorem print_table_returns:
  assumes "bench_main site args binary binary_exists worlds = Some (Inr report)"
    and "distinct (resolve_scenarios (arg_preset args) (arg_scenarios args))"
  shows "\<exists>lines. print_table report = Inr lines"
proof -
  let ?scenarios = "resolve_scenarios (arg_preset args) (arg_scenarios args)"
  from assms(1) obtain items where run: "run_all site args worlds ?scenarios = Some (Inr items)"
    and report: "report = report_header site args @ [(''scenarios'', PDict items)]"
    by (auto simp: bench_main_def Let_def orbind_Inr_iff split: if_splits)
  from run_all_items [OF run assms(2)] have "\<exists>ys. scenario_lines item = Inr ys" if "item \<in> set items" for item
    using that scenario_lines_return by (metis in_set_conv_nth)
  then have "\<exists>ys. rmap scenario_lines items = Inr ys" by (rule rmap_returns)
  then show ?thesis by (auto simp: print_table_def report ditem_def report_header_def)
qed

end
