(* ===== verification/Py_Regex.thy ===== *)
theory Py_Regex
  imports Py_String
begin

text \<open>
  The regular expressions the template checks use, with the matching of Python's \<open>re\<close>: a matcher
  returns the ways to match at a position in the order in which the backtracking engine tries them,
  so the first one is the match.  Repetition is of single characters, as everywhere in the tools.
\<close>

section \<open>Patterns\<close>

datatype regex =
    Lit string
  | One "char \<Rightarrow> bool"
  | Many "char \<Rightarrow> bool"
  | Bound
  | Seq "regex list"
  | Alt regex regex
  | Opt regex
  | Grp regex

text \<open>\<open>\w\<close>, \<open>\s\<close>, \<open>\S\<close>, \<open>\d\<close> and the dot.\<close>

definition is_word :: "char \<Rightarrow> bool" where
  "is_word c \<longleftrightarrow> is_alnum_char c \<or> c = CHR ''_''"

abbreviation Sp0 :: regex where "Sp0 \<equiv> Many is_space"
abbreviation Sp :: regex where "Sp \<equiv> Seq [One is_space, Many is_space]"
abbreviation NonSp :: regex where "NonSp \<equiv> Seq [One (\<lambda>c. \<not> is_space c), Many (\<lambda>c. \<not> is_space c)]"
abbreviation Digits :: regex where "Digits \<equiv> Seq [One is_ascii_digit, Many is_ascii_digit]"
abbreviation AnyStar :: regex where "AnyStar \<equiv> Many (\<lambda>c. c \<noteq> LF)"
abbreviation NotBrace :: regex where "NotBrace \<equiv> Many (\<lambda>c. c \<noteq> CHR ''}'')"

text \<open>\<open>w1\s+w2\s+...\<close>.\<close>

fun words :: "string list \<Rightarrow> regex list" where
  "words [] = []"
| "words [w] = [Lit w]"
| "words (w # ws) = Lit w # Sp # words ws"

section \<open>Matching\<close>

text \<open>What precedes the position (reversed), what follows it, and the groups closed so far.\<close>

type_synonym mstate = "string \<times> string \<times> string list"

definition at_bound :: "string \<Rightarrow> string \<Rightarrow> bool" where
  "at_bound prev rest \<longleftrightarrow>
     (prev \<noteq> [] \<and> is_word (hd prev)) \<noteq> (rest \<noteq> [] \<and> is_word (hd rest))"

fun rmatch :: "regex \<Rightarrow> mstate \<Rightarrow> mstate list"
  and rmatch_seq :: "regex list \<Rightarrow> mstate \<Rightarrow> mstate list" where
  "rmatch (Lit w) (b, a, g) = (if starts_with a w then [(rev w @ b, drop (length w) a, g)] else [])"
| "rmatch (One p) (b, a, g) = (if a \<noteq> [] \<and> p (hd a) then [(hd a # b, tl a, g)] else [])"
| "rmatch (Many p) (b, a, g) =
     map (\<lambda>n. (rev (take n a) @ b, drop n a, g)) (rev [0..<Suc (length (takeWhile p a))])"
| "rmatch Bound (b, a, g) = (if at_bound b a then [(b, a, g)] else [])"
| "rmatch (Seq rs) st = rmatch_seq rs st"
| "rmatch (Alt r s) st = rmatch r st @ rmatch s st"
| "rmatch (Opt r) st = rmatch r st @ [st]"
| "rmatch (Grp r) (b, a, g) =
     map (\<lambda>(b', a', g'). (b', a', g' @ [rev (take (length b' - length b) b')])) (rmatch r (b, a, g))"
| "rmatch_seq [] st = [st]"
| "rmatch_seq (r # rs) st = concat (map (rmatch_seq rs) (rmatch r st))"

text \<open>\<open>re.search\<close>: the start of the leftmost match, the text after it, and the groups.\<close>

fun search_from :: "regex \<Rightarrow> string \<Rightarrow> string \<Rightarrow> (nat \<times> string \<times> string list) option" where
  "search_from r b [] =
     (case rmatch r (b, [], []) of [] \<Rightarrow> None | (_, a', g) # _ \<Rightarrow> Some (length b, a', g))"
| "search_from r b (c # a) =
     (case rmatch r (b, c # a, []) of
        [] \<Rightarrow> search_from r (c # b) a
      | (_, a', g) # _ \<Rightarrow> Some (length b, a', g))"

definition re_search :: "regex \<Rightarrow> string \<Rightarrow> (nat \<times> string \<times> string list) option" where
  "re_search r s = search_from r [] s"

definition re_found :: "regex \<Rightarrow> string \<Rightarrow> bool" where
  "re_found r s \<longleftrightarrow> re_search r s \<noteq> None"

text \<open>\<open>re.fullmatch\<close>: the groups of the first way to match all of the text.\<close>

definition re_fullmatch :: "regex \<Rightarrow> string \<Rightarrow> string list option" where
  "re_fullmatch r s =
     (case filter (\<lambda>(b, a, g). a = []) (rmatch r ([], s, [])) of [] \<Rightarrow> None | (_, _, g) # _ \<Rightarrow> Some g)"

section \<open>Languages\<close>

text \<open>
  What a pattern matches, as a relation between the text before, the text matched and the text
  after; the matcher finds exactly these matches.
\<close>

inductive denotes :: "regex \<Rightarrow> string \<Rightarrow> string \<Rightarrow> string \<Rightarrow> bool"
  and denotes_seq :: "regex list \<Rightarrow> string \<Rightarrow> string \<Rightarrow> string \<Rightarrow> bool" where
  Lit: "denotes (Lit w) b w a"
| One: "p c \<Longrightarrow> denotes (One p) b [c] a"
| Many: "list_all p m \<Longrightarrow> denotes (Many p) b m a"
| Bound: "at_bound b a \<Longrightarrow> denotes Bound b [] a"
| Seq: "denotes_seq rs b m a \<Longrightarrow> denotes (Seq rs) b m a"
| AltL: "denotes r b m a \<Longrightarrow> denotes (Alt r s) b m a"
| AltR: "denotes s b m a \<Longrightarrow> denotes (Alt r s) b m a"
| OptS: "denotes r b m a \<Longrightarrow> denotes (Opt r) b m a"
| OptN: "denotes (Opt r) b [] a"
| Grp: "denotes r b m a \<Longrightarrow> denotes (Grp r) b m a"
| Nil: "denotes_seq [] b [] a"
| Cons: "denotes r b m (m' @ a) \<Longrightarrow> denotes_seq rs (rev m @ b) m' a \<Longrightarrow> denotes_seq (r # rs) b (m @ m') a"

inductive_cases denotes_LitE: "denotes (Lit w) b m a"
inductive_cases denotes_OneE: "denotes (One p) b m a"
inductive_cases denotes_ManyE: "denotes (Many p) b m a"
inductive_cases denotes_BoundE: "denotes Bound b m a"
inductive_cases denotes_SeqE: "denotes (Seq rs) b m a"
inductive_cases denotes_AltE: "denotes (Alt r s) b m a"
inductive_cases denotes_OptE: "denotes (Opt r) b m a"
inductive_cases denotes_GrpE: "denotes (Grp r) b m a"
inductive_cases denotes_NilE: "denotes_seq [] b m a"
inductive_cases denotes_ConsE: "denotes_seq (r # rs) b m a"

text \<open>The matcher and the relation agree.\<close>

definition found_at :: "string \<Rightarrow> string \<Rightarrow> (string \<Rightarrow> string \<Rightarrow> bool) \<Rightarrow> string \<Rightarrow> string \<Rightarrow> bool" where
  "found_at b a matches b' a' \<longleftrightarrow> (\<exists>m. a = m @ a' \<and> b' = rev m @ b \<and> matches m a')"

lemma many_lengths:
  "n \<le> length (takeWhile p a) \<longleftrightarrow> n \<le> length a \<and> list_all p (take n a)"
proof (induction a arbitrary: n)
  case (Cons c a)
  then show ?case by (cases n) auto
qed simp

lemma rmatch_iff:
  "(\<exists>g'. (b', a', g') \<in> set (rmatch r st)) \<longleftrightarrow> found_at (fst st) (fst (snd st)) (denotes r (fst st)) b' a'"
  "(\<exists>g'. (b', a', g') \<in> set (rmatch_seq rs st)) \<longleftrightarrow> found_at (fst st) (fst (snd st)) (denotes_seq rs (fst st)) b' a'"
proof (induction r st and rs st arbitrary: b' a' and b' a' rule: rmatch_rmatch_seq.induct)
  case (1 w b a g)
  then show ?case
    by (auto simp: found_at_def starts_with_iff elim!: denotes_LitE intro: denotes_denotes_seq.Lit)
next
  case (2 p b a g)
  then show ?case
    by (cases a) (auto simp: found_at_def elim!: denotes_OneE intro: denotes_denotes_seq.One)
next
  case (3 p b a g)
  show ?case
  proof
    assume "\<exists>g'. (b', a', g') \<in> set (rmatch (Many p) (b, a, g))"
    then obtain n where "n \<le> length (takeWhile p a)" "b' = rev (take n a) @ b" "a' = drop n a"
      by (auto simp: less_Suc_eq_le simp del: upt_Suc)
    then show "found_at (fst (b, a, g)) (fst (snd (b, a, g))) (denotes (Many p) (fst (b, a, g))) b' a'"
      unfolding many_lengths found_at_def
      by (auto intro!: exI [of _ "take n a"] denotes_denotes_seq.Many)
  next
    assume "found_at (fst (b, a, g)) (fst (snd (b, a, g))) (denotes (Many p) (fst (b, a, g))) b' a'"
    then obtain m where m: "a = m @ a'" "b' = rev m @ b" "list_all p m"
      by (auto simp: found_at_def elim: denotes_ManyE)
    then have "length m \<le> length (takeWhile p a)" by (simp add: many_lengths)
    with m show "\<exists>g'. (b', a', g') \<in> set (rmatch (Many p) (b, a, g))"
      by (auto simp: less_Suc_eq_le image_iff simp del: upt_Suc intro!: bexI [of _ "length m"])
  qed
next
  case (4 b a g)
  then show ?case by (auto simp: found_at_def elim!: denotes_BoundE intro: denotes_denotes_seq.Bound)
next
  case (5 rs st)
  then show ?case by (auto simp: found_at_def elim!: denotes_SeqE intro: denotes_denotes_seq.Seq)
next
  case (6 r s st)
  have "(\<exists>g'. (b', a', g') \<in> set (rmatch (Alt r s) st)) \<longleftrightarrow>
      (\<exists>g'. (b', a', g') \<in> set (rmatch r st)) \<or> (\<exists>g'. (b', a', g') \<in> set (rmatch s st))" by auto
  with 6 show ?case
    by (auto simp: found_at_def elim!: denotes_AltE intro: denotes_denotes_seq.AltL denotes_denotes_seq.AltR)
next
  case (7 r st)
  obtain b a g where st: "st = (b, a, g)" by (cases st)
  have "(\<exists>g'. (b', a', g') \<in> set (rmatch (Opt r) st)) \<longleftrightarrow>
      (\<exists>g'. (b', a', g') \<in> set (rmatch r st)) \<or> b' = b \<and> a' = a" by (auto simp: st)
  with 7 show ?case
    by (auto simp: st found_at_def elim!: denotes_OptE intro: denotes_denotes_seq.OptS denotes_denotes_seq.OptN)
next
  case (8 r b a g)
  have "(\<exists>g'. (b', a', g') \<in> set (rmatch (Grp r) (b, a, g))) \<longleftrightarrow>
      (\<exists>g'. (b', a', g') \<in> set (rmatch r (b, a, g)))" by force
  with 8 show ?case by (auto simp: found_at_def elim!: denotes_GrpE intro: denotes_denotes_seq.Grp)
next
  case (9 st)
  then show ?case by (cases st) (auto simp: found_at_def elim!: denotes_NilE intro: denotes_denotes_seq.Nil)
next
  case (10 r rs st)
  obtain b a g where st: "st = (b, a, g)" by (cases st)
  show ?case
  proof
    assume "\<exists>g'. (b', a', g') \<in> set (rmatch_seq (r # rs) st)"
    then obtain st1 g' where st1: "st1 \<in> set (rmatch r st)" and st2: "(b', a', g') \<in> set (rmatch_seq rs st1)"
      by auto
    obtain b1 a1 g1 where s1: "st1 = (b1, a1, g1)" by (cases st1)
    from st1 s1 "10.IH"(1) [of b1 a1] obtain m where m: "a = m @ a1" "b1 = rev m @ b" "denotes r b m a1"
      by (auto simp: st found_at_def)
    from st2 "10.IH"(2) [OF st1, of b' a'] obtain m' where
      m': "a1 = m' @ a'" "b' = rev m' @ b1" "denotes_seq rs b1 m' a'"
      by (auto simp: s1 found_at_def)
    have "denotes_seq (r # rs) b (m @ m') a'"
      using m(3) m'(3) by (auto simp: m m' intro: denotes_denotes_seq.Cons)
    with m m' show "found_at (fst st) (fst (snd st)) (denotes_seq (r # rs) (fst st)) b' a'"
      by (auto simp: st found_at_def intro!: exI [of _ "m @ m'"])
  next
    assume "found_at (fst st) (fst (snd st)) (denotes_seq (r # rs) (fst st)) b' a'"
    then obtain m m' where m: "a = m @ m' @ a'" "b' = rev m' @ rev m @ b" "denotes r b m (m' @ a')"
      "denotes_seq rs (rev m @ b) m' a'"
      by (auto simp: st found_at_def elim!: denotes_ConsE)
    then have "\<exists>g1. (rev m @ b, m' @ a', g1) \<in> set (rmatch r st)"
      using "10.IH"(1) [of "rev m @ b" "m' @ a'"] by (auto simp: st found_at_def)
    then obtain g1 where g1: "(rev m @ b, m' @ a', g1) \<in> set (rmatch r st)" ..
    then have "\<exists>g'. (b', a', g') \<in> set (rmatch_seq rs (rev m @ b, m' @ a', g1))"
      using "10.IH"(2) [OF g1, of b' a'] m by (auto simp: found_at_def)
    with g1 show "\<exists>g'. (b', a', g') \<in> set (rmatch_seq (r # rs) st)" by auto
  qed
qed

lemma rmatch_Nil: "rmatch r (b, a, g) = [] \<longleftrightarrow> (\<forall>m q. a = m @ q \<longrightarrow> \<not> denotes r b m q)"
proof
  assume none: "rmatch r (b, a, g) = []"
  show "\<forall>m q. a = m @ q \<longrightarrow> \<not> denotes r b m q"
  proof (intro allI impI notI)
    fix m q
    assume "a = m @ q" and "denotes r b m q"
    then have "found_at b a (denotes r b) (rev m @ b) q" by (auto simp: found_at_def)
    with rmatch_iff(1) [of "rev m @ b" q r "(b, a, g)"] none show False by simp
  qed
next
  assume no: "\<forall>m q. a = m @ q \<longrightarrow> \<not> denotes r b m q"
  show "rmatch r (b, a, g) = []"
  proof (rule ccontr)
    assume "rmatch r (b, a, g) \<noteq> []"
    then obtain b' a' g' where "(b', a', g') \<in> set (rmatch r (b, a, g))"
      by (cases "rmatch r (b, a, g)") auto
    then have "found_at b a (denotes r b) b' a'" using rmatch_iff(1) [of b' a' r "(b, a, g)"] by auto
    with no show False by (auto simp: found_at_def)
  qed
qed

lemma search_from_None:
  "search_from r b a = None \<longleftrightarrow> (\<forall>p m q. a = p @ m @ q \<longrightarrow> \<not> denotes r (rev p @ b) m q)"
proof (induction a arbitrary: b)
  case Nil
  have "search_from r b [] = None \<longleftrightarrow> rmatch r (b, [], []) = []" by (auto split: list.splits)
  then show ?case by (simp add: rmatch_Nil)
next
  case (Cons c a)
  have step: "search_from r b (c # a) = None \<longleftrightarrow>
      rmatch r (b, c # a, []) = [] \<and> search_from r (c # b) a = None" by (auto split: list.splits)
  have "(\<forall>p m q. c # a = p @ m @ q \<longrightarrow> \<not> denotes r (rev p @ b) m q)
    \<longleftrightarrow> (\<forall>m q. c # a = m @ q \<longrightarrow> \<not> denotes r b m q)
      \<and> (\<forall>p m q. a = p @ m @ q \<longrightarrow> \<not> denotes r (rev p @ c # b) m q)" (is "?all \<longleftrightarrow> ?now \<and> ?later")
  proof (intro iffI conjI allI impI)
    fix m q
    assume ?all and "c # a = m @ q"
    then show "\<not> denotes r b m q" by (metis append_Nil rev.simps(1))
  next
    fix p m q
    assume ?all and "a = p @ m @ q"
    then show "\<not> denotes r (rev p @ c # b) m q"
      by (metis append.assoc append_Cons append_Nil rev.simps(2))
  next
    fix p m q
    assume nl: "?now \<and> ?later" and eq: "c # a = p @ m @ q"
    show "\<not> denotes r (rev p @ b) m q"
    proof (cases p)
      case Nil
      with nl eq show ?thesis by simp
    next
      case (Cons d p')
      with nl eq show ?thesis by simp
    qed
  qed
  then show ?case unfolding step rmatch_Nil Cons.IH by blast
qed

text \<open>\<open>re.search\<close> finds a match exactly when some part of the text matches where it stands.\<close>

lemma re_found_iff: "re_found r s \<longleftrightarrow> (\<exists>p m q. s = p @ m @ q \<and> denotes r (rev p) m q)"
  using search_from_None [of r "[]" s] by (auto simp: re_found_def re_search_def)

end
