(* ===== verification/Edge_Nft.thy ===== *)
theory Edge_Nft
  imports Py_Regex Py_Value
begin

text \<open>
  The nftables checks of \<open>tools/validate_edge_templates.py\<close>.  A check reads the template, looks for
  the blocks and rules it must contain and returns the messages of what it misses.  The template is a
  file that is absent, cannot be read, or is a text; reading an unreadable one raises.
\<close>

section \<open>Files and numbers\<close>

type_synonym text_file = "string result option"

text \<open>\<open>path.read_text()\<close>, where \<open>path\<close> is the name the messages show.\<close>

definition read_text :: "string \<Rightarrow> text_file \<Rightarrow> string result" where
  "read_text path file =
     (case file of
        None \<Rightarrow> Inl (OSError (''[Errno 2] No such file or directory: '' @ str_repr path))
      | Some r \<Rightarrow> r)"

text \<open>
  \<open>int(s)\<close> with the text of its exception (numerals beyond 4300 digits have another text in Python).
\<close>

definition int_lit :: "string \<Rightarrow> int result" where
  "int_lit s =
     (case int_of_str s of
        Some i \<Rightarrow> Inr i
      | None \<Rightarrow> Inl (ValueError (''invalid literal for int() with base 10: '' @ str_repr s)))"

text \<open>\<open>str(err)\<close>; exceptions whose text the model does not carry print as empty.\<close>

fun exn_text :: "exn \<Rightarrow> string" where
  "exn_text (ValueError s) = s"
| "exn_text (OSError s) = s"
| "exn_text (RuntimeError s) = s"
| "exn_text (KeyError s) = s"
| "exn_text _ = []"

section \<open>Blocks and directives\<close>

definition strip_nft_comments :: "string \<Rightarrow> string" where
  "strip_nft_comments raw = join_with [LF] (map (\<lambda>line. fst (split_once (CHR ''#'') line)) (splitlines raw))"

text \<open>The scan from an opening brace: the text up to its closing brace.\<close>

fun scan_block :: "nat \<Rightarrow> string \<Rightarrow> string \<Rightarrow> string option" where
  "scan_block depth acc [] = None"
| "scan_block depth acc (c # cs) =
     (if c = CHR ''{'' then scan_block (Suc depth) (c # acc) cs
      else if c = CHR ''}'' then
        (if depth = 0 then Some (rev acc) else scan_block (depth - 1) (c # acc) cs)
      else scan_block depth (c # acc) cs)"

definition block_after :: "regex \<Rightarrow> string \<Rightarrow> string option" where
  "block_after pattern raw =
     (case re_search pattern (strip_nft_comments raw) of
        None \<Rightarrow> None
      | Some (_, rest, _) \<Rightarrow> scan_block 0 [] rest)"

definition named_block :: "string \<Rightarrow> string \<Rightarrow> string option" where
  "named_block raw name = block_after (Seq [Bound, Lit name, Bound, Sp0, Lit ''{'']) raw"

definition nft_set_block :: "string \<Rightarrow> string \<Rightarrow> string option" where
  "nft_set_block raw name = block_after (Seq [Bound, Lit ''set'', Sp, Lit name, Sp0, Lit ''{'']) raw"

fun first_directive :: "string \<Rightarrow> string list \<Rightarrow> string option" where
  "first_directive key [] = None"
| "first_directive key (raw_line # lines) =
     (let line = rstrip_by (\<lambda>c. c = CHR '';'') (str_strip raw_line)
      in if starts_with line (key @ '' '') then Some (str_strip (drop (length key) line))
         else first_directive key lines)"

definition nft_directive :: "string \<Rightarrow> string \<Rightarrow> string option" where
  "nft_directive block key = first_directive key (splitlines (strip_nft_comments block))"

section \<open>Protected ports\<close>

text \<open>\<open>socket.getservbyname(token, "tcp")\<close> is a parameter; \<open>None\<close> is its \<open>OSError\<close>.\<close>

type_synonym services = "string \<Rightarrow> int option"

definition parse_service_port :: "services \<Rightarrow> string \<Rightarrow> int result" where
  "parse_service_port serv value =
     (let token = strip_by (\<lambda>c. cp c = 39) (strip_by (\<lambda>c. cp c = 34) (str_strip value))
      in if token = [] then Inl (ValueError ''empty port element'')
         else rbind
           (if str_isdigit token then int_lit token
            else case serv token of
                   None \<Rightarrow> Inl (ValueError (''unsupported protected_tcp_ports element: '' @ value))
                 | Some port \<Rightarrow> Inr port)
           (\<lambda>port. if port < 1 \<or> 65535 < port
                   then Inl (ValueError (''port out of range in protected_tcp_ports: '' @ value))
                   else Inr port))"

definition parse_port_element :: "services \<Rightarrow> string \<Rightarrow> (int \<times> int) result" where
  "parse_port_element serv value =
     (let token = str_strip value
      in case split_once (CHR ''-'') token of
           (start, Some stop) \<Rightarrow>
             rbind (parse_service_port serv start) (\<lambda>start_port.
             rbind (parse_service_port serv stop) (\<lambda>end_port.
               if end_port < start_port
               then Inl (ValueError (''invalid descending port range in protected_tcp_ports: '' @ value))
               else Inr (start_port, end_port)))
         | (_, None) \<Rightarrow> rbind (parse_service_port serv token) (\<lambda>port. Inr (port, port)))"

definition ELEMENTS :: regex where
  "ELEMENTS = Seq [Bound, Lit ''elements'', Sp0, Lit ''='', Sp0, Lit ''{'', Grp NotBrace, Lit ''}'']"

text \<open>The loop over the elements: the ranges and the messages, both in order.\<close>

fun read_ranges :: "services \<Rightarrow> string list \<Rightarrow> (int \<times> int) list \<times> string list" where
  "read_ranges serv [] = ([], [])"
| "read_ranges serv (raw # items) =
     (case read_ranges serv items of (ranges, errors) \<Rightarrow>
        let item = str_strip raw
        in if item = [] then (ranges, errors)
           else case parse_port_element serv item of
                  Inr r \<Rightarrow> (r # ranges, errors)
                | Inl err \<Rightarrow> (ranges, exn_text err # errors))"

definition protected_tcp_port_ranges ::
  "services \<Rightarrow> string \<Rightarrow> text_file \<Rightarrow> ((int \<times> int) list \<times> string list) result" where
  "protected_tcp_port_ranges serv path file =
     (if file = None then Inr ([], [])
      else rbind (read_text path file) (\<lambda>raw.
        case named_block raw ''set protected_tcp_ports'' of
          None \<Rightarrow> Inr ([], [''missing protected_tcp_ports set in '' @ path])
        | Some block \<Rightarrow>
            (case re_search ELEMENTS block of
               None \<Rightarrow> Inr ([], [''missing protected_tcp_ports elements in '' @ path])
             | Some (_, _, groups) \<Rightarrow>
                 (case read_ranges serv (split_on (CHR '','') (hd groups)) of (ranges, errors) \<Rightarrow>
                    Inr (ranges,
                         if ranges = [] \<and> errors = []
                         then [''protected_tcp_ports set in '' @ path @ '' has no elements'']
                         else errors)))))"

definition validate_protected_tcp_ports :: "services \<Rightarrow> string \<Rightarrow> text_file \<Rightarrow> string list result" where
  "validate_protected_tcp_ports serv path file =
     rbind (protected_tcp_port_ranges serv path file) (\<lambda>(_, errors). Inr errors)"

section \<open>Rules\<close>

text \<open>\<open>re.sub(r"\s+", " ", ...)\<close>: every run of blanks becomes one space.\<close>

fun squeeze :: "bool \<Rightarrow> string \<Rightarrow> string" where
  "squeeze inside [] = []"
| "squeeze inside (c # cs) =
     (if is_space c then (if inside then squeeze True cs else CHR '' '' # squeeze True cs)
      else c # squeeze False cs)"

definition compact_rule_text :: "string \<Rightarrow> string" where
  "compact_rule_text raw = str_strip (squeeze False (strip_nft_comments raw))"

definition UDP_DROP :: regex where
  "UDP_DROP = Seq (Bound # words [''meta'', ''l4proto'', ''udp'', ''udp'', ''dport'', ''@protected_tcp_ports'', ''drop'']
     @ [Bound])"

definition validate_udp_protected_port_drop :: "string \<Rightarrow> text_file \<Rightarrow> string list result" where
  "validate_udp_protected_port_drop path file =
     (if file = None then Inr []
      else rbind (read_text path file) (\<lambda>raw.
        case named_block raw ''chain preraw'' of
          None \<Rightarrow> Inr [''missing preraw chain with protected-port UDP drop in '' @ path]
        | Some preraw \<Rightarrow>
            Inr (if re_found UDP_DROP (compact_rule_text preraw) then []
                 else [''missing raw UDP drop for protected TCP service ports: ''
                       @ ''expected `meta l4proto udp udp dport @protected_tcp_ports drop` ''
                       @ ''in chain preraw''])))"

definition IPV6_PREFIX64_SELECTOR_PATTERN :: "regex list" where
  "IPV6_PREFIX64_SELECTOR_PATTERN =
     [Opt (Lit ''(''), Sp0, Lit ''ip6'', Sp, Lit ''saddr'', Sp0, Alt (Lit ''and'') (Lit ''&''), Sp0,
      Lit ''ffff:ffff:ffff:ffff::'', Sp0, Opt (Lit '')''), Sp0, Lit ''.'', Sp0, Lit ''tcp'', Sp, Lit ''dport'']"

definition GENERIC_TCP_L4PROTO_PATTERN :: "regex list" where
  "GENERIC_TCP_L4PROTO_PATTERN = Bound # words [''meta'', ''l4proto'', ''tcp''] @ [Bound]"

definition NFPROTO6 :: "regex list" where
  "NFPROTO6 = [Bound, Lit ''meta'', Sp, Lit ''nfproto'', Sp, Alt (Lit ''ipv6'') (Lit ''ip6''), Sp]"

definition IPV6_TCP_L4PROTO_PATTERN :: "regex list" where
  "IPV6_TCP_L4PROTO_PATTERN = NFPROTO6 @ words [''meta'', ''l4proto'', ''tcp''] @ [Bound]"

definition IPV4_ICMP_PROTOCOL_PATTERN :: "regex list" where
  "IPV4_ICMP_PROTOCOL_PATTERN = Bound # words [''ip'', ''protocol'', ''icmp''] @ [Bound]"

definition IPV6_ICMP_L4PROTO_PATTERN :: "regex list" where
  "IPV6_ICMP_L4PROTO_PATTERN = NFPROTO6 @ words [''meta'', ''l4proto'', ''ipv6-icmp''] @ [Bound]"

definition REQUIRED_ICMPV4_CONTROL_TYPES :: "string list" where
  "REQUIRED_ICMPV4_CONTROL_TYPES = [''destination-unreachable'', ''time-exceeded'', ''parameter-problem'']"

definition REQUIRED_ICMPV6_CONTROL_TYPES :: "string list" where
  "REQUIRED_ICMPV6_CONTROL_TYPES =
     [''destination-unreachable'', ''packet-too-big'', ''time-exceeded'', ''parameter-problem'',
      ''nd-router-solicit'', ''nd-router-advert'', ''nd-neighbor-solicit'', ''nd-neighbor-advert'']"

text \<open>\<open>\(\s*a\s*\|\s*b ... \s*\)\<close> and \<open>a\s*\|\s*b ...\<close>.\<close>

fun flag_list :: "string list \<Rightarrow> regex list" where
  "flag_list [] = []"
| "flag_list [f] = [Lit f]"
| "flag_list (f # fs) = [Lit f, Sp0, Lit ''|'', Sp0] @ flag_list fs"

definition flag_mask :: "string list \<Rightarrow> regex list" where
  "flag_mask fs = [Lit ''('', Sp0] @ flag_list fs @ [Sp0, Lit '')'']"

text \<open>\<open>\s+limit\s+rate\s+over\b\<close>, and with \<open>.*\bdrop\b\<close> after it.\<close>

definition rate_over :: "regex list" where
  "rate_over = words [''limit'', ''rate'', ''over''] @ [Bound]"

definition rate_over_drop :: "regex list" where
  "rate_over_drop = rate_over @ [AnyStar, Bound, Lit ''drop'', Bound]"

definition DPORT :: "regex list" where
  "DPORT = words [''tcp'', ''dport'', ''@protected_tcp_ports'']"

definition FLAGS_MASKED :: "regex list" where
  "FLAGS_MASKED = words [''tcp'', ''flags'', ''&''] @ [Sp0]"

definition REQUIRED_PRERAW :: "(string \<times> regex list) list" where
  "REQUIRED_PRERAW =
     [(''null TCP flag drop'',
       DPORT @ [Sp] @ FLAGS_MASKED @ flag_mask [''fin'', ''syn'', ''rst'', ''ack'']
       @ [Sp0, Lit ''=='', Sp0, Lit ''0'', Sp, Lit ''drop'', Bound]),
      (''Xmas TCP flag drop'',
       DPORT @ [Sp] @ FLAGS_MASKED @ flag_mask [''fin'', ''syn'', ''rst'', ''psh'', ''ack'', ''urg'']
       @ [Sp0, Lit ''=='', Sp0] @ flag_list [''fin'', ''psh'', ''urg''] @ [Sp, Lit ''drop'', Bound]),
      (''global SYN flood drop'',
       DPORT @ [Sp] @ FLAGS_MASKED @ flag_mask [''fin'', ''syn'', ''rst'', ''ack'']
       @ [Sp0, Lit ''=='', Sp0, Lit ''syn'', Sp] @ rate_over_drop)]"

definition REQUIRED_INPUT :: "(string \<times> regex list) list" where
  "REQUIRED_INPUT =
     [(''new non-SYN drop'',
       DPORT @ [Sp] @ words [''ct'', ''state'', ''new''] @ [Sp] @ FLAGS_MASKED
       @ flag_mask [''fin'', ''syn'', ''rst'', ''ack''] @ [Sp0, Lit ''!='', Sp0, Lit ''syn'', Sp, Lit ''drop'', Bound]),
      (''global new-connection flood drop'',
       DPORT @ [Sp] @ words [''ct'', ''state'', ''new''] @ [Sp] @ rate_over_drop)]"

definition backstop_errors :: "(string \<times> regex list) list \<Rightarrow> string \<Rightarrow> string list" where
  "backstop_errors required rules =
     concat (map (\<lambda>(label, rule_tail).
       if re_found (Seq (GENERIC_TCP_L4PROTO_PATTERN @ [Sp] @ rule_tail)) rules then []
       else [''missing generic TCP extension-safe '' @ label @ '': expected ''
             @ ''`meta l4proto tcp` before protected-port TCP match'']) required)"

text \<open>Messages of a check on a chain, or of its absence.\<close>

definition in_chain :: "string \<Rightarrow> string \<Rightarrow> string \<Rightarrow> (string \<Rightarrow> string list) \<Rightarrow> string list" where
  "in_chain raw name absent check =
     (case named_block raw name of None \<Rightarrow> [absent] | Some chain \<Rightarrow> check chain)"

definition validate_generic_tcp_backstop_protocol_matches :: "string \<Rightarrow> text_file \<Rightarrow> string list result" where
  "validate_generic_tcp_backstop_protocol_matches path file =
     (if file = None then Inr []
      else rbind (read_text path file) (\<lambda>raw.
        Inr (in_chain raw ''chain preraw'' (''missing preraw chain with generic TCP backstops in '' @ path)
               (\<lambda>preraw. backstop_errors REQUIRED_PRERAW (compact_rule_text preraw))
             @ in_chain raw ''chain input'' (''missing input chain with generic TCP backstops in '' @ path)
                 (\<lambda>input. backstop_errors REQUIRED_INPUT (compact_rule_text input)))))"

definition SYN_METER_TIMEOUT :: regex where
  "SYN_METER_TIMEOUT =
     Seq (IPV6_PREFIX64_SELECTOR_PATTERN @ [Sp, Lit ''timeout'', Sp, NonSp, Sp] @ rate_over)"

definition SYN_METER :: regex where
  "SYN_METER = Seq (IPV6_PREFIX64_SELECTOR_PATTERN @ [Sp] @ rate_over)"

definition CONNLIMIT6 :: regex where
  "CONNLIMIT6 =
     Seq ([Bound, Lit ''add'', Sp, Lit ''@tcp6_connlimit'', Sp0, Lit ''{'', Sp0] @ IPV6_PREFIX64_SELECTOR_PATTERN
       @ [Sp] @ words [''ct'', ''count'', ''over''] @ [Bound])"

definition validate_ipv6_prefix_backstops :: "string \<Rightarrow> text_file \<Rightarrow> string list result" where
  "validate_ipv6_prefix_backstops path file =
     (if file = None then Inr []
      else rbind (read_text path file) (\<lambda>raw.
        Inr (in_chain raw ''chain preraw'' (''missing preraw chain with IPv6 /64 SYN backstop in '' @ path)
               (\<lambda>preraw.
                 let syn_meter = named_block preraw ''tcp6_syn_rate'';
                     syn_compact = compact_rule_text (case syn_meter of None \<Rightarrow> [] | Some m \<Rightarrow> m)
                 in if syn_meter = None
                       \<or> \<not> re_found SYN_METER_TIMEOUT syn_compact \<and> \<not> re_found SYN_METER syn_compact
                    then [''missing IPv6 /64 SYN backstop: expected ''
                          @ ''`ip6 saddr and ffff:ffff:ffff:ffff:: . tcp dport` '' @ ''inside tcp6_syn_rate'']
                    else [])
             @ in_chain raw ''chain input''
                 (''missing input chain with IPv6 /64 connection-count backstop in '' @ path)
                 (\<lambda>input.
                   if re_found CONNLIMIT6 (compact_rule_text input) then []
                   else [''missing IPv6 /64 connection-count backstop: expected ''
                         @ ''`ip6 saddr and ffff:ffff:ffff:ffff:: . tcp dport ct count over ...` ''
                         @ ''in chain input'']))))"

definition SYN6_RULE :: regex where
  "SYN6_RULE =
     Seq (IPV6_TCP_L4PROTO_PATTERN
       @ [AnyStar, Bound, Alt (Seq [Lit ''meter'', Sp]) (Seq [Lit ''update'', Sp, Lit ''@'']), Lit ''tcp6_syn_rate'', Bound])"

definition CONNLIMIT6_RULE :: regex where
  "CONNLIMIT6_RULE =
     Seq (IPV6_TCP_L4PROTO_PATTERN @ [AnyStar, Bound, Lit ''add'', Sp, Lit ''@tcp6_connlimit'', Bound])"

definition ICMP6_RATE :: regex where
  "ICMP6_RATE = Seq (IPV6_ICMP_L4PROTO_PATTERN @ [Sp] @ rate_over)"

definition validate_ipv6_extension_safe_protocol_matches :: "string \<Rightarrow> text_file \<Rightarrow> string list result" where
  "validate_ipv6_extension_safe_protocol_matches path file =
     (if file = None then Inr []
      else rbind (read_text path file) (\<lambda>raw.
        Inr (in_chain raw ''chain preraw''
               (''missing preraw chain with IPv6 extension-safe SYN backstop in '' @ path)
               (\<lambda>preraw.
                 if re_found SYN6_RULE (compact_rule_text preraw) then []
                 else [''missing IPv6 extension-safe SYN protocol match: expected ''
                       @ ''`meta nfproto ipv6 meta l4proto tcp` before meter tcp6_syn_rate''])
             @ in_chain raw ''chain input''
                 (''missing input chain with IPv6 extension-safe connection backstops in '' @ path)
                 (\<lambda>input.
                   (if re_found CONNLIMIT6_RULE (compact_rule_text input) then []
                    else [''missing IPv6 extension-safe connection-count protocol match: ''
                          @ ''expected `meta nfproto ipv6 meta l4proto tcp` before add @tcp6_connlimit''])
                   @ (if re_found ICMP6_RATE (compact_rule_text input) then []
                      else [''missing IPv6 extension-safe ICMPv6 flood protocol match: expected ''
                            @ ''`meta nfproto ipv6 meta l4proto ipv6-icmp`''])))))"

text \<open>
  The two control exemptions differ in the protocol match, the keyword of the type and the texts.
\<close>

record icmp_check =
  icmp_name :: string
  icmp_match :: "regex list"
  icmp_keyword :: string
  icmp_expected :: string
  icmp_required :: "string list"

definition ICMPV4 :: icmp_check where
  "ICMPV4 = \<lparr>icmp_name = ''ICMPv4'', icmp_match = IPV4_ICMP_PROTOCOL_PATTERN, icmp_keyword = ''icmp'',
     icmp_expected = ''`ip protocol icmp icmp type { ... } accept`'',
     icmp_required = REQUIRED_ICMPV4_CONTROL_TYPES\<rparr>"

definition ICMPV6 :: icmp_check where
  "ICMPV6 = \<lparr>icmp_name = ''ICMPv6'', icmp_match = IPV6_ICMP_L4PROTO_PATTERN, icmp_keyword = ''icmpv6'',
     icmp_expected = ''`meta nfproto ipv6 meta l4proto ipv6-icmp icmpv6 type { ... } accept`'',
     icmp_required = REQUIRED_ICMPV6_CONTROL_TYPES\<rparr>"

definition icmp_accept :: "icmp_check \<Rightarrow> regex" where
  "icmp_accept k =
     Seq (icmp_match k @ [Sp, Lit (icmp_keyword k), Sp, Lit ''type'', Sp, Lit ''{'', Grp NotBrace, Lit ''}'', Sp,
       Lit ''accept'', Bound])"

definition icmp_drop :: "icmp_check \<Rightarrow> regex" where
  "icmp_drop k = Seq (icmp_match k @ [Sp] @ rate_over_drop)"

text \<open>\<open>sorted(required - configured)\<close> for names without repetitions.\<close>

definition missing_names :: "string list \<Rightarrow> string list \<Rightarrow> string list" where
  "missing_names required configured = sort (filter (\<lambda>t. t \<notin> set configured) required)"

definition comma_names :: "string \<Rightarrow> string list" where
  "comma_names s = filter (\<lambda>item. item \<noteq> []) (map str_strip (split_on (CHR '','') s))"

definition icmp_control_errors :: "icmp_check \<Rightarrow> string \<Rightarrow> string list" where
  "icmp_control_errors k rules =
     (case re_search (icmp_accept k) rules of
        None \<Rightarrow>
          [''missing '' @ icmp_name k @ '' control exemption before flood backstop: expected '' @ icmp_expected k]
      | Some (accept_start, _, groups) \<Rightarrow>
          let configured = comma_names (hd groups);
              missing = missing_names (icmp_required k) configured
          in (if missing \<noteq> [] then
                [icmp_name k @ '' control exemption is missing required types: '' @ join_with '', '' missing]
              else [])
             @ (case re_search (icmp_drop k) rules of
                  None \<Rightarrow> [''missing generic '' @ icmp_name k @ '' flood drop after control exemption'']
                | Some (drop_start, _, _) \<Rightarrow>
                    if drop_start < accept_start
                    then [icmp_name k @ '' control exemption must appear before generic '' @ icmp_name k
                            @ '' flood drop'']
                    else []))"

definition validate_icmp_control_exemption :: "icmp_check \<Rightarrow> string \<Rightarrow> text_file \<Rightarrow> string list result" where
  "validate_icmp_control_exemption k path file =
     (if file = None then Inr []
      else rbind (read_text path file) (\<lambda>raw.
        Inr (in_chain raw ''chain input''
          (''missing input chain with '' @ icmp_name k @ '' control exemption in '' @ path)
          (\<lambda>input. icmp_control_errors k (compact_rule_text input)))))"

definition validate_icmpv4_control_exemption :: "string \<Rightarrow> text_file \<Rightarrow> string list result" where
  "validate_icmpv4_control_exemption = validate_icmp_control_exemption ICMPV4"

definition validate_icmpv6_control_exemption :: "string \<Rightarrow> text_file \<Rightarrow> string list result" where
  "validate_icmpv6_control_exemption = validate_icmp_control_exemption ICMPV6"

section \<open>Sets\<close>

definition MAX_CONNLIMIT_SET_SIZE :: int where "MAX_CONNLIMIT_SET_SIZE = 1048576"
definition MAX_SYN_RATE_SET_SIZE :: int where "MAX_SYN_RATE_SET_SIZE = 1048576"
definition MAX_SYN_RATE_SET_TIMEOUT_SECONDS :: int where "MAX_SYN_RATE_SET_TIMEOUT_SECONDS = 60"

text \<open>\<open>re.split(r"[, ]+", flags)\<close> without empty items.\<close>

definition flag_items :: "string \<Rightarrow> string list" where
  "flag_items flags =
     filter (\<lambda>item. item \<noteq> [])
       (map str_strip (concat (map (split_on (CHR '' '')) (split_on (CHR '','') flags))))"

definition directive_or :: "string \<Rightarrow> string \<Rightarrow> string \<Rightarrow> string" where
  "directive_or block key default_text =
     (case nft_directive block key of None \<Rightarrow> default_text | Some v \<Rightarrow> v)"

text \<open>The bound on the size of a set, given the name of its kind.\<close>

definition set_size_errors :: "string \<Rightarrow> string \<Rightarrow> int \<Rightarrow> string \<Rightarrow> string list result" where
  "set_size_errors kind set_name bound block =
     (case nft_directive block ''size'' of
        None \<Rightarrow> Inr [kind @ set_name @ '' must define an explicit positive size'']
      | Some size_text \<Rightarrow>
          if \<not> str_isdigit size_text
          then Inr [kind @ set_name @ '' must define an explicit positive size'']
          else rbind (int_lit size_text) (\<lambda>size.
            Inr (if size \<le> 0 then [kind @ set_name @ '' size must be greater than zero'']
                 else if bound < size
                 then [kind @ set_name @ '' size '' @ int_str size @ '' exceeds '' @ int_str bound]
                 else [])))"

definition connlimit_set_errors :: "string \<Rightarrow> string \<Rightarrow> string list result" where
  "connlimit_set_errors raw set_name =
     (case nft_set_block raw set_name of
        None \<Rightarrow> Inr [''missing nftables connlimit set: '' @ set_name]
      | Some block \<Rightarrow>
          rbind (set_size_errors ''connlimit set '' set_name MAX_CONNLIMIT_SET_SIZE block) (\<lambda>size_errors.
            Inr ((if ''dynamic'' \<in> set (flag_items (directive_or block ''flags'' [])) then []
                  else [''connlimit set '' @ set_name @ '' must use flags dynamic''])
                 @ size_errors)))"

definition validate_connlimit_set_sizes :: "string \<Rightarrow> text_file \<Rightarrow> string list result" where
  "validate_connlimit_set_sizes path file =
     (if file = None then Inr []
      else rbind (read_text path file) (\<lambda>raw.
        rbind (connlimit_set_errors raw ''tcp4_connlimit'') (\<lambda>errors4.
        rbind (connlimit_set_errors raw ''tcp6_connlimit'') (\<lambda>errors6.
          Inr (errors4 @ errors6)))))"

definition DURATION :: regex where
  "DURATION = Seq [Grp Digits, Grp (Opt (One (\<lambda>c. c \<in> {CHR ''s'', CHR ''m'', CHR ''h'', CHR ''d''})))]"

definition nft_duration_seconds :: "string \<Rightarrow> string \<Rightarrow> int result" where
  "nft_duration_seconds value unit =
     (case map_of [([], 1), (''s'', 1), (''m'', 60), (''h'', 60 * 60), (''d'', 24 * 60 * 60)] unit of
        None \<Rightarrow> Inl (ValueError (''unsupported nft duration unit: '' @ unit))
      | Some scale \<Rightarrow> rbind (int_lit value) (\<lambda>v. Inr (v * scale)))"

definition syn_timeout_errors :: "string \<Rightarrow> string \<Rightarrow> string list result" where
  "syn_timeout_errors set_name block =
     (case re_fullmatch DURATION (directive_or block ''timeout'' []) of
        Some [value, unit] \<Rightarrow>
          rbind (nft_duration_seconds value unit) (\<lambda>seconds.
            Inr (if seconds \<le> 0
                 then [''SYN rate set '' @ set_name @ '' timeout must be greater than zero'']
                 else if MAX_SYN_RATE_SET_TIMEOUT_SECONDS < seconds
                 then [''SYN rate set '' @ set_name @ '' timeout '' @ int_str seconds @ ''s exceeds ''
                       @ int_str MAX_SYN_RATE_SET_TIMEOUT_SECONDS @ ''s'']
                 else []))
      | _ \<Rightarrow> Inr [''SYN rate set '' @ set_name @ '' must define a positive timeout''])"

definition syn_rate_set_errors :: "string \<Rightarrow> string \<Rightarrow> string list result" where
  "syn_rate_set_errors raw set_name =
     (case nft_set_block raw set_name of
        None \<Rightarrow> Inr [''missing nftables SYN rate set: '' @ set_name]
      | Some block \<Rightarrow>
          let flags = flag_items (directive_or block ''flags'' [])
          in rbind (set_size_errors ''SYN rate set '' set_name MAX_SYN_RATE_SET_SIZE block) (\<lambda>size_errors.
             rbind (syn_timeout_errors set_name block) (\<lambda>timeout_errors.
               Inr ((if ''dynamic'' \<in> set flags then []
                     else [''SYN rate set '' @ set_name @ '' must use flags dynamic''])
                    @ (if ''timeout'' \<in> set flags then []
                       else [''SYN rate set '' @ set_name @ '' must use flags timeout''])
                    @ size_errors @ timeout_errors))))"

definition validate_syn_rate_set_bounds :: "string \<Rightarrow> text_file \<Rightarrow> string list result" where
  "validate_syn_rate_set_bounds path file =
     (if file = None then Inr []
      else rbind (read_text path file) (\<lambda>raw.
        rbind (syn_rate_set_errors raw ''tcp4_syn_rate'') (\<lambda>errors4.
        rbind (syn_rate_set_errors raw ''tcp6_syn_rate'') (\<lambda>errors6.
          Inr (errors4 @ errors6)))))"

end
