(* ===== verification/Edge_Config.thy ===== *)
theory Edge_Config
  imports Edge_Nft Py_Ipaddress Json_File
begin

text \<open>
  The checks of \<open>tools/validate_edge_templates.py\<close> that compare the nftables template with the proxy
  configuration: which ports the public listeners use, how many connections an address may hold, how
  long the listen queues are and how many descriptors they need.
\<close>

section \<open>Listeners\<close>

definition listen_parts :: "string \<Rightarrow> (string \<times> string) result" where
  "listen_parts value =
     (if starts_with value ''['' then
        (let inside = takeWhile (\<lambda>c. c \<noteq> CHR '']'') value;
             rest = dropWhile (\<lambda>c. c \<noteq> CHR '']'') value
         in if \<not> starts_with rest '']:''
            then Inl (ValueError (''invalid bracketed listen address: '' @ value))
            else Inr (tl inside, drop 2 rest))
      else
        (let host = rev (tl (dropWhile (\<lambda>c. c \<noteq> CHR '':'') (rev value)));
             port_text = rev (takeWhile (\<lambda>c. c \<noteq> CHR '':'') (rev value))
         in if CHR '':'' \<notin> set value \<or> host = [] \<or> CHR '':'' \<in> set host
            then Inl (ValueError (''invalid listen address: '' @ value))
            else Inr (host, port_text)))"

definition parse_listen :: "string \<Rightarrow> (ip \<times> int) result" where
  "parse_listen value =
     rbind (listen_parts value) (\<lambda>(host, port_text).
       if \<not> str_isdigit port_text then Inl (ValueError (''invalid listen port: '' @ value))
       else rbind (int_lit port_text) (\<lambda>port.
         if port < 1 \<or> 65535 < port then Inl (ValueError (''listen port out of range: '' @ value))
         else rbind (ip_address host) (\<lambda>ip. Inr (ip, port))))"

text \<open>\<open>data.get\<close> on what the configuration file decodes to.\<close>

definition config_data :: "pyval \<Rightarrow> dict result" where
  "config_data v = (case v of PDict d \<Rightarrow> Inr d | _ \<Rightarrow> Inl AttributeError)"

definition listen_of :: "pyval \<Rightarrow> string option" where
  "listen_of v = (case v of PDict d \<Rightarrow> (case dget d ''listen'' of PStr s \<Rightarrow> Some s | _ \<Rightarrow> None) | _ \<Rightarrow> None)"

text \<open>\<open>enumerate\<close> over \<open>data["tcp"]\<close> when it is a list.\<close>

definition tcp_items :: "dict \<Rightarrow> (string \<times> pyval) list" where
  "tcp_items data =
     (case dget data ''tcp'' of
        PList items \<Rightarrow> map (\<lambda>(idx, item). (''tcp['' @ nat_str idx @ '']'', item)) (enumerate 0 items)
      | _ \<Rightarrow> [])"

text \<open>The listeners: their label in messages and their address.\<close>

definition config_listeners :: "dict \<Rightarrow> (string \<times> string) list" where
  "config_listeners data =
     (case listen_of (dget data ''http'') of None \<Rightarrow> [] | Some s \<Rightarrow> [(''http.listen'', s)])
     @ concat (map (\<lambda>(label, item). case listen_of item of None \<Rightarrow> [] | Some s \<Rightarrow> [(label @ ''.listen'', s)])
         (tcp_items data))"

text \<open>The loop over the listeners: the public ports and the messages.\<close>

fun public_ports :: "(string \<times> string) list \<Rightarrow> int list \<times> string list" where
  "public_ports [] = ([], [])"
| "public_ports ((label, listen) # rest) =
     (case public_ports rest of (ports, errors) \<Rightarrow>
        case parse_listen listen of
          Inl err \<Rightarrow> (ports, (label @ '': '' @ exn_text err) # errors)
        | Inr (ip, port) \<Rightarrow> (if is_loopback ip then ports else port # ports, errors))"

definition config_public_listener_ports :: "string \<Rightarrow> json_file \<Rightarrow> (int list \<times> string list) result" where
  "config_public_listener_ports path config =
     (case config of
        None \<Rightarrow> Inr ([], [])
      | Some (Inl err) \<Rightarrow> Inr ([], [''failed to read config '' @ path @ '': '' @ exn_text err])
      | Some (Inr v) \<Rightarrow> rbind (config_data v) (\<lambda>data. Inr (public_ports (config_listeners data))))"

definition port_in_ranges :: "int \<Rightarrow> (int \<times> int) list \<Rightarrow> bool" where
  "port_in_ranges port ranges = list_ex (\<lambda>(start, stop). start \<le> port \<and> port \<le> stop) ranges"

definition validate_edge_port_coverage ::
  "services \<Rightarrow> string \<Rightarrow> json_file \<Rightarrow> string \<Rightarrow> text_file \<Rightarrow> string list result" where
  "validate_edge_port_coverage serv config_path config nft_path nft =
     rbind (config_public_listener_ports config_path config) (\<lambda>(required, config_errors).
       if config_errors \<noteq> [] then Inr config_errors
       else rbind (protected_tcp_port_ranges serv nft_path nft) (\<lambda>(ranges, nft_errors).
         if nft_errors \<noteq> [] then Inr nft_errors
         else let missing = sort (filter (\<lambda>port. \<not> port_in_ranges port ranges) (remdups required))
              in Inr (if missing \<noteq> [] then
                        [''protected_tcp_ports is missing public AlturaProt listener ports: ''
                           @ join_with '', '' (map int_str missing)]
                      else [])))"

section \<open>Connection caps\<close>

definition MAX_PROTECTED_PORT_CONNLIMIT :: int where "MAX_PROTECTED_PORT_CONNLIMIT = 128"
definition DEFAULT_HTTP_MAX_CONNECTIONS_PER_IP :: int where "DEFAULT_HTTP_MAX_CONNECTIONS_PER_IP = 1024"
definition DEFAULT_TCP_MAX_CONNECTIONS_PER_IP :: int where "DEFAULT_TCP_MAX_CONNECTIONS_PER_IP = 128"

text \<open>The value, or the message: exactly one of the two results of the code is \<open>None\<close>.\<close>

definition positive_int_config_value :: "pyval \<Rightarrow> int \<Rightarrow> string \<Rightarrow> string + int" where
  "positive_int_config_value value default_value label =
     (case value of
        PNone \<Rightarrow> Inr default_value
      | PInt i \<Rightarrow> if i \<le> 0 then Inl (label @ '' must be greater than zero'') else Inr i
      | _ \<Rightarrow> Inl (label @ '' must be an integer''))"

definition limits_of :: "dict \<Rightarrow> dict" where
  "limits_of item = dict_or_empty (dget item ''limits'')"

text \<open>The cap of one listener: nothing when it is absent or loopback.\<close>

definition listener_cap :: "string \<Rightarrow> int \<Rightarrow> pyval \<Rightarrow> (string \<times> int) list \<times> string list" where
  "listener_cap label default_value item =
     (case (item, listen_of item) of
        (PDict d, Some listen) \<Rightarrow>
          (case parse_listen listen of
             Inl err \<Rightarrow> ([], [label @ ''.listen: '' @ exn_text err])
           | Inr (ip, _) \<Rightarrow>
               if is_loopback ip then ([], [])
               else (case positive_int_config_value (dget (limits_of d) ''max_connections_per_ip'') default_value
                            (label @ ''.limits.max_connections_per_ip'') of
                       Inl error \<Rightarrow> ([], [error])
                     | Inr value \<Rightarrow> ([(label @ ''.listen'', value)], [])))
      | _ \<Rightarrow> ([], []))"

definition listener_caps :: "dict \<Rightarrow> ((string \<times> int) list \<times> string list) list" where
  "listener_caps data =
     listener_cap ''http'' DEFAULT_HTTP_MAX_CONNECTIONS_PER_IP (dget data ''http'')
     # map (\<lambda>(label, item). listener_cap label DEFAULT_TCP_MAX_CONNECTIONS_PER_IP item) (tcp_items data)"

definition public_listener_connection_caps ::
  "string \<Rightarrow> json_file \<Rightarrow> ((string \<times> int) list \<times> string list) result" where
  "public_listener_connection_caps path config =
     (case config of
        None \<Rightarrow> Inr ([], [])
      | Some (Inl err) \<Rightarrow> Inr ([], [''failed to read config '' @ path @ '': '' @ exn_text err])
      | Some (Inr v) \<Rightarrow>
          rbind (config_data v) (\<lambda>data.
            Inr (concat (map fst (listener_caps data)), concat (map snd (listener_caps data)))))"

definition protected_port_connlimit_ceiling ::
  "(string \<times> json_file) option \<Rightarrow> (int \<times> string list) result" where
  "protected_port_connlimit_ceiling config =
     (case config of
        None \<Rightarrow> Inr (MAX_PROTECTED_PORT_CONNLIMIT, [])
      | Some (path, file) \<Rightarrow>
          rbind (public_listener_connection_caps path file) (\<lambda>(caps, errors).
            if errors \<noteq> [] then Inr (MAX_PROTECTED_PORT_CONNLIMIT, errors)
            else if caps = [] then Inr (MAX_PROTECTED_PORT_CONNLIMIT, [])
            else Inr (Min (set (map snd caps)), [])))"

definition CONNLIMIT_RULE :: "string \<Rightarrow> regex" where
  "CONNLIMIT_RULE set_name =
     Seq ([Bound, Lit ''add'', Sp, Lit (''@'' @ set_name), Sp0, Lit ''{'', NotBrace, Bound]
       @ words [''ct'', ''count'', ''over''] @ [Sp, Grp Digits, Bound])"

definition threshold_errors :: "int \<Rightarrow> string \<Rightarrow> string \<Rightarrow> string list result" where
  "threshold_errors max_allowed rules set_name =
     (case re_search (CONNLIMIT_RULE set_name) rules of
        None \<Rightarrow> Inr [''missing protected-port connection-count rule for '' @ set_name]
      | Some (_, _, groups) \<Rightarrow>
          rbind (int_lit (hd groups)) (\<lambda>threshold.
            Inr (if max_allowed < threshold
                 then [set_name @ '' ct count over '' @ int_str threshold @ '' exceeds tightest public ''
                       @ ''userspace per-IP connection cap '' @ int_str max_allowed]
                 else [])))"

definition validate_connlimit_thresholds ::
  "string \<Rightarrow> text_file \<Rightarrow> (string \<times> json_file) option \<Rightarrow> string list result" where
  "validate_connlimit_thresholds path file config =
     (if file = None then Inr []
      else rbind (protected_port_connlimit_ceiling config) (\<lambda>(max_allowed, cap_errors).
        if cap_errors \<noteq> [] then Inr cap_errors
        else rbind (read_text path file) (\<lambda>raw.
          case named_block raw ''chain input'' of
            None \<Rightarrow> Inr [''missing input chain with protected-port connlimit rules in '' @ path]
          | Some input_chain \<Rightarrow>
              rbind (threshold_errors max_allowed (compact_rule_text input_chain) ''tcp4_connlimit'') (\<lambda>errors4.
              rbind (threshold_errors max_allowed (compact_rule_text input_chain) ''tcp6_connlimit'') (\<lambda>errors6.
                Inr (errors4 @ errors6))))))"

section \<open>Queues and descriptors\<close>

text \<open>\<open>isinstance(v, int)\<close>, which holds of booleans too: the number and how it prints.\<close>

definition int_like :: "pyval \<Rightarrow> (int \<times> string) option" where
  "int_like v =
     (case v of
        PInt i \<Rightarrow> Some (i, int_str i)
      | PBool b \<Rightarrow> Some (if b then 1 else 0, py_repr v)
      | _ \<Rightarrow> None)"

definition backlog_of :: "pyval \<Rightarrow> (int \<times> string) list" where
  "backlog_of item =
     (case item of
        PDict d \<Rightarrow> (case int_like (dget d ''listen_backlog'') of None \<Rightarrow> [] | Some b \<Rightarrow> [b])
      | _ \<Rightarrow> [])"

definition config_backlogs :: "dict \<Rightarrow> (int \<times> string) list" where
  "config_backlogs data = backlog_of (dget data ''http'') @ concat (map (backlog_of \<circ> snd) (tcp_items data))"

text \<open>\<open>max\<close> of a non-empty list: the first of the largest.\<close>

fun first_max :: "(int \<times> string) list \<Rightarrow> (int \<times> string) option" where
  "first_max [] = None"
| "first_max (x # xs) =
     (case first_max xs of None \<Rightarrow> Some x | Some m \<Rightarrow> Some (if fst x < fst m then m else x))"

definition max_config_backlog :: "json_file \<Rightarrow> (int \<times> string) option result" where
  "max_config_backlog config =
     (case config of
        None \<Rightarrow> Inr None
      | Some r \<Rightarrow> rbind r (\<lambda>v. rbind (config_data v) (\<lambda>data. Inr (first_max (config_backlogs data)))))"

definition NOFILE_BASE_RESERVE :: int where "NOFILE_BASE_RESERVE = 256"
definition DEFAULT_ACCEPT_SHARDS :: int where "DEFAULT_ACCEPT_SHARDS = 1"
definition DEFAULT_HTTP_MAX_CONNECTIONS :: int where "DEFAULT_HTTP_MAX_CONNECTIONS = 10000"
definition DEFAULT_HTTP_MAX_IN_FLIGHT_REQUESTS :: int where "DEFAULT_HTTP_MAX_IN_FLIGHT_REQUESTS = 8192"
definition DEFAULT_HTTP_UPSTREAM_POOL_MAX_IDLE_PER_HOST :: int where
  "DEFAULT_HTTP_UPSTREAM_POOL_MAX_IDLE_PER_HOST = 256"
definition DEFAULT_TCP_MAX_CONNECTIONS :: int where "DEFAULT_TCP_MAX_CONNECTIONS = 10000"
definition MIN_SYSTEMD_LIMIT_NOFILE :: int where "MIN_SYSTEMD_LIMIT_NOFILE = 65536"

definition config_capacity_value :: "dict \<Rightarrow> string \<Rightarrow> int \<Rightarrow> string \<Rightarrow> string + int" where
  "config_capacity_value item key default_value label =
     positive_int_config_value (dget item key) default_value label"

text \<open>The summands of the descriptor budget, each a message or a number.\<close>

definition http_capacity :: "pyval \<Rightarrow> (string + int) list" where
  "http_capacity v =
     (case v of
        PDict http \<Rightarrow>
          [config_capacity_value http ''accept_shards'' DEFAULT_ACCEPT_SHARDS ''http.accept_shards'',
           config_capacity_value (limits_of http) ''max_connections'' DEFAULT_HTTP_MAX_CONNECTIONS
             ''http.limits.max_connections'',
           config_capacity_value (limits_of http) ''max_in_flight_requests''
             DEFAULT_HTTP_MAX_IN_FLIGHT_REQUESTS ''http.limits.max_in_flight_requests'',
           config_capacity_value http ''upstream_pool_max_idle_per_host''
             DEFAULT_HTTP_UPSTREAM_POOL_MAX_IDLE_PER_HOST ''http.upstream_pool_max_idle_per_host'']
      | _ \<Rightarrow> [])"

definition tcp_capacity :: "string \<times> pyval \<Rightarrow> (string + int) list" where
  "tcp_capacity item =
     (case item of
        (label, PDict tcp) \<Rightarrow>
          [config_capacity_value tcp ''accept_shards'' DEFAULT_ACCEPT_SHARDS (label @ ''.accept_shards''),
           map_sum (\<lambda>e. e) (\<lambda>active. active * 2)
             (config_capacity_value (limits_of tcp) ''max_connections'' DEFAULT_TCP_MAX_CONNECTIONS
                (label @ ''.limits.max_connections''))]
      | _ \<Rightarrow> [])"

definition config_capacity :: "dict \<Rightarrow> (string + int) list" where
  "config_capacity data = http_capacity (dget data ''http'') @ concat (map tcp_capacity (tcp_items data))"

definition lefts :: "('a + 'b) list \<Rightarrow> 'a list" where
  "lefts xs = concat (map (\<lambda>x. case x of Inl a \<Rightarrow> [a] | Inr _ \<Rightarrow> []) xs)"

definition rights :: "('a + 'b) list \<Rightarrow> 'b list" where
  "rights xs = concat (map (\<lambda>x. case x of Inl _ \<Rightarrow> [] | Inr b \<Rightarrow> [b]) xs)"

definition config_nofile_capacity_requirement ::
  "string \<Rightarrow> json_file \<Rightarrow> (int option \<times> string list) result" where
  "config_nofile_capacity_requirement path config =
     (case config of
        None \<Rightarrow> Inr (None, [])
      | Some (Inl err) \<Rightarrow> Inr (None, [''failed to read config '' @ path @ '': '' @ exn_text err])
      | Some (Inr v) \<Rightarrow>
          rbind (config_data v) (\<lambda>data.
            let parts = config_capacity data
            in if lefts parts \<noteq> [] then Inr (None, lefts parts)
               else Inr (Some (NOFILE_BASE_RESERVE + sum_list (rights parts)), [])))"

text \<open>A value of the \<open>runtime\<close> section.\<close>

definition runtime_value :: "json_file \<Rightarrow> 'a \<Rightarrow> (dict \<Rightarrow> 'a result) \<Rightarrow> 'a result" where
  "runtime_value config absent f =
     (case config of
        None \<Rightarrow> Inr absent
      | Some r \<Rightarrow>
          rbind r (\<lambda>v. rbind (config_data v) (\<lambda>data.
            case dget data ''runtime'' of PDict runtime \<Rightarrow> f runtime | _ \<Rightarrow> Inr absent)))"

definition config_min_nofile :: "json_file \<Rightarrow> int result" where
  "config_min_nofile config =
     runtime_value config MIN_SYSTEMD_LIMIT_NOFILE (\<lambda>runtime.
       Inr (case int_like (dget_or runtime ''min_nofile'' (PInt 0)) of
              None \<Rightarrow> MIN_SYSTEMD_LIMIT_NOFILE
            | Some (value, _) \<Rightarrow> max MIN_SYSTEMD_LIMIT_NOFILE value))"

text \<open>Seconds; a boolean counts as a number here.\<close>

fun fdiv1000 :: "pyfloat \<Rightarrow> pyfloat" where
  "fdiv1000 (Fin q) = Fin (q / 1000)"
| "fdiv1000 f = f"

definition config_shutdown_grace_seconds :: "json_file \<Rightarrow> pyfloat result" where
  "config_shutdown_grace_seconds config =
     runtime_value config (Fin 0) (\<lambda>runtime.
       let value = dget_or runtime ''shutdown_grace_ms'' (PInt 0)
       in case num_of value of
            None \<Rightarrow> Inr (Fin 0)
          | Some _ \<Rightarrow> rbind (to_float value) (\<lambda>f. Inr (fdiv1000 f)))"

section \<open>Every public listener is covered\<close>

lemma public_ports_errors:
  "snd (public_ports listeners) = [] \<longleftrightarrow> (\<forall>(label, listen) \<in> set listeners. \<exists>a. parse_listen listen = Inr a)"
  by (induction listeners rule: public_ports.induct) (auto split: prod.splits sum.splits)

lemma public_ports_set:
  "port \<in> set (fst (public_ports listeners)) \<longleftrightarrow>
     (\<exists>label listen ip. (label, listen) \<in> set listeners \<and> parse_listen listen = Inr (ip, port) \<and> \<not> is_loopback ip)"
  by (induction listeners rule: public_ports.induct) (auto split: prod.splits sum.splits)

lemma port_in_ranges_iff: "port_in_ranges port ranges \<longleftrightarrow> (\<exists>(a, b) \<in> set ranges. a \<le> port \<and> port \<le> b)"
  by (auto simp: port_in_ranges_def list_ex_iff)

text \<open>Every listener parses, and is on loopback or inside a range.\<close>

definition listeners_covered :: "(int \<times> int) list \<Rightarrow> dict \<Rightarrow> bool" where
  "listeners_covered ranges data \<longleftrightarrow>
     (\<forall>(label, listen) \<in> set (config_listeners data). \<exists>ip port. parse_listen listen = Inr (ip, port)
        \<and> (is_loopback ip \<or> (\<exists>(a, b) \<in> set ranges. a \<le> port \<and> port \<le> b)))"

lemma listeners_covered_iff:
  "listeners_covered ranges data \<longleftrightarrow>
     snd (public_ports (config_listeners data)) = []
     \<and> list_all (\<lambda>port. port_in_ranges port ranges) (fst (public_ports (config_listeners data)))"
  unfolding listeners_covered_def public_ports_errors list_all_iff port_in_ranges_iff [symmetric]
  by (force simp: public_ports_set Ball_def split_beta)

lemma sort_filter_Nil [simp]: "sort (filter P xs) = [] \<longleftrightarrow> list_all (\<lambda>x. \<not> P x) xs"
  for xs :: "'a :: linorder list"
  by (metis filter_empty_conv list.pred_set set_empty set_sort)

lemma range_ordered:
  assumes "parse_port_element serv s = Inr (a, b)"
  shows "1 \<le> a \<and> a \<le> b \<and> b \<le> 65535"
proof -
  have "1 \<le> p \<and> p \<le> 65535" if "parse_service_port serv t = Inr p" for t p
    using that by (auto simp: parse_service_port_def Let_def rbind_Inr_iff split: if_splits)
  with assms show ?thesis
    by (fastforce simp: parse_port_element_def Let_def rbind_Inr_iff split: prod.splits option.splits if_splits)
qed

lemma read_ranges_ordered: "\<forall>(a, b) \<in> set (fst (read_ranges serv items)). 1 \<le> a \<and> a \<le> b \<and> b \<le> 65535"
  by (induction items) (auto simp: Let_def dest: range_ordered split: prod.splits sum.splits if_splits)

lemma ranges_from_elements:
  assumes "protected_tcp_port_ranges serv path file = Inr (ranges, es)"
  obtains "ranges = []" | items where "ranges = fst (read_ranges serv items)"
proof (cases "\<exists>raw block n rest gs. file = Some (Inr raw) \<and> named_block raw ''set protected_tcp_ports'' = Some block
    \<and> re_search ELEMENTS block = Some (n, rest, gs)")
  case True
  then obtain raw block n rest gs where "file = Some (Inr raw)"
    "named_block raw ''set protected_tcp_ports'' = Some block" "re_search ELEMENTS block = Some (n, rest, gs)" by blast
  with assms have "ranges = fst (read_ranges serv (split_on (CHR '','') (hd gs)))"
    by (simp add: protected_tcp_port_ranges_def read_text_def split_beta)
  then show thesis by (rule that)
next
  case False
  have "ranges = []"
  proof (cases "file")
    case (Some r)
    with assms obtain raw where r: "r = Inr raw" by (cases r) (auto simp: protected_tcp_port_ranges_def read_text_def)
    show ?thesis
    proof (cases "named_block raw ''set protected_tcp_ports''")
      case (Some block)
      with False r \<open>file = Some r\<close> have "re_search ELEMENTS block = None"
        by (cases "re_search ELEMENTS block") auto
      with Some r \<open>file = Some r\<close> assms show ?thesis by (simp add: protected_tcp_port_ranges_def read_text_def)
    qed (use r Some assms in \<open>simp add: protected_tcp_port_ranges_def read_text_def\<close>)
  qed (use assms in \<open>simp add: protected_tcp_port_ranges_def\<close>)
  then show thesis by (rule that)
qed

lemma ranges_ordered:
  assumes "protected_tcp_port_ranges serv path file = Inr (ranges, es)"
  shows "\<forall>(a, b) \<in> set ranges. 1 \<le> a \<and> a \<le> b \<and> b \<le> 65535"
  using assms by (rule ranges_from_elements) (use read_ranges_ordered in auto)

lemma coverage_silent:
  "validate_edge_port_coverage serv config_path (Some (Inr (PDict data))) nft_path nft = Inr [] \<longleftrightarrow>
     (\<exists>ranges. protected_tcp_port_ranges serv nft_path nft = Inr (ranges, [])
        \<and> (\<forall>(a, b) \<in> set ranges. 1 \<le> a \<and> a \<le> b \<and> b \<le> 65535) \<and> listeners_covered ranges data)"
proof -
  let ?listeners = "config_listeners data"
  have ports: "config_public_listener_ports config_path (Some (Inr (PDict data))) = Inr (public_ports ?listeners)"
    by (simp add: config_public_listener_ports_def config_data_def)
  have "validate_edge_port_coverage serv config_path (Some (Inr (PDict data))) nft_path nft = Inr [] \<longleftrightarrow>
     snd (public_ports ?listeners) = [] \<and> (\<exists>ranges. protected_tcp_port_ranges serv nft_path nft = Inr (ranges, [])
        \<and> list_all (\<lambda>port. port_in_ranges port ranges) (fst (public_ports ?listeners)))"
    unfolding validate_edge_port_coverage_def ports
    by (auto simp: rbind_Inr_iff split_beta Let_def list_all_iff)
  also have "\<dots> \<longleftrightarrow> (\<exists>ranges. protected_tcp_port_ranges serv nft_path nft = Inr (ranges, [])
      \<and> listeners_covered ranges data)"
    by (auto simp: listeners_covered_iff)
  finally show ?thesis using ranges_ordered by blast
qed

text \<open>
  C30. The port check of the edge template finds nothing exactly when every listener of the
  configuration has a valid address and every listener that is not on loopback uses a port inside a
  range of \<open>protected_tcp_ports\<close>, all of whose ranges lie between 1 and 65535.
\<close>

theorem edge_port_coverage_exact:
  "validate_edge_port_coverage serv config_path (Some (Inr (PDict data))) nft_path nft = Inr [] \<longleftrightarrow>
     (\<exists>ranges. protected_tcp_port_ranges serv nft_path nft = Inr (ranges, [])
        \<and> (\<forall>(a, b) \<in> set ranges. 1 \<le> a \<and> a \<le> b \<and> b \<le> 65535) \<and> listeners_covered ranges data)"
  by (rule coverage_silent)

definition sample_listener :: dict where
  "sample_listener = [(''http'', PDict [(''listen'', PStr ''0.0.0.0:8080''),
     (''limits'', PDict [(''max_connections_per_ip'', PInt 64)])])]"

definition sample_ports :: string where
  "sample_ports = ''set protected_tcp_ports { elements = { 443, 8000-8100 } }''"

theorem edge_port_coverage_exact_witness:
  "protected_tcp_port_ranges (\<lambda>_. None) ''edge.nft'' (Some (Inr sample_ports)) = Inr ([(443, 443), (8000, 8100)], [])
   \<and> listeners_covered [(443, 443), (8000, 8100)] sample_listener"
proof -
  have "validate_edge_port_coverage (\<lambda>_. None) ''c.json'' (Some (Inr (PDict sample_listener))) ''edge.nft''
      (Some (Inr sample_ports)) = Inr []" by code_simp
  moreover have "protected_tcp_port_ranges (\<lambda>_. None) ''edge.nft'' (Some (Inr sample_ports))
      = Inr ([(443, 443), (8000, 8100)], [])" by code_simp
  ultimately show ?thesis unfolding edge_port_coverage_exact by simp
qed

section \<open>The template is no laxer than the proxy\<close>

definition public_caps :: "dict \<Rightarrow> (string \<times> int) list" where
  "public_caps data = concat (map fst (listener_caps data))"

text \<open>The threshold the template sets for a meter.\<close>

definition connlimit_of :: "string \<Rightarrow> string \<Rightarrow> int option" where
  "connlimit_of rules set_name =
     (case re_search (CONNLIMIT_RULE set_name) rules of None \<Rightarrow> None | Some (_, _, gs) \<Rightarrow> int_of_str (hd gs))"

lemma threshold_silent:
  "threshold_errors m rules set_name = Inr [] \<longleftrightarrow> (\<exists>t. connlimit_of rules set_name = Some t \<and> t \<le> m)"
  by (auto simp: threshold_errors_def connlimit_of_def int_lit_def not_less split: option.splits)

lemma ceiling:
  "protected_port_connlimit_ceiling (Some (path, Some (Inr (PDict data)))) =
     Inr (if concat (map snd (listener_caps data)) \<noteq> [] \<or> public_caps data = [] then MAX_PROTECTED_PORT_CONNLIMIT
          else Min (snd ` set (public_caps data)), concat (map snd (listener_caps data)))"
  by (simp add: protected_port_connlimit_ceiling_def public_listener_connection_caps_def config_data_def
      public_caps_def)

text \<open>At most every cap of a public listener, and at most the default when there is none.\<close>

definition within_caps :: "dict \<Rightarrow> int \<Rightarrow> bool" where
  "within_caps data t \<longleftrightarrow>
     (\<forall>(label, cap) \<in> set (public_caps data). t \<le> cap)
     \<and> (public_caps data = [] \<longrightarrow> t \<le> MAX_PROTECTED_PORT_CONNLIMIT)"

lemma within_ceiling:
  assumes "public_caps data = [] \<longrightarrow> m = MAX_PROTECTED_PORT_CONNLIMIT"
    and "public_caps data \<noteq> [] \<longrightarrow> m = Min (snd ` set (public_caps data))"
  shows "t \<le> m \<longleftrightarrow> within_caps data t"
  using assms by (cases "public_caps data = []") (auto simp: within_caps_def)

lemma connlimit_silent:
  "validate_connlimit_thresholds path (Some (Inr raw)) (Some (config_path, Some (Inr (PDict data)))) = Inr [] \<longleftrightarrow>
     concat (map snd (listener_caps data)) = []
     \<and> (\<exists>chain t4 t6. named_block raw ''chain input'' = Some chain
          \<and> connlimit_of (compact_rule_text chain) ''tcp4_connlimit'' = Some t4 \<and> within_caps data t4
          \<and> connlimit_of (compact_rule_text chain) ''tcp6_connlimit'' = Some t6 \<and> within_caps data t6)"
proof (cases "concat (map snd (listener_caps data)) = []")
  case False
  then show ?thesis by (auto simp: validate_connlimit_thresholds_def ceiling)
next
  case True
  define m where "m = (if public_caps data = [] then MAX_PROTECTED_PORT_CONNLIMIT else Min (snd ` set (public_caps data)))"
  have m: "t \<le> m \<longleftrightarrow> within_caps data t" for t by (rule within_ceiling) (simp_all add: m_def)
  from True have "protected_port_connlimit_ceiling (Some (config_path, Some (Inr (PDict data)))) = Inr (m, [])"
    by (simp add: ceiling m_def)
  then show ?thesis using True
    by (cases "named_block raw ''chain input''")
      (auto simp: validate_connlimit_thresholds_def read_text_def rbind_Inr_iff threshold_silent m)
qed

text \<open>
  C31. The connection-count check finds nothing exactly when the limits of every listener are
  readable, the input chain of the template has the rule of both meters, and the thresholds of both
  are at most the per-address connection cap of every public listener (128 when there is none): the
  host edge never admits more connections of an address than the proxy does.
\<close>

theorem connlimit_thresholds_exact:
  "validate_connlimit_thresholds path (Some (Inr raw)) (Some (config_path, Some (Inr (PDict data)))) = Inr [] \<longleftrightarrow>
     concat (map snd (listener_caps data)) = []
     \<and> (\<exists>chain t4 t6. named_block raw ''chain input'' = Some chain
          \<and> connlimit_of (compact_rule_text chain) ''tcp4_connlimit'' = Some t4 \<and> within_caps data t4
          \<and> connlimit_of (compact_rule_text chain) ''tcp6_connlimit'' = Some t6 \<and> within_caps data t6)"
  by (rule connlimit_silent)

definition sample_meters :: string where
  "sample_meters = ''chain input { add @tcp4_connlimit { ct count over 64 } add @tcp6_connlimit { ct count over 32 } }''"

theorem connlimit_thresholds_exact_witness:
  "public_caps sample_listener = [(''http.listen'', 64)]
   \<and> (\<exists>chain t. named_block sample_meters ''chain input'' = Some chain
        \<and> connlimit_of (compact_rule_text chain) ''tcp4_connlimit'' = Some t \<and> within_caps sample_listener t)"
proof -
  have "validate_connlimit_thresholds ''edge.nft'' (Some (Inr sample_meters))
      (Some (''c.json'', Some (Inr (PDict sample_listener)))) = Inr []" by code_simp
  moreover have "public_caps sample_listener = [(''http.listen'', 64)]" by code_simp
  ultimately show ?thesis unfolding connlimit_thresholds_exact by blast
qed

end
