(* ===== verification/Edge_Host.thy ===== *)
theory Edge_Host
  imports Edge_Config Report_Checks
begin

text \<open>
  The sysctl and systemd checks of \<open>tools/validate_edge_templates.py\<close>.  The platform and the \<open>sysctl\<close>
  program are parameters.
\<close>

section \<open>Sysctl files\<close>

type_synonym assignments = "(string \<times> string) list"

definition add_assignment :: "assignments \<Rightarrow> string \<Rightarrow> assignments result" where
  "add_assignment acc raw =
     (let line = str_strip (fst (split_once (CHR ''#'') raw))
      in if line = [] then Inr acc
         else case split_once (CHR ''='') line of
                (_, None) \<Rightarrow> Inl (ValueError (''invalid sysctl line: '' @ line))
              | (key, Some value) \<Rightarrow> Inr (dset (str_strip key) (str_strip value) acc))"

definition sysctl_assignments :: "string \<Rightarrow> text_file \<Rightarrow> assignments result" where
  "sysctl_assignments path file =
     rbind (read_text path file) (\<lambda>text. rfold add_assignment [] (splitlines text))"

text \<open>The host: its platform, whether \<open>sysctl\<close> is installed, and the keys it can read.\<close>

record sysctl_env =
  on_linux :: bool
  has_sysctl :: bool
  sysctl_readable :: "string \<Rightarrow> bool"

definition OPTIONAL_MODULE_SYSCTL_KEYS :: "string list" where
  "OPTIONAL_MODULE_SYSCTL_KEYS =
     [''net.netfilter.nf_conntrack_max'', ''net.netfilter.nf_conntrack_tcp_timeout_syn_recv'']"

definition key_errors :: "sysctl_env \<Rightarrow> string \<Rightarrow> string list" where
  "key_errors env key =
     (if sysctl_readable env key then []
      else if key \<in> set OPTIONAL_MODULE_SYSCTL_KEYS
      then [''optional module sysctl key is unavailable on this host; '' @ ''skipped key existence check: '' @ key]
      else [''sysctl key is unavailable on this host: '' @ key])"

definition validate_sysctl :: "sysctl_env \<Rightarrow> string \<Rightarrow> text_file \<Rightarrow> string list result" where
  "validate_sysctl env path file =
     (if file = None then Inr [''missing sysctl template: '' @ path]
      else case sysctl_assignments path file of
             Inl e \<Rightarrow> if is_value_error e then Inr [exn_text e] else Inl e
           | Inr assignments \<Rightarrow>
               Inr (if \<not> on_linux env then [''non-Linux host; skipped sysctl key existence check'']
                    else if \<not> has_sysctl env then [''sysctl not found; skipped sysctl key existence check'']
                    else concat (map (key_errors env) (dkeys assignments))))"

text \<open>A rule: the exact value, the minimum and the maximum, where given.\<close>

record sysctl_rule =
  rule_exact :: "int option"
  rule_min :: "int option"
  rule_max :: "int option"

definition at_least_rule :: "int \<Rightarrow> sysctl_rule" where
  "at_least_rule n = \<lparr>rule_exact = None, rule_min = Some n, rule_max = None\<rparr>"

definition between_rule :: "int \<Rightarrow> int \<Rightarrow> sysctl_rule" where
  "between_rule m n = \<lparr>rule_exact = None, rule_min = Some m, rule_max = Some n\<rparr>"

definition DDOS_SYSCTL_RULES :: "(string \<times> sysctl_rule) list" where
  "DDOS_SYSCTL_RULES =
     [(''net.ipv4.tcp_syncookies'', \<lparr>rule_exact = Some 1, rule_min = None, rule_max = None\<rparr>),
      (''net.ipv4.tcp_max_syn_backlog'', at_least_rule 8192),
      (''net.ipv4.tcp_synack_retries'', between_rule 1 5),
      (''net.core.somaxconn'', at_least_rule 4096),
      (''net.core.netdev_max_backlog'', at_least_rule 10000),
      (''net.ipv4.tcp_fin_timeout'', between_rule 1 60),
      (''net.netfilter.nf_conntrack_max'', at_least_rule 262144),
      (''net.netfilter.nf_conntrack_tcp_timeout_syn_recv'', between_rule 1 60)]"

definition ddos_rule_errors :: "assignments \<Rightarrow> string \<times> sysctl_rule \<Rightarrow> string list" where
  "ddos_rule_errors assignments item =
     (case item of (key, rule) \<Rightarrow>
        case map_of assignments key of
          None \<Rightarrow> []
        | Some raw_value \<Rightarrow>
            (case int_of_str raw_value of
               None \<Rightarrow> [key @ '' must be an integer'']
             | Some value \<Rightarrow>
                 let shown = key @ ''='' @ int_str value
                 in if rule_exact rule \<noteq> None \<and> rule_exact rule \<noteq> Some value
                    then [shown @ '' must be exactly '' @ int_str (the (rule_exact rule))]
                    else (case rule_min rule of
                            Some minimum \<Rightarrow>
                              if value < minimum
                              then [shown @ '' is lower than DDoS guardrail minimum '' @ int_str minimum] else []
                          | None \<Rightarrow> [])
                         @ (case rule_max rule of
                              Some maximum \<Rightarrow>
                                if maximum < value
                                then [shown @ '' exceeds DDoS guardrail maximum '' @ int_str maximum] else []
                            | None \<Rightarrow> [])))"

definition validate_ddos_sysctls :: "string \<Rightarrow> text_file \<Rightarrow> string list" where
  "validate_ddos_sysctls path file =
     (case sysctl_assignments path file of
        Inl err \<Rightarrow> [''failed to read DDoS sysctls from '' @ path @ '': '' @ exn_text err]
      | Inr assignments \<Rightarrow>
          let missing = missing_names (dkeys DDOS_SYSCTL_RULES) (dkeys assignments)
          in (if missing \<noteq> [] then [''missing DDoS host sysctl guardrails: '' @ join_with '', '' missing] else [])
             @ concat (map (ddos_rule_errors assignments) DDOS_SYSCTL_RULES))"

definition validate_backlog :: "string \<Rightarrow> json_file \<Rightarrow> string \<Rightarrow> text_file \<Rightarrow> string list" where
  "validate_backlog config_path config sysctl_path sysctl =
     (case max_config_backlog config of
        Inl err \<Rightarrow> [''failed to read config '' @ config_path @ '': '' @ exn_text err]
      | Inr None \<Rightarrow> []
      | Inr (Some (required, shown)) \<Rightarrow>
          (case rbind (sysctl_assignments sysctl_path sysctl)
                  (\<lambda>a. int_lit (case map_of a ''net.core.somaxconn'' of None \<Rightarrow> ''0'' | Some v \<Rightarrow> v)) of
             Inl err \<Rightarrow> [''failed to read net.core.somaxconn from '' @ sysctl_path @ '': '' @ exn_text err]
           | Inr configured \<Rightarrow>
               if configured < required
               then [''net.core.somaxconn='' @ int_str configured @ '' is lower than configured listener backlog ''
                     @ shown]
               else []))"

section \<open>Fragment bounds\<close>

definition REQUIRED_FRAGMENT_SYSCTLS :: "string list" where
  "REQUIRED_FRAGMENT_SYSCTLS =
     [''net.ipv4.ipfrag_high_thresh'', ''net.ipv4.ipfrag_time'', ''net.ipv4.ipfrag_max_dist'',
      ''net.ipv6.ip6frag_high_thresh'', ''net.ipv6.ip6frag_low_thresh'', ''net.ipv6.ip6frag_time'']"

definition MAX_FRAGMENT_REASSEMBLY_BYTES :: int where "MAX_FRAGMENT_REASSEMBLY_BYTES = 64 * 1024 * 1024"
definition MAX_FRAGMENT_QUEUE_SECONDS :: int where "MAX_FRAGMENT_QUEUE_SECONDS = 30"
definition MAX_FRAGMENT_DISTANCE :: int where "MAX_FRAGMENT_DISTANCE = 4096"

text \<open>
  The loop over the required keys, in the order listed (the code iterates over a set): the positive
  integers, and the messages about the others.
\<close>

definition fragment_value :: "assignments \<Rightarrow> string \<Rightarrow> int option" where
  "fragment_value assignments key =
     (case int_of_str (case map_of assignments key of None \<Rightarrow> [] | Some v \<Rightarrow> v) of
        Some value \<Rightarrow> if value \<le> 0 then None else Some value
      | None \<Rightarrow> None)"

definition fragment_value_errors :: "assignments \<Rightarrow> string \<Rightarrow> string list" where
  "fragment_value_errors assignments key =
     (case int_of_str (case map_of assignments key of None \<Rightarrow> [] | Some v \<Rightarrow> v) of
        None \<Rightarrow> [key @ '' must be an integer'']
      | Some value \<Rightarrow> if value \<le> 0 then [key @ '' must be greater than zero''] else [])"

definition cap_errors :: "assignments \<Rightarrow> string \<Rightarrow> int \<Rightarrow> string \<Rightarrow> string \<Rightarrow> string list" where
  "cap_errors assignments key cap what unit =
     (case fragment_value assignments key of
        Some value \<Rightarrow>
          if cap < value then [key @ ''='' @ int_str value @ '' exceeds '' @ what @ '' '' @ int_str cap @ unit] else []
      | None \<Rightarrow> [])"

definition validate_fragment_sysctls :: "string \<Rightarrow> text_file \<Rightarrow> string list" where
  "validate_fragment_sysctls path file =
     (case sysctl_assignments path file of
        Inl err \<Rightarrow> [''failed to read fragment sysctls from '' @ path @ '': '' @ exn_text err]
      | Inr assignments \<Rightarrow>
          let missing = missing_names REQUIRED_FRAGMENT_SYSCTLS (dkeys assignments)
          in if missing \<noteq> [] then [''missing fragment reassembly sysctl bounds: '' @ join_with '', '' missing]
             else
               concat (map (fragment_value_errors assignments) REQUIRED_FRAGMENT_SYSCTLS)
               @ concat (map (\<lambda>key. cap_errors assignments key MAX_FRAGMENT_REASSEMBLY_BYTES
                    ''fragment reassembly memory cap'' [])
                    [''net.ipv4.ipfrag_high_thresh'', ''net.ipv6.ip6frag_high_thresh''])
               @ concat (map (\<lambda>key. cap_errors assignments key MAX_FRAGMENT_QUEUE_SECONDS
                    ''fragment queue retention cap'' ''s'') [''net.ipv4.ipfrag_time'', ''net.ipv6.ip6frag_time''])
               @ cap_errors assignments ''net.ipv4.ipfrag_max_dist'' MAX_FRAGMENT_DISTANCE
                   ''fragment distance cap'' []
               @ (case (fragment_value assignments ''net.ipv6.ip6frag_low_thresh'',
                        fragment_value assignments ''net.ipv6.ip6frag_high_thresh'') of
                    (Some ipv6_low, Some ipv6_high) \<Rightarrow>
                      if ipv6_high < ipv6_low
                      then [''net.ipv6.ip6frag_low_thresh must be less than or equal to ''
                            @ ''net.ipv6.ip6frag_high_thresh'']
                      else []
                  | _ \<Rightarrow> []))"

section \<open>Systemd units\<close>

type_synonym unit_section = "(string \<times> string list) list"
type_synonym unit_sections = "(string \<times> unit_section) list"

definition add_unit_line ::
  "string option \<times> unit_sections \<Rightarrow> string \<Rightarrow> (string option \<times> unit_sections) result" where
  "add_unit_line state raw_line =
     (case state of (current, sections) \<Rightarrow>
        let line = str_strip (fst (split_once (CHR ''#'') raw_line))
        in if line = [] then Inr state
           else if starts_with line ''['' \<and> ends_with line '']'' then
             (let name = str_strip (butlast (tl line))
              in Inr (Some name, if map_of sections name = None then dset name [] sections else sections))
           else case (current, split_once (CHR ''='') line) of
                  (Some name, (key, Some value)) \<Rightarrow>
                    (let section = (case map_of sections name of None \<Rightarrow> [] | Some s \<Rightarrow> s);
                         old = (case map_of section (str_strip key) of None \<Rightarrow> [] | Some vs \<Rightarrow> vs)
                     in Inr (current,
                          dset name (dset (str_strip key) (old @ [str_strip value]) section) sections))
                | _ \<Rightarrow> Inl (ValueError (''invalid systemd unit line: '' @ raw_line)))"

definition parse_systemd_unit :: "string \<Rightarrow> text_file \<Rightarrow> unit_sections result" where
  "parse_systemd_unit path file =
     rbind (read_text path file) (\<lambda>text.
     rbind (rfold add_unit_line (None, []) (splitlines text)) (\<lambda>(_, sections). Inr sections))"

definition first_systemd_value :: "unit_section \<Rightarrow> string \<Rightarrow> string \<Rightarrow> string" where
  "first_systemd_value section key default_value =
     (case map_of section key of None \<Rightarrow> default_value | Some vs \<Rightarrow> if vs = [] then default_value else last vs)"

definition SIZE :: regex where
  "SIZE = Seq [Grp Digits, Grp (Opt (One (\<lambda>c. c \<in> set ''KkMmGgTt'')))]"

definition parse_systemd_size :: "string \<Rightarrow> int option result" where
  "parse_systemd_size value =
     (let token = str_strip value
      in if str_lower token = ''infinity'' then Inr None
         else case re_fullmatch SIZE token of
                Some [num, unit] \<Rightarrow>
                  (case map_of [([], 1), (''K'', 1024), (''M'', 1024 ^ 2), (''G'', 1024 ^ 3), (''T'', 1024 ^ 4)]
                          (str_upper unit) of
                     Some scale \<Rightarrow> rbind (int_lit num) (\<lambda>n. Inr (Some (n * scale)))
                   | None \<Rightarrow> Inl (KeyError unit))
              | _ \<Rightarrow> Inl (ValueError (''invalid systemd size: '' @ value)))"

definition parse_systemd_nofile_hard_limit :: "string \<Rightarrow> int option result" where
  "parse_systemd_nofile_hard_limit value =
     (let token = str_strip value;
          parts = map str_strip (split_on (CHR '':'') token);
          bad = Inl (ValueError (''invalid systemd LimitNOFILE: '' @ value))
      in if CHR '':'' \<in> set token \<and> (length parts \<noteq> 2 \<or> [] \<in> set parts) then bad
         else let token = (if CHR '':'' \<in> set token then parts ! 1 else token)
              in if str_lower token = ''infinity'' then Inr None
                 else if token = [] \<or> \<not> list_all is_ascii_digit token then bad
                 else rbind (int_lit token) (\<lambda>n. Inr (Some n)))"

definition SECONDS :: regex where
  "SECONDS =
     Seq [Grp (Seq [Digits, Opt (Seq [Lit ''.'', Digits])]),
          Opt (Grp (Alt (Lit ''ms'') (Alt (Lit ''s'') (Alt (Lit ''sec'') (Alt (Lit ''min'') (Alt (Lit ''m'')
            (Alt (Lit ''h'') (Alt (Lit ''d'') (Alt (Lit ''w'') (Lit ''y''))))))))))]"

definition SECOND_SCALES :: "(string \<times> rat) list" where
  "SECOND_SCALES =
     [(''ms'', 1 / 1000), (''s'', 1), (''sec'', 1), (''min'', 60), (''m'', 60), (''h'', 3600), (''d'', 86400),
      (''w'', 604800), (''y'', 31557600)]"

text \<open>\<open>float(num) * scale\<close>.\<close>

definition scaled :: "string \<Rightarrow> rat \<Rightarrow> pyfloat" where
  "scaled num scale =
     (case float_of_str num of Some (Fin q) \<Rightarrow> clip_float (q * scale) | _ \<Rightarrow> PInf)"

definition parse_systemd_seconds :: "string \<Rightarrow> pyfloat result" where
  "parse_systemd_seconds value =
     (let token = str_strip value
      in if str_lower token = ''infinity'' then Inr PInf
         else case re_fullmatch SECONDS token of
                Some (num # units) \<Rightarrow>
                  (case map_of SECOND_SCALES (case units of [] \<Rightarrow> ''s'' | u # _ \<Rightarrow> u) of
                     Some scale \<Rightarrow> Inr (scaled num scale)
                   | None \<Rightarrow> Inl (KeyError value))
              | _ \<Rightarrow> Inl (ValueError (''invalid systemd duration: '' @ value)))"

text \<open>\<open>f"{x:g}"\<close>: six significant digits.\<close>

fun dec_exp :: "nat \<Rightarrow> rat \<Rightarrow> int" where
  "dec_exp 0 q = 0"
| "dec_exp (Suc n) q =
     (if 10 \<le> q then 1 + dec_exp n (q / 10) else if q < 1 then dec_exp n (q * 10) - 1 else 0)"

definition g_digits :: "string \<Rightarrow> int \<Rightarrow> string" where
  "g_digits ds e =
     (if e < - 4 \<or> 6 \<le> e then
        take 1 ds @ (if drop 1 ds = [] then [] else CHR ''.'' # drop 1 ds) @ ''e'' @ (if e < 0 then ''-'' else ''+'')
        @ (if \<bar>e\<bar> < 10 then ''0'' else []) @ nat_str (nat \<bar>e\<bar>)
      else if e < 0 then ''0.'' @ zeros (nat (- e - 1)) @ ds
      else if int (length ds) \<le> e + 1 then ds @ zeros (nat (e + 1) - length ds)
      else take (nat (e + 1)) ds @ ''.'' @ drop (nat (e + 1)) ds)"

definition format_g :: "pyfloat \<Rightarrow> string" where
  "format_g f =
     (case f of
        PInf \<Rightarrow> ''inf'' | NInf \<Rightarrow> ''-inf'' | NaN \<Rightarrow> ''nan''
      | Fin q \<Rightarrow>
          if q = 0 then ''0''
          else let e = dec_exp 400 \<bar>q\<bar>;
                   m = round_half_even (if e \<le> 5 then \<bar>q\<bar> * 10 ^ nat (5 - e) else \<bar>q\<bar> / 10 ^ nat (e - 5));
                   ds = rstrip_by (\<lambda>c. c = CHR ''0'') (int_str m)
               in (if q < 0 then ''-'' else []) @ g_digits ds (if m = 1000000 then e + 1 else e))"

section \<open>The unit check\<close>

definition MAX_SYSTEMD_TASKS :: int where "MAX_SYSTEMD_TASKS = 32768"

definition REQUIRED_SYSTEMD_SERVICE_VALUES :: "(string \<times> string list) list" where
  "REQUIRED_SYSTEMD_SERVICE_VALUES =
     [(''Type'', [''simple'']),
      (''Restart'', [''on-failure'', ''always'']),
      (''NoNewPrivileges'', [''true'', ''yes'']),
      (''PrivateTmp'', [''true'', ''yes'']),
      (''PrivateDevices'', [''true'', ''yes'']),
      (''ProtectSystem'', [''strict'']),
      (''ProtectHome'', [''true'', ''yes'', ''read-only'', ''tmpfs'']),
      (''ProtectKernelTunables'', [''true'', ''yes'']),
      (''ProtectKernelModules'', [''true'', ''yes'']),
      (''ProtectControlGroups'', [''true'', ''yes'', ''strict'']),
      (''RestrictNamespaces'', [''true'', ''yes'']),
      (''RestrictRealtime'', [''true'', ''yes'']),
      (''RestrictSUIDSGID'', [''true'', ''yes'']),
      (''LockPersonality'', [''true'', ''yes'']),
      (''MemoryDenyWriteExecute'', [''true'', ''yes'']),
      (''SystemCallArchitectures'', [''native''])]"

definition REQUIRED_SYSTEMD_DIRECTIVES :: "string list" where
  "REQUIRED_SYSTEMD_DIRECTIVES =
     [''User'', ''Group'', ''ExecStart'', ''LimitNOFILE'', ''TimeoutStopSec'', ''TasksMax'', ''MemoryHigh'',
      ''MemoryMax'', ''AmbientCapabilities'', ''CapabilityBoundingSet'', ''RestrictAddressFamilies'',
      ''StateDirectory'', ''LogsDirectory'', ''ConfigurationDirectory'']"

definition service_value_errors :: "unit_section \<Rightarrow> string \<times> string list \<Rightarrow> string list" where
  "service_value_errors service item =
     (case item of (key, allowed) \<Rightarrow>
        let value = first_systemd_value service key []
        in if value = [] then [''missing systemd service directive: '' @ key]
           else if str_lower value \<notin> set allowed
           then [key @ ''='' @ value @ '' is weaker than required values: ''
                 @ py_repr (PList (map PStr (sort allowed)))]
           else [])"

definition identity_errors :: "unit_section \<Rightarrow> string list" where
  "identity_errors service =
     (if first_systemd_value service ''User'' [] \<in> {[], ''root'', ''0''}
      then [''systemd unit must run AlturaProt as a non-root User''] else [])
     @ (if first_systemd_value service ''Group'' [] \<in> {[], ''root'', ''0''}
        then [''systemd unit must run AlturaProt as a non-root Group''] else [])"

text \<open>
  The descriptor block: the messages of the capacity computation are kept when a later step raises.
\<close>

definition nofile_errors :: "unit_section \<Rightarrow> string \<Rightarrow> json_file \<Rightarrow> string list" where
  "nofile_errors service config_path config =
     (let raw_nofile = first_systemd_value service ''LimitNOFILE'' ''0'';
          failed = (\<lambda>err. [''failed to read systemd LimitNOFILE: '' @ exn_text err])
      in case parse_systemd_nofile_hard_limit raw_nofile of
           Inl err \<Rightarrow> failed err
         | Inr nofile \<Rightarrow>
             (case config_nofile_capacity_requirement config_path config of
                Inl err \<Rightarrow> failed err
              | Inr (capacity_required, capacity_errors) \<Rightarrow>
                  capacity_errors
                  @ (case config_min_nofile config of
                       Inl err \<Rightarrow> failed err
                     | Inr min_nofile \<Rightarrow>
                         let required_nofile =
                               (case capacity_required of None \<Rightarrow> min_nofile | Some c \<Rightarrow> max min_nofile c)
                         in case nofile of
                              Some n \<Rightarrow>
                                if n < required_nofile
                                then [''LimitNOFILE='' @ raw_nofile @ '' hard limit '' @ int_str n
                                      @ '' is lower than required descriptor budget '' @ int_str required_nofile]
                                else []
                            | None \<Rightarrow> [])))"

definition timeout_errors :: "unit_section \<Rightarrow> json_file \<Rightarrow> string list" where
  "timeout_errors service config =
     (case rbind (parse_systemd_seconds (first_systemd_value service ''TimeoutStopSec'' ''0'')) (\<lambda>stop_seconds.
             rbind (config_shutdown_grace_seconds config) (\<lambda>shutdown_grace. Inr (stop_seconds, shutdown_grace))) of
        Inl err \<Rightarrow> [''failed to read systemd TimeoutStopSec: '' @ exn_text err]
      | Inr (stop_seconds, shutdown_grace) \<Rightarrow>
          if fle stop_seconds shutdown_grace
          then [''TimeoutStopSec='' @ format_g stop_seconds @ ''s must exceed runtime.shutdown_grace_ms ''
                @ format_g shutdown_grace @ ''s'']
          else [])"

definition tasks_errors :: "unit_section \<Rightarrow> string list" where
  "tasks_errors service =
     (case int_lit (first_systemd_value service ''TasksMax'' ''0'') of
        Inl err \<Rightarrow> [''failed to read systemd TasksMax: '' @ exn_text err]
      | Inr tasks \<Rightarrow>
          if tasks \<le> 0 \<or> MAX_SYSTEMD_TASKS < tasks
          then [''TasksMax='' @ int_str tasks @ '' must be positive and no higher than ''
                @ int_str MAX_SYSTEMD_TASKS]
          else [])"

definition memory_errors :: "unit_section \<Rightarrow> string list" where
  "memory_errors service =
     (case rbind (parse_systemd_size (first_systemd_value service ''MemoryHigh'' [])) (\<lambda>memory_high.
             rbind (parse_systemd_size (first_systemd_value service ''MemoryMax'' [])) (\<lambda>memory_max.
               Inr (memory_high, memory_max))) of
        Inl err \<Rightarrow> [''failed to read systemd memory limits: '' @ exn_text err]
      | Inr (Some memory_high, Some memory_max) \<Rightarrow>
          if memory_max < memory_high then [''MemoryHigh must be less than or equal to MemoryMax''] else []
      | Inr _ \<Rightarrow> [''MemoryHigh and MemoryMax must be finite systemd memory limits''])"

definition family_errors :: "unit_section \<Rightarrow> string list" where
  "family_errors service =
     (let address_families = split_ws (first_systemd_value service ''RestrictAddressFamilies'' [])
      in (if \<not> {''AF_UNIX'', ''AF_INET'', ''AF_INET6''} \<subseteq> set address_families
          then [''RestrictAddressFamilies must allow AF_UNIX AF_INET AF_INET6 for ''
                @ ''logging, local sockets, and TCP proxying''] else [])
         @ (if ''AF_PACKET'' \<in> set address_families \<or> ''AF_NETLINK'' \<in> set address_families
            then [''RestrictAddressFamilies should not allow raw packet/netlink families''] else []))"

definition capability_errors :: "unit_section \<Rightarrow> string \<Rightarrow> string list" where
  "capability_errors service key =
     (if set (split_ws (first_systemd_value service key [])) \<noteq> {''CAP_NET_BIND_SERVICE''}
      then [key @ '' must be exactly CAP_NET_BIND_SERVICE so the proxy can bind ''
            @ ''privileged ports without broader root capabilities''] else [])"

definition section_or_empty :: "unit_sections \<Rightarrow> string \<Rightarrow> unit_section" where
  "section_or_empty sections name = (case map_of sections name of None \<Rightarrow> [] | Some s \<Rightarrow> s)"

definition service_errors :: "unit_sections \<Rightarrow> unit_section \<Rightarrow> string \<Rightarrow> json_file \<Rightarrow> string list" where
  "service_errors sections service config_path config =
     (let missing = missing_names REQUIRED_SYSTEMD_DIRECTIVES (dkeys service)
      in (if missing \<noteq> [] then [''missing systemd service directives: '' @ join_with '', '' missing] else [])
         @ concat (map (service_value_errors service) REQUIRED_SYSTEMD_SERVICE_VALUES)
         @ identity_errors service
         @ nofile_errors service config_path config
         @ timeout_errors service config
         @ tasks_errors service
         @ memory_errors service
         @ family_errors service
         @ concat (map (capability_errors service) [''AmbientCapabilities'', ''CapabilityBoundingSet''])
         @ concat (map (\<lambda>key. if first_systemd_value service key [] \<noteq> ''altura-prot''
                               then [key @ '' must be set to altura-prot''] else [])
             [''StateDirectory'', ''LogsDirectory'', ''ConfigurationDirectory''])
         @ concat (map (\<lambda>key. if key \<notin> set (dkeys (section_or_empty sections ''Unit''))
                               then [''missing [Unit] restart storm guard: '' @ key] else [])
             [''StartLimitIntervalSec'', ''StartLimitBurst''])
         @ (if ''multi-user.target''
                 \<notin> set (split_ws (first_systemd_value (section_or_empty sections ''Install'') ''WantedBy'' []))
            then [''systemd unit should install into multi-user.target''] else []))"

definition validate_systemd_unit ::
  "string \<Rightarrow> text_file \<Rightarrow> string \<Rightarrow> json_file \<Rightarrow> string list result" where
  "validate_systemd_unit path file config_path config =
     (if file = None then Inr [''missing systemd unit template: '' @ path]
      else case parse_systemd_unit path file of
             Inl e \<Rightarrow> if is_value_error e then Inr [exn_text e] else Inl e
           | Inr sections \<Rightarrow>
               (case map_of sections ''Service'' of
                  None \<Rightarrow> Inr [''missing [Service] section in '' @ path]
                | Some service \<Rightarrow> Inr (service_errors sections service config_path config)))"

section \<open>The host bounds\<close>

lemma missing_names_Nil [simp]: "missing_names required configured = [] \<longleftrightarrow> set required \<subseteq> set configured"
  by (auto simp: missing_names_def list_all_iff)

text \<open>The integer a sysctl file assigns to a key.\<close>

definition sysctl_int :: "assignments \<Rightarrow> string \<Rightarrow> int option" where
  "sysctl_int a key = (case map_of a key of None \<Rightarrow> None | Some raw \<Rightarrow> int_of_str raw)"

definition rule_met :: "assignments \<Rightarrow> string \<times> sysctl_rule \<Rightarrow> bool" where
  "rule_met a item \<longleftrightarrow>
     (\<exists>v. sysctl_int a (fst item) = Some v
        \<and> (\<forall>e. rule_exact (snd item) = Some e \<longrightarrow> v = e)
        \<and> (\<forall>m. rule_min (snd item) = Some m \<longrightarrow> m \<le> v)
        \<and> (\<forall>m. rule_max (snd item) = Some m \<longrightarrow> v \<le> m))"

lemma ddos_rule_silent:
  "fst item \<in> set (dkeys a) \<and> ddos_rule_errors a item = [] \<longleftrightarrow> rule_met a item"
proof (cases "map_of a (fst item)")
  case None
  moreover from None have "fst item \<notin> set (dkeys a)" by (simp add: map_of_eq_None_iff)
  ultimately show ?thesis by (simp add: rule_met_def sysctl_int_def)
next
  case (Some raw)
  then have "fst item \<in> set (dkeys a)" by (force dest: map_of_SomeD)
  with Some show ?thesis
    by (cases item; cases "int_of_str raw"; cases "rule_exact (snd item)")
      (auto simp: ddos_rule_errors_def rule_met_def sysctl_int_def Let_def split: option.splits if_splits)
qed

lemma ddos_silent:
  "validate_ddos_sysctls path file = [] \<longleftrightarrow>
     (\<exists>a. sysctl_assignments path file = Inr a \<and> list_all (rule_met a) DDOS_SYSCTL_RULES)"
proof (cases "sysctl_assignments path file")
  case (Inr a)
  then have "validate_ddos_sysctls path file = [] \<longleftrightarrow>
      (\<forall>item \<in> set DDOS_SYSCTL_RULES. fst item \<in> set (dkeys a) \<and> ddos_rule_errors a item = [])"
    unfolding validate_ddos_sysctls_def by (auto simp: Let_def)
  then show ?thesis using Inr unfolding ddos_rule_silent by (simp add: list_all_iff)
qed (simp add: validate_ddos_sysctls_def)

text \<open>The bounds against connection floods, as numbers.\<close>

definition flood_bounds :: "assignments \<Rightarrow> bool" where
  "flood_bounds a \<longleftrightarrow>
     (\<exists>backlog retries somaxconn netdev fin conntrack syn_recv.
        sysctl_int a ''net.ipv4.tcp_syncookies'' = Some 1
        \<and> sysctl_int a ''net.ipv4.tcp_max_syn_backlog'' = Some backlog \<and> 8192 \<le> backlog
        \<and> sysctl_int a ''net.ipv4.tcp_synack_retries'' = Some retries \<and> 1 \<le> retries \<and> retries \<le> 5
        \<and> sysctl_int a ''net.core.somaxconn'' = Some somaxconn \<and> 4096 \<le> somaxconn
        \<and> sysctl_int a ''net.core.netdev_max_backlog'' = Some netdev \<and> 10000 \<le> netdev
        \<and> sysctl_int a ''net.ipv4.tcp_fin_timeout'' = Some fin \<and> 1 \<le> fin \<and> fin \<le> 60
        \<and> sysctl_int a ''net.netfilter.nf_conntrack_max'' = Some conntrack \<and> 262144 \<le> conntrack
        \<and> sysctl_int a ''net.netfilter.nf_conntrack_tcp_timeout_syn_recv'' = Some syn_recv
          \<and> 1 \<le> syn_recv \<and> syn_recv \<le> 60)"

lemma rules_flood_bounds: "list_all (rule_met a) DDOS_SYSCTL_RULES \<longleftrightarrow> flood_bounds a"
  unfolding DDOS_SYSCTL_RULES_def flood_bounds_def
  by (simp add: rule_met_def at_least_rule_def between_rule_def) blast

text \<open>The bounds on reassembly: 64 MiB, 30 seconds and 4096 packets.\<close>

definition fragment_bounds :: "assignments \<Rightarrow> bool" where
  "fragment_bounds a \<longleftrightarrow>
     (\<exists>high4 time4 dist4 high6 low6 time6.
        sysctl_int a ''net.ipv4.ipfrag_high_thresh'' = Some high4 \<and> 0 < high4 \<and> high4 \<le> 67108864
        \<and> sysctl_int a ''net.ipv4.ipfrag_time'' = Some time4 \<and> 0 < time4 \<and> time4 \<le> 30
        \<and> sysctl_int a ''net.ipv4.ipfrag_max_dist'' = Some dist4 \<and> 0 < dist4 \<and> dist4 \<le> 4096
        \<and> sysctl_int a ''net.ipv6.ip6frag_high_thresh'' = Some high6 \<and> 0 < high6 \<and> high6 \<le> 67108864
        \<and> sysctl_int a ''net.ipv6.ip6frag_low_thresh'' = Some low6 \<and> 0 < low6 \<and> low6 \<le> high6
        \<and> sysctl_int a ''net.ipv6.ip6frag_time'' = Some time6 \<and> 0 < time6 \<and> time6 \<le> 30)"

lemma fragment_value_silent:
  assumes "key \<in> set (dkeys a)"
  shows "fragment_value_errors a key = [] \<longleftrightarrow> (\<exists>v. sysctl_int a key = Some v \<and> 0 < v)"
    and "fragment_value a key = Some v \<longleftrightarrow> sysctl_int a key = Some v \<and> 0 < v"
proof -
  from assms obtain raw where "map_of a key = Some raw" by (metis map_of_eq_None_iff not_Some_eq set_map)
  then show "fragment_value_errors a key = [] \<longleftrightarrow> (\<exists>v. sysctl_int a key = Some v \<and> 0 < v)"
    and "fragment_value a key = Some v \<longleftrightarrow> sysctl_int a key = Some v \<and> 0 < v"
    by (auto simp: fragment_value_errors_def fragment_value_def sysctl_int_def not_le split: option.splits)
qed

lemma cap_silent: "fragment_value a key = Some v \<Longrightarrow> cap_errors a key cap what unit = [] \<longleftrightarrow> v \<le> cap"
  by (simp add: cap_errors_def)

lemma sysctl_int_key: "sysctl_int a key = Some v \<Longrightarrow> key \<in> set (dkeys a)"
  by (force simp: sysctl_int_def dest: map_of_SomeD split: option.splits)

lemma fragment_silent:
  "validate_fragment_sysctls path file = [] \<longleftrightarrow>
     (\<exists>a. sysctl_assignments path file = Inr a \<and> fragment_bounds a)"
proof (cases "sysctl_assignments path file")
  case (Inr a)
  let ?req = "set REQUIRED_FRAGMENT_SYSCTLS"
  show ?thesis
  proof (cases "\<forall>key \<in> ?req. \<exists>v. sysctl_int a key = Some v \<and> 0 < v")
    case True
    then have sub: "?req \<subseteq> set (dkeys a)" by (blast dest: sysctl_int_key)
    with True have silent: "\<forall>key \<in> ?req. fragment_value_errors a key = []"
      and vals: "\<forall>key \<in> ?req. \<exists>v. fragment_value a key = Some v \<and> sysctl_int a key = Some v \<and> 0 < v"
      by (auto simp: fragment_value_silent subset_iff)
    from vals obtain h4 t4 d4 h6 l6 t6 where
      v: "fragment_value a ''net.ipv4.ipfrag_high_thresh'' = Some h4"
        "fragment_value a ''net.ipv4.ipfrag_time'' = Some t4"
        "fragment_value a ''net.ipv4.ipfrag_max_dist'' = Some d4"
        "fragment_value a ''net.ipv6.ip6frag_high_thresh'' = Some h6"
        "fragment_value a ''net.ipv6.ip6frag_low_thresh'' = Some l6"
        "fragment_value a ''net.ipv6.ip6frag_time'' = Some t6"
      and i: "sysctl_int a ''net.ipv4.ipfrag_high_thresh'' = Some h4"
        "sysctl_int a ''net.ipv4.ipfrag_time'' = Some t4"
        "sysctl_int a ''net.ipv4.ipfrag_max_dist'' = Some d4"
        "sysctl_int a ''net.ipv6.ip6frag_high_thresh'' = Some h6"
        "sysctl_int a ''net.ipv6.ip6frag_low_thresh'' = Some l6"
        "sysctl_int a ''net.ipv6.ip6frag_time'' = Some t6"
      and "0 < h4" "0 < t4" "0 < d4" "0 < h6" "0 < l6" "0 < t6"
      unfolding REQUIRED_FRAGMENT_SYSCTLS_def by auto
    then show ?thesis
      using Inr sub silent unfolding validate_fragment_sysctls_def fragment_bounds_def
      by (simp add: i v cap_silent MAX_FRAGMENT_REASSEMBLY_BYTES_def MAX_FRAGMENT_QUEUE_SECONDS_def
          MAX_FRAGMENT_DISTANCE_def not_less conj_ac)
  next
    case False
    then have "\<not> fragment_bounds a" by (auto simp: fragment_bounds_def REQUIRED_FRAGMENT_SYSCTLS_def)
    moreover have "validate_fragment_sysctls path file \<noteq> []"
    proof (cases "?req \<subseteq> set (dkeys a)")
      case True
      with False obtain key where "key \<in> ?req" "fragment_value_errors a key \<noteq> []"
        by (metis fragment_value_silent(1) subset_iff)
      with True Inr show ?thesis by (auto simp: validate_fragment_sysctls_def)
    qed (simp add: validate_fragment_sysctls_def Inr)
    ultimately show ?thesis using Inr by simp
  qed
qed (simp add: validate_fragment_sysctls_def)

text \<open>
  C32. The two bound checks on the sysctl template find nothing exactly when the template can be read
  and assigns an integer within bounds to each of the fourteen keys: SYN cookies on, the queues at
  least and the timeouts and retries at most what the guardrails say, and reassembly memory, time and
  distance positive and capped, with the low threshold no higher than the high one.
\<close>

theorem sysctl_bounds_exact:
  "validate_ddos_sysctls path file = [] \<and> validate_fragment_sysctls path file = [] \<longleftrightarrow>
     (\<exists>a. sysctl_assignments path file = Inr a \<and> flood_bounds a \<and> fragment_bounds a)"
  by (auto simp: ddos_silent rules_flood_bounds fragment_silent)

section \<open>The hardened unit\<close>

definition descriptors_suffice :: "unit_section \<Rightarrow> string \<Rightarrow> json_file \<Rightarrow> bool" where
  "descriptors_suffice service config_path config \<longleftrightarrow>
     (\<exists>limit budget minimum.
        parse_systemd_nofile_hard_limit (first_systemd_value service ''LimitNOFILE'' ''0'') = Inr limit
        \<and> config_nofile_capacity_requirement config_path config = Inr (budget, [])
        \<and> config_min_nofile config = Inr minimum
        \<and> (\<forall>n. limit = Some n \<longrightarrow> minimum \<le> n \<and> (\<forall>b. budget = Some b \<longrightarrow> b \<le> n)))"

lemma nofile_silent: "nofile_errors service config_path config = [] \<longleftrightarrow> descriptors_suffice service config_path config"
  unfolding nofile_errors_def descriptors_suffice_def Let_def
  by (auto simp: not_less split: sum.splits option.splits prod.splits)

definition stops_after_grace :: "unit_section \<Rightarrow> json_file \<Rightarrow> bool" where
  "stops_after_grace service config \<longleftrightarrow>
     (\<exists>stop grace. parse_systemd_seconds (first_systemd_value service ''TimeoutStopSec'' ''0'') = Inr stop
        \<and> config_shutdown_grace_seconds config = Inr grace \<and> \<not> fle stop grace)"

lemma timeout_silent: "timeout_errors service config = [] \<longleftrightarrow> stops_after_grace service config"
proof (cases "rbind (parse_systemd_seconds (first_systemd_value service ''TimeoutStopSec'' ''0'')) (\<lambda>stop.
    rbind (config_shutdown_grace_seconds config) (\<lambda>grace. Inr (stop, grace)))")
  case (Inl e)
  then have "\<not> stops_after_grace service config" by (auto simp: stops_after_grace_def)
  then show ?thesis using Inl by (simp add: timeout_errors_def)
next
  case (Inr p)
  then have "stops_after_grace service config \<longleftrightarrow> \<not> fle (fst p) (snd p)"
    by (auto simp: stops_after_grace_def rbind_Inr_iff)
  then show ?thesis using Inr by (cases p) (simp add: timeout_errors_def)
qed

definition memory_bounded :: "unit_section \<Rightarrow> bool" where
  "memory_bounded service \<longleftrightarrow>
     (\<exists>high top. parse_systemd_size (first_systemd_value service ''MemoryHigh'' []) = Inr (Some high)
        \<and> parse_systemd_size (first_systemd_value service ''MemoryMax'' []) = Inr (Some top) \<and> high \<le> top)"

lemma memory_silent: "memory_errors service = [] \<longleftrightarrow> memory_bounded service"
proof (cases "parse_systemd_size (first_systemd_value service ''MemoryHigh'' [])")
  case (Inr high)
  then show ?thesis
    by (cases "parse_systemd_size (first_systemd_value service ''MemoryMax'' [])")
      (auto simp: memory_errors_def memory_bounded_def not_less split: option.splits)
qed (simp add: memory_errors_def memory_bounded_def)

definition tasks_bounded :: "unit_section \<Rightarrow> bool" where
  "tasks_bounded service \<longleftrightarrow>
     (\<exists>tasks. int_of_str (first_systemd_value service ''TasksMax'' ''0'') = Some tasks \<and> 0 < tasks \<and> tasks \<le> 32768)"

lemma tasks_silent: "tasks_errors service = [] \<longleftrightarrow> tasks_bounded service"
  by (auto simp: tasks_errors_def tasks_bounded_def int_lit_def MAX_SYSTEMD_TASKS_def split: option.splits)

text \<open>Neither root nor unset.\<close>

definition unprivileged :: "string \<Rightarrow> bool" where
  "unprivileged name \<longleftrightarrow> name \<notin> {[], ''root'', ''0''}"

definition unit_hardened :: "unit_sections \<Rightarrow> unit_section \<Rightarrow> string \<Rightarrow> json_file \<Rightarrow> bool" where
  "unit_hardened sections service config_path config \<longleftrightarrow>
     (let val = \<lambda>key. first_systemd_value service key [] in
      set REQUIRED_SYSTEMD_DIRECTIVES \<subseteq> set (dkeys service)
      \<and> (\<forall>(key, allowed) \<in> set REQUIRED_SYSTEMD_SERVICE_VALUES. str_lower (val key) \<in> set allowed)
      \<and> unprivileged (val ''User'') \<and> unprivileged (val ''Group'')
      \<and> descriptors_suffice service config_path config
      \<and> stops_after_grace service config
      \<and> tasks_bounded service \<and> memory_bounded service
      \<and> {''AF_UNIX'', ''AF_INET'', ''AF_INET6''} \<subseteq> set (split_ws (val ''RestrictAddressFamilies''))
      \<and> {''AF_PACKET'', ''AF_NETLINK''} \<inter> set (split_ws (val ''RestrictAddressFamilies'')) = {}
      \<and> set (split_ws (val ''AmbientCapabilities'')) = {''CAP_NET_BIND_SERVICE''}
      \<and> set (split_ws (val ''CapabilityBoundingSet'')) = {''CAP_NET_BIND_SERVICE''}
      \<and> val ''StateDirectory'' = ''altura-prot'' \<and> val ''LogsDirectory'' = ''altura-prot''
      \<and> val ''ConfigurationDirectory'' = ''altura-prot''
      \<and> {''StartLimitIntervalSec'', ''StartLimitBurst''} \<subseteq> set (dkeys (section_or_empty sections ''Unit''))
      \<and> ''multi-user.target'' \<in> set (split_ws (first_systemd_value (section_or_empty sections ''Install'') ''WantedBy'' [])))"

lemma service_value_silent:
  assumes "[] \<notin> set (snd item)"
  shows "service_value_errors service item = [] \<longleftrightarrow>
    str_lower (first_systemd_value service (fst item) []) \<in> set (snd item)"
proof -
  have "str_lower [] = []" by (simp add: str_lower_def)
  with assms show ?thesis by (cases item) (auto simp: service_value_errors_def Let_def)
qed

lemma service_values_silent:
  "concat (map (service_value_errors service) REQUIRED_SYSTEMD_SERVICE_VALUES) = [] \<longleftrightarrow>
     (\<forall>(key, allowed) \<in> set REQUIRED_SYSTEMD_SERVICE_VALUES.
        str_lower (first_systemd_value service key []) \<in> set allowed)"
proof -
  have "list_all (\<lambda>item. [] \<notin> set (snd item)) REQUIRED_SYSTEMD_SERVICE_VALUES"
    by (simp add: REQUIRED_SYSTEMD_SERVICE_VALUES_def)
  then show ?thesis by (force simp: service_value_silent list_all_iff)
qed

lemma identity_silent:
  "identity_errors service = [] \<longleftrightarrow> unprivileged (first_systemd_value service ''User'' [])
     \<and> unprivileged (first_systemd_value service ''Group'' [])"
  by (simp add: identity_errors_def unprivileged_def)

lemma family_silent:
  "family_errors service = [] \<longleftrightarrow>
     {''AF_UNIX'', ''AF_INET'', ''AF_INET6''} \<subseteq> set (split_ws (first_systemd_value service ''RestrictAddressFamilies'' []))
     \<and> {''AF_PACKET'', ''AF_NETLINK''} \<inter> set (split_ws (first_systemd_value service ''RestrictAddressFamilies'' [])) = {}"
  by (auto simp: family_errors_def Let_def)

lemma capability_silent:
  "capability_errors service key = [] \<longleftrightarrow>
     set (split_ws (first_systemd_value service key [])) = {''CAP_NET_BIND_SERVICE''}"
  by (simp add: capability_errors_def)

lemmas unit_silent = service_values_silent identity_silent nofile_silent timeout_silent tasks_silent memory_silent
  family_silent

lemma service_errors_silent:
  "service_errors sections service config_path config = [] \<longleftrightarrow> unit_hardened sections service config_path config"
  unfolding service_errors_def unit_hardened_def Let_def append_is_Nil_conv unit_silent
  by (simp add: capability_silent conj_ac)

lemma systemd_silent:
  "validate_systemd_unit path file config_path config = Inr [] \<longleftrightarrow>
     (\<exists>sections service. parse_systemd_unit path file = Inr sections \<and> map_of sections ''Service'' = Some service
        \<and> unit_hardened sections service config_path config)"
proof (cases "file")
  case None
  then show ?thesis by (simp add: validate_systemd_unit_def parse_systemd_unit_def read_text_def)
next
  case (Some r)
  then show ?thesis
    by (cases "parse_systemd_unit path file")
      (auto simp: validate_systemd_unit_def service_errors_silent split: option.splits)
qed

text \<open>
  C33. The unit check finds nothing exactly on a unit file with a \<open>[Service]\<close> section that is
  hardened: an unprivileged user and group, the sandboxing switches on, capabilities reduced to
  binding low ports, bounded memory and tasks, a stop timeout that exceeds the proxy's grace period,
  and a descriptor limit that covers the configured connections, queues and pools.
\<close>

theorem systemd_unit_exact:
  "validate_systemd_unit path file config_path config = Inr [] \<longleftrightarrow>
     (\<exists>sections service. parse_systemd_unit path file = Inr sections \<and> map_of sections ''Service'' = Some service
        \<and> unit_hardened sections service config_path config)"
  by (rule systemd_silent)

end
