(* ===== verification/Edge_Validator.thy ===== *)
theory Edge_Validator
  imports Edge_Host
begin

text \<open>
  The command of \<open>tools/validate_edge_templates.py\<close>: the syntax check by \<open>nft\<close>, the order of the
  checks, which messages count, the exit status and the lines printed.  The answers of \<open>nft\<close> and
  \<open>sysctl\<close>, the platform and the services database are parameters.
\<close>

section \<open>The command\<close>

record edge_env =
  host :: sysctl_env
  nft_tool :: "(string \<Rightarrow> int \<times> string \<times> string) option"
  services_db :: services

record edge_args =
  config_path :: string
  nft_path :: string
  sysctl_path :: string
  systemd_path :: string
  skip_nft_syntax_check :: bool

record edge_files =
  config_file :: json_file
  nft_file :: text_file
  sysctl_file :: text_file
  systemd_file :: text_file

text \<open>The answer of \<open>nft -c\<close>: its return code, its standard output and its error output.\<close>

definition validate_nft ::
  "(string \<Rightarrow> int \<times> string \<times> string) option \<Rightarrow> bool \<Rightarrow> string \<Rightarrow> text_file \<Rightarrow> string list" where
  "validate_nft tool skip_syntax_check path file =
     (if file = None then [''missing nftables template: '' @ path]
      else if skip_syntax_check then [''nftables syntax check skipped by request'']
      else case tool of
             None \<Rightarrow> [''nft not found; skipped nftables syntax check'']
           | Some nft \<Rightarrow>
               (case nft path of (returncode, stdout, stderr) \<Rightarrow>
                  if returncode \<noteq> 0
                  then [''nftables syntax check failed for '' @ path @ '': ''
                        @ str_strip (if stderr \<noteq> [] then stderr else stdout)]
                  else []))"

definition edge_checks :: "edge_env \<Rightarrow> edge_args \<Rightarrow> edge_files \<Rightarrow> string list result list" where
  "edge_checks env args fs =
     (let np = nft_path args; nf = nft_file fs; cp = config_path args; cf = config_file fs;
          yp = sysctl_path args; yf = sysctl_file fs
      in [Inr (validate_nft (nft_tool env) (skip_nft_syntax_check args) np nf),
          validate_protected_tcp_ports (services_db env) np nf,
          validate_udp_protected_port_drop np nf,
          validate_generic_tcp_backstop_protocol_matches np nf,
          validate_ipv6_prefix_backstops np nf,
          validate_ipv6_extension_safe_protocol_matches np nf,
          validate_icmpv4_control_exemption np nf,
          validate_icmpv6_control_exemption np nf,
          validate_connlimit_set_sizes np nf,
          validate_connlimit_thresholds np nf (Some (cp, cf)),
          validate_syn_rate_set_bounds np nf,
          validate_sysctl (host env) yp yf,
          Inr (validate_ddos_sysctls yp yf),
          Inr (validate_backlog cp cf yp yf),
          Inr (validate_fragment_sysctls yp yf),
          validate_systemd_unit (systemd_path args) (systemd_file fs) cp cf,
          validate_edge_port_coverage (services_db env) cp cf np nf])"

definition hard_errors :: "string list \<Rightarrow> string list" where
  "hard_errors errors = filter (\<lambda>item. \<not> contains_str item ''skipped'') errors"

datatype stream = Stdout | Stderr

definition edge_main :: "edge_env \<Rightarrow> edge_args \<Rightarrow> edge_files \<Rightarrow> (int \<times> (stream \<times> string) list) result" where
  "edge_main env args fs =
     rbind (collect (edge_checks env args fs)) (\<lambda>errors.
       let hard = hard_errors errors;
           lines = map (\<lambda>item. (if item \<in> set hard then Stderr else Stdout, item)) errors
       in if hard \<noteq> [] then Inr (1, lines)
          else Inr (0, lines @ [(Stdout, ''edge templates validated'')]))"

section \<open>When the command accepts\<close>

definition passes :: "string list result \<Rightarrow> bool" where
  "passes r \<longleftrightarrow> (\<exists>es. r = Inr es \<and> hard_errors es = [])"

lemma hard_errors_append [simp]: "hard_errors (xs @ ys) = hard_errors xs @ hard_errors ys"
  by (simp add: hard_errors_def)

lemma hard_errors_Nil [simp]: "hard_errors [] = []"
  by (simp add: hard_errors_def)

lemma collect_passes: "passes (collect rs) \<longleftrightarrow> list_all passes rs"
proof (induction rs)
  case (Cons r rs)
  then show ?case
    by (cases r; cases "collect rs") (simp_all add: passes_def collect_Cons)
qed (simp add: passes_def)

lemma edge_main_zero:
  "(\<exists>out. edge_main env args fs = Inr (0, out)) \<longleftrightarrow> list_all passes (edge_checks env args fs)"
  unfolding collect_passes [symmetric]
  by (cases "collect (edge_checks env args fs)") (auto simp: edge_main_def passes_def Let_def)

lemma edge_main_clean:
  "edge_main env args fs = Inr (0, [(Stdout, ''edge templates validated'')]) \<longleftrightarrow>
     (\<forall>r \<in> set (edge_checks env args fs). r = Inr [])"
  unfolding collect_silent [symmetric]
  by (cases "collect (edge_checks env args fs)") (auto simp: edge_main_def Let_def)

section \<open>Messages that are dropped\<close>

lemma skipped_text: "contains_str (a @ ''skipped'') ''skipped''"
  using contains_str_append [of a "''skipped''" "[]"] by simp

lemma skipped_message: "hard_errors [a @ ''skipped''] = []"
  by (simp add: hard_errors_def skipped_text)

lemma skipped_assignments:
  "sysctl_assignments path (Some (Inr ''skipped'')) = Inl (ValueError (''invalid sysctl line: '' @ ''skipped''))"
proof -
  have "splitlines ''skipped'' = [''skipped'']" by code_simp
  moreover have "add_assignment [] ''skipped'' = Inl (ValueError (''invalid sysctl line: '' @ ''skipped''))" by code_simp
  ultimately show ?thesis by (simp add: sysctl_assignments_def read_text_def)
qed

lemma skipped_checks_pass:
  "passes (validate_sysctl h path (Some (Inr ''skipped'')))"
  "passes (Inr (validate_ddos_sysctls path (Some (Inr ''skipped''))))"
  "passes (Inr (validate_fragment_sysctls path (Some (Inr ''skipped''))))"
  using skipped_message [of "''invalid sysctl line: ''"]
    skipped_message [of "''failed to read DDoS sysctls from '' @ path @ '': '' @ ''invalid sysctl line: ''"]
    skipped_message [of "''failed to read fragment sysctls from '' @ path @ '': '' @ ''invalid sysctl line: ''"]
  by (simp_all only: passes_def validate_sysctl_def validate_ddos_sysctls_def validate_fragment_sysctls_def
      skipped_assignments sum.case is_value_error.simps exn_text.simps append_assoc option.simps if_False if_True
      sum.inject ex_simps simp_thms)

lemma skipped_backlog_passes:
  assumes "passes (Inr (validate_backlog cpath config path file))"
  shows "passes (Inr (validate_backlog cpath config path (Some (Inr ''skipped''))))"
proof (cases "\<exists>r. max_config_backlog config = Inr (Some r)")
  case True
  then obtain r s where "max_config_backlog config = Inr (Some (r, s))" by force
  then have "validate_backlog cpath config path (Some (Inr ''skipped'')) =
      [(''failed to read net.core.somaxconn from '' @ path @ '': '' @ ''invalid sysctl line: '') @ ''skipped'']"
    by (simp add: validate_backlog_def skipped_assignments)
  then show ?thesis unfolding passes_def using skipped_message by blast
next
  case False
  then have "validate_backlog cpath config path (Some (Inr ''skipped''))
      = validate_backlog cpath config path file"
    by (cases "max_config_backlog config") (auto simp: validate_backlog_def split: option.splits)
  with assms show ?thesis by simp
qed

text \<open>
  C34. A message that contains the word \<open>skipped\<close> does not count, whatever it is about: replacing the
  sysctl template of any accepted set of templates by the one line \<open>skipped\<close>, which assigns nothing,
  still gives exit status 0.
\<close>

theorem skipped_template_accepted:
  assumes "edge_main env args fs = Inr (0, out)"
  shows "\<exists>out'. edge_main env args (fs\<lparr>sysctl_file := Some (Inr ''skipped'')\<rparr>) = Inr (0, out')"
proof -
  from assms have "list_all passes (edge_checks env args fs)" using edge_main_zero by blast
  then have "list_all passes (edge_checks env args (fs\<lparr>sysctl_file := Some (Inr ''skipped'')\<rparr>))"
    by (simp add: edge_checks_def Let_def skipped_checks_pass) (blast intro: skipped_backlog_passes)
  then show ?thesis using edge_main_zero by blast
qed

definition nowhere :: edge_files where
  "nowhere = \<lparr>config_file = None, nft_file = None, sysctl_file = None, systemd_file = None\<rparr>"

definition unnamed_args :: edge_args where
  "unnamed_args = \<lparr>config_path = ''skipped'', nft_path = ''skipped'', sysctl_path = ''skipped'',
     systemd_path = ''skipped'', skip_nft_syntax_check = False\<rparr>"

definition plain_env :: edge_env where
  "plain_env = \<lparr>host = \<lparr>on_linux = True, has_sysctl = True, sysctl_readable = (\<lambda>_. True)\<rparr>, nft_tool = None,
     services_db = (\<lambda>_. None)\<rparr>"

theorem skipped_template_accepted_witness:
  "\<exists>out'. edge_main plain_env unnamed_args (nowhere\<lparr>sysctl_file := Some (Inr ''skipped'')\<rparr>) = Inr (0, out')"
proof -
  have "case edge_main plain_env unnamed_args nowhere of Inr (code, _) \<Rightarrow> code = 0 | Inl _ \<Rightarrow> False" by code_simp
  then obtain out where "edge_main plain_env unnamed_args nowhere = Inr (0, out)"
    by (auto split: sum.splits)
  then show ?thesis by (rule skipped_template_accepted)
qed

section \<open>A clean run\<close>

definition queues_fit :: "dict \<Rightarrow> assignments \<Rightarrow> bool" where
  "queues_fit data a \<longleftrightarrow>
     (\<forall>b \<in> set (config_backlogs data). \<exists>n. sysctl_int a ''net.core.somaxconn'' = Some n \<and> fst b \<le> n)"

lemma first_max_None: "first_max bs = None \<longleftrightarrow> bs = []"
  by (cases bs) (auto split: option.splits)

lemma first_max_Some: "first_max bs = Some m \<Longrightarrow> m \<in> set bs \<and> (\<forall>b \<in> set bs. fst b \<le> fst m)"
  by (induction bs arbitrary: m) (fastforce simp: first_max_None split: option.splits if_splits)+

lemma backlog_silent:
  assumes "sysctl_assignments path file = Inr a" and "sysctl_int a ''net.core.somaxconn'' = Some n"
  shows "validate_backlog cpath (Some (Inr (PDict data))) path file = [] \<longleftrightarrow> queues_fit data a"
proof -
  from assms(2) have somaxconn: "int_lit (case map_of a ''net.core.somaxconn'' of None \<Rightarrow> ''0'' | Some v \<Rightarrow> v) = Inr n"
    by (auto simp: sysctl_int_def int_lit_def split: option.splits)
  have backlog: "max_config_backlog (Some (Inr (PDict data))) = Inr (first_max (config_backlogs data))"
    by (simp add: max_config_backlog_def config_data_def)
  show ?thesis
  proof (cases "first_max (config_backlogs data)")
    case None
    then show ?thesis by (simp add: validate_backlog_def backlog queues_fit_def first_max_None)
  next
    case (Some m)
    from first_max_Some [OF this] have "(\<forall>b \<in> set (config_backlogs data). fst b \<le> n) \<longleftrightarrow> fst m \<le> n"
      by (meson order_trans)
    with Some show ?thesis using assms
      by (cases m) (simp add: validate_backlog_def backlog somaxconn queues_fit_def not_less)
  qed
qed

text \<open>The host knows every key.\<close>

definition host_knows :: "sysctl_env \<Rightarrow> assignments \<Rightarrow> bool" where
  "host_knows h a \<longleftrightarrow> on_linux h \<and> has_sysctl h \<and> list_all (sysctl_readable h) (dkeys a)"

lemma sysctl_silent:
  "validate_sysctl h path file = Inr [] \<longleftrightarrow> (\<exists>a. sysctl_assignments path file = Inr a \<and> host_knows h a)"
proof (cases "file")
  case None
  then show ?thesis by (simp add: validate_sysctl_def sysctl_assignments_def read_text_def)
next
  case (Some r)
  show ?thesis
  proof (cases "sysctl_assignments path file")
    case (Inl e)
    with Some show ?thesis by (simp add: validate_sysctl_def)
  next
    case (Inr a)
    have "key_errors h key = [] \<longleftrightarrow> sysctl_readable h key" for key by (simp add: key_errors_def)
    with Inr Some show ?thesis by (simp add: validate_sysctl_def host_knows_def list_all_iff)
  qed
qed

text \<open>The checks of the nftables template that do not look at other files.\<close>

definition template_rules_ok :: "edge_env \<Rightarrow> edge_args \<Rightarrow> string \<Rightarrow> bool" where
  "template_rules_ok env args raw \<longleftrightarrow>
     (let np = nft_path args; nf = Some (Inr raw) in
      validate_nft (nft_tool env) (skip_nft_syntax_check args) np nf = []
      \<and> validate_udp_protected_port_drop np nf = Inr []
      \<and> validate_generic_tcp_backstop_protocol_matches np nf = Inr []
      \<and> validate_ipv6_prefix_backstops np nf = Inr []
      \<and> validate_ipv6_extension_safe_protocol_matches np nf = Inr []
      \<and> validate_icmpv4_control_exemption np nf = Inr []
      \<and> validate_icmpv6_control_exemption np nf = Inr []
      \<and> validate_connlimit_set_sizes np nf = Inr []
      \<and> validate_syn_rate_set_bounds np nf = Inr [])"

lemma protected_ports_silent:
  "validate_protected_tcp_ports serv path file = Inr [] \<longleftrightarrow>
     (\<exists>ranges. protected_tcp_port_ranges serv path file = Inr (ranges, []))"
  by (auto simp: validate_protected_tcp_ports_def rbind_Inr_iff)

text \<open>
  C29. A run that prints nothing but its success line says that the four files fit together: the
  rules of the nftables template are complete, its ports cover every public listener, its
  connection limits are no laxer than the proxy's, the sysctl template is known to the host and
  within bounds and leaves room for the configured listen queues, and the unit is hardened and has
  descriptors for the configured load; and every such set of files gets that run.
\<close>

theorem clean_run_protects:
  "edge_main env args \<lparr>config_file = Some (Inr (PDict data)), nft_file = Some (Inr raw), sysctl_file = sysctls,
       systemd_file = unit_file\<rparr> = Inr (0, [(Stdout, ''edge templates validated'')]) \<longleftrightarrow>
     template_rules_ok env args raw
     \<and> (\<exists>ranges. protected_tcp_port_ranges (services_db env) (nft_path args) (Some (Inr raw)) = Inr (ranges, [])
          \<and> listeners_covered ranges data)
     \<and> concat (map snd (listener_caps data)) = []
     \<and> (\<exists>chain t4 t6. named_block raw ''chain input'' = Some chain
          \<and> connlimit_of (compact_rule_text chain) ''tcp4_connlimit'' = Some t4 \<and> within_caps data t4
          \<and> connlimit_of (compact_rule_text chain) ''tcp6_connlimit'' = Some t6 \<and> within_caps data t6)
     \<and> (\<exists>a. sysctl_assignments (sysctl_path args) sysctls = Inr a \<and> host_knows (host env) a
          \<and> flood_bounds a \<and> fragment_bounds a \<and> queues_fit data a)
     \<and> (\<exists>sections service. parse_systemd_unit (systemd_path args) unit_file = Inr sections
          \<and> map_of sections ''Service'' = Some service
          \<and> unit_hardened sections service (config_path args) (Some (Inr (PDict data))))"
    (is "?clean \<longleftrightarrow> ?rules \<and> ?ports \<and> ?limits \<and> ?meters \<and> ?sysctls \<and> ?unit")
proof -
  let ?cf = "Some (Inr (PDict data))" and ?nf = "Some (Inr raw)"
  have "validate_protected_tcp_ports (services_db env) (nft_path args) ?nf = Inr []
      \<and> validate_edge_port_coverage (services_db env) (config_path args) ?cf (nft_path args) ?nf = Inr [] \<longleftrightarrow> ?ports"
    using ranges_ordered by (auto simp: protected_ports_silent coverage_silent)
  moreover have "validate_sysctl (host env) (sysctl_path args) sysctls = Inr []
      \<and> validate_ddos_sysctls (sysctl_path args) sysctls = []
      \<and> validate_backlog (config_path args) ?cf (sysctl_path args) sysctls = []
      \<and> validate_fragment_sysctls (sysctl_path args) sysctls = [] \<longleftrightarrow> ?sysctls"
  proof (cases "sysctl_assignments (sysctl_path args) sysctls")
    case (Inr a)
    have "validate_backlog (config_path args) ?cf (sysctl_path args) sysctls = [] \<longleftrightarrow> queues_fit data a"
      if "flood_bounds a"
      using that backlog_silent [OF Inr] by (auto simp: flood_bounds_def)
    with Inr show ?thesis by (auto simp: sysctl_silent ddos_silent rules_flood_bounds fragment_silent)
  qed (simp add: sysctl_silent)
  moreover have "?clean \<longleftrightarrow> ?rules
      \<and> (validate_protected_tcp_ports (services_db env) (nft_path args) ?nf = Inr []
        \<and> validate_edge_port_coverage (services_db env) (config_path args) ?cf (nft_path args) ?nf = Inr [])
      \<and> validate_connlimit_thresholds (nft_path args) ?nf (Some (config_path args, ?cf)) = Inr []
      \<and> (validate_sysctl (host env) (sysctl_path args) sysctls = Inr []
        \<and> validate_ddos_sysctls (sysctl_path args) sysctls = []
        \<and> validate_backlog (config_path args) ?cf (sysctl_path args) sysctls = []
        \<and> validate_fragment_sysctls (sysctl_path args) sysctls = [])
      \<and> validate_systemd_unit (systemd_path args) unit_file (config_path args) ?cf = Inr []"
    unfolding edge_main_clean edge_checks_def template_rules_ok_def Let_def by (simp add: conj_ac)
  ultimately show ?thesis unfolding connlimit_silent systemd_silent by argo
qed

end
