(* ===== verification/Edge_Smoke.thy ===== *)
theory Edge_Smoke
  imports Edge_Nft Bench_Provenance "HOL-Library.Word"
begin

text \<open>
  The edge smoke test \<open>tools/run_edge_namespace_smoke.py\<close>: it loads the nftables template in a network
  namespace of its own, sends packets between two further namespaces, and judges what came back.  The
  programs it runs are a parameter that answers a command line, given the commands run before.
\<close>

section \<open>Text\<close>

text \<open>\<open>s.replace(old, new)\<close> and \<open>s.count(part)\<close> for a text that is not empty; \<open>skip\<close> characters belong to the
  last occurrence.\<close>

fun replace_from :: "nat \<Rightarrow> string \<Rightarrow> string \<Rightarrow> string \<Rightarrow> string" where
  "replace_from skip old new [] = []"
| "replace_from (Suc skip) old new (c # s) = replace_from skip old new s"
| "replace_from 0 old new (c # s) =
     (if starts_with (c # s) old then new @ replace_from (length old - 1) old new s
      else c # replace_from 0 old new s)"

definition str_replace :: "string \<Rightarrow> string \<Rightarrow> string \<Rightarrow> string" where
  "str_replace s old new = replace_from 0 old new s"

fun count_from :: "nat \<Rightarrow> string \<Rightarrow> string \<Rightarrow> nat" where
  "count_from skip part [] = 0"
| "count_from (Suc skip) part (c # s) = count_from skip part s"
| "count_from 0 part (c # s) =
     (if starts_with (c # s) part then Suc (count_from (length part - 1) part s) else count_from 0 part s)"

text \<open>The white-space runs of a listing are squeezed as in the edge validator.\<close>

definition compact_nft_output :: "string \<Rightarrow> string" where
  "compact_nft_output s = str_strip (squeeze False s)"

section \<open>Scripts\<close>

definition TCP_PACKET_SERVER_TEMPLATE :: string where
  \<open>TCP_PACKET_SERVER_TEMPLATE = join_with [LF]
     [[],
      ''import socket'',
      ''import time'',
      [],
      ''SOCKET_FAMILY = __SOCKET_FAMILY__'',
      ''TARGET = __TARGET__'',
      [],
      ''held = []'',
      ''s = socket.socket(SOCKET_FAMILY, socket.SOCK_STREAM)'',
      ''s.setsockopt(socket.SOL_SOCKET, socket.SO_REUSEADDR, 1)'',
      ''if SOCKET_FAMILY == socket.AF_INET6:'',
      ''    s.setsockopt(socket.IPPROTO_IPV6, socket.IPV6_V6ONLY, 1)'',
      ''s.bind(TARGET)'',
      ''s.listen(256)'',
      ''print("ready", flush=True)'',
      ''conn, _ = s.accept()'',
      ''conn.sendall(b"ok")'',
      ''conn.close()'',
      ''end = time.time() + 10.0'',
      ''while time.time() < end:'',
      ''    try:'',
      ''        s.settimeout(0.5)'',
      ''        conn, _ = s.accept()'',
      ''        held.append(conn)'',
      ''    except socket.timeout:'',
      ''        pass'',
      ''for conn in held:'',
      ''    try:'',
      ''        conn.close()'',
      ''    except OSError:'',
      ''        pass'',
      ''s.close()'',
      []]\<close>

definition PACKET_CLIENT_TEMPLATE :: string where
  \<open>PACKET_CLIENT_TEMPLATE = join_with [LF]
     [[],
      ''import json'',
      ''import socket'',
      ''import time'',
      [],
      ''SOCKET_FAMILY = __SOCKET_FAMILY__'',
      ''TARGET = __TARGET__'',
      [],
      ''result = {}'',
      ''try:'',
      ''    s = socket.socket(SOCKET_FAMILY, socket.SOCK_STREAM)'',
      ''    s.settimeout(2.0)'',
      ''    s.connect(TARGET)'',
      ''    result["tcp_clean_connect_payload"] = s.recv(2).decode("ascii", errors="replace")'',
      ''    s.close()'',
      ''except Exception as exc:'',
      ''    result["tcp_clean_connect_error"] = f"{exc.__class__.__name__}:{exc}"'',
      [],
      ''u = socket.socket(SOCKET_FAMILY, socket.SOCK_DGRAM)'',
      ''u.settimeout(0.4)'',
      ''try:'',
      ''    u.connect(TARGET)'',
      ''    u.send(b"x")'',
      ''    u.recv(1)'',
      ''except socket.timeout:'',
      ''    result["udp_protected_port_result"] = "timeout"'',
      ''except OSError as exc:'',
      ''    result["udp_protected_port_result"] = f"oserror:{exc.errno}:{exc.__class__.__name__}"'',
      ''else:'',
      ''    result["udp_protected_port_result"] = "unexpected_data"'',
      ''finally:'',
      ''    u.close()'',
      [],
      ''connlimit_results = []'',
      ''connlimit_sockets = []'',
      ''for _ in range(__CONNLIMIT_ATTEMPTS__):'',
      ''    c = socket.socket(SOCKET_FAMILY, socket.SOCK_STREAM)'',
      ''    c.settimeout(0.25)'',
      ''    try:'',
      ''        c.connect(TARGET)'',
      ''        connlimit_sockets.append(c)'',
      ''        connlimit_results.append("ok")'',
      ''    except Exception as exc:'',
      ''        connlimit_results.append(f"{exc.__class__.__name__}:{exc}")'',
      ''        try:'',
      ''            c.close()'',
      ''        except OSError:'',
      ''            pass'',
      [],
      ''result["tcp_connlimit_attempts"] = len(connlimit_results)'',
      ''result["tcp_connlimit_successes"] = connlimit_results.count("ok")'',
      ''result["tcp_connlimit_failures"] = len(connlimit_results) - connlimit_results.count("ok")'',
      ''result["tcp_connlimit_failure_tail"] = connlimit_results[-12:]'',
      ''time.sleep(0.1)'',
      ''for c in connlimit_sockets:'',
      ''    try:'',
      ''        c.close()'',
      ''    except OSError:'',
      ''        pass'',
      [],
      ''print(json.dumps(result, sort_keys=True))'',
      []]\<close>

definition HOP_BY_HOP_UDP_CLIENT_TEMPLATE :: string where
  \<open>HOP_BY_HOP_UDP_CLIENT_TEMPLATE = join_with [LF]
     [[],
      ''import ipaddress'',
      ''import json'',
      ''import socket'',
      ''import struct'',
      ''import time'',
      [],
      ''INTERFACE = __INTERFACE__'',
      ''SOURCE_MAC = bytes.fromhex(__SOURCE_MAC__.replace(":", ""))'',
      ''DESTINATION_MAC = bytes.fromhex(__DESTINATION_MAC__.replace(":", ""))'',
      ''SOURCE_ADDRESS = ipaddress.IPv6Address("fd00:230::2").packed'',
      ''DESTINATION_ADDRESS = ipaddress.IPv6Address("fd00:230::1").packed'',
      ''ETHERTYPE_IPV6 = 0x86DD'',
      ''IPPROTO_HOPOPTS = 0'',
      ''IPPROTO_UDP = 17'',
      ''IPPROTO_ICMPV6 = 58'',
      ''ICMPV6_DESTINATION_UNREACHABLE = 1'',
      ''ICMPV6_PORT_UNREACHABLE = 4'',
      ''PAYLOAD = b"x"'',
      [],
      [],
      ''def checksum(data):'',
      ''    if len(data) % 2:'',
      ''        data += b"'' @ [CHR 0x5C] @ ''x00"'',
      ''    total = sum(struct.unpack("!%dH" % (len(data) // 2), data))'',
      ''    total = (total >> 16) + (total & 0xFFFF)'',
      ''    total += total >> 16'',
      ''    return (~total) & 0xFFFF'',
      [],
      [],
      ''udp_length = 8 + len(PAYLOAD)'',
      ''udp_header = struct.pack("!HHHH", 54321, 8080, udp_length, 0) + PAYLOAD'',
      ''udp_pseudo_header = SOURCE_ADDRESS + DESTINATION_ADDRESS + struct.pack('',
      ''    "!I3xB",'',
      ''    udp_length,'',
      ''    IPPROTO_UDP,'',
      '')'',
      ''udp_checksum = checksum(udp_pseudo_header + udp_header)'',
      ''udp_header = struct.pack("!HHHH", 54321, 8080, udp_length, udp_checksum) + PAYLOAD'',
      ''hop_by_hop_header = struct.pack("!BB", IPPROTO_UDP, 0) + bytes([1, 4, 0, 0, 0, 0])'',
      ''ipv6_payload = hop_by_hop_header + udp_header'',
      ''ipv6_header = struct.pack('',
      ''    "!IHBB16s16s",'',
      ''    0x60000000,'',
      ''    len(ipv6_payload),'',
      ''    IPPROTO_HOPOPTS,'',
      ''    64,'',
      ''    SOURCE_ADDRESS,'',
      ''    DESTINATION_ADDRESS,'',
      '')'',
      ''frame = ('',
      ''    DESTINATION_MAC'',
      ''    + SOURCE_MAC'',
      ''    + struct.pack("!H", ETHERTYPE_IPV6)'',
      ''    + ipv6_header'',
      ''    + ipv6_payload'',
      '')'',
      [],
      ''sock = socket.socket(socket.AF_PACKET, socket.SOCK_RAW, socket.htons(ETHERTYPE_IPV6))'',
      ''sock.bind((INTERFACE, 0))'',
      ''sock.settimeout(0.8)'',
      ''sock.send(frame)'',
      [],
      ''icmpv6_replies = []'',
      ''port_unreachable_replies = []'',
      ''end = time.time() + 0.8'',
      ''while time.time() < end:'',
      ''    try:'',
      ''        packet = sock.recv(65535)'',
      ''    except socket.timeout:'',
      ''        break'',
      ''    if len(packet) < 54:'',
      ''        continue'',
      ''    ethertype = struct.unpack("!H", packet[12:14])[0]'',
      ''    if ethertype != ETHERTYPE_IPV6:'',
      ''        continue'',
      ''    ipv6 = packet[14:54]'',
      ''    next_header = ipv6[6]'',
      ''    source = str(ipaddress.IPv6Address(ipv6[8:24]))'',
      ''    destination = str(ipaddress.IPv6Address(ipv6[24:40]))'',
      ''    if next_header != IPPROTO_ICMPV6 or source != "fd00:230::1":'',
      ''        continue'',
      ''    icmpv6 = packet[54:]'',
      ''    if len(icmpv6) < 2:'',
      ''        continue'',
      ''    reply = {'',
      ''        "type": icmpv6[0],'',
      ''        "code": icmpv6[1],'',
      ''        "source": source,'',
      ''        "destination": destination,'',
      ''    }'',
      ''    icmpv6_replies.append(reply)'',
      ''    if ('',
      ''        icmpv6[0] == ICMPV6_DESTINATION_UNREACHABLE'',
      ''        and icmpv6[1] == ICMPV6_PORT_UNREACHABLE'',
      ''        and destination == "fd00:230::2"'',
      ''    ):'',
      ''        port_unreachable_replies.append(reply)'',
      [],
      ''print('',
      ''    json.dumps('',
      ''        {'',
      ''            "sent_bytes": len(frame),'',
      ''            "icmpv6_replies": icmpv6_replies,'',
      ''            "icmpv6_port_unreachable_replies": port_unreachable_replies,'',
      ''        },'',
      ''        sort_keys=True,'',
      ''    )'',
      '')'',
      []]\<close>
definition PACKET_PROBE_CONNLIMIT_ATTEMPTS :: int where
  "PACKET_PROBE_CONNLIMIT_ATTEMPTS = 140"

definition PACKET_PROBE_CONNLIMIT_MAX_ACCEPTED :: int where
  "PACKET_PROBE_CONNLIMIT_MAX_ACCEPTED = 128"

definition nft_smoke_script :: "string \<Rightarrow> string" where
  "nft_smoke_script nft_path =
     join_with [LF]
       [''set -eu'', ''ip link set lo up'', ''nft -f '' @ str_repr nft_path,
        ''nft list table inet altura_prot_edge'']"

definition packet_socket_family_expr :: "string \<Rightarrow> string" where
  "packet_socket_family_expr family = (if family = ''ipv6'' then ''socket.AF_INET6'' else ''socket.AF_INET'')"

text \<open>\<open>repr(packet_target(family))\<close>.\<close>

definition packet_target :: "string \<Rightarrow> string" where
  "packet_target family =
     (if family = ''ipv6'' then ''('' @ str_repr ''fd00:230::1'' @ '', 8080, 0, 0)''
      else ''('' @ str_repr ''10.230.0.1'' @ '', 8080)'')"

definition packet_script :: "string \<Rightarrow> string \<Rightarrow> string" where
  "packet_script template family =
     str_replace
       (str_replace (str_replace template ''__SOCKET_FAMILY__'' (packet_socket_family_expr family))
          ''__TARGET__'' (packet_target family))
       ''__CONNLIMIT_ATTEMPTS__'' (int_str PACKET_PROBE_CONNLIMIT_ATTEMPTS)"

definition ipv6_hop_by_hop_udp_script :: "string \<Rightarrow> string \<Rightarrow> string \<Rightarrow> string" where
  "ipv6_hop_by_hop_udp_script interface source_mac destination_mac =
     str_replace
       (str_replace (str_replace HOP_BY_HOP_UDP_CLIENT_TEMPLATE ''__INTERFACE__'' (str_repr interface))
          ''__SOURCE_MAC__'' (str_repr source_mac))
       ''__DESTINATION_MAC__'' (str_repr destination_mac)"

section \<open>Running programs\<close>

text \<open>What a timed-out program had written: nothing, a text, or bytes that still have to be decoded.\<close>

datatype captured = Nothing | Text string | Bytes "8 word list"

datatype ran = Completed int string string | Expired captured captured

text \<open>Exceptions: \<open>subprocess.TimeoutExpired\<close> with what was captured, and others.\<close>

datatype smoke_exn = TimeoutExpired captured captured | Raised exn

text \<open>A server started in the background: its first line if it comes in time, and its error output once it has exited.\<close>

record server =
  ready_line :: "string option"
  exited_stderr :: "string option"

record smoke_env =
  sm_run :: "string list list \<Rightarrow> string list \<Rightarrow> ran"
  sm_spawn :: "string list list \<Rightarrow> string list \<Rightarrow> server"
  sm_which :: "string \<Rightarrow> string option"
  sm_system :: string
  sm_pid :: nat
  sm_millis :: nat
  sm_python :: string
  sm_resolved :: string
  sm_template :: "string result"
  sm_loads :: "string \<Rightarrow> pyval result"
  sm_decode :: "8 word list \<Rightarrow> string"
  sm_git :: git_program
  sm_cwd :: string
  sm_time :: utc_time

text \<open>A computation extends the list of commands run and returns or raises.\<close>

type_synonym 'a proc = "string list list \<Rightarrow> (smoke_exn + 'a) \<times> string list list"

definition pret :: "'a \<Rightarrow> 'a proc" where
  "pret x h = (Inr x, h)"

definition pbind :: "'a proc \<Rightarrow> ('a \<Rightarrow> 'b proc) \<Rightarrow> 'b proc" where
  "pbind m f h = (case m h of (Inl e, h') \<Rightarrow> (Inl e, h') | (Inr x, h') \<Rightarrow> f x h')"

definition pfinally :: "'a proc \<Rightarrow> unit proc \<Rightarrow> 'a proc" where
  "pfinally m c h =
     (case m h of (r, h') \<Rightarrow> case c h' of (Inl e, h'') \<Rightarrow> (Inl e, h'') | (Inr _, h'') \<Rightarrow> (r, h''))"

definition run :: "smoke_env \<Rightarrow> string list \<Rightarrow> (int \<times> string \<times> string) proc" where
  "run env command h =
     ((case sm_run env h command of
         Completed returncode stdout stderr \<Rightarrow> Inr (returncode, stdout, stderr)
       | Expired stdout stderr \<Rightarrow> Inl (TimeoutExpired stdout stderr)),
      h @ [command])"

definition spawn :: "smoke_env \<Rightarrow> string list \<Rightarrow> server proc" where
  "spawn env command h = (Inr (sm_spawn env h command), h @ [command])"

fun run_all_commands :: "smoke_env \<Rightarrow> string list list \<Rightarrow> unit proc" where
  "run_all_commands env [] = pret ()"
| "run_all_commands env (command # rest) = pbind (run env command) (\<lambda>_. run_all_commands env rest)"

fun timeout_output :: "smoke_env \<Rightarrow> captured \<Rightarrow> string" where
  "timeout_output env Nothing = []"
| "timeout_output env (Bytes bs) = sm_decode env bs"
| "timeout_output env (Text s) = s"

definition command_repr :: "string list \<Rightarrow> string" where
  "command_repr command = py_repr (PList (map PStr command))"

definition command_path :: "smoke_env \<Rightarrow> string \<Rightarrow> string" where
  "command_path env name =
     (case sm_which env name of None \<Rightarrow> name | Some p \<Rightarrow> if p = [] then name else p)"

definition missing_prerequisites :: "smoke_env \<Rightarrow> string list" where
  "missing_prerequisites env =
     (if sm_system env \<noteq> ''Linux'' then [''Linux''] else [])
     @ filter (\<lambda>name. sm_which env name = None) [''nft'', ''unshare'', ''ip'']"

text \<open>\<open>run_checked\<close>: \<open>None\<close> when the command succeeded, else the message.\<close>

definition run_checked :: "smoke_env \<Rightarrow> string list \<Rightarrow> string list list \<Rightarrow> string option proc" where
  "run_checked env command cleanup h =
     (case run env command h of
        (Inl (TimeoutExpired stdout stderr), h') \<Rightarrow>
          (Inr (Some (command_repr command @ '' timed out: '' @ timeout_output env stderr)), h')
      | (Inl e, h') \<Rightarrow> (Inl e, h')
      | (Inr (returncode, stdout, stderr), h') \<Rightarrow>
          if returncode \<noteq> 0
          then pbind (run_all_commands env cleanup)
                 (\<lambda>_. pret (Some (command_repr command @ '' failed: '' @ str_strip stderr))) h'
          else (Inr None, h'))"

text \<open>The first message of commands run in turn.\<close>

fun run_checked_all :: "smoke_env \<Rightarrow> string list list \<Rightarrow> string list list \<Rightarrow> string option proc" where
  "run_checked_all env cleanup [] = pret None"
| "run_checked_all env cleanup (command # rest) =
     pbind (run_checked env command cleanup)
       (\<lambda>failed. case failed of Some e \<Rightarrow> pret (Some e) | None \<Rightarrow> run_checked_all env cleanup rest)"

section \<open>Loading the template\<close>

definition smoke_command :: "smoke_env \<Rightarrow> string list" where
  "smoke_command env =
     [command_path env ''unshare'', ''--net'', ''--'', ''/bin/sh'', ''-c'', nft_smoke_script (sm_resolved env)]"

definition PREFIX_MASK :: regex where
  "PREFIX_MASK = Seq [Lit ''ip6 saddr'', Sp0, Alt (Lit ''and'') (Lit ''&''), Sp0, Lit ''ffff:ffff:ffff:ffff::'']"

definition UDP_DROP_SOURCE :: regex where
  "UDP_DROP_SOURCE = Seq ([Bound] @ words [''meta'', ''l4proto'', ''udp'', ''udp'', ''dport'', ''@protected_tcp_ports'', ''drop'']
     @ [Bound])"

definition protected_syn_matches :: "string list" where
  "protected_syn_matches =
     [''tcp dport @protected_tcp_ports tcp flags & (fin | syn | rst | ack) == syn'',
      ''tcp dport @protected_tcp_ports tcp flags & (fin|syn|rst|ack) == syn'',
      ''tcp dport @protected_tcp_ports tcp flags syn / fin,syn,rst,ack'']"

definition protected_new_non_syn_matches :: "string list" where
  "protected_new_non_syn_matches =
     [''tcp dport @protected_tcp_ports ct state new tcp flags & (fin | syn | rst | ack) != syn drop'',
      ''tcp dport @protected_tcp_ports ct state new tcp flags & (fin|syn|rst|ack) != syn drop'',
      ''tcp dport @protected_tcp_ports ct state new tcp flags != syn / fin,syn,rst,ack drop'']"

definition xmas_drop_matches :: "string list" where
  "xmas_drop_matches =
     [''tcp flags & (fin | syn | rst | psh | ack | urg) == fin | psh | urg drop'',
      ''tcp flags & (fin|syn|rst|psh|ack|urg) == fin|psh|urg drop'',
      ''tcp flags fin,psh,urg / fin,syn,rst,psh,ack,urg drop'']"

text \<open>The flags read off the listing of the table and the template.\<close>

definition listing_flags :: "string \<Rightarrow> string \<Rightarrow> (string \<times> bool) list" where
  "listing_flags listing source =
     (let has = contains_str listing;
          mask = re_found PREFIX_MASK listing;
          syn = list_ex has protected_syn_matches
      in [(''listed_edge_table'', has ''table inet altura_prot_edge''),
          (''protected_tcp_ports_present'', has ''set protected_tcp_ports''),
          (''tcp4_connlimit_present'', has ''set tcp4_connlimit''),
          (''tcp6_connlimit_present'', has ''set tcp6_connlimit''),
          (''syn_rate_sets_timeout_bounded'', 2 \<le> count_from 0 ''timeout 10s'' listing),
          (''tcp_invalid_null_drop_present'', has ''tcp dport @protected_tcp_ports tcp flags ! fin,syn,rst,ack drop''),
          (''tcp_invalid_xmas_drop_present'', list_ex has xmas_drop_matches),
          (''ipv6_prefix_syn_backstop_present'', mask \<and> has ''update @tcp6_syn_rate''),
          (''tcp4_syn_backstop_present'', syn \<and> has ''update @tcp4_syn_rate''),
          (''global_syn_backstop_present'', syn \<and> has ''limit rate over 5000/second burst 10000 packets drop''),
          (''ct_invalid_drop_present'', has ''ct state invalid drop''),
          (''new_non_syn_drop_present'', list_ex has protected_new_non_syn_matches),
          (''tcp4_connlimit_rule_present'', has ''add @tcp4_connlimit'' \<and> has ''ct count over 128''),
          (''ipv6_prefix_connlimit_present'', mask \<and> has ''add @tcp6_connlimit''),
          (''tcp6_connlimit_rule_present'', mask \<and> has ''add @tcp6_connlimit'' \<and> has ''ct count over 128''),
          (''udp_protected_port_drop_present'', has ''udp dport @protected_tcp_ports drop''),
          (''udp_protected_port_drop_extension_safe_source'', re_found UDP_DROP_SOURCE (squeeze False source)),
          (''icmpv4_control_exemption_present'', has ''icmp type'' \<and> has ''destination-unreachable''),
          (''icmpv4_flood_drop_present'', has ''ip protocol icmp limit rate over 100/second burst 200 packets drop''),
          (''icmpv6_control_exemption_present'', has ''icmpv6 type'' \<and> has ''packet-too-big''),
          (''icmpv6_flood_drop_present'',
             has ''meta l4proto ipv6-icmp limit rate over 100/second burst 200 packets drop'')])"

definition run_namespace_smoke :: "smoke_env \<Rightarrow> dict proc" where
  "run_namespace_smoke env h =
     (let command = smoke_command env
      in case run env command h of
           (Inl (TimeoutExpired stdout stderr), h') \<Rightarrow>
             (Inr [(''skipped'', PBool False), (''command'', PList (map PStr command)), (''returncode'', PNone),
                   (''stdout'', PStr (timeout_output env stdout)), (''stderr'', PStr (timeout_output env stderr)),
                   (''timed_out'', PBool True), (''timeout_seconds'', PInt 15), (''nft_loaded'', PBool False)], h')
         | (Inl e, h') \<Rightarrow> (Inl e, h')
         | (Inr (returncode, stdout, stderr), h') \<Rightarrow>
             (case sm_template env of
                Inl e \<Rightarrow> (Inl (Raised e), h')
              | Inr source \<Rightarrow>
                  (Inr ([(''skipped'', PBool False), (''command'', PList (map PStr command)),
                         (''returncode'', PInt returncode), (''stdout'', PStr stdout), (''stderr'', PStr stderr),
                         (''nft_loaded'', PBool (returncode = 0))]
                        @ map (\<lambda>(k, b). (k, PBool b)) (listing_flags (compact_nft_output stdout) source)), h')))"

section \<open>Sending packets\<close>

definition int_at_most :: "pyval \<Rightarrow> int \<Rightarrow> bool" where
  "int_at_most v n = (case py_isint v of None \<Rightarrow> False | Some i \<Rightarrow> i \<le> n)"

definition int_positive :: "pyval \<Rightarrow> bool" where
  "int_positive v = (case py_isint v of None \<Rightarrow> False | Some i \<Rightarrow> 0 < i)"

definition packet_result_from_client_report :: "dict \<Rightarrow> dict" where
  "packet_result_from_client_report client_report =
     (let tcp_payload = dget client_report ''tcp_clean_connect_payload'';
          udp_result = dget client_report ''udp_protected_port_result'';
          connlimit_attempts = dget client_report ''tcp_connlimit_attempts'';
          connlimit_successes = dget client_report ''tcp_connlimit_successes'';
          connlimit_failures = dget client_report ''tcp_connlimit_failures'';
          connlimit_enforced =
            py_eq connlimit_attempts (PInt PACKET_PROBE_CONNLIMIT_ATTEMPTS)
            \<and> int_at_most connlimit_successes PACKET_PROBE_CONNLIMIT_MAX_ACCEPTED
            \<and> int_positive connlimit_failures
      in [(''skipped'', PBool False),
          (''tcp_clean_connect_allowed'', PBool (py_eq tcp_payload (PStr ''ok''))),
          (''tcp_clean_connect_payload'', tcp_payload),
          (''tcp_clean_connect_error'', dget client_report ''tcp_clean_connect_error''),
          (''udp_protected_port_silently_dropped'', PBool (py_eq udp_result (PStr ''timeout''))),
          (''udp_protected_port_result'', udp_result),
          (''tcp_connlimit_enforced'', PBool connlimit_enforced),
          (''tcp_connlimit_attempts'', connlimit_attempts),
          (''tcp_connlimit_successes'', connlimit_successes),
          (''tcp_connlimit_failures'', connlimit_failures),
          (''tcp_connlimit_failure_tail'', dget client_report ''tcp_connlimit_failure_tail'')])"

definition prefixed_packet_report :: "string \<Rightarrow> dict \<Rightarrow> dict" where
  "prefixed_packet_report prefix report =
     (if prefix = [] then report
      else map (\<lambda>(key, v). (prefix @ ''_'' @ key, v)) (filter (\<lambda>(key, v). key \<noteq> ''skipped'') report))"

definition server_error :: "server \<Rightarrow> pyval" where
  "server_error s = PStr (str_strip (case exited_stderr s of None \<Rightarrow> [] | Some e \<Rightarrow> e))"

text \<open>\<open>json.loads\<close> of what a client printed: an object, a text that is not JSON, or something else, on which
  \<open>.get\<close> raises.\<close>

definition read_client :: "smoke_env \<Rightarrow> string \<Rightarrow> (string \<Rightarrow> dict proc) \<Rightarrow> (dict \<Rightarrow> dict proc) \<Rightarrow> dict proc" where
  "read_client env stdout unreadable use =
     (case sm_loads env stdout of
        Inl e \<Rightarrow> unreadable (exn_text e)
      | Inr (PDict d) \<Rightarrow> use d
      | Inr _ \<Rightarrow> (\<lambda>h. (Inl (Raised AttributeError), h)))"

definition netns_exec :: "smoke_env \<Rightarrow> string \<Rightarrow> string list \<Rightarrow> string list" where
  "netns_exec env namespace command = [command_path env ''ip'', ''netns'', ''exec'', namespace] @ command"

definition run_packet_family_probe :: "smoke_env \<Rightarrow> string \<Rightarrow> string \<Rightarrow> string \<Rightarrow> dict proc" where
  "run_packet_family_probe env victim attacker family =
     pbind (spawn env (netns_exec env victim
              [sm_python env, ''-u'', ''-c'', packet_script TCP_PACKET_SERVER_TEMPLATE family])) (\<lambda>s.
       case ready_line s of
         None \<Rightarrow> pret [(''skipped'', PBool False), (''server_ready_timeout'', PBool True), (''server_error'', server_error s)]
       | Some line \<Rightarrow>
           if str_strip line \<noteq> ''ready''
           then pret [(''skipped'', PBool False), (''server_ready'', PStr (str_strip line)), (''server_error'', server_error s)]
           else pbind (run env (netns_exec env attacker
                    [sm_python env, ''-c'', packet_script PACKET_CLIENT_TEMPLATE family])) (\<lambda>(returncode, stdout, stderr).
             if returncode \<noteq> 0
             then pret [(''skipped'', PBool False), (''client_status'', PInt returncode),
                        (''client_stdout'', PStr (str_strip stdout)), (''client_stderr'', PStr (str_strip stderr))]
             else read_client env stdout
               (\<lambda>e. pret [(''skipped'', PBool False), (''client_stdout'', PStr (str_strip stdout)),
                          (''client_parse_error'', PStr e)])
               (\<lambda>d. pret (packet_result_from_client_report d))))"

text \<open>The address, or the message.\<close>

definition namespace_interface_mac :: "smoke_env \<Rightarrow> string \<Rightarrow> string \<Rightarrow> (string + string) proc" where
  "namespace_interface_mac env namespace interface =
     pbind (run env (netns_exec env namespace [''cat'', ''/sys/class/net/'' @ interface @ ''/address'']))
       (\<lambda>(returncode, stdout, stderr).
          pret (if returncode \<noteq> 0 then Inl (str_strip stderr) else Inr (str_strip stdout)))"

definition hop_by_hop_result :: "dict \<Rightarrow> dict" where
  "hop_by_hop_result client_report =
     (let sent_bytes = dget client_report ''sent_bytes'';
          replies = (case dget client_report ''icmpv6_port_unreachable_replies'' of PList xs \<Rightarrow> xs | _ \<Rightarrow> [])
      in [(''ipv6_hop_by_hop_udp_packet_sent'', PBool (int_positive sent_bytes)),
          (''ipv6_hop_by_hop_udp_sent_bytes'', sent_bytes),
          (''ipv6_hop_by_hop_udp_protected_port_silently_dropped'', PBool (replies = [])),
          (''ipv6_hop_by_hop_udp_icmpv6_replies'', dget client_report ''icmpv6_replies''),
          (''ipv6_hop_by_hop_udp_port_unreachable_replies'', PList replies)])"

definition run_ipv6_hop_by_hop_udp_probe ::
  "smoke_env \<Rightarrow> string \<Rightarrow> string \<Rightarrow> string \<Rightarrow> string \<Rightarrow> dict proc" where
  "run_ipv6_hop_by_hop_udp_probe env victim attacker victim_if attacker_if =
     pbind (namespace_interface_mac env victim victim_if) (\<lambda>victim_mac.
       case victim_mac of
         Inl e \<Rightarrow> pret [(''ipv6_hop_by_hop_udp_mac_error'', PStr e)]
       | Inr vmac \<Rightarrow>
           pbind (namespace_interface_mac env attacker attacker_if) (\<lambda>attacker_mac.
             case attacker_mac of
               Inl e \<Rightarrow> pret [(''ipv6_hop_by_hop_udp_mac_error'', PStr e)]
             | Inr amac \<Rightarrow>
                 pbind (run env (netns_exec env attacker
                          [sm_python env, ''-c'', ipv6_hop_by_hop_udp_script attacker_if amac vmac]))
                   (\<lambda>(returncode, stdout, stderr).
                   if returncode \<noteq> 0
                   then pret [(''ipv6_hop_by_hop_udp_client_status'', PInt returncode),
                              (''ipv6_hop_by_hop_udp_client_stdout'', PStr (str_strip stdout)),
                              (''ipv6_hop_by_hop_udp_client_stderr'', PStr (str_strip stderr))]
                   else read_client env stdout
                     (\<lambda>e. pret [(''ipv6_hop_by_hop_udp_client_stdout'', PStr (str_strip stdout)),
                                (''ipv6_hop_by_hop_udp_client_parse_error'', PStr e)])
                     (\<lambda>d. pret (hop_by_hop_result d)))))"

definition probe_names :: "smoke_env \<Rightarrow> string \<times> string \<times> string \<times> string" where
  "probe_names env =
     (let suffix = nat_str (sm_pid env) @ ''x'' @ nat_str (sm_millis env mod 100000);
          digits = nat_str (sm_pid env mod 100000);
          interface_suffix = zeros (5 - length digits) @ digits
      in (''apv'' @ suffix, ''apa'' @ suffix, ''v'' @ interface_suffix @ ''v'', ''v'' @ interface_suffix @ ''a''))"

definition cleanup_commands :: "smoke_env \<Rightarrow> string list list" where
  "cleanup_commands env =
     (case probe_names env of (victim, attacker, victim_if, attacker_if) \<Rightarrow>
        let ip = command_path env ''ip''
        in [[ip, ''link'', ''del'', victim_if], [ip, ''link'', ''del'', attacker_if],
            [ip, ''netns'', ''del'', attacker], [ip, ''netns'', ''del'', victim]])"

definition setup_commands :: "smoke_env \<Rightarrow> string list list" where
  "setup_commands env =
     (case probe_names env of (victim, attacker, victim_if, attacker_if) \<Rightarrow>
        let ip = command_path env ''ip''
        in [[ip, ''link'', ''add'', victim_if, ''type'', ''veth'', ''peer'', ''name'', attacker_if],
            [ip, ''link'', ''set'', victim_if, ''netns'', victim],
            [ip, ''link'', ''set'', attacker_if, ''netns'', attacker],
            [ip, ''-n'', victim, ''addr'', ''add'', ''10.230.0.1/24'', ''dev'', victim_if],
            [ip, ''-n'', attacker, ''addr'', ''add'', ''10.230.0.2/24'', ''dev'', attacker_if],
            [ip, ''-n'', victim, ''addr'', ''add'', ''fd00:230::1/64'', ''dev'', victim_if, ''nodad''],
            [ip, ''-n'', attacker, ''addr'', ''add'', ''fd00:230::2/64'', ''dev'', attacker_if, ''nodad''],
            [ip, ''-n'', victim, ''link'', ''set'', ''lo'', ''up''],
            [ip, ''-n'', attacker, ''link'', ''set'', ''lo'', ''up''],
            [ip, ''-n'', victim, ''link'', ''set'', victim_if, ''up''],
            [ip, ''-n'', attacker, ''link'', ''set'', attacker_if, ''up''],
            netns_exec env victim [command_path env ''nft'', ''-f'', sm_resolved env]])"

definition dupdate :: "dict \<Rightarrow> dict \<Rightarrow> dict" where
  "dupdate d new = fold (\<lambda>(k, v). dset k v) new d"

definition packet_probe_body :: "smoke_env \<Rightarrow> dict proc" where
  "packet_probe_body env =
     (case probe_names env of (victim, attacker, victim_if, attacker_if) \<Rightarrow>
        let ip = command_path env ''ip''; cleanup = cleanup_commands env
        in pbind (run_checked_all env cleanup [[ip, ''netns'', ''add'', victim], [ip, ''netns'', ''add'', attacker]])
             (\<lambda>failed. case failed of
                Some e \<Rightarrow> pret [(''skipped'', PBool True), (''reason'', PStr e)]
              | None \<Rightarrow>
           pbind (run_checked_all env cleanup (setup_commands env)) (\<lambda>failed. case failed of
                Some e \<Rightarrow> pret [(''skipped'', PBool False), (''setup_error'', PStr e)]
              | None \<Rightarrow>
           pbind (run_packet_family_probe env victim attacker ''ipv4'') (\<lambda>four.
           pbind (run_packet_family_probe env victim attacker ''ipv6'') (\<lambda>six.
           pbind (run_ipv6_hop_by_hop_udp_probe env victim attacker victim_if attacker_if) (\<lambda>hop.
             pret (dupdate (dupdate (dupdate [(''skipped'', PBool False)] (prefixed_packet_report [] four))
                     (prefixed_packet_report ''ipv6'' six)) hop)))))))"

definition run_packet_probe :: "smoke_env \<Rightarrow> dict proc" where
  "run_packet_probe env = pfinally (packet_probe_body env) (run_all_commands env (cleanup_commands env))"

section \<open>The verdict\<close>

definition with_provenance :: "smoke_env \<Rightarrow> dict \<Rightarrow> dict" where
  "with_provenance env report =
     dupdate [(''generated_at_utc'', PStr (generated_at_utc (sm_time env))),
              (''source_tree'', PDict (source_tree_metadata (sm_git env) (sm_cwd env)))] report"

definition SMOKE_REQUIRED :: "string list" where
  "SMOKE_REQUIRED =
     [''nft_loaded'', ''listed_edge_table'', ''protected_tcp_ports_present'', ''tcp4_connlimit_present'',
      ''tcp6_connlimit_present'', ''syn_rate_sets_timeout_bounded'', ''tcp_invalid_null_drop_present'',
      ''tcp_invalid_xmas_drop_present'', ''tcp4_syn_backstop_present'', ''ipv6_prefix_syn_backstop_present'',
      ''global_syn_backstop_present'', ''ct_invalid_drop_present'', ''new_non_syn_drop_present'',
      ''tcp4_connlimit_rule_present'', ''ipv6_prefix_connlimit_present'', ''tcp6_connlimit_rule_present'',
      ''udp_protected_port_drop_present'', ''udp_protected_port_drop_extension_safe_source'',
      ''icmpv4_control_exemption_present'', ''icmpv4_flood_drop_present'', ''icmpv6_control_exemption_present'',
      ''icmpv6_flood_drop_present'']"

definition PACKET_REQUIRED :: "string list" where
  "PACKET_REQUIRED =
     [''tcp_clean_connect_allowed'', ''udp_protected_port_silently_dropped'', ''tcp_connlimit_enforced'',
      ''ipv6_tcp_clean_connect_allowed'', ''ipv6_udp_protected_port_silently_dropped'',
      ''ipv6_tcp_connlimit_enforced'', ''ipv6_hop_by_hop_udp_packet_sent'',
      ''ipv6_hop_by_hop_udp_protected_port_silently_dropped'']"

definition true_errors :: "string \<Rightarrow> dict \<Rightarrow> string list \<Rightarrow> string list" where
  "true_errors prefix d keys =
     concat (map (\<lambda>key. if dget d key = PBool True then []
                        else [prefix @ key @ '': expected true, found '' @ py_repr (dget d key)]) keys)"

definition packet_errors :: "bool \<Rightarrow> pyval \<Rightarrow> string list" where
  "packet_errors require_packet_probe v =
     (case v of
        PDict packet_probe \<Rightarrow>
          if py_truthy (dget packet_probe ''skipped'')
          then (if require_packet_probe
                then [''packet probe skipped: '' @ py_repr (dget packet_probe ''reason'')] else [])
          else true_errors ''packet_probe.'' packet_probe PACKET_REQUIRED
      | _ \<Rightarrow> if require_packet_probe then [''packet probe required but report missing packet_probe object''] else [])"

definition assert_smoke_result :: "dict \<Rightarrow> bool \<Rightarrow> bool \<Rightarrow> string list" where
  "assert_smoke_result report require_provenance require_packet_probe =
     (if require_provenance then provenance_errors report else [])
     @ (if py_truthy (dget report ''skipped'')
        then (if require_packet_probe then [''packet probe required but edge namespace smoke was skipped''] else [])
        else true_errors [] report SMOKE_REQUIRED
             @ packet_errors require_packet_probe (dget report ''packet_probe''))"

definition skip_report :: "string list \<Rightarrow> dict" where
  "skip_report missing =
     [(''skipped'', PBool True), (''missing_prerequisites'', PList (map PStr missing)),
      (''reason'', PStr ''edge namespace smoke requires Linux plus nft, unshare, and ip'')]"

record smoke_args =
  smoke_nft :: string
  smoke_require :: bool
  smoke_require_provenance :: bool
  smoke_packet_probe :: bool
  smoke_require_packet_probe :: bool

record smoke_output =
  smoke_report :: dict
  smoke_stderr :: "string list"
  smoke_exit :: int

definition judged :: "smoke_args \<Rightarrow> dict \<Rightarrow> smoke_output" where
  "judged args report =
     (let errors = assert_smoke_result report (smoke_require_provenance args) (smoke_require_packet_probe args)
      in \<lparr>smoke_report = report, smoke_stderr = errors, smoke_exit = (if errors \<noteq> [] then 1 else 0)\<rparr>)"

definition smoke_main :: "smoke_env \<Rightarrow> smoke_args \<Rightarrow> bool \<Rightarrow> smoke_output proc" where
  "smoke_main env args template_exists =
     (if \<not> template_exists
      then pret \<lparr>smoke_report = with_provenance env
                    [(''skipped'', PBool False), (''error'', PStr (''missing nft template: '' @ smoke_nft args))],
                 smoke_stderr = [], smoke_exit = 1\<rparr>
      else let missing = missing_prerequisites env
           in if missing \<noteq> []
              then let out = judged args (with_provenance env (skip_report missing))
                   in pret (if smoke_exit out = 0 \<and> smoke_require args then out\<lparr>smoke_exit := 1\<rparr> else out)
              else pbind (run_namespace_smoke env) (\<lambda>loaded.
                   pbind (if smoke_packet_probe args \<or> smoke_require_packet_probe args
                          then pbind (run_packet_probe env) (\<lambda>d. pret [(''packet_probe'', PDict d)]) else pret [])
                     (\<lambda>probe. pret (judged args (dupdate (with_provenance env loaded) probe)))))"

section \<open>Only its own namespaces\<close>

text \<open>What is run beside the namespaces: the loading in a fresh namespace, programs inside the two namespaces, and
  \<open>ip\<close> commands on the namespaces and the pair of interfaces of this run.\<close>

definition contained :: "smoke_env \<Rightarrow> string list \<Rightarrow> bool" where
  "contained env command \<longleftrightarrow>
     (case probe_names env of (victim, attacker, victim_if, attacker_if) \<Rightarrow>
        let ip = command_path env ''ip''
        in (\<exists>script. command = [command_path env ''unshare'', ''--net'', ''--'', ''/bin/sh'', ''-c'', script])
           \<or> (\<exists>ns \<in> {victim, attacker}. \<exists>rest. command = [ip, ''netns'', ''exec'', ns] @ rest)
           \<or> (\<exists>ns \<in> {victim, attacker}. \<exists>rest. command = [ip, ''-n'', ns] @ rest)
           \<or> (\<exists>ns \<in> {victim, attacker}. \<exists>verb \<in> {''add'', ''del''}. command = [ip, ''netns'', verb, ns])
           \<or> (\<exists>dev \<in> {victim_if, attacker_if}. \<exists>verb \<in> {''add'', ''set'', ''del''}. \<exists>rest.
                command = [ip, ''link'', verb, dev] @ rest))"

text \<open>Computations whose commands all satisfy \<open>P\<close>.\<close>

definition logs :: "(string list \<Rightarrow> bool) \<Rightarrow> 'a proc \<Rightarrow> bool" where
  "logs P m \<longleftrightarrow> (\<forall>h. \<exists>cs. snd (m h) = h @ cs \<and> list_all P cs)"

named_theorems logged \<open>computations whose commands satisfy a predicate\<close>

lemma logs_pret [logged]: "logs P (pret x)"
  by (simp add: logs_def pret_def)

lemma logs_raise [logged]: "logs P (\<lambda>h. (Inl e, h))"
  by (simp add: logs_def)

lemma logs_pbind [logged]:
  assumes "logs P m" and "\<And>x. logs P (f x)"
  shows "logs P (pbind m f)"
  unfolding logs_def
proof
  fix h
  obtain r h' where m: "m h = (r, h')" by fastforce
  obtain cs where cs: "h' = h @ cs" "list_all P cs" using assms(1) m unfolding logs_def by (metis snd_conv)
  show "\<exists>cs. snd (pbind m f h) = h @ cs \<and> list_all P cs"
  proof (cases r)
    case (Inr x)
    obtain cs' where "snd (f x h') = h' @ cs'" "list_all P cs'" using assms(2) unfolding logs_def by metis
    with Inr m cs show ?thesis by (intro exI [of _ "cs @ cs'"]) (simp add: pbind_def)
  qed (use m cs in \<open>simp add: pbind_def\<close>)
qed

lemma logs_pfinally [logged]:
  assumes "logs P m" and "logs P c"
  shows "logs P (pfinally m c)"
  unfolding logs_def
proof
  fix h
  obtain r h' where m: "m h = (r, h')" by fastforce
  obtain r' h'' where c: "c h' = (r', h'')" by fastforce
  obtain cs where "h' = h @ cs" "list_all P cs" using assms(1) m unfolding logs_def by (metis snd_conv)
  moreover obtain cs' where "h'' = h' @ cs'" "list_all P cs'" using assms(2) c unfolding logs_def by (metis snd_conv)
  ultimately show "\<exists>cs. snd (pfinally m c h) = h @ cs \<and> list_all P cs"
    using m c by (intro exI [of _ "cs @ cs'"]) (cases r'; simp add: pfinally_def)
qed

lemma logs_run [logged]: "P command \<Longrightarrow> logs P (run env command)" "P command \<Longrightarrow> logs P (spawn env command)"
  by (simp_all add: logs_def run_def spawn_def)

lemma logs_run_all [logged]: "list_all P cs \<Longrightarrow> logs P (run_all_commands env cs)"
  by (induction cs) (auto intro: logged)

lemma logs_run_checked [logged]:
  assumes "P command" and "list_all P cleanup"
  shows "logs P (run_checked env command cleanup)"
proof -
  let ?judge = "\<lambda>(returncode, stdout, stderr). if returncode \<noteq> (0 :: int)
      then pbind (run_all_commands env cleanup) (\<lambda>_. pret (Some (command_repr command @ '' failed: '' @ str_strip stderr)))
      else pret None"
  have "logs P (pbind (run env command) ?judge)"
    using assms by (auto intro!: logged)
  moreover have "snd (run_checked env command cleanup h) = snd (pbind (run env command) ?judge h)" for h
    by (cases "sm_run env h command") (simp_all add: run_checked_def run_def pbind_def pret_def)
  ultimately show ?thesis by (simp add: logs_def)
qed

lemma logs_run_checked_all [logged]:
  "list_all P cs \<Longrightarrow> list_all P cleanup \<Longrightarrow> logs P (run_checked_all env cleanup cs)"
  by (induction cs) (auto intro!: logged split: option.split)

lemma logs_read_client [logged]:
  "(\<And>e. logs P (unreadable e)) \<Longrightarrow> (\<And>d. logs P (use d)) \<Longrightarrow> logs P (read_client env stdout unreadable use)"
  by (auto simp: read_client_def intro: logged split: sum.split pyval.split)

lemma logs_namespace_smoke [logged]: "P (smoke_command env) \<Longrightarrow> logs P (run_namespace_smoke env)"
  by (auto simp: logs_def run_namespace_smoke_def run_def Let_def split: ran.split sum.split)

lemma contained_exec:
  assumes "probe_names env = (victim, attacker, victim_if, attacker_if)" and "ns \<in> {victim, attacker}"
  shows "contained env (netns_exec env ns rest)"
  using assms by (auto simp: contained_def netns_exec_def Let_def)

lemma contained_smoke_command: "contained env (smoke_command env)"
  by (simp add: contained_def smoke_command_def Let_def split: prod.split)

lemma contained_commands:
  "list_all (contained env) (cleanup_commands env)" "list_all (contained env) (setup_commands env)"
  using contained_exec [of env]
  by (auto simp: cleanup_commands_def setup_commands_def contained_def Let_def netns_exec_def split: prod.split)

lemma packet_probe_body_contained: "logs (contained env) (packet_probe_body env)"
proof -
  obtain v a vi ai where names: "probe_names env = (v, a, vi, ai)" by (metis surj_pair)
  have exec: "contained env (netns_exec env ns rest)" if "ns = v \<or> ns = a" for ns rest
    using contained_exec [OF names] that by blast
  have add: "contained env [command_path env ''ip'', ''netns'', ''add'', ns]" if "ns = v \<or> ns = a" for ns
    using that by (auto simp: contained_def names Let_def)
  have family: "logs (contained env) (run_packet_family_probe env v a family)" for family
    unfolding run_packet_family_probe_def by (auto intro!: logged exec split: option.split)
  have hop: "logs (contained env) (run_ipv6_hop_by_hop_udp_probe env v a vi ai)"
    unfolding run_ipv6_hop_by_hop_udp_probe_def namespace_interface_mac_def
    by (auto intro!: logged exec split: sum.split)
  show ?thesis
    unfolding packet_probe_body_def names prod.case Let_def
    by (auto intro!: logged add family hop contained_commands split: option.split)
qed

text \<open>Nothing left behind: no cleanup command times out.\<close>

definition cleanup_completes :: "smoke_env \<Rightarrow> bool" where
  "cleanup_completes env \<longleftrightarrow>
     (\<forall>h. \<forall>command \<in> set (cleanup_commands env). \<exists>returncode stdout stderr.
        sm_run env h command = Completed returncode stdout stderr)"

lemma run_all_completes:
  assumes "\<forall>h. \<forall>command \<in> set cs. \<exists>returncode stdout stderr. sm_run env h command = Completed returncode stdout stderr"
  shows "run_all_commands env cs h = (Inr (), h @ cs)"
  using assms
proof (induction cs arbitrary: h)
  case (Cons command cs)
  then obtain returncode stdout stderr where "sm_run env h command = Completed returncode stdout stderr"
    by (meson list.set_intros(1))
  with Cons show ?case by (simp add: pbind_def run_def)
qed (simp add: pret_def)

lemma packet_probe_cleans:
  assumes "cleanup_completes env"
  shows "\<exists>cs. snd (run_packet_probe env h) = h @ cs @ cleanup_commands env \<and> list_all (contained env) cs"
proof -
  obtain r h' where body: "packet_probe_body env h = (r, h')" by fastforce
  obtain cs where "h' = h @ cs" "list_all (contained env) cs"
    using packet_probe_body_contained [of env] body unfolding logs_def by (metis snd_conv)
  with body run_all_completes [OF assms [unfolded cleanup_completes_def]] show ?thesis
    by (simp add: run_packet_probe_def pfinally_def)
qed


definition busy_host :: smoke_env where
  "busy_host = \<lparr>sm_run = (\<lambda>h command. if command = [''ip'', ''netns'', ''add'', ''apa7x9''] then Completed 1 [] ''File exists''
       else Completed 0 [] []),
     sm_spawn = (\<lambda>h command. \<lparr>ready_line = None, exited_stderr = None\<rparr>), sm_which = (\<lambda>name. Some name),
     sm_system = ''Linux'', sm_pid = 7, sm_millis = 9, sm_python = ''python3'', sm_resolved = ''/srv/edge.nft'',
     sm_template = Inr [], sm_loads = (\<lambda>s. Inl JSONDecodeError), sm_decode = (\<lambda>bs. []), sm_git = sample_git,
     sm_cwd = ''/srv'', sm_time = sample_time\<rparr>"

definition probing :: smoke_args where
  "probing = \<lparr>smoke_nft = ''edge.nft'', smoke_require = False, smoke_require_provenance = False, smoke_packet_probe = True,
     smoke_require_packet_probe = False\<rparr>"

lemma busy_names:
  "probe_names busy_host = (''apv7x9'', ''apa7x9'', ''v00007v'', ''v00007a'')"
  "command_path busy_host ''ip'' = ''ip''" "missing_prerequisites busy_host = []"
  by code_simp+

lemma busy_run:
  "sm_run busy_host h command = (if command = [''ip'', ''netns'', ''add'', ''apa7x9''] then Completed 1 [] ''File exists''
     else Completed 0 [] [])"
  by (simp add: busy_host_def)

lemma busy_cleanup: "cleanup_completes busy_host"
  by (auto simp: cleanup_completes_def busy_run)


section \<open>What the verdict means\<close>

lemma true_errors_Nil: "true_errors prefix d keys = [] \<longleftrightarrow> (\<forall>key \<in> set keys. dget d key = PBool True)"
  by (auto simp: true_errors_def)

lemma map_of_dupdate: "map_of (dupdate d new) k = (case map_of (rev new) k of None \<Rightarrow> map_of d k | Some v \<Rightarrow> Some v)"
  unfolding dupdate_def
  by (induction new arbitrary: d) (auto simp: update_conv' map_add_def split: option.splits)

lemma listing_keys:
  "map fst (listing_flags listing source) =
     [''listed_edge_table'', ''protected_tcp_ports_present'', ''tcp4_connlimit_present'', ''tcp6_connlimit_present'',
      ''syn_rate_sets_timeout_bounded'', ''tcp_invalid_null_drop_present'', ''tcp_invalid_xmas_drop_present'',
      ''ipv6_prefix_syn_backstop_present'', ''tcp4_syn_backstop_present'', ''global_syn_backstop_present'',
      ''ct_invalid_drop_present'', ''new_non_syn_drop_present'', ''tcp4_connlimit_rule_present'',
      ''ipv6_prefix_connlimit_present'', ''tcp6_connlimit_rule_present'', ''udp_protected_port_drop_present'',
      ''udp_protected_port_drop_extension_safe_source'', ''icmpv4_control_exemption_present'',
      ''icmpv4_flood_drop_present'', ''icmpv6_control_exemption_present'', ''icmpv6_flood_drop_present'']"
  by (simp add: listing_flags_def Let_def)

lemma listing_keys_distinct: "distinct (map fst (listing_flags listing source))"
  unfolding listing_keys by code_simp

lemma smoke_required: "set SMOKE_REQUIRED = insert ''nft_loaded'' (set (map fst (listing_flags listing source)))"
  unfolding listing_keys by code_simp

text \<open>The template was loaded and its listing shows every rule that is looked for.\<close>

definition template_loaded :: "smoke_env \<Rightarrow> bool" where
  "template_loaded env \<longleftrightarrow>
     (\<exists>stdout stderr source. sm_run env [] (smoke_command env) = Completed 0 stdout stderr
        \<and> sm_template env = Inr source \<and> list_all snd (listing_flags (compact_nft_output stdout) source))"

text \<open>The packet probe had a result that is good enough.\<close>

definition probe_passes :: "bool \<Rightarrow> dict \<Rightarrow> bool" where
  "probe_passes required d \<longleftrightarrow>
     (if py_truthy (dget d ''skipped'') then \<not> required
      else \<forall>key \<in> set PACKET_REQUIRED. dget d key = PBool True)"

lemma packet_errors_Nil:
  "packet_errors required (PDict d) = [] \<longleftrightarrow> probe_passes required d"
  "packet_errors required PNone = [] \<longleftrightarrow> \<not> required"
  by (simp_all add: packet_errors_def probe_passes_def true_errors_Nil)

lemma dget_flags:
  assumes "distinct (map fst flags)" and "set (map fst flags) \<inter> set (map fst pre) = {}"
  shows "(\<forall>key \<in> set (map fst flags). dget (pre @ map (\<lambda>(k, b). (k, PBool b)) flags) key = PBool True)
    \<longleftrightarrow> list_all snd flags"
proof -
  have "dget (pre @ map (\<lambda>(k, b). (k, PBool b)) flags) k = PBool b" if "(k, b) \<in> set flags" for k b
  proof -
    have "k \<in> set (map fst flags)" using that by force
    then have "k \<notin> set (map fst pre)" using assms(2) by blast
    then have "map_of pre k = None" unfolding map_of_eq_None_iff by simp
    moreover have "map_of (map (\<lambda>(k, b). (k, PBool b)) flags) k = Some (PBool b)"
      using assms(1) that by (intro map_of_is_SomeI) (simp add: comp_def split_beta, force)
    ultimately show ?thesis by (simp add: dget_def map_add_def)
  qed
  then show ?thesis by (fastforce simp: list_all_iff)
qed

lemma flags_report:
  fixes returncode stdout stderr source env
  defines "flags \<equiv> listing_flags (compact_nft_output stdout) source"
    and "pre \<equiv> [(''skipped'', PBool False), (''command'', PList (map PStr (smoke_command env))),
      (''returncode'', PInt returncode), (''stdout'', PStr stdout), (''stderr'', PStr stderr),
      (''nft_loaded'', PBool (returncode = 0))]"
  defines "loaded \<equiv> pre @ map (\<lambda>(k, b). (k, PBool b)) flags"
  shows "(\<forall>key \<in> set SMOKE_REQUIRED. dget loaded key = PBool True) \<longleftrightarrow> returncode = 0 \<and> list_all snd flags"
    and "dget loaded ''skipped'' = PBool False" and "distinct (map fst loaded)"
    and "set (map fst loaded) \<inter> {''generated_at_utc'', ''source_tree'', ''packet_probe''} = {}"
proof -
  have keys: "map fst (map (\<lambda>(k, b). (k, PBool b)) flags) = map fst flags" by (simp add: comp_def split_beta)
  have "set (map fst flags) \<inter> set (map fst pre) = {}" unfolding flags_def listing_keys by (simp add: pre_def)
  note all = dget_flags [OF _ this, unfolded flags_def, OF listing_keys_distinct, folded flags_def]
  have "dget loaded ''nft_loaded'' = PBool (returncode = 0)" by (simp add: loaded_def pre_def dget_def)
  then show "(\<forall>key \<in> set SMOKE_REQUIRED. dget loaded key = PBool True) \<longleftrightarrow> returncode = 0 \<and> list_all snd flags"
    using all unfolding smoke_required [of "compact_nft_output stdout" source, folded flags_def] loaded_def by auto
  show "dget loaded ''skipped'' = PBool False" by (simp add: loaded_def pre_def dget_def)
  show "distinct (map fst loaded)" "set (map fst loaded) \<inter> {''generated_at_utc'', ''source_tree'', ''packet_probe''} = {}"
    unfolding loaded_def map_append keys unfolding flags_def listing_keys pre_def by simp_all
qed

lemma loaded_flags:
  assumes "run_namespace_smoke env [] = (Inr loaded, h)"
  shows "(\<forall>key \<in> set SMOKE_REQUIRED. dget loaded key = PBool True) \<longleftrightarrow> template_loaded env"
    and "h = [smoke_command env]" and "dget loaded ''skipped'' = PBool False" and "distinct (map fst loaded)"
    and "set (map fst loaded) \<inter> {''generated_at_utc'', ''source_tree'', ''packet_probe''} = {}"
proof -
  have "h = [smoke_command env] \<and> ((\<forall>key \<in> set SMOKE_REQUIRED. dget loaded key = PBool True) \<longleftrightarrow> template_loaded env)
    \<and> dget loaded ''skipped'' = PBool False \<and> distinct (map fst loaded)
    \<and> set (map fst loaded) \<inter> {''generated_at_utc'', ''source_tree'', ''packet_probe''} = {}"
  proof (cases "sm_run env [] (smoke_command env)")
    case (Completed returncode stdout stderr)
    show ?thesis
    proof (cases "sm_template env")
      case (Inr source)
      with assms Completed flags_report [of env returncode stdout stderr source] show ?thesis
        by (simp add: run_namespace_smoke_def run_def Let_def template_loaded_def)
    qed (use assms Completed in \<open>simp add: run_namespace_smoke_def run_def Let_def\<close>)
  next
    case (Expired stdout stderr)
    have "''nft_loaded'' \<in> set SMOKE_REQUIRED" by (simp add: SMOKE_REQUIRED_def)
    moreover have "dget loaded ''nft_loaded'' = PBool False"
      using assms Expired by (auto simp: run_namespace_smoke_def run_def Let_def dget_def)
    ultimately have "\<not> (\<forall>key \<in> set SMOKE_REQUIRED. dget loaded key = PBool True)" by force
    then show ?thesis
      using assms Expired by (auto simp: run_namespace_smoke_def run_def Let_def template_loaded_def dget_def)
  qed
  then show "(\<forall>key \<in> set SMOKE_REQUIRED. dget loaded key = PBool True) \<longleftrightarrow> template_loaded env"
    and "h = [smoke_command env]" and "dget loaded ''skipped'' = PBool False" and "distinct (map fst loaded)"
    and "set (map fst loaded) \<inter> {''generated_at_utc'', ''source_tree'', ''packet_probe''} = {}" by blast+
qed

lemma map_of_rev: "distinct (map fst xs) \<Longrightarrow> map_of (rev xs) = map_of xs"
  by (subst map_of_inject_set) (simp_all add: rev_map [symmetric])

lemma smoke_report_fields:
  assumes "distinct (map fst loaded)"
    and "set (map fst loaded) \<inter> {''generated_at_utc'', ''source_tree'', ''packet_probe''} = {}"
    and "probe = [] \<or> probe = [(''packet_probe'', v)]"
  shows "dget (dupdate (with_provenance env loaded) probe) ''generated_at_utc'' = PStr (generated_at_utc (sm_time env))"
    and "dget (dupdate (with_provenance env loaded) probe) ''source_tree''
           = PDict (source_tree_metadata (sm_git env) (sm_cwd env))"
    and "dget (dupdate (with_provenance env loaded) probe) ''packet_probe'' = (if probe = [] then PNone else v)"
    and "key \<notin> {''generated_at_utc'', ''source_tree'', ''packet_probe''}
           \<Longrightarrow> dget (dupdate (with_provenance env loaded) probe) key = dget loaded key"
proof -
  have none: "map_of loaded k = None" if "k \<in> {''generated_at_utc'', ''source_tree'', ''packet_probe''}" for k
    unfolding map_of_eq_None_iff set_map [symmetric] using assms(2) that by blast
  show "dget (dupdate (with_provenance env loaded) probe) ''generated_at_utc'' = PStr (generated_at_utc (sm_time env))"
    and "dget (dupdate (with_provenance env loaded) probe) ''source_tree''
           = PDict (source_tree_metadata (sm_git env) (sm_cwd env))"
    and "dget (dupdate (with_provenance env loaded) probe) ''packet_probe'' = (if probe = [] then PNone else v)"
    using assms(3) by (auto simp: dget_def map_of_dupdate with_provenance_def map_of_rev [OF assms(1)] none)
  show "dget (dupdate (with_provenance env loaded) probe) key = dget loaded key"
    if "key \<notin> {''generated_at_utc'', ''source_tree'', ''packet_probe''}"
    using assms(3) that
    by (auto simp: dget_def map_of_dupdate with_provenance_def map_of_rev [OF assms(1)] split: option.split)
qed

text \<open>
  C36. The smoke test succeeds exactly when the edge works: on a host with the prerequisites, a run that
  ends gives exit status 0 exactly when the provenance, if it is required, is complete, the template was
  loaded with status 0 and its listing shows every rule that is looked for, and the packet probe, if one
  was asked for, was skipped without being required or found the clean connection accepted, the protected
  UDP port silent and the connection limit enforced over IPv4 and IPv6, and the packet with extension
  headers silently dropped.
\<close>

theorem smoke_exit_zero:
  assumes "smoke_main env args True [] = (Inr out, commands)" and "missing_prerequisites env = []"
    and "valid_time (sm_time env)"
  shows "smoke_exit out = 0 \<longleftrightarrow>
    (smoke_require_provenance args \<longrightarrow> sm_cwd env \<noteq> [] \<and> usable_checkout (sm_git env))
    \<and> template_loaded env
    \<and> (smoke_packet_probe args \<or> smoke_require_packet_probe args \<longrightarrow>
         (\<exists>d. fst (run_packet_probe env [smoke_command env]) = Inr d
            \<and> probe_passes (smoke_require_packet_probe args) d))"
proof -
  from assms(1,2) obtain loaded h where smoke: "run_namespace_smoke env [] = (Inr loaded, h)"
    by (auto simp: smoke_main_def pbind_def split: prod.splits sum.splits)
  note loaded = loaded_flags [OF smoke]
  let ?wanted = "smoke_packet_probe args \<or> smoke_require_packet_probe args"
  obtain probe v where probe: "probe = [] \<and> \<not> ?wanted
      \<or> probe = [(''packet_probe'', v)] \<and> ?wanted \<and> (\<exists>d. fst (run_packet_probe env h) = Inr d \<and> v = PDict d)"
    and out: "out = judged args (dupdate (with_provenance env loaded) probe)"
    using assms(1,2) smoke
    by (cases ?wanted) (auto simp: smoke_main_def pbind_def pret_def split: prod.splits sum.splits)
  let ?report = "dupdate (with_provenance env loaded) probe"
  from probe have "probe = [] \<or> probe = [(''packet_probe'', v)]" by blast
  note fields = smoke_report_fields [OF loaded(4,5) this]
  have "provenance_errors ?report = [] \<longleftrightarrow> sm_cwd env \<noteq> [] \<and> usable_checkout (sm_git env)"
    using source_tree_ok [of "sm_git env" "sm_cwd env"] generated_at_utc_stamp [OF assms(3)] fields(1,2)
    by (simp add: provenance_errors_Nil provenance_ok_def)
  moreover have "true_errors [] ?report SMOKE_REQUIRED = [] \<longleftrightarrow> template_loaded env"
  proof -
    have "dget ?report key = dget loaded key" if "key \<in> set SMOKE_REQUIRED" for key
      using that by (intro fields(4)) (auto simp: SMOKE_REQUIRED_def)
    then show ?thesis using loaded(1) by (simp add: true_errors_Nil)
  qed
  moreover have "packet_errors (smoke_require_packet_probe args) (dget ?report ''packet_probe'') = []
      \<longleftrightarrow> (?wanted \<longrightarrow> (\<exists>d. fst (run_packet_probe env h) = Inr d \<and> probe_passes (smoke_require_packet_probe args) d))"
    using probe fields(3) by (auto simp: packet_errors_Nil)
  moreover have "dget ?report ''skipped'' = PBool False" using fields(4) loaded(3) by simp
  ultimately show ?thesis
    unfolding out judged_def assert_smoke_result_def Let_def by (auto simp: loaded(2))
qed

text \<open>A host on which the template loads; its listing is put together from the rules that are looked for.\<close>

definition sample_rules :: "string list" where
  "sample_rules =
     [''timeout 10s'', ''timeout 10s'', '' '', ''ip6 saddr & ffff:ffff:ffff:ffff::'', '' '', ''table inet altura_prot_edge'', '' '', ''set protected_tcp_ports'', '' '',
      ''set tcp4_connlimit'', '' '', ''set tcp6_connlimit'', '' '',
      ''tcp dport @protected_tcp_ports tcp flags ! fin,syn,rst,ack drop'', '' '',
      ''tcp flags & (fin|syn|rst|psh|ack|urg) == fin|psh|urg drop'', '' '',
      ''tcp dport @protected_tcp_ports tcp flags & (fin|syn|rst|ack) == syn'', '' '', ''update @tcp6_syn_rate'', '' '',
      ''update @tcp4_syn_rate'', '' '', ''limit rate over 5000/second burst 10000 packets drop'', '' '',
      ''ct state invalid drop'', '' '',
      ''tcp dport @protected_tcp_ports ct state new tcp flags & (fin|syn|rst|ack) != syn drop'', '' '',
      ''add @tcp4_connlimit'', '' '', ''ct count over 128'', '' '', ''add @tcp6_connlimit'', '' '',
      ''udp dport @protected_tcp_ports drop'', '' '', ''icmp type'', '' '', ''destination-unreachable'', '' '',
      ''ip protocol icmp limit rate over 100/second burst 200 packets drop'', '' '', ''icmpv6 type'', '' '',
      ''packet-too-big'', '' '', ''meta l4proto ipv6-icmp limit rate over 100/second burst 200 packets drop'']"

definition good_host :: smoke_env where
  "good_host = busy_host\<lparr>sm_run := (\<lambda>h command. Completed 0 (concat sample_rules) []),
     sm_template := Inr ''meta l4proto udp  udp dport @protected_tcp_ports drop''\<rparr>"

lemma count_from_skip: "count_from (length a) part (a @ s) = count_from 0 part s"
  by (induction a) (cases s; simp)+

lemma count_from_here: "part \<noteq> [] \<Longrightarrow> count_from 0 part (part @ s) = Suc (count_from 0 part s)"
  using count_from_skip [of "tl part"] by (cases part) (auto simp: starts_with_def)

lemma sample_listing:
  "compact_nft_output (concat sample_rules) = concat sample_rules"
  "re_found PREFIX_MASK (concat sample_rules)"
  "re_found UDP_DROP_SOURCE (squeeze False ''meta l4proto udp  udp dport @protected_tcp_ports drop'')"
  by code_simp+

lemma sample_timeouts: "2 \<le> count_from 0 ''timeout 10s'' (concat sample_rules)"
proof -
  have "concat sample_rules = ''timeout 10s'' @ ''timeout 10s'' @ concat (drop 2 sample_rules)"
    by (simp add: sample_rules_def)
  then show ?thesis using count_from_here [of "''timeout 10s''"] by (simp only:) simp
qed

lemmas sample_mem = arg_cong [OF sample_rules_def, of "\<lambda>xs. p \<in> set xs" for p]

lemma good_host_loads: "template_loaded good_host"
proof -
  have has: "contains_str (concat sample_rules) p" if "p \<in> set sample_rules" for p
    using that by (rule contains_concat)
  have "list_all snd (listing_flags (concat sample_rules) ''meta l4proto udp  udp dport @protected_tcp_ports drop'')"
    unfolding listing_flags_def Let_def
    using sample_listing(2,3) sample_timeouts
    by (simp add: has sample_mem protected_syn_matches_def protected_new_non_syn_matches_def xmas_drop_matches_def)
  then show ?thesis by (simp add: template_loaded_def good_host_def sample_listing(1))
qed

theorem smoke_exit_zero_witness:
  "\<exists>out commands. smoke_main good_host (probing\<lparr>smoke_packet_probe := False, smoke_require_provenance := True\<rparr>) True []
       = (Inr out, commands)
     \<and> smoke_exit out = 0"
proof -
  let ?args = "probing\<lparr>smoke_packet_probe := False, smoke_require_provenance := True\<rparr>"
  have missing: "missing_prerequisites good_host = []" by code_simp
  obtain loaded h where "run_namespace_smoke good_host [] = (Inr loaded, h)"
    by (simp add: run_namespace_smoke_def run_def good_host_def Let_def)
  then obtain out commands where run: "smoke_main good_host ?args True [] = (Inr out, commands)"
    using missing by (simp add: smoke_main_def pbind_def pret_def probing_def)
  have "valid_time (sm_time good_host)" "sm_cwd good_host \<noteq> []" "usable_checkout (sm_git good_host)"
    by code_simp+
  then have "smoke_exit out = 0"
    using smoke_exit_zero [OF run missing] good_host_loads by (simp add: probing_def)
  with run show ?thesis by blast
qed

end
