(* ===== verification/Edge_Frame.thy ===== *)
theory Edge_Frame
  imports Prelude
begin

text \<open>
  The raw packet of the edge smoke test: the script \<open>HOP_BY_HOP_UDP_CLIENT_TEMPLATE\<close> of
  \<open>tools/run_edge_namespace_smoke.py\<close> builds an Ethernet frame with an IPv6 packet whose UDP datagram
  follows a hop-by-hop options header, and looks for the ICMPv6 errors that come back.  Bytes are
  integers from 0 to 255.
\<close>

unbundle bit_operations_syntax

section \<open>The Internet checksum\<close>

type_synonym bytes = "int list"

text \<open>\<open>struct.unpack("!%dH" % (len(data) // 2), data)\<close> for an even number of bytes.\<close>

fun be_words :: "bytes \<Rightarrow> int list" where
  "be_words (a # b # rest) = (256 * a + b) # be_words rest"
| "be_words _ = []"

definition checksum :: "bytes \<Rightarrow> int" where
  "checksum bs =
     (let data = (if odd (length bs) then bs @ [0] else bs);
          total = sum_list (be_words data);
          total = drop_bit 16 total + (total AND 0xFFFF);
          total = total + drop_bit 16 total
      in (NOT total) AND 0xFFFF)"

section \<open>The frame\<close>

text \<open>\<open>struct.pack\<close> with the formats \<open>!H\<close> and \<open>!I\<close>.\<close>

definition be16 :: "int \<Rightarrow> bytes" where
  "be16 n = [n div 256 mod 256, n mod 256]"

definition be32 :: "int \<Rightarrow> bytes" where
  "be32 n = be16 (n div 65536) @ be16 (n mod 65536)"

text \<open>The addresses \<open>fd00:230::2\<close> and \<open>fd00:230::1\<close>.\<close>

definition SOURCE_ADDRESS :: bytes where
  "SOURCE_ADDRESS = [0xfd, 0, 2, 0x30, 0, 0, 0, 0, 0, 0, 0, 0, 0, 0, 0, 2]"

definition DESTINATION_ADDRESS :: bytes where
  "DESTINATION_ADDRESS = [0xfd, 0, 2, 0x30, 0, 0, 0, 0, 0, 0, 0, 0, 0, 0, 0, 1]"

definition ETHERTYPE_IPV6 :: int where "ETHERTYPE_IPV6 = 0x86DD"

definition IPPROTO_HOPOPTS :: int where "IPPROTO_HOPOPTS = 0"

definition IPPROTO_UDP :: int where "IPPROTO_UDP = 17"

definition IPPROTO_ICMPV6 :: int where "IPPROTO_ICMPV6 = 58"

definition PAYLOAD :: bytes where "PAYLOAD = [120]"

definition udp_length :: int where
  "udp_length = 8 + int (length PAYLOAD)"

text \<open>The UDP datagram with some checksum field.\<close>

definition udp_header :: "int \<Rightarrow> bytes" where
  "udp_header cs = be16 54321 @ be16 8080 @ be16 udp_length @ be16 cs @ PAYLOAD"

definition udp_pseudo_header :: bytes where
  "udp_pseudo_header = SOURCE_ADDRESS @ DESTINATION_ADDRESS @ be32 udp_length @ [0, 0, 0] @ [IPPROTO_UDP]"

definition udp_checksum :: int where
  "udp_checksum = checksum (udp_pseudo_header @ udp_header 0)"

definition hop_by_hop_header :: bytes where
  "hop_by_hop_header = [IPPROTO_UDP, 0] @ [1, 4, 0, 0, 0, 0]"

definition ipv6_payload :: bytes where
  "ipv6_payload = hop_by_hop_header @ udp_header udp_checksum"

definition ipv6_header :: bytes where
  "ipv6_header = be32 0x60000000 @ be16 (int (length ipv6_payload)) @ [IPPROTO_HOPOPTS, 64]
     @ SOURCE_ADDRESS @ DESTINATION_ADDRESS"

definition frame :: "bytes \<Rightarrow> bytes \<Rightarrow> bytes" where
  "frame source_mac destination_mac =
     destination_mac @ source_mac @ be16 ETHERTYPE_IPV6 @ ipv6_header @ ipv6_payload"

section \<open>Replies\<close>

record icmpv6_reply =
  reply_type :: int
  reply_code :: int
  reply_destination :: bytes

text \<open>One turn of the receiving loop: the reply a packet is, if it is one.\<close>

definition icmpv6_reply_of :: "bytes \<Rightarrow> icmpv6_reply option" where
  "icmpv6_reply_of packet =
     (if length packet < 54 then None
      else if 256 * packet ! 12 + packet ! 13 \<noteq> ETHERTYPE_IPV6 then None
      else let ipv6 = take 40 (drop 14 packet);
               next_header = ipv6 ! 6;
               source = take 16 (drop 8 ipv6);
               destination = take 16 (drop 24 ipv6);
               icmpv6 = drop 54 packet
           in if next_header \<noteq> IPPROTO_ICMPV6 \<or> source \<noteq> DESTINATION_ADDRESS then None
              else if length icmpv6 < 2 then None
              else Some \<lparr>reply_type = icmpv6 ! 0, reply_code = icmpv6 ! 1, reply_destination = destination\<rparr>)"

definition port_unreachable :: "icmpv6_reply \<Rightarrow> bool" where
  "port_unreachable reply \<longleftrightarrow>
     reply_type reply = 1 \<and> reply_code reply = 4 \<and> reply_destination reply = SOURCE_ADDRESS"

section \<open>The checksum verifies\<close>

text \<open>The folded sum as arithmetic.\<close>

definition folded :: "int \<Rightarrow> int" where
  "folded s = (let t = s div 65536 + s mod 65536 in (t + t div 65536) mod 65536)"

lemma checksum_folded:
  assumes "even (length bs)"
  shows "checksum bs = 65535 - folded (sum_list (be_words bs))"
proof -
  have low: "x AND 0xFFFF = x mod 65536" for x :: int
    using take_bit_eq_mask [of 16 x] by (simp add: take_bit_eq_mod mask_eq_exp_minus_1)
  have high: "drop_bit 16 x = x div 65536" for x :: int by (simp add: drop_bit_eq_div)
  have "(NOT x) mod 65536 = 65535 - x mod 65536" for x :: int
  proof -
    have "NOT x = - x - 1" by (simp add: not_int_def)
    moreover have "(- x - 1) mod 65536 = 65535 - x mod 65536"
    proof (rule int_mod_pos_eq)
      show "- x - 1 = 65536 * (- (x div 65536) - 1) + (65535 - x mod 65536)"
        using mult_div_mod_eq [of 65536 x] by (simp add: algebra_simps)
      show "0 \<le> 65535 - x mod 65536" "65535 - x mod 65536 < 65536"
        using pos_mod_bound [of 65536 x] pos_mod_sign [of 65536 x] by linarith+
    qed
    ultimately show ?thesis by simp
  qed
  with assms show ?thesis by (simp add: checksum_def folded_def Let_def low high)
qed

lemma folded_spec:
  assumes "0 \<le> s" and "s < 4294967296"
  shows "0 \<le> folded s" and "folded s \<le> 65535" and "folded s mod 65535 = s mod 65535" and "0 < s \<Longrightarrow> 0 < folded s"
proof -
  define a b where "a = s div 65536" and "b = s mod 65536"
  have s: "s = 65536 * a + b" by (simp add: a_def b_def)
  have b: "0 \<le> b" "b < 65536" by (simp_all add: b_def)
  have a: "0 \<le> a" "a < 65536" using assms by (simp_all add: a_def)
  have f: "folded s = (if a + b < 65536 then a + b else a + b - 65535)"
  proof (cases "a + b < 65536")
    case False
    then have "(a + b) div 65536 = 1" using a b by (intro int_div_pos_eq [where r = "a + b - 65536"]) simp_all
    moreover have "(a + b + 1) mod 65536 = a + b + 1 - 65536"
      using False a b by (intro int_mod_pos_eq [where q = 1]) simp_all
    ultimately show ?thesis using False by (simp add: folded_def Let_def flip: a_def b_def)
  qed (use a b in \<open>simp add: folded_def Let_def flip: a_def b_def\<close>)
  show "0 \<le> folded s" "folded s \<le> 65535" using a b by (auto simp: f)
  have "s = (a + b) + a * 65535" using s by simp
  then have "s mod 65535 = (a + b) mod 65535" by (simp only: mod_mult_self1)
  moreover have "(a + b - 65535) mod 65535 = (a + b) mod 65535" by (simp add: mod_diff_eq [symmetric])
  ultimately show "folded s mod 65535 = s mod 65535" by (simp add: f)
  show "0 < folded s" if "0 < s" using that a b unfolding f unfolding s by auto
qed

lemma be_words_append: "even (length a) \<Longrightarrow> be_words (a @ b) = be_words a @ be_words b"
  by (induction a rule: be_words.induct) simp_all

lemma be_words_bounds:
  assumes "\<forall>x \<in> set bs. 0 \<le> x \<and> x < 256"
  shows "0 \<le> sum_list (be_words bs)" and "sum_list (be_words bs) \<le> 65535 * int (length bs div 2)"
  using assms by (induction bs rule: be_words.induct) auto

lemma be16_word: "0 \<le> n \<Longrightarrow> n < 65536 \<Longrightarrow> be_words (be16 n) = [n]"
  using div_mult_mod_eq [of n 256] by (simp add: be16_def)

lemma checksum_verifies_even:
  assumes "even (length a)" and "even (length b)" and "length a + length b < 65536"
    and "\<forall>x \<in> set (a @ b). 0 \<le> x \<and> x < 256"
  shows "checksum (a @ be16 (checksum (a @ [0, 0] @ b)) @ b) = 0"
proof -
  define s where "s = sum_list (be_words (a @ b))"
  have words: "be_words (a @ x @ b) = be_words a @ be_words x @ be_words b" if "length x = 2" for x
    using assms(1,2) that by (simp add: be_words_append)
  have s: "0 \<le> s" "s \<le> 65535 * 32767"
  proof -
    have "int ((length a + length b) div 2) \<le> 32767" using assms(3) by simp
    then show "s \<le> 65535 * 32767" using be_words_bounds(2) [OF assms(4)] by (simp add: s_def)
    show "0 \<le> s" using be_words_bounds(1) [OF assms(4)] by (simp add: s_def)
  qed
  define c where "c = checksum (a @ [0, 0] @ b)"
  have "c = 65535 - folded s"
    unfolding c_def using assms(1,2) words [of "[0, 0]"] be_words_append [of a b]
    by (simp add: checksum_folded s_def)
  moreover note spec = folded_spec [of s]
  ultimately have c: "0 \<le> c" "c \<le> 65535" "c = 65535 - folded s" using s by simp_all
  have total: "checksum (a @ be16 c @ b) = 65535 - folded (s + c)"
  proof -
    have "be_words (a @ be16 c @ b) = be_words a @ [c] @ be_words b"
      using words [of "be16 c"] be16_word [of c] c by (simp add: be16_def)
    then have "sum_list (be_words (a @ be16 c @ b)) = s + c"
      using be_words_append [OF assms(1), of b] by (simp add: s_def)
    moreover have "even (length (a @ be16 c @ b))" using assms(1,2) by (simp add: be16_def)
    ultimately show ?thesis by (simp only: checksum_folded)
  qed
  have "(s + c) mod 65535 = (folded s + c) mod 65535" 
    using spec(3) s by (intro mod_add_cong) simp_all
  also have "\<dots> = 0" using c by simp
  finally have "folded (s + c) mod 65535 = 0" using folded_spec(3) [of "s + c"] s c by simp
  moreover have "0 < s + c"
  proof (cases "s = 0")
    case True
    then show ?thesis using c by (simp add: folded_def)
  qed (use s c in simp)
  then have "0 < folded (s + c)" "folded (s + c) \<le> 65535" using folded_spec [of "s + c"] s c by simp_all
  ultimately have "folded (s + c) = 65535" by (metis mod_pos_pos_trivial order_le_less order_less_irrefl)
  with total show ?thesis by (simp add: c_def)
qed

lemma checksum_pad: "odd (length bs) \<Longrightarrow> checksum bs = checksum (bs @ [0])"
  by (simp add: checksum_def)

text \<open>
  C37. The Internet checksum verifies: for bytes with a field of two zeros at an even place, fewer than
  65535 of them beside the field, putting the checksum into the field makes the checksum of the whole
  zero, so that a receiver accepts the datagram.  An odd number of bytes is padded on both sides.
\<close>

theorem checksum_verifies:
  assumes "even (length a)" and "length a + length b < 65535" and "\<forall>x \<in> set (a @ b). 0 \<le> x \<and> x < 256"
  shows "checksum (a @ be16 (checksum (a @ [0, 0] @ b)) @ b) = 0"
proof (cases "even (length b)")
  case True
  with assms show ?thesis by (intro checksum_verifies_even) simp_all
next
  case False
  have pad: "checksum (a @ x @ b) = checksum (a @ x @ b @ [0])" if "length x = 2" for x
    using checksum_pad [of "a @ x @ b"] assms(1) False that by simp
  have "checksum (a @ be16 (checksum (a @ [0, 0] @ b @ [0])) @ b @ [0]) = 0"
    using checksum_verifies_even [of a "b @ [0]"] assms False by simp
  then show ?thesis using pad [of "[0, 0]"] pad [of "be16 _"] by (simp add: be16_def)
qed

text \<open>The datagram of the smoke test.\<close>

theorem checksum_verifies_witness:
  "checksum (udp_pseudo_header @ udp_header udp_checksum) = 0 \<and> udp_checksum \<noteq> 0"
proof -
  let ?a = "udp_pseudo_header @ be16 54321 @ be16 8080 @ be16 udp_length"
  have "even (length ?a)" "length ?a + length PAYLOAD < 65535" by code_simp+
  moreover have "list_all (\<lambda>x. 0 \<le> x \<and> x < 256) (?a @ PAYLOAD)" by code_simp
  then have "\<forall>x \<in> set (?a @ PAYLOAD). 0 \<le> x \<and> x < 256" unfolding list_all_iff .
  ultimately have "checksum (?a @ be16 (checksum (?a @ [0, 0] @ PAYLOAD)) @ PAYLOAD) = 0"
    by (rule checksum_verifies)
  moreover have "be16 0 = [0, 0]" by code_simp
  ultimately have "checksum (udp_pseudo_header @ udp_header udp_checksum) = 0"
    by (simp add: udp_checksum_def udp_header_def)
  moreover have "udp_checksum \<noteq> 0" by code_simp
  ultimately show ?thesis ..
qed

end
