(* ===== verification/Startup_Probes.thy ===== *)
theory Startup_Probes
  imports Local_Gate
begin

text \<open>
  The startup probes of \<open>tools/run_local_bench.py\<close>: each starts the proxy on configurations it must
  refuse and looks at its exit status and error output.  How a started process ends, the ports that
  \<open>free_port\<close> finds and the directory for the files are parameters.
\<close>

section \<open>Bounds\<close>

definition HTTP_HEADER_BUFFER_MAX_BYTES :: int where "HTTP_HEADER_BUFFER_MAX_BYTES = 256 * 1024"
definition HTTP_HEADER_COUNT_MAX :: int where "HTTP_HEADER_COUNT_MAX = 1024"
definition HTTP_HOST_MAX_BYTES_MAX :: int where "HTTP_HOST_MAX_BYTES_MAX = 1024"
definition HTTP_REQUEST_TARGET_MAX_BYTES :: int where "HTTP_REQUEST_TARGET_MAX_BYTES = 64 * 1024"
definition HTTP_QUERY_PAIR_COUNT_MAX :: int where "HTTP_QUERY_PAIR_COUNT_MAX = 8192"
definition HTTP_PATH_SEGMENT_COUNT_MAX :: int where "HTTP_PATH_SEGMENT_COUNT_MAX = 4096"
definition HTTP_HEADER_READ_TIMEOUT_MAX_MS :: int where "HTTP_HEADER_READ_TIMEOUT_MAX_MS = 60000"
definition HTTP_DOWNSTREAM_WRITE_TIMEOUT_MAX_MS :: int where "HTTP_DOWNSTREAM_WRITE_TIMEOUT_MAX_MS = 60000"
definition HTTP_BODY_IDLE_TIMEOUT_MAX_MS :: int where "HTTP_BODY_IDLE_TIMEOUT_MAX_MS = 60000"
definition HTTP_BODY_MIN_RATE_BYTES_PER_SECOND_MAX :: int where "HTTP_BODY_MIN_RATE_BYTES_PER_SECOND_MAX = 1048576"
definition HTTP_BODY_MIN_RATE_GRACE_MAX_MS :: int where "HTTP_BODY_MIN_RATE_GRACE_MAX_MS = 60000"
definition HTTP_MAX_BODY_BYTES_MAX :: int where "HTTP_MAX_BODY_BYTES_MAX = 1073741824"
definition HTTP_MAX_UPSTREAM_BODY_BYTES_MAX :: int where "HTTP_MAX_UPSTREAM_BODY_BYTES_MAX = 1073741824"
definition HTTP_TRAILER_BYTES_MAX :: int where "HTTP_TRAILER_BYTES_MAX = HTTP_HEADER_BUFFER_MAX_BYTES"
definition HTTP_TRAILER_COUNT_MAX :: int where "HTTP_TRAILER_COUNT_MAX = HTTP_HEADER_COUNT_MAX"
definition HTTP_FORWARDED_FOR_BYTES_MAX :: int where "HTTP_FORWARDED_FOR_BYTES_MAX = 16 * 1024"
definition HTTP_FORWARDED_FOR_HOPS_MAX :: int where "HTTP_FORWARDED_FOR_HOPS_MAX = 256"
definition HTTP_UPSTREAM_CONNECT_TIMEOUT_MAX_MS :: int where "HTTP_UPSTREAM_CONNECT_TIMEOUT_MAX_MS = 60000"
definition HTTP_UPSTREAM_TIMEOUT_MAX_MS :: int where "HTTP_UPSTREAM_TIMEOUT_MAX_MS = 60000"
definition HTTP_UPSTREAM_FAILURE_THRESHOLD_MAX :: int where "HTTP_UPSTREAM_FAILURE_THRESHOLD_MAX = 1024"
definition HTTP_UPSTREAM_FAILURE_OPEN_MAX_MS :: int where "HTTP_UPSTREAM_FAILURE_OPEN_MAX_MS = 300000"
definition HTTP_UPSTREAM_POOL_IDLE_TIMEOUT_MAX_MS :: int where "HTTP_UPSTREAM_POOL_IDLE_TIMEOUT_MAX_MS = 60000"
definition HTTP_UPSTREAM_POOL_MAX_IDLE_PER_HOST_MAX :: int where "HTTP_UPSTREAM_POOL_MAX_IDLE_PER_HOST_MAX = 4096"
definition HTTP_MAX_CONNECTION_DURATION_MAX_SECONDS :: int where "HTTP_MAX_CONNECTION_DURATION_MAX_SECONDS = 3600"
definition HTTP_MAX_REQUESTS_PER_CONNECTION_MAX :: int where "HTTP_MAX_REQUESTS_PER_CONNECTION_MAX = 10000"
definition TCP_CONNECT_TIMEOUT_MAX_MS :: int where "TCP_CONNECT_TIMEOUT_MAX_MS = 60000"
definition TCP_MIN_RATE_BYTES_PER_SECOND_MAX :: int where "TCP_MIN_RATE_BYTES_PER_SECOND_MAX = 1048576"
definition TCP_MAX_CONNECTION_DURATION_MAX_SECONDS :: int where "TCP_MAX_CONNECTION_DURATION_MAX_SECONDS = 3600"
definition FILTER_RUNTIME_FILE_MAX_BYTES_MAX :: int where "FILTER_RUNTIME_FILE_MAX_BYTES_MAX = 16 * 1024 * 1024"
definition FILTER_RULE_COUNT_MAX :: int where "FILTER_RULE_COUNT_MAX = 8192"
definition FILTER_TTL_MAX_SECONDS :: int where "FILTER_TTL_MAX_SECONDS = 24 * 60 * 60"
definition ADAPTIVE_EVENT_LOG_MAX_BYTES_MAX :: int where "ADAPTIVE_EVENT_LOG_MAX_BYTES_MAX = 1073741824"
definition ADAPTIVE_WINDOW_COUNT_MAX :: int where "ADAPTIVE_WINDOW_COUNT_MAX = 262144"
definition LIMITER_MAX_TRACKED_IPS_MAX :: int where "LIMITER_MAX_TRACKED_IPS_MAX = 1048576"
definition LIMITER_MAX_TRACKED_SIGNATURES_MAX :: int where "LIMITER_MAX_TRACKED_SIGNATURES_MAX = 262144"
definition LIMITER_MAX_TRACKED_PATH_SHAPES_MAX :: int where "LIMITER_MAX_TRACKED_PATH_SHAPES_MAX = 262144"
definition EVENT_LOG_BACKUP_COUNT_MAX :: int where "EVENT_LOG_BACKUP_COUNT_MAX = 128"
definition EVENT_LOG_QUEUE_CAPACITY_MAX :: int where "EVENT_LOG_QUEUE_CAPACITY_MAX = 8192"

section \<open>One case\<close>

text \<open>What is put at a path: the JSON text of a value, another text, or a directory.\<close>

datatype file_content = Json_Of pyval | Text_Of string | Directory

text \<open>
  \<open>st_ended\<close> tells how a command ends, given the files written for it: its exit status and error output if it
  ends within five seconds before any signal (0), after \<open>terminate\<close> (1), or after \<open>kill\<close> (2).  A case draws at
  most one port; \<open>st_port\<close> has it under the name of the configuration file.
\<close>

record startup_env =
  st_binary :: string
  st_tmp :: string
  st_port :: "string \<Rightarrow> nat"
  st_upstream :: nat
  st_tcp_upstream :: nat
  st_ended :: "string list \<Rightarrow> (string \<times> file_content) list \<Rightarrow> nat \<Rightarrow> (int \<times> string) option"

record startup_case =
  case_file :: string
  case_content :: file_content
  case_fields :: dict
  case_needles :: "string list"

definition tmp_file :: "startup_env \<Rightarrow> string \<Rightarrow> string" where
  "tmp_file env name = st_tmp env @ ''/'' @ name"

text \<open>The waiting with escalation; a process that survives \<open>kill\<close> makes the last wait raise.\<close>

definition communicate :: "(nat \<Rightarrow> (int \<times> string) option) \<Rightarrow> (int \<times> string) result" where
  "communicate ended =
     (case ended 0 of
        Some r \<Rightarrow> Inr r
      | None \<Rightarrow>
          (case ended 1 of
             Some r \<Rightarrow> Inr r
           | None \<Rightarrow> (case ended 2 of Some r \<Rightarrow> Inr r | None \<Rightarrow> Inl (RuntimeError ''subprocess.TimeoutExpired''))))"

definition start_proxy :: "startup_env \<Rightarrow> string \<Rightarrow> (string \<times> file_content) list \<Rightarrow> (int \<times> string) result" where
  "start_proxy env file files =
     communicate (st_ended env [st_binary env, ''--config'', tmp_file env file] files)"

definition stderr_tail :: "string \<Rightarrow> pyval" where
  "stderr_tail err = PList (map PStr (last_n 8 (splitlines err)))"

definition rejected_with :: "int \<Rightarrow> string \<Rightarrow> string list \<Rightarrow> bool" where
  "rejected_with returncode err needles \<longleftrightarrow> returncode \<noteq> 0 \<and> list_all (contains_str err) needles"

definition run_case :: "startup_env \<Rightarrow> startup_case \<Rightarrow> dict result" where
  "run_case env c =
     rbind (start_proxy env (case_file c) [(tmp_file env (case_file c), case_content c)]) (\<lambda>(returncode, err).
       Inr (case_fields c
            @ [(''exit_code'', PInt returncode), (''stderr_tail'', stderr_tail err),
               (''startup_rejected'', PBool (rejected_with returncode err (case_needles c)))]))"

text \<open>The named cases of a probe in turn, and the report with a verdict for each.\<close>

definition run_cases :: "startup_env \<Rightarrow> (string \<times> startup_case) list \<Rightarrow> (string \<times> dict) list result" where
  "run_cases env cases = rmap (\<lambda>(key, c). rbind (run_case env c) (\<lambda>d. Inr (key, d))) cases"

definition case_values :: "(string \<times> dict) list \<Rightarrow> dict" where
  "case_values cases = map (\<lambda>(key, d). (key, PDict d)) cases"

definition case_verdicts :: "(string \<times> dict) list \<Rightarrow> dict" where
  "case_verdicts cases = map (\<lambda>(key, d). (key @ ''_rejected'', dget d ''startup_rejected'')) cases"

definition all_rejected :: "(string \<times> dict) list \<Rightarrow> pyval" where
  "all_rejected cases = PBool (list_all (\<lambda>(key, d). py_truthy (dget d ''startup_rejected'')) cases)"

definition case_report :: "(string \<times> dict) list \<Rightarrow> dict" where
  "case_report cases = case_values cases @ case_verdicts cases"

section \<open>Configurations\<close>

definition loopback :: "nat \<Rightarrow> string" where
  "loopback port = ''127.0.0.1:'' @ nat_str port"

definition http_section :: "string \<Rightarrow> nat \<Rightarrow> dict \<Rightarrow> dict" where
  "http_section listen upstream settings =
     [(''listen'', PStr listen), (''upstream'', PStr (''http://'' @ loopback upstream))] @ settings"

text \<open>A configuration with an HTTP listener on a free port, and one with a TCP listener.\<close>

definition http_config :: "startup_env \<Rightarrow> string \<Rightarrow> dict \<Rightarrow> pyval" where
  "http_config env file settings =
     PDict [(''http'', PDict (http_section (loopback (st_port env file)) (st_upstream env) settings)), (''tcp'', PList [])]"

definition tcp_config :: "startup_env \<Rightarrow> string \<Rightarrow> string \<Rightarrow> dict \<Rightarrow> pyval" where
  "tcp_config env name listen settings =
     PDict [(''tcp'', PList [PDict ([(''name'', PStr name), (''listen'', PStr listen),
        (''upstream'', PStr (loopback (st_tcp_upstream env)))] @ settings)])]"

definition ceiling_needles :: "string \<Rightarrow> int \<Rightarrow> string list" where
  "ceiling_needles path cap = [path, ''must be no higher than '' @ int_str cap]"

definition ceiling_case :: "string \<Rightarrow> pyval \<Rightarrow> string \<Rightarrow> string \<Rightarrow> int \<Rightarrow> startup_case" where
  "ceiling_case file cfg path maximum_key cap =
     \<lparr>case_file = file, case_content = Json_Of cfg,
      case_fields = [(''configured_field'', PStr path), (''configured_value'', PInt (cap + 1)),
        (maximum_key, PInt cap)],
      case_needles = ceiling_needles path cap\<rparr>"

text \<open>A setting of the HTTP section one above its ceiling.\<close>

definition http_ceiling_case :: "startup_env \<Rightarrow> string \<Rightarrow> string \<Rightarrow> string \<Rightarrow> int \<Rightarrow> startup_case" where
  "http_ceiling_case env file field maximum_key cap =
     ceiling_case file (http_config env file [(field, PInt (cap + 1))]) (''http.'' @ field) maximum_key cap"

section \<open>The probes\<close>

text \<open>
  The one probe that starts the proxy through a shell, with fewer descriptors than its limits need.
\<close>

definition high_rates :: dict where
  "high_rates =
     [(''per_ip_rps'', PInt 1000000), (''per_ip_burst'', PInt 1000000), (''global_rps'', PInt 1000000),
      (''global_burst'', PInt 1000000)]"

definition quiet_sections :: "string \<Rightarrow> string \<Rightarrow> dict" where
  "quiet_sections filters events =
     [(''tcp'', PList []),
      (''filters'', PDict [(''runtime_file'', PStr filters), (''reload_seconds'', PInt 1), (''static_rules'', PList [])]),
      (''adaptive'', PDict [(''enabled'', PBool True), (''signature_threshold_per_second'', PInt 1000000),
         (''activation_ttl_seconds'', PInt 10), (''event_log'', PStr events), (''event_cooldown_seconds'', PInt 1)])]"

definition no_filters :: file_content where
  "no_filters = Text_Of (''{'' @ [CHR 0x22] @ ''filters'' @ [CHR 0x22] @ '': []}'' @ [LF])"

definition run_runtime_nofile_capacity_probe :: "startup_env \<Rightarrow> dict result" where
  "run_runtime_nofile_capacity_probe env =
     (let filters = tmp_file env ''runtime-nofile-capacity-filters.json'';
          events = tmp_file env ''runtime-nofile-capacity-events.jsonl'';
          config = tmp_file env ''runtime-nofile-capacity-config.json'';
          cfg = PDict ([(''runtime'', PDict [(''min_nofile'', PInt 1024)]),
                  (''http'', PDict (http_section (loopback (st_port env ''runtime-nofile-capacity-config.json'')) (st_upstream env)
                     [(''preserve_host'', PBool True), (''admin_token'', PStr ''runtime-nofile-capacity-token''),
                      (''upstream_pool_max_idle_per_host'', PInt 512),
                      (''limits'', PDict (high_rates
                        @ [(''max_connections'', PInt 1500), (''max_connections_per_ip'', PInt 1500),
                           (''max_in_flight_requests'', PInt 1000), (''max_in_flight_requests_per_ip'', PInt 1000),
                           (''max_tracked_ips'', PInt 1024)]))]))]
                  @ quiet_sections filters events)
      in rbind (communicate (st_ended env
            [''/bin/sh'', ''-c'',
             ''ulimit -n 1024; exec '' @ [CHR 0x22] @ ''$0'' @ [CHR 0x22] @ '' --config '' @ [CHR 0x22] @ ''$1'' @ [CHR 0x22],
             st_binary env, config]
            [(filters, no_filters), (config, Json_Of cfg)])) (\<lambda>(returncode, err).
          Inr [(''configured_min_nofile'', PInt 1024), (''expected_required_nofile'', PInt 3269),
               (''exit_code'', PInt returncode), (''stderr_tail'', stderr_tail err),
               (''capacity_rejected'', PBool (rejected_with returncode err
                  [''runtime.min_nofile capacity check failed'', ''require at least 3269 file descriptors'']))]))"

definition global_trust_files :: "startup_env \<Rightarrow> (string \<times> file_content) list" where
  "global_trust_files env =
     (let filters = tmp_file env ''trusted-proxy-global-trust-filters.json'';
          events = tmp_file env ''trusted-proxy-global-trust-events.jsonl'';
          file = ''trusted-proxy-global-trust-config.json'';
          cfg = PDict ((''http'', PDict (http_section (''0.0.0.0:'' @ nat_str (st_port env file)) (st_upstream env)
                     [(''preserve_host'', PBool True), (''admin_token'', PStr ''trusted-proxy-global-trust-token''),
                      (''client_ip'', PDict [(''header'', PStr ''x-forwarded-for''),
                         (''trusted_proxies'', PList [PStr ''0.0.0.0/0''])])]))
                  # quiet_sections filters events)
      in [(filters, no_filters), (tmp_file env file, Json_Of cfg)])"

definition run_trusted_proxy_global_trust_startup_probe :: "startup_env \<Rightarrow> dict result" where
  "run_trusted_proxy_global_trust_startup_probe env =
     rbind (start_proxy env ''trusted-proxy-global-trust-config.json'' (global_trust_files env)) (\<lambda>(returncode, err).
       Inr [(''exit_code'', PInt returncode), (''stderr_tail'', stderr_tail err),
            (''global_trusted_proxy_rejected'', PBool (rejected_with returncode err
               [''must not trust all IPv4 peers'', ''non-loopback listener'']))])"

text \<open>A field that must be named in the message together with a fixed text.\<close>

definition field_case :: "string \<Rightarrow> pyval \<Rightarrow> string \<Rightarrow> string \<Rightarrow> startup_case" where
  "field_case file cfg path message =
     \<lparr>case_file = file, case_content = Json_Of cfg, case_fields = [(''configured_field'', PStr path)],
      case_needles = [path, message]\<rparr>"

definition negative_rate_cases :: "startup_env \<Rightarrow> (string \<times> startup_case) list" where
  "negative_rate_cases env =
     [(''http_negative_rate'',
       let file = ''negative-rate-http-config.json''
       in field_case file (http_config env file [(''limits'', PDict [(''per_ip_rps'', PFloat (Fin (- 1)))])])
            ''http.limits.per_ip_rps'' ''must be finite and non-negative''),
      (''tcp_negative_rate'',
       let file = ''negative-rate-tcp-config.json''
       in field_case file (tcp_config env ''negative-rate-tcp'' (loopback (st_port env file))
              [(''limits'', PDict [(''global_connects_per_second'', PFloat (Fin (- 1)))])])
            ''tcp[0].limits.global_connects_per_second'' ''must be finite and non-negative'')]"

definition run_negative_rate_startup_probe :: "startup_env \<Rightarrow> dict result" where
  "run_negative_rate_startup_probe env =
     rbind (run_cases env (negative_rate_cases env)) (\<lambda>cases.
       Inr (case_values cases
            @ map (\<lambda>(name, key, d). (name, dget d ''startup_rejected''))
                (zip [''negative_http_rate_rejected'', ''negative_tcp_rate_rejected''] cases)))"

definition admin_prefix_case :: "startup_env \<Rightarrow> string \<Rightarrow> string \<Rightarrow> string \<Rightarrow> startup_case" where
  "admin_prefix_case env name admin_path_prefix expected_message =
     (let file = ''admin-prefix-'' @ name @ ''-config.json''
      in \<lparr>case_file = file,
          case_content = Json_Of (http_config env file [(''admin_path_prefix'', PStr admin_path_prefix)]),
          case_fields = [(''configured_admin_path_prefix'', PStr admin_path_prefix)],
          case_needles = [''http.admin_path_prefix'', expected_message]\<rparr>)"

definition admin_prefix_cases :: "startup_env \<Rightarrow> (string \<times> startup_case) list" where
  "admin_prefix_cases env =
     [(''root_prefix'', admin_prefix_case env ''root'' ''/'' ''non-root absolute path prefix''),
      (''relative_prefix'', admin_prefix_case env ''relative'' ''admin''
         (''must start with '' @ [CHR 0x27] @ ''/'' @ [CHR 0x27] @ '' and use a non-root absolute path prefix'')),
      (''query_prefix'', admin_prefix_case env ''query'' ''/__altura?debug=true'' ''must not contain query or fragment'')]"

definition run_admin_prefix_startup_probe :: "startup_env \<Rightarrow> dict result" where
  "run_admin_prefix_startup_probe env = rbind (run_cases env (admin_prefix_cases env)) (\<lambda>cases. Inr (case_report cases))"

definition admin_token_case :: "startup_env \<Rightarrow> string \<Rightarrow> string \<Rightarrow> string \<Rightarrow> startup_case" where
  "admin_token_case env name admin_token expected_message =
     (let file = ''admin-token-'' @ name @ ''-config.json''
      in \<lparr>case_file = file, case_content = Json_Of (http_config env file [(''admin_token'', PStr admin_token)]),
          case_fields = [(''configured_admin_token_repr'', PStr (str_repr admin_token))],
          case_needles = [''http.admin_token'', expected_message]\<rparr>)"

definition admin_token_cases :: "startup_env \<Rightarrow> (string \<times> startup_case) list" where
  "admin_token_cases env =
     [(''empty_token'', admin_token_case env ''empty'' [] ''must not be empty''),
      (''blank_token'', admin_token_case env ''blank'' ''   '' ''must not be blank''),
      (''padded_token'', admin_token_case env ''padded'' '' secret'' ''must not start or end with whitespace''),
      (''control_token'', admin_token_case env ''control'' (''line'' @ [LF] @ ''feed'') ''must not contain control characters''),
      (''long_token'', admin_token_case env ''long'' (replicate 257 (CHR ''a'')) ''above configured cap'')]"

definition run_admin_token_startup_probe :: "startup_env \<Rightarrow> dict result" where
  "run_admin_token_startup_probe env = rbind (run_cases env (admin_token_cases env)) (\<lambda>cases. Inr (case_report cases))"

definition zero_http_case :: "startup_env \<Rightarrow> string \<Rightarrow> dict \<Rightarrow> string \<Rightarrow> startup_case" where
  "zero_http_case env name settings path =
     (let file = ''zero-capacity-'' @ name @ ''-config.json''
      in field_case file (http_config env file settings) path ''must be greater than zero'')"

definition zero_capacity_cases :: "startup_env \<Rightarrow> (string \<times> startup_case) list" where
  "zero_capacity_cases env =
     [(''http_connection_cap'', zero_http_case env ''http-connection-cap''
         [(''limits'', PDict [(''max_connections'', PInt 0)])] ''http.limits.max_connections''),
      (''http_metadata_cap'', zero_http_case env ''http-metadata-cap'' [(''max_header_bytes'', PInt 0)]
         ''http.max_header_bytes''),
      (''http_forwarded_cap'', zero_http_case env ''http-forwarded-cap''
         [(''client_ip'', PDict [(''max_forwarded_for_hops'', PInt 0)])] ''http.client_ip.max_forwarded_for_hops''),
      (''http_upstream_connect_timeout'', zero_http_case env ''http-upstream-connect-timeout''
         [(''upstream_connect_timeout_ms'', PInt 0)] ''http.upstream_connect_timeout_ms''),
      (''tcp_connection_cap'',
       let file = ''zero-capacity-tcp-connection-cap-config.json''
       in field_case file (tcp_config env ''zero-capacity-tcp'' (loopback (st_port env file))
              [(''limits'', PDict [(''max_connections'', PInt 0)])])
            ''tcp[0].limits.max_connections'' ''must be greater than zero'')]"

definition run_zero_capacity_startup_probe :: "startup_env \<Rightarrow> dict result" where
  "run_zero_capacity_startup_probe env = rbind (run_cases env (zero_capacity_cases env)) (\<lambda>cases. Inr (case_report cases))"


definition header_floor_case :: "startup_env \<Rightarrow> string \<Rightarrow> string \<Rightarrow> startup_case" where
  "header_floor_case env name field =
     (let file = ''header-buffer-floor-'' @ name @ ''-config.json''; path = ''http.'' @ field
      in \<lparr>case_file = file, case_content = Json_Of (http_config env file [(field, PInt 8191)]),
          case_fields = [(''configured_field'', PStr path), (''configured_value'', PInt 8191), (''minimum_bytes'', PInt 8192)],
          case_needles = [path, ''must be at least 8192'']\<rparr>)"

definition header_buffer_floor_cases :: "startup_env \<Rightarrow> (string \<times> startup_case) list" where
  "header_buffer_floor_cases env =
     [(''downstream_max_header_bytes'', header_floor_case env ''downstream'' ''max_header_bytes''),
      (''upstream_max_header_bytes'', header_floor_case env ''upstream'' ''upstream_max_header_bytes'')]"

definition run_header_buffer_floor_startup_probe :: "startup_env \<Rightarrow> dict result" where
  "run_header_buffer_floor_startup_probe env =
     rbind (run_cases env (header_buffer_floor_cases env)) (\<lambda>cases. Inr (case_report cases))"

definition header_buffer_ceiling_cases :: "startup_env \<Rightarrow> (string \<times> startup_case) list" where
  "header_buffer_ceiling_cases env =
     [(''downstream_max_header_bytes'', http_ceiling_case env ''header-buffer-ceiling-downstream-config.json''
         ''max_header_bytes'' ''maximum_bytes'' HTTP_HEADER_BUFFER_MAX_BYTES),
      (''upstream_max_header_bytes'', http_ceiling_case env ''header-buffer-ceiling-upstream-config.json''
         ''upstream_max_header_bytes'' ''maximum_bytes'' HTTP_HEADER_BUFFER_MAX_BYTES)]"

definition run_header_buffer_ceiling_startup_probe :: "startup_env \<Rightarrow> dict result" where
  "run_header_buffer_ceiling_startup_probe env =
     rbind (run_cases env (header_buffer_ceiling_cases env)) (\<lambda>cases. Inr (case_report cases))"

definition header_count_ceiling_cases :: "startup_env \<Rightarrow> (string \<times> startup_case) list" where
  "header_count_ceiling_cases env =
     [(''downstream_max_headers'', http_ceiling_case env ''header-count-ceiling-downstream-config.json''
         ''max_headers'' ''maximum_headers'' HTTP_HEADER_COUNT_MAX),
      (''upstream_max_headers'', http_ceiling_case env ''header-count-ceiling-upstream-config.json''
         ''upstream_max_headers'' ''maximum_headers'' HTTP_HEADER_COUNT_MAX)]"

definition run_header_count_ceiling_startup_probe :: "startup_env \<Rightarrow> dict result" where
  "run_header_count_ceiling_startup_probe env =
     rbind (run_cases env (header_count_ceiling_cases env)) (\<lambda>cases. Inr (case_report cases))"

text \<open>Cases named after their setting, and the two settings of the client address section.\<close>

definition metadata_case :: "startup_env \<Rightarrow> string \<Rightarrow> string \<Rightarrow> int \<Rightarrow> string \<times> startup_case" where
  "metadata_case env name field cap =
     (field, http_ceiling_case env (''http-metadata-ceiling-'' @ name @ ''.json'') field ''maximum'' cap)"

definition client_ip_case :: "startup_env \<Rightarrow> string \<Rightarrow> string \<Rightarrow> int \<Rightarrow> string \<times> startup_case" where
  "client_ip_case env name field cap =
     (let file = ''http-metadata-ceiling-'' @ name @ ''.json''
      in (field, ceiling_case file (http_config env file [(''client_ip'', PDict [(field, PInt (cap + 1))])])
            (''http.client_ip.'' @ field) ''maximum'' cap))"

definition http_metadata_ceiling_cases :: "startup_env \<Rightarrow> (string \<times> startup_case) list" where
  "http_metadata_ceiling_cases env =
     [metadata_case env ''max-host-bytes'' ''max_host_bytes'' HTTP_HOST_MAX_BYTES_MAX,
      metadata_case env ''max-uri-bytes'' ''max_uri_bytes'' HTTP_REQUEST_TARGET_MAX_BYTES,
      metadata_case env ''max-query-bytes'' ''max_query_bytes'' HTTP_REQUEST_TARGET_MAX_BYTES,
      metadata_case env ''max-query-pairs'' ''max_query_pairs'' HTTP_QUERY_PAIR_COUNT_MAX,
      metadata_case env ''max-path-segments'' ''max_path_segments'' HTTP_PATH_SEGMENT_COUNT_MAX,
      metadata_case env ''max-trailer-bytes'' ''max_trailer_bytes'' HTTP_TRAILER_BYTES_MAX,
      metadata_case env ''max-trailers'' ''max_trailers'' HTTP_TRAILER_COUNT_MAX,
      metadata_case env ''upstream-max-trailer-bytes'' ''upstream_max_trailer_bytes'' HTTP_TRAILER_BYTES_MAX,
      metadata_case env ''upstream-max-trailers'' ''upstream_max_trailers'' HTTP_TRAILER_COUNT_MAX,
      client_ip_case env ''max-forwarded-for-bytes'' ''max_forwarded_for_bytes'' HTTP_FORWARDED_FOR_BYTES_MAX,
      client_ip_case env ''max-forwarded-for-hops'' ''max_forwarded_for_hops'' HTTP_FORWARDED_FOR_HOPS_MAX]"

definition run_http_metadata_ceiling_startup_probe :: "startup_env \<Rightarrow> dict result" where
  "run_http_metadata_ceiling_startup_probe env =
     rbind (run_cases env (http_metadata_ceiling_cases env)) (\<lambda>cases.
       Inr (case_values cases @ [(''all_http_metadata_ceilings_rejected'', all_rejected cases)]))"

text \<open>The probes with a single configuration report the verdict under a second name.\<close>

definition single_report :: "startup_env \<Rightarrow> string \<Rightarrow> startup_case \<Rightarrow> dict result" where
  "single_report env name c = rbind (run_case env c) (\<lambda>d. Inr (d @ [(name, dget d ''startup_rejected'')]))"

definition header_read_timeout_ceiling_case :: "startup_env \<Rightarrow> startup_case" where
  "header_read_timeout_ceiling_case env =
     http_ceiling_case env ''header-read-timeout-ceiling-config.json'' ''header_read_timeout_ms'' ''maximum_ms''
       HTTP_HEADER_READ_TIMEOUT_MAX_MS"

definition run_header_read_timeout_ceiling_startup_probe :: "startup_env \<Rightarrow> dict result" where
  "run_header_read_timeout_ceiling_startup_probe env = single_report env ''header_read_timeout_rejected'' (header_read_timeout_ceiling_case env)"

definition upstream_timeout_ceiling_case :: "startup_env \<Rightarrow> startup_case" where
  "upstream_timeout_ceiling_case env =
     http_ceiling_case env ''upstream-timeout-ceiling-config.json'' ''upstream_timeout_ms'' ''maximum_ms''
       HTTP_UPSTREAM_TIMEOUT_MAX_MS"

definition run_upstream_timeout_ceiling_startup_probe :: "startup_env \<Rightarrow> dict result" where
  "run_upstream_timeout_ceiling_startup_probe env = single_report env ''upstream_timeout_rejected'' (upstream_timeout_ceiling_case env)"

definition upstream_failure_circuit_ceiling_cases :: "startup_env \<Rightarrow> (string \<times> startup_case) list" where
  "upstream_failure_circuit_ceiling_cases env =
     [(''upstream_failure_threshold'',
       http_ceiling_case env ''upstream-failure-circuit-ceiling-upstream_failure_threshold.json''
         ''upstream_failure_threshold'' ''maximum_failures'' HTTP_UPSTREAM_FAILURE_THRESHOLD_MAX),
      (''upstream_failure_open_ms'',
       http_ceiling_case env ''upstream-failure-circuit-ceiling-upstream_failure_open_ms.json''
         ''upstream_failure_open_ms'' ''maximum_ms'' HTTP_UPSTREAM_FAILURE_OPEN_MAX_MS)]"

definition run_upstream_failure_circuit_ceiling_startup_probe :: "startup_env \<Rightarrow> dict result" where
  "run_upstream_failure_circuit_ceiling_startup_probe env =
     rbind (run_cases env (upstream_failure_circuit_ceiling_cases env)) (\<lambda>cases. Inr (case_report cases))"

definition stream_timeout_case :: "startup_env \<Rightarrow> string \<Rightarrow> int \<Rightarrow> string \<times> startup_case" where
  "stream_timeout_case env key cap =
     (key, http_ceiling_case env (''http-stream-timeout-ceiling-'' @ key @ ''_ms.json'') (key @ ''_ms'') ''maximum_ms'' cap)"

definition http_stream_timeout_ceiling_cases :: "startup_env \<Rightarrow> (string \<times> startup_case) list" where
  "http_stream_timeout_ceiling_cases env =
     [stream_timeout_case env ''downstream_write_timeout'' HTTP_DOWNSTREAM_WRITE_TIMEOUT_MAX_MS,
      stream_timeout_case env ''request_body_idle_timeout'' HTTP_BODY_IDLE_TIMEOUT_MAX_MS,
      stream_timeout_case env ''upstream_body_idle_timeout'' HTTP_BODY_IDLE_TIMEOUT_MAX_MS,
      stream_timeout_case env ''request_body_min_rate_grace'' HTTP_BODY_MIN_RATE_GRACE_MAX_MS,
      stream_timeout_case env ''upstream_body_min_rate_grace'' HTTP_BODY_MIN_RATE_GRACE_MAX_MS]"

definition run_http_stream_timeout_ceiling_startup_probe :: "startup_env \<Rightarrow> dict result" where
  "run_http_stream_timeout_ceiling_startup_probe env =
     rbind (run_cases env (http_stream_timeout_ceiling_cases env)) (\<lambda>cases. Inr (case_report cases))"

definition body_size_ceiling_cases :: "startup_env \<Rightarrow> (string \<times> startup_case) list" where
  "body_size_ceiling_cases env =
     [(''max_body_bytes'', http_ceiling_case env ''body-size-ceiling-max_body_bytes.json'' ''max_body_bytes''
         ''maximum_bytes'' HTTP_MAX_BODY_BYTES_MAX),
      (''max_upstream_body_bytes'', http_ceiling_case env ''body-size-ceiling-max_upstream_body_bytes.json''
         ''max_upstream_body_bytes'' ''maximum_bytes'' HTTP_MAX_UPSTREAM_BODY_BYTES_MAX)]"

definition run_body_size_ceiling_startup_probe :: "startup_env \<Rightarrow> dict result" where
  "run_body_size_ceiling_startup_probe env =
     rbind (run_cases env (body_size_ceiling_cases env)) (\<lambda>cases. Inr (case_report cases))"

text \<open>A setting of the first TCP listener one above its ceiling.\<close>

definition tcp_ceiling_case :: "startup_env \<Rightarrow> string \<Rightarrow> string \<Rightarrow> string \<Rightarrow> string \<Rightarrow> int \<Rightarrow> startup_case" where
  "tcp_ceiling_case env file name field maximum_key cap =
     ceiling_case file (tcp_config env name (loopback (st_port env file)) [(field, PInt (cap + 1))])
       (''tcp[0].'' @ field) maximum_key cap"

definition min_rate_ceiling_cases :: "startup_env \<Rightarrow> (string \<times> startup_case) list" where
  "min_rate_ceiling_cases env =
     [(''http_request_body_min_rate'', http_ceiling_case env ''min-rate-ceiling-http-request.json''
         ''request_body_min_rate_bytes_per_second'' ''maximum_bytes_per_second'' HTTP_BODY_MIN_RATE_BYTES_PER_SECOND_MAX),
      (''http_upstream_body_min_rate'', http_ceiling_case env ''min-rate-ceiling-http-upstream.json''
         ''upstream_body_min_rate_bytes_per_second'' ''maximum_bytes_per_second'' HTTP_BODY_MIN_RATE_BYTES_PER_SECOND_MAX),
      (''tcp_downstream_min_rate'', tcp_ceiling_case env ''min-rate-ceiling-tcp-downstream.json''
         ''tcp-downstream-min-rate-ceiling'' ''downstream_min_rate_bytes_per_second'' ''maximum_bytes_per_second''
         TCP_MIN_RATE_BYTES_PER_SECOND_MAX),
      (''tcp_upstream_min_rate'', tcp_ceiling_case env ''min-rate-ceiling-tcp-upstream.json''
         ''tcp-upstream-min-rate-ceiling'' ''upstream_min_rate_bytes_per_second'' ''maximum_bytes_per_second''
         TCP_MIN_RATE_BYTES_PER_SECOND_MAX)]"

definition run_min_rate_ceiling_startup_probe :: "startup_env \<Rightarrow> dict result" where
  "run_min_rate_ceiling_startup_probe env =
     rbind (run_cases env (min_rate_ceiling_cases env)) (\<lambda>cases.
       Inr (case_report cases @ [(''all_min_rate_ceilings_rejected'', all_rejected cases)]))"

definition upstream_idle_pool_ceiling_cases :: "startup_env \<Rightarrow> (string \<times> startup_case) list" where
  "upstream_idle_pool_ceiling_cases env =
     [(''upstream_pool_idle_timeout'', http_ceiling_case env ''upstream-idle-pool-ceiling-upstream_pool_idle_timeout_ms.json''
         ''upstream_pool_idle_timeout_ms'' ''maximum_ms'' HTTP_UPSTREAM_POOL_IDLE_TIMEOUT_MAX_MS),
      (''upstream_pool_max_idle_per_host'', http_ceiling_case env
         ''upstream-idle-pool-ceiling-upstream_pool_max_idle_per_host.json'' ''upstream_pool_max_idle_per_host''
         ''maximum_connections'' HTTP_UPSTREAM_POOL_MAX_IDLE_PER_HOST_MAX)]"

definition run_upstream_idle_pool_ceiling_startup_probe :: "startup_env \<Rightarrow> dict result" where
  "run_upstream_idle_pool_ceiling_startup_probe env =
     rbind (run_cases env (upstream_idle_pool_ceiling_cases env)) (\<lambda>cases. Inr (case_report cases))"

definition connect_timeout_ceiling_cases :: "startup_env \<Rightarrow> (string \<times> startup_case) list" where
  "connect_timeout_ceiling_cases env =
     [(''http_upstream_connect_timeout'', http_ceiling_case env ''connect-timeout-ceiling-http.json''
         ''upstream_connect_timeout_ms'' ''maximum_ms'' HTTP_UPSTREAM_CONNECT_TIMEOUT_MAX_MS),
      (''tcp_connect_timeout'', tcp_ceiling_case env ''connect-timeout-ceiling-tcp.json'' ''connect-timeout-ceiling''
         ''connect_timeout_ms'' ''maximum_ms'' TCP_CONNECT_TIMEOUT_MAX_MS)]"

definition run_connect_timeout_ceiling_startup_probe :: "startup_env \<Rightarrow> dict result" where
  "run_connect_timeout_ceiling_startup_probe env =
     rbind (run_cases env (connect_timeout_ceiling_cases env)) (\<lambda>cases. Inr (case_report cases))"

definition connection_duration_ceiling_cases :: "startup_env \<Rightarrow> (string \<times> startup_case) list" where
  "connection_duration_ceiling_cases env =
     [(''http_max_connection_duration'', http_ceiling_case env ''connection-duration-ceiling-http.json''
         ''max_connection_duration_seconds'' ''maximum_seconds'' HTTP_MAX_CONNECTION_DURATION_MAX_SECONDS),
      (''tcp_max_connection_duration'', tcp_ceiling_case env ''connection-duration-ceiling-tcp.json'' ''duration-ceiling''
         ''max_connection_duration_seconds'' ''maximum_seconds'' TCP_MAX_CONNECTION_DURATION_MAX_SECONDS)]"

definition run_connection_duration_ceiling_startup_probe :: "startup_env \<Rightarrow> dict result" where
  "run_connection_duration_ceiling_startup_probe env =
     rbind (run_cases env (connection_duration_ceiling_cases env)) (\<lambda>cases. Inr (case_report cases))"

definition connection_request_count_ceiling_case :: "startup_env \<Rightarrow> startup_case" where
  "connection_request_count_ceiling_case env =
     http_ceiling_case env ''connection-request-count-ceiling-config.json'' ''max_requests_per_connection''
       ''maximum_requests'' HTTP_MAX_REQUESTS_PER_CONNECTION_MAX"

definition run_connection_request_count_ceiling_startup_probe :: "startup_env \<Rightarrow> dict result" where
  "run_connection_request_count_ceiling_startup_probe env = single_report env ''max_requests_per_connection_rejected'' (connection_request_count_ceiling_case env)"

definition adaptive_config :: "string \<Rightarrow> int \<Rightarrow> pyval" where
  "adaptive_config field n = PDict [(''adaptive'', PDict [(field, PInt n)])]"

definition filters_config :: "string \<Rightarrow> int \<Rightarrow> pyval" where
  "filters_config field n = PDict [(''filters'', PDict [(field, PInt n)])]"

definition event_log_backup_count_ceiling_case :: "startup_env \<Rightarrow> startup_case" where
  "event_log_backup_count_ceiling_case env =
     ceiling_case ''event-log-backup-count-ceiling-config.json''
       (adaptive_config ''event_log_backup_count'' (EVENT_LOG_BACKUP_COUNT_MAX + 1))
       ''adaptive.event_log_backup_count'' ''maximum_backups'' EVENT_LOG_BACKUP_COUNT_MAX"

definition run_event_log_backup_count_ceiling_startup_probe :: "startup_env \<Rightarrow> dict result" where
  "run_event_log_backup_count_ceiling_startup_probe env = single_report env ''event_log_backup_count_rejected'' (event_log_backup_count_ceiling_case env)"

definition event_log_queue_capacity_ceiling_case :: "startup_env \<Rightarrow> startup_case" where
  "event_log_queue_capacity_ceiling_case env =
     ceiling_case ''event-log-queue-capacity-ceiling-config.json''
       (adaptive_config ''event_log_queue_capacity'' (EVENT_LOG_QUEUE_CAPACITY_MAX + 1))
       ''adaptive.event_log_queue_capacity'' ''maximum_events'' EVENT_LOG_QUEUE_CAPACITY_MAX"

definition run_event_log_queue_capacity_ceiling_startup_probe :: "startup_env \<Rightarrow> dict result" where
  "run_event_log_queue_capacity_ceiling_startup_probe env = single_report env ''event_log_queue_capacity_rejected'' (event_log_queue_capacity_ceiling_case env)"


definition dynamic_case :: "string \<Rightarrow> pyval \<Rightarrow> string \<Rightarrow> int \<Rightarrow> startup_case" where
  "dynamic_case name cfg expected_path cap =
     \<lparr>case_file = ''dynamic-state-ceiling-'' @ name @ ''-config.json'', case_content = Json_Of cfg,
      case_fields = [(''configured_field'', PStr expected_path), (''configured_ceiling'', PInt cap)],
      case_needles = ceiling_needles expected_path cap\<rparr>"

definition dynamic_http_config :: "startup_env \<Rightarrow> dict \<Rightarrow> pyval" where
  "dynamic_http_config env limits =
     PDict [(''http'', PDict (http_section ''127.0.0.1:0'' (st_upstream env) [(''limits'', PDict limits)]))]"

definition dynamic_state_ceiling_cases :: "startup_env \<Rightarrow> (string \<times> startup_case) list" where
  "dynamic_state_ceiling_cases env =
     [(''filter_runtime_file_bytes'', dynamic_case ''filter-runtime-file-bytes''
         (filters_config ''max_runtime_file_bytes'' (FILTER_RUNTIME_FILE_MAX_BYTES_MAX + 1))
         ''filters.max_runtime_file_bytes'' FILTER_RUNTIME_FILE_MAX_BYTES_MAX),
      (''filter_runtime_filters'', dynamic_case ''filter-runtime-filters''
         (filters_config ''max_runtime_filters'' (FILTER_RULE_COUNT_MAX + 1))
         ''filters.max_runtime_filters'' FILTER_RULE_COUNT_MAX),
      (''filter_static_filters'', dynamic_case ''filter-static-filters''
         (filters_config ''max_static_filters'' (FILTER_RULE_COUNT_MAX + 1))
         ''filters.max_static_filters'' FILTER_RULE_COUNT_MAX),
      (''static_filter_ttl_seconds'', dynamic_case ''static-filter-ttl-seconds''
         (PDict [(''filters'', PDict [(''static_rules'', PList [PDict [(''id'', PStr ''ttl''),
            (''ttl_seconds'', PInt (FILTER_TTL_MAX_SECONDS + 1)),
            (''condition'', PDict [(''path_exact'', PStr ''/blocked'')])]])])])
         ''filters.static_rules[0].ttl_seconds'' FILTER_TTL_MAX_SECONDS),
      (''adaptive_activation_ttl_seconds'', dynamic_case ''adaptive-activation-ttl-seconds''
         (adaptive_config ''activation_ttl_seconds'' (FILTER_TTL_MAX_SECONDS + 1))
         ''adaptive.activation_ttl_seconds'' FILTER_TTL_MAX_SECONDS),
      (''adaptive_event_log_max_bytes'', dynamic_case ''adaptive-event-log-max-bytes''
         (adaptive_config ''event_log_max_bytes'' (ADAPTIVE_EVENT_LOG_MAX_BYTES_MAX + 1))
         ''adaptive.event_log_max_bytes'' ADAPTIVE_EVENT_LOG_MAX_BYTES_MAX),
      (''adaptive_signature_windows'', dynamic_case ''adaptive-signature-windows''
         (adaptive_config ''max_signature_windows'' (ADAPTIVE_WINDOW_COUNT_MAX + 1))
         ''adaptive.max_signature_windows'' ADAPTIVE_WINDOW_COUNT_MAX),
      (''adaptive_path_shape_windows'', dynamic_case ''adaptive-path-shape-windows''
         (adaptive_config ''max_path_shape_windows'' (ADAPTIVE_WINDOW_COUNT_MAX + 1))
         ''adaptive.max_path_shape_windows'' ADAPTIVE_WINDOW_COUNT_MAX),
      (''http_max_tracked_ips'', dynamic_case ''http-max-tracked-ips''
         (dynamic_http_config env [(''max_tracked_ips'', PInt (LIMITER_MAX_TRACKED_IPS_MAX + 1))])
         ''http.limits.max_tracked_ips'' LIMITER_MAX_TRACKED_IPS_MAX),
      (''http_max_tracked_signatures'', dynamic_case ''http-max-tracked-signatures''
         (dynamic_http_config env [(''max_tracked_signatures'', PInt (LIMITER_MAX_TRACKED_SIGNATURES_MAX + 1))])
         ''http.limits.max_tracked_signatures'' LIMITER_MAX_TRACKED_SIGNATURES_MAX),
      (''http_max_tracked_path_shapes'', dynamic_case ''http-max-tracked-path-shapes''
         (dynamic_http_config env [(''max_tracked_path_shapes'', PInt (LIMITER_MAX_TRACKED_PATH_SHAPES_MAX + 1))])
         ''http.limits.max_tracked_path_shapes'' LIMITER_MAX_TRACKED_PATH_SHAPES_MAX),
      (''tcp_max_tracked_ips'', dynamic_case ''tcp-max-tracked-ips''
         (tcp_config env ''dynamic-state-ceiling-tcp'' ''127.0.0.1:0''
            [(''limits'', PDict [(''max_tracked_ips'', PInt (LIMITER_MAX_TRACKED_IPS_MAX + 1))])])
         ''tcp[0].limits.max_tracked_ips'' LIMITER_MAX_TRACKED_IPS_MAX)]"

definition run_dynamic_state_ceiling_startup_probe :: "startup_env \<Rightarrow> dict result" where
  "run_dynamic_state_ceiling_startup_probe env =
     rbind (run_cases env (dynamic_state_ceiling_cases env)) (\<lambda>cases.
       Inr (case_values cases @ [(''all_dynamic_state_ceilings_rejected'', all_rejected cases)]))"

definition control_case :: "string \<Rightarrow> pyval \<Rightarrow> string \<Rightarrow> startup_case" where
  "control_case name cfg expected_path =
     field_case (''control-capacity-'' @ name @ ''-config.json'') cfg expected_path ''must be greater than zero''"

definition control_capacity_cases :: "(string \<times> startup_case) list" where
  "control_capacity_cases =
     [(''filter_file_cap'', control_case ''filter-file-cap'' (filters_config ''max_runtime_file_bytes'' 0)
         ''filters.max_runtime_file_bytes''),
      (''filter_rule_cap'', control_case ''filter-rule-cap'' (filters_config ''max_runtime_filters'' 0)
         ''filters.max_runtime_filters''),
      (''adaptive_log_cap'', control_case ''adaptive-log-cap'' (adaptive_config ''event_log_max_bytes'' 0)
         ''adaptive.event_log_max_bytes''),
      (''adaptive_queue_cap'', control_case ''adaptive-queue-cap'' (adaptive_config ''event_log_queue_capacity'' 0)
         ''adaptive.event_log_queue_capacity''),
      (''adaptive_flush_interval'', control_case ''adaptive-flush-interval''
         (adaptive_config ''event_log_flush_interval_ms'' 0) ''adaptive.event_log_flush_interval_ms''),
      (''adaptive_window_cap'', control_case ''adaptive-window-cap'' (adaptive_config ''max_signature_windows'' 0)
         ''adaptive.max_signature_windows'')]"

definition run_control_capacity_startup_probe :: "startup_env \<Rightarrow> dict result" where
  "run_control_capacity_startup_probe env =
     rbind (run_cases env control_capacity_cases) (\<lambda>cases. Inr (case_report cases))"

text \<open>Cases reported with the path of the configuration, or with what was configured, and one expected text.\<close>

definition path_case :: "startup_env \<Rightarrow> string \<Rightarrow> file_content \<Rightarrow> string \<Rightarrow> startup_case" where
  "path_case env file content expected_text =
     \<lparr>case_file = file, case_content = content, case_fields = [(''config_path'', PStr (tmp_file env file))],
      case_needles = [expected_text]\<rparr>"

definition config_file_cases :: "startup_env \<Rightarrow> (string \<times> startup_case) list" where
  "config_file_cases env =
     [(''oversized_config'', path_case env ''oversized-startup-config.json''
         (Json_Of (PDict [(''padding'', PStr (replicate (1024 * 1024 + 1024) (CHR ''x'')))])) ''above configured cap''),
      (''non_regular_config'', path_case env ''non-regular-startup-config.json'' Directory ''must be a regular file'')]"

definition run_config_file_startup_probe :: "startup_env \<Rightarrow> dict result" where
  "run_config_file_startup_probe env = rbind (run_cases env (config_file_cases env)) (\<lambda>cases. Inr (case_report cases))"

definition http_endpoint_case :: "startup_env \<Rightarrow> string \<Rightarrow> string \<Rightarrow> string \<Rightarrow> startup_case" where
  "http_endpoint_case env name upstream expected_text =
     (let file = ''http-endpoint-'' @ name @ ''-config.json'';
          http_cfg = PDict [(''listen'', PStr (if name = ''invalid-listen'' then ''not-a-socket''
                               else loopback (st_port env file))), (''upstream'', PStr upstream)]
      in \<lparr>case_file = file, case_content = Json_Of (PDict [(''http'', http_cfg), (''tcp'', PList [])]),
          case_fields = [(''configured'', http_cfg)], case_needles = [expected_text]\<rparr>)"

definition http_endpoint_cases :: "startup_env \<Rightarrow> (string \<times> startup_case) list" where
  "http_endpoint_cases env =
     [(''invalid_listen'', http_endpoint_case env ''invalid-listen'' (''http://'' @ loopback (st_upstream env))
         ''invalid http.listen address''),
      (''missing_upstream_scheme'', http_endpoint_case env ''missing-scheme'' ''127.0.0.1:1''
         ''http.upstream must include http:// scheme''),
      (''https_upstream_scheme'', http_endpoint_case env ''https-scheme'' ''https://127.0.0.1:1''
         ''http.upstream must use http:// scheme''),
      (''upstream_userinfo'', http_endpoint_case env ''userinfo'' ''http://user@127.0.0.1:1''
         ''http.upstream must not contain URI userinfo''),
      (''upstream_query'', http_endpoint_case env ''query'' ''http://127.0.0.1:1/base?x=1''
         ''http.upstream must not include a query string'')]"

definition run_http_endpoint_startup_probe :: "startup_env \<Rightarrow> dict result" where
  "run_http_endpoint_startup_probe env = rbind (run_cases env (http_endpoint_cases env)) (\<lambda>cases. Inr (case_report cases))"

definition tcp_endpoint_case :: "startup_env \<Rightarrow> string \<Rightarrow> string \<Rightarrow> string \<Rightarrow> startup_case" where
  "tcp_endpoint_case env name upstream expected_text =
     (let file = ''tcp-endpoint-'' @ name @ ''-config.json'';
          tcp_cfg = PDict [(''name'', PStr ''tcp''),
                      (''listen'', PStr (if name = ''invalid-listen'' then ''not-a-socket''
                         else loopback (st_port env file))), (''upstream'', PStr upstream)]
      in \<lparr>case_file = file, case_content = Json_Of (PDict [(''tcp'', PList [tcp_cfg])]),
          case_fields = [(''configured'', tcp_cfg)], case_needles = [expected_text]\<rparr>)"

definition tcp_endpoint_cases :: "startup_env \<Rightarrow> (string \<times> startup_case) list" where
  "tcp_endpoint_cases env =
     [(''invalid_listen'', tcp_endpoint_case env ''invalid-listen'' ''127.0.0.1:1'' ''invalid tcp[0].listen address''),
      (''missing_upstream_port'', tcp_endpoint_case env ''missing-port'' ''127.0.0.1''
         ''tcp[0].upstream must include a numeric port''),
      (''upstream_scheme'', tcp_endpoint_case env ''scheme'' ''http://127.0.0.1:1''
         ''tcp[0].upstream must be host:port without a URL scheme''),
      (''upstream_userinfo'', tcp_endpoint_case env ''userinfo'' ''user@127.0.0.1:1''
         ''tcp[0].upstream must not contain URI userinfo''),
      (''upstream_path'', tcp_endpoint_case env ''path'' ''127.0.0.1:1/base''
         ''tcp[0].upstream must not include a path, query, or fragment''),
      (''upstream_zero_port'', tcp_endpoint_case env ''zero-port'' ''127.0.0.1:0''
         ''tcp[0].upstream port must be greater than zero'')]"

definition run_tcp_endpoint_startup_probe :: "startup_env \<Rightarrow> dict result" where
  "run_tcp_endpoint_startup_probe env = rbind (run_cases env (tcp_endpoint_cases env)) (\<lambda>cases. Inr (case_report cases))"


definition filter_rule_case :: "startup_env \<Rightarrow> string \<Rightarrow> dict \<Rightarrow> string \<Rightarrow> startup_case" where
  "filter_rule_case env name filters expected_text =
     path_case env (''filter-rule-'' @ name @ ''-config.json'') (Json_Of (PDict [(''filters'', PDict filters)])) expected_text"

definition path_rule :: "string \<Rightarrow> string \<Rightarrow> dict \<Rightarrow> pyval" where
  "path_rule rule_id path settings =
     PDict ([(''id'', PStr rule_id), (''condition'', PDict [(''path_exact'', PStr path)])] @ settings)"

definition block_with :: "int \<Rightarrow> string \<Rightarrow> dict" where
  "block_with status body =
     [(''action'', PDict [(''kind'', PStr ''block''), (''status'', PInt status), (''body'', PStr body)])]"

definition filter_rule_cases :: "startup_env \<Rightarrow> (string \<times> startup_case) list" where
  "filter_rule_cases env =
     [(''too_many_static_filters'', filter_rule_case env ''static-count''
         [(''max_static_filters'', PInt 1),
          (''static_rules'', PList [path_rule ''one'' ''/one'' [], path_rule ''two'' ''/two'' []])]
         ''filters.static_rules contains 2 filters''),
      (''empty_condition'', filter_rule_case env ''empty-condition''
         [(''static_rules'', PList [PDict [(''id'', PStr ''catchall'')]])]
         ''filters.static_rules[0].condition must include at least one matcher''),
      (''invalid_status'', filter_rule_case env ''invalid-status''
         [(''static_rules'', PList [path_rule ''invalid-status'' ''/bad'' (block_with 200 (''blocked'' @ [LF]))])]
         ''filters.static_rules[0].action.status''),
      (''oversized_body'', filter_rule_case env ''oversized-body''
         [(''static_rules'', PList [path_rule ''oversized-body'' ''/bad'' (block_with 403 (replicate 2048 (CHR ''x'')))])]
         ''filters.static_rules[0].action.body'')]"

definition run_filter_rule_startup_probe :: "startup_env \<Rightarrow> dict result" where
  "run_filter_rule_startup_probe env = rbind (run_cases env (filter_rule_cases env)) (\<lambda>cases. Inr (case_report cases))"

definition quoted :: "string \<Rightarrow> string" where
  "quoted s = [CHR 0x27] @ s @ [CHR 0x27]"

definition methods_case :: "startup_env \<Rightarrow> string \<Rightarrow> string list \<Rightarrow> string \<Rightarrow> startup_case" where
  "methods_case env name methods expected_text =
     (let file = ''allowed-methods-'' @ name @ ''-config.json''
      in \<lparr>case_file = file,
          case_content = Json_Of (http_config env file [(''allowed_methods'', PList (map PStr methods))]),
          case_fields = [(''configured_allowed_methods'', PList (map PStr methods))], case_needles = [expected_text]\<rparr>)"

definition unsupported_method_case :: "startup_env \<Rightarrow> string \<Rightarrow> string \<Rightarrow> startup_case" where
  "unsupported_method_case env name method =
     methods_case env name [''GET'', method]
       (''http.allowed_methods[1] must not include unsupported tunnel or diagnostic method '' @ quoted method)"

definition allowed_methods_cases :: "startup_env \<Rightarrow> (string \<times> startup_case) list" where
  "allowed_methods_cases env =
     [(''empty'', methods_case env ''empty'' [] ''http.allowed_methods must contain at least one method''),
      (''invalid_token'', methods_case env ''invalid-token'' [''BAD METHOD'']
         ''http.allowed_methods[0] is not a valid HTTP method token''),
      (''oversized_token'', methods_case env ''oversized-token'' [replicate 33 (CHR ''A'')]
         ''http.allowed_methods[0] is 33 bytes''),
      (''duplicate'', methods_case env ''duplicate'' [''GET'', ''GET'']
         (''http.allowed_methods[1] duplicates '' @ quoted ''GET'')),
      (''unsupported_connect'', unsupported_method_case env ''unsupported-connect'' ''CONNECT''),
      (''unsupported_trace'', unsupported_method_case env ''unsupported-trace'' ''TRACE''),
      (''unsupported_track'', unsupported_method_case env ''unsupported-track'' ''TRACK''),
      (''too_many'', methods_case env ''too-many'' (map (\<lambda>i. ''M'' @ nat_str i) [0..<17])
         ''http.allowed_methods contains 17 methods'')]"

definition run_allowed_methods_startup_probe :: "startup_env \<Rightarrow> dict result" where
  "run_allowed_methods_startup_probe env =
     rbind (run_cases env (allowed_methods_cases env)) (\<lambda>cases. Inr (case_report cases))"

definition hosts_case :: "startup_env \<Rightarrow> string \<Rightarrow> string list \<Rightarrow> string \<Rightarrow> int option \<Rightarrow> startup_case" where
  "hosts_case env name allowed_hosts expected_text max_host_bytes =
     (let file = ''allowed-hosts-'' @ name @ ''-config.json''
      in \<lparr>case_file = file,
          case_content = Json_Of (http_config env file ((''allowed_hosts'', PList (map PStr allowed_hosts))
            # (case max_host_bytes of None \<Rightarrow> [] | Some n \<Rightarrow> [(''max_host_bytes'', PInt n)]))),
          case_fields = [(''configured_allowed_hosts'', PList (map PStr allowed_hosts)),
            (''configured_max_host_bytes'', case max_host_bytes of None \<Rightarrow> PNone | Some n \<Rightarrow> PInt n)],
          case_needles = [expected_text]\<rparr>)"

definition allowed_hosts_cases :: "startup_env \<Rightarrow> (string \<times> startup_case) list" where
  "allowed_hosts_cases env =
     [(''blank'', hosts_case env ''blank'' [[]] ''http.allowed_hosts[0] must not be empty'' None),
      (''whitespace'', hosts_case env ''whitespace'' ['' good.local'']
         ''http.allowed_hosts[0] must not start or end with whitespace'' None),
      (''invalid_authority'', hosts_case env ''invalid-authority'' [''http://good.local'']
         ''http.allowed_hosts[0] is not a valid HTTP authority'' None),
      (''userinfo'', hosts_case env ''userinfo'' [''user@good.local'']
         ''http.allowed_hosts[0] must not contain URI userinfo'' None),
      (''wildcard'', hosts_case env ''wildcard'' [''*.good.local'']
         ''http.allowed_hosts[0] must be an exact host or host:port'' None),
      (''oversized'', hosts_case env ''oversized'' [''too-long.local'']
         ''http.allowed_hosts[0] is 14 bytes, above configured cap of 8 bytes'' (Some 8)),
      (''duplicate'', hosts_case env ''duplicate'' [''good.local'', ''GOOD.local'']
         (''http.allowed_hosts[1] duplicates '' @ quoted ''GOOD.local'') None),
      (''too_many'', hosts_case env ''too-many'' (map (\<lambda>i. ''h'' @ nat_str i @ ''.good.local'') [0..<129])
         ''http.allowed_hosts contains 129 hosts'' None)]"

definition run_allowed_hosts_startup_probe :: "startup_env \<Rightarrow> dict result" where
  "run_allowed_hosts_startup_probe env =
     rbind (run_cases env (allowed_hosts_cases env)) (\<lambda>cases. Inr (case_report cases))"

definition client_ip_config_case :: "startup_env \<Rightarrow> string \<Rightarrow> dict \<Rightarrow> string \<Rightarrow> startup_case" where
  "client_ip_config_case env name client_ip expected_text =
     (let file = ''client-ip-config-'' @ name @ ''.json''
      in \<lparr>case_file = file, case_content = Json_Of (http_config env file [(''client_ip'', PDict client_ip)]),
          case_fields = [(''configured_client_ip'', PDict client_ip)], case_needles = [expected_text]\<rparr>)"

definition trusted_proxies :: "string list \<Rightarrow> dict" where
  "trusted_proxies nets = [(''trusted_proxies'', PList (map PStr nets))]"

definition client_ip_config_cases :: "startup_env \<Rightarrow> (string \<times> startup_case) list" where
  "client_ip_config_cases env =
     [(''invalid_header'', client_ip_config_case env ''invalid-header'' [(''header'', PStr ''bad header'')]
         ''http.client_ip.header is not a valid HTTP field name''),
      (''oversized_header'', client_ip_config_case env ''oversized-header''
         [(''header'', PStr (''x-'' @ replicate 63 (CHR ''a'')))] ''http.client_ip.header is 65 bytes''),
      (''blank_trusted_proxy'', client_ip_config_case env ''blank-trusted-proxy'' (trusted_proxies [[]])
         ''http.client_ip.trusted_proxies[0] must not be empty''),
      (''invalid_trusted_proxy'', client_ip_config_case env ''invalid-trusted-proxy'' (trusted_proxies [''not-a-cidr''])
         (''invalid http.client_ip.trusted_proxies entry '' @ quoted ''not-a-cidr'')),
      (''oversized_trusted_proxy'', client_ip_config_case env ''oversized-trusted-proxy''
         (trusted_proxies [replicate 65 (CHR ''1'')]) ''http.client_ip.trusted_proxies[0] is 65 bytes''),
      (''duplicate_trusted_proxy'', client_ip_config_case env ''duplicate-trusted-proxy''
         (trusted_proxies [''127.0.0.1/32'', ''127.0.0.1/32''])
         (''http.client_ip.trusted_proxies[1] duplicates '' @ quoted ''127.0.0.1/32'')),
      (''too_many_trusted_proxies'', client_ip_config_case env ''too-many-trusted-proxies''
         (trusted_proxies (map (\<lambda>i. ''2001:db8::'' @ nat_str i) [0..<129]))
         ''http.client_ip.trusted_proxies contains 129 entries'')]"

definition run_client_ip_config_startup_probe :: "startup_env \<Rightarrow> dict result" where
  "run_client_ip_config_startup_probe env =
     rbind (run_cases env (client_ip_config_cases env)) (\<lambda>cases. Inr (case_report cases))"

text \<open>The startup probes in the order \<open>main\<close> runs them, under the names they have among the guardrails.\<close>

definition startup_probes :: "(string \<times> (startup_env \<Rightarrow> dict result)) list" where
  "startup_probes =
     [(''trusted_proxy_global_trust_startup'', run_trusted_proxy_global_trust_startup_probe),
      (''negative_rate_startup'', run_negative_rate_startup_probe),
      (''admin_prefix_startup'', run_admin_prefix_startup_probe),
      (''admin_token_startup'', run_admin_token_startup_probe),
      (''zero_capacity_startup'', run_zero_capacity_startup_probe),
      (''header_buffer_floor_startup'', run_header_buffer_floor_startup_probe),
      (''header_buffer_ceiling_startup'', run_header_buffer_ceiling_startup_probe),
      (''header_count_ceiling_startup'', run_header_count_ceiling_startup_probe),
      (''http_metadata_ceiling_startup'', run_http_metadata_ceiling_startup_probe),
      (''header_read_timeout_ceiling_startup'', run_header_read_timeout_ceiling_startup_probe),
      (''upstream_timeout_ceiling_startup'', run_upstream_timeout_ceiling_startup_probe),
      (''upstream_failure_circuit_ceiling_startup'', run_upstream_failure_circuit_ceiling_startup_probe),
      (''http_stream_timeout_ceiling_startup'', run_http_stream_timeout_ceiling_startup_probe),
      (''body_size_ceiling_startup'', run_body_size_ceiling_startup_probe),
      (''min_rate_ceiling_startup'', run_min_rate_ceiling_startup_probe),
      (''upstream_idle_pool_ceiling_startup'', run_upstream_idle_pool_ceiling_startup_probe),
      (''connect_timeout_ceiling_startup'', run_connect_timeout_ceiling_startup_probe),
      (''connection_duration_ceiling_startup'', run_connection_duration_ceiling_startup_probe),
      (''connection_request_count_ceiling_startup'', run_connection_request_count_ceiling_startup_probe),
      (''event_log_backup_count_ceiling_startup'', run_event_log_backup_count_ceiling_startup_probe),
      (''event_log_queue_capacity_ceiling_startup'', run_event_log_queue_capacity_ceiling_startup_probe),
      (''dynamic_state_ceiling_startup'', run_dynamic_state_ceiling_startup_probe),
      (''control_capacity_startup'', run_control_capacity_startup_probe),
      (''config_file_startup'', run_config_file_startup_probe),
      (''http_endpoint_startup'', run_http_endpoint_startup_probe),
      (''tcp_endpoint_startup'', run_tcp_endpoint_startup_probe),
      (''filter_rule_startup'', run_filter_rule_startup_probe),
      (''allowed_methods_startup'', run_allowed_methods_startup_probe),
      (''allowed_hosts_startup'', run_allowed_hosts_startup_probe),
      (''client_ip_config_startup'', run_client_ip_config_startup_probe)]"

definition startup_guardrails :: "startup_env \<Rightarrow> dict result" where
  "startup_guardrails env = rmap (\<lambda>(name, probe). rbind (probe env) (\<lambda>d. Inr (name, PDict d))) startup_probes"


section \<open>What the verdicts mean\<close>

text \<open>
  A start of the proxy: the name of the configuration file, the files written for it and the texts its error output
  must have.  It is refused when the process ends with a non-zero status and all these texts.
\<close>

type_synonym start = "string \<times> (string \<times> file_content) list \<times> string list"

definition refused :: "startup_env \<Rightarrow> start \<Rightarrow> bool" where
  "refused env a =
     (case a of (file, files, needles) \<Rightarrow>
        case start_proxy env file files of Inl _ \<Rightarrow> False | Inr (returncode, err) \<Rightarrow> rejected_with returncode err needles)"

definition case_start :: "startup_env \<Rightarrow> startup_case \<Rightarrow> start" where
  "case_start env c = (case_file c, [(tmp_file env (case_file c), case_content c)], case_needles c)"

definition case_starts :: "startup_env \<Rightarrow> (string \<times> startup_case) list \<Rightarrow> start list" where
  "case_starts env cases = map (\<lambda>(key, c). case_start env c) cases"

text \<open>A probe is judged by some keys of its report when they are \<open>true\<close> exactly if all its starts were refused.\<close>

definition judged_by :: "(startup_env \<Rightarrow> dict result) \<Rightarrow> string list \<Rightarrow> (startup_env \<Rightarrow> start list) \<Rightarrow> bool" where
  "judged_by probe keys starts \<longleftrightarrow>
     (\<forall>env d. probe env = Inr d \<longrightarrow>
        ((\<forall>k \<in> set keys. map_of d k = Some (PBool True)) \<longleftrightarrow> (\<forall>a \<in> set (starts env). refused env a)))"

definition plain_fields :: "startup_case \<Rightarrow> bool" where
  "plain_fields c \<longleftrightarrow> map_of (case_fields c) ''startup_rejected'' = None"

lemma run_case_verdict:
  assumes "run_case env c = Inr d" and "plain_fields c"
  shows "dget d ''startup_rejected'' = PBool (refused env (case_start env c))"
    and "map_of d ''startup_rejected'' = Some (PBool (refused env (case_start env c)))"
proof -
  obtain code err where "start_proxy env (case_file c) [(tmp_file env (case_file c), case_content c)] = Inr (code, err)"
    using assms(1) by (auto simp: run_case_def rbind_Inr_iff)
  with assms show "map_of d ''startup_rejected'' = Some (PBool (refused env (case_start env c)))"
    by (auto simp: run_case_def refused_def case_start_def plain_fields_def map_add_def)
  then show "dget d ''startup_rejected'' = PBool (refused env (case_start env c))" by (simp add: dget_def)
qed

lemma run_cases_verdicts:
  assumes "run_cases env cases = Inr rs" and "list_all (\<lambda>(key, c). plain_fields c) cases"
  shows "map (\<lambda>(key, d). (key, dget d ''startup_rejected'')) rs
       = map (\<lambda>(key, c). (key, PBool (refused env (case_start env c)))) cases"
  using assms
proof (induction cases arbitrary: rs)
  case Nil
  then show ?case by (simp add: run_cases_def)
next
  case (Cons x cases)
  obtain key c where x: "x = (key, c)" by (cases x)
  from Cons.prems(1) obtain d rest where d: "run_case env c = Inr d" and rest: "run_cases env cases = Inr rest"
    and rs: "rs = (key, d) # rest"
    by (auto simp: run_cases_def x rbind_Inr_iff)
  from Cons.prems(2) have "plain_fields c" "list_all (\<lambda>(key, c). plain_fields c) cases" by (simp_all add: x)
  then show ?case using Cons.IH [OF rest] run_case_verdict(1) [OF d] by (simp add: x rs)
qed

text \<open>The verdicts of a report under their names, given the names of the cases.\<close>

definition clear_keys :: "string list \<Rightarrow> bool" where
  "clear_keys keys \<longleftrightarrow> distinct keys \<and> list_all (\<lambda>k. list_all (\<lambda>k'. k @ ''_rejected'' \<noteq> k') keys) keys"

lemma case_verdicts_names:
  "map (\<lambda>(key, d). (key, dget d ''startup_rejected'')) rs = vs
   \<Longrightarrow> case_verdicts rs = map (\<lambda>(k, v). (k @ ''_rejected'', v)) vs"
  by (induction rs arbitrary: vs) (auto simp: case_verdicts_def)

lemma map_of_case_values: "k \<notin> fst ` set rs \<Longrightarrow> map_of (case_values rs) k = None"
  by (induction rs) (auto simp: case_values_def)

lemma verdict_names:
  "map (\<lambda>(key, d). (key, dget d ''startup_rejected'')) rs = map (\<lambda>(key, c). (key, f c)) cases
   \<Longrightarrow> map fst rs = map fst cases"
  by (drule arg_cong [where f = "map fst"]) (simp add: case_prod_beta comp_def)

lemma case_report_judged:
  assumes "run_cases env cases = Inr rs" and "list_all (\<lambda>(key, c). plain_fields c) cases" and "clear_keys (map fst cases)"
  shows "(\<forall>k \<in> set (map (\<lambda>(key, c). key @ ''_rejected'') cases). map_of (case_report rs @ tail) k = Some (PBool True))
     \<longleftrightarrow> (\<forall>a \<in> set (case_starts env cases). refused env a)"
proof -
  note verdicts = run_cases_verdicts [OF assms(1,2)]
  have names: "map fst rs = map fst cases" by (rule verdict_names [OF verdicts])
  have dist: "distinct (map fst (case_verdicts rs))" and clear: "\<forall>k \<in> fst ` set rs. k @ ''_rejected'' \<notin> fst ` set rs"
    using assms(3) names
    by (auto simp: clear_keys_def case_verdicts_names [OF verdicts] distinct_map inj_on_def list_all_iff case_prod_beta
        comp_def set_map [symmetric] simp del: set_map)
  have "map_of (case_report rs @ tail) (key @ ''_rejected'') = Some (PBool (refused env (case_start env c)))"
    if "(key, c) \<in> set cases" for key c
  proof -
    have "key \<in> fst ` set rs" using that names by (metis fst_conv image_eqI set_map)
    then have "map_of (case_values rs) (key @ ''_rejected'') = None" using clear by (intro map_of_case_values) blast
    moreover have "map_of (case_verdicts rs) (key @ ''_rejected'') = Some (PBool (refused env (case_start env c)))"
      using dist that by (intro map_of_is_SomeI) (force simp: case_verdicts_names [OF verdicts])+
    ultimately show ?thesis by (simp add: case_report_def map_add_def)
  qed
  then show ?thesis by (fastforce simp: case_starts_def)
qed


lemma judged_report:
  assumes "\<And>env. probe env = rbind (run_cases env (cases_of env)) (\<lambda>rs. Inr (case_report rs))"
    and "\<And>env. list_all (\<lambda>(key, c). plain_fields c) (cases_of env)" and "\<And>env. clear_keys (map fst (cases_of env))"
    and "\<And>env. set keys = set (map (\<lambda>(key, c). key @ ''_rejected'') (cases_of env))"
  shows "judged_by probe keys (\<lambda>env. case_starts env (cases_of env))"
  unfolding judged_by_def
proof (intro allI impI)
  fix env d assume "probe env = Inr d"
  then obtain rs where "run_cases env (cases_of env) = Inr rs" "d = case_report rs" by (auto simp: assms(1) rbind_Inr_iff)
  with case_report_judged [OF this(1) assms(2,3), of "[]"]
  show "(\<forall>k \<in> set keys. map_of d k = Some (PBool True)) \<longleftrightarrow> (\<forall>a \<in> set (case_starts env (cases_of env)). refused env a)"
    by (simp add: assms(4) [of env])
qed

lemma case_report_names:
  assumes "map (\<lambda>(key, d). (key, dget d ''startup_rejected'')) rs = map (\<lambda>(key, c). (key, f c)) cases"
  shows "map fst (case_report rs) = map fst cases @ map (\<lambda>(key, c). key @ ''_rejected'') cases"
proof -
  have "map fst (case_values rs) = map fst rs" by (simp add: case_values_def case_prod_beta comp_def)
  moreover have "map fst (case_verdicts rs) = map (\<lambda>(key, c). key @ ''_rejected'') cases"
    by (simp add: case_verdicts_names [OF assms] case_prod_beta comp_def)
  ultimately show ?thesis using verdict_names [OF assms] by (simp add: case_report_def)
qed

lemma all_rejected_verdict:
  assumes "run_cases env cases = Inr rs" and "list_all (\<lambda>(key, c). plain_fields c) cases"
  shows "all_rejected rs = PBool (\<forall>a \<in> set (case_starts env cases). refused env a)"
proof -
  have "list_all (\<lambda>(key, d). py_truthy (dget d ''startup_rejected'')) rs
      \<longleftrightarrow> list_all (\<lambda>(key, v). py_truthy v) (map (\<lambda>(key, d). (key, dget d ''startup_rejected'')) rs)"
    by (simp add: list_all_iff case_prod_beta)
  then show ?thesis
    by (simp add: run_cases_verdicts [OF assms] all_rejected_def case_starts_def list_all_iff case_prod_beta)
qed

lemma judged_all:
  assumes "\<And>env. probe env = rbind (run_cases env (cases_of env)) (\<lambda>rs. Inr (case_values rs @ [(key, all_rejected rs)]))"
    and "\<And>env. list_all (\<lambda>(key, c). plain_fields c) (cases_of env)" and "\<And>env. key \<notin> set (map fst (cases_of env))"
  shows "judged_by probe [key] (\<lambda>env. case_starts env (cases_of env))"
  unfolding judged_by_def
proof (intro allI impI)
  fix env d assume "probe env = Inr d"
  then obtain rs where rs: "run_cases env (cases_of env) = Inr rs" "d = case_values rs @ [(key, all_rejected rs)]"
    by (auto simp: assms(1) rbind_Inr_iff)
  have "key \<notin> fst ` set rs"
    using verdict_names [OF run_cases_verdicts [OF rs(1) assms(2)]] assms(3) [of env] by (metis set_map)
  then show "(\<forall>k \<in> set [key]. map_of d k = Some (PBool True)) \<longleftrightarrow> (\<forall>a \<in> set (case_starts env (cases_of env)). refused env a)"
    using all_rejected_verdict [OF rs(1) assms(2)] by (simp add: rs(2) map_add_def map_of_case_values)
qed

lemma judged_both:
  assumes "\<And>env. probe env = rbind (run_cases env (cases_of env)) (\<lambda>rs. Inr (case_report rs @ [(key, all_rejected rs)]))"
    and "\<And>env. list_all (\<lambda>(key, c). plain_fields c) (cases_of env)" and "\<And>env. clear_keys (map fst (cases_of env))"
    and "\<And>env. key \<notin> set (map fst (cases_of env) @ map (\<lambda>(key, c). key @ ''_rejected'') (cases_of env))"
    and "\<And>env. set keys = set (key # map (\<lambda>(key, c). key @ ''_rejected'') (cases_of env))"
  shows "judged_by probe keys (\<lambda>env. case_starts env (cases_of env))"
  unfolding judged_by_def
proof (intro allI impI)
  fix env d assume "probe env = Inr d"
  then obtain rs where rs: "run_cases env (cases_of env) = Inr rs" "d = case_report rs @ [(key, all_rejected rs)]"
    by (auto simp: assms(1) rbind_Inr_iff)
  note verdicts = run_cases_verdicts [OF rs(1) assms(2)]
  have "key \<notin> fst ` set (case_report rs)"
    using assms(4) [of env] unfolding case_report_names [OF verdicts, symmetric] set_map .
  then have "map_of d key = Some (PBool (\<forall>a \<in> set (case_starts env (cases_of env)). refused env a))"
    using all_rejected_verdict [OF rs(1) assms(2)] map_of_eq_None_iff [of "case_report rs" key]
    by (simp add: rs(2) map_add_def)
  moreover have "(\<forall>k \<in> set (map (\<lambda>(key, c). key @ ''_rejected'') (cases_of env)). map_of d k = Some (PBool True))
      \<longleftrightarrow> (\<forall>a \<in> set (case_starts env (cases_of env)). refused env a)"
    using case_report_judged [OF rs(1) assms(2,3), of "[(key, all_rejected rs)]"] unfolding rs(2) .
  ultimately
  show "(\<forall>k \<in> set keys. map_of d k = Some (PBool True)) \<longleftrightarrow> (\<forall>a \<in> set (case_starts env (cases_of env)). refused env a)"
    unfolding assms(5) [of env] by (simp del: set_map)
qed

lemma judged_single:
  assumes "\<And>env. probe env = single_report env key (c env)" and "\<And>env. plain_fields (c env)"
    and "\<And>env. map_of (case_fields (c env)) key = None"
    and "key \<notin> {''exit_code'', ''stderr_tail'', ''startup_rejected''}"
  shows "judged_by probe [key, ''startup_rejected''] (\<lambda>env. [case_start env (c env)])"
  unfolding judged_by_def
proof (intro allI impI)
  fix env d assume "probe env = Inr d"
  then obtain r where r: "run_case env (c env) = Inr r" "d = r @ [(key, dget r ''startup_rejected'')]"
    by (auto simp: assms(1) single_report_def rbind_Inr_iff)
  have "map_of r key = None" using r(1) assms(3) [of env] assms(4) by (auto simp: run_case_def rbind_Inr_iff map_add_def)
  then show "(\<forall>k \<in> set [key, ''startup_rejected'']. map_of d k = Some (PBool True))
      \<longleftrightarrow> (\<forall>a \<in> set [case_start env (c env)]. refused env a)"
    using run_case_verdict [OF r(1) assms(2)] by (simp add: r(2) map_add_def)
qed

end
