(* ===== verification/Startup_Sections.thy ===== *)
theory Startup_Sections
  imports Startup_Probes
begin

text \<open>
  The startup sections of the local report: the keys the gate looks at, the starts that a section makes, and that its
  keys are \<open>true\<close> exactly when all its starts were refused.
\<close>

section \<open>The sections\<close>

text \<open>The start with a world-wide trusted proxy on a public listener.\<close>

definition global_trust_start :: "startup_env \<Rightarrow> start" where
  "global_trust_start env =
     (''trusted-proxy-global-trust-config.json'', global_trust_files env,
      [''must not trust all IPv4 peers'', ''non-loopback listener''])"

text \<open>The startup sections of the report with the keys the gate looks at.\<close>

definition startup_keys :: "(string \<times> string list) list" where
  "startup_keys =
     [(''allowed_hosts_startup'',
       [''blank_rejected'', ''duplicate_rejected'', ''invalid_authority_rejected'', ''oversized_rejected'',
        ''too_many_rejected'', ''userinfo_rejected'', ''whitespace_rejected'', ''wildcard_rejected'']),
      (''allowed_methods_startup'',
       [''duplicate_rejected'', ''empty_rejected'', ''invalid_token_rejected'', ''oversized_token_rejected'',
        ''too_many_rejected'', ''unsupported_connect_rejected'', ''unsupported_trace_rejected'',
        ''unsupported_track_rejected'']),
      (''header_buffer_floor_startup'',
       [''downstream_max_header_bytes_rejected'', ''upstream_max_header_bytes_rejected'']),
      (''header_buffer_ceiling_startup'',
       [''downstream_max_header_bytes_rejected'', ''upstream_max_header_bytes_rejected'']),
      (''header_count_ceiling_startup'',
       [''downstream_max_headers_rejected'', ''upstream_max_headers_rejected'']),
      (''header_read_timeout_ceiling_startup'',
       [''header_read_timeout_rejected'', ''startup_rejected'']),
      (''http_endpoint_startup'',
       [''invalid_listen_rejected'', ''missing_upstream_scheme_rejected'', ''https_upstream_scheme_rejected'',
        ''upstream_userinfo_rejected'', ''upstream_query_rejected'']),
      (''tcp_endpoint_startup'',
       [''invalid_listen_rejected'', ''missing_upstream_port_rejected'', ''upstream_scheme_rejected'',
        ''upstream_userinfo_rejected'', ''upstream_path_rejected'', ''upstream_zero_port_rejected'']),
      (''client_ip_config_startup'',
       [''blank_trusted_proxy_rejected'', ''duplicate_trusted_proxy_rejected'', ''invalid_header_rejected'',
        ''invalid_trusted_proxy_rejected'', ''oversized_header_rejected'', ''oversized_trusted_proxy_rejected'',
        ''too_many_trusted_proxies_rejected'']),
      (''trusted_proxy_global_trust_startup'',
       [''global_trusted_proxy_rejected'']),
      (''filter_rule_startup'',
       [''empty_condition_rejected'', ''invalid_status_rejected'', ''oversized_body_rejected'',
        ''too_many_static_filters_rejected'']),
      (''config_file_startup'',
       [''oversized_config_rejected'', ''non_regular_config_rejected'']),
      (''negative_rate_startup'',
       [''negative_http_rate_rejected'', ''negative_tcp_rate_rejected'']),
      (''zero_capacity_startup'',
       [''http_connection_cap_rejected'', ''tcp_connection_cap_rejected'', ''http_metadata_cap_rejected'',
        ''http_forwarded_cap_rejected'', ''http_upstream_connect_timeout_rejected'']),
      (''dynamic_state_ceiling_startup'',
       [''all_dynamic_state_ceilings_rejected'']),
      (''control_capacity_startup'',
       [''filter_file_cap_rejected'', ''filter_rule_cap_rejected'', ''adaptive_queue_cap_rejected'',
        ''adaptive_window_cap_rejected'', ''adaptive_log_cap_rejected'', ''adaptive_flush_interval_rejected'']),
      (''http_metadata_ceiling_startup'',
       [''all_http_metadata_ceilings_rejected'']),
      (''http_stream_timeout_ceiling_startup'',
       [''request_body_idle_timeout_rejected'', ''upstream_body_idle_timeout_rejected'',
        ''downstream_write_timeout_rejected'', ''request_body_min_rate_grace_rejected'',
        ''upstream_body_min_rate_grace_rejected'']),
      (''body_size_ceiling_startup'',
       [''max_body_bytes_rejected'', ''max_upstream_body_bytes_rejected'']),
      (''min_rate_ceiling_startup'',
       [''all_min_rate_ceilings_rejected'', ''http_request_body_min_rate_rejected'',
        ''http_upstream_body_min_rate_rejected'', ''tcp_downstream_min_rate_rejected'',
        ''tcp_upstream_min_rate_rejected'']),
      (''connect_timeout_ceiling_startup'',
       [''http_upstream_connect_timeout_rejected'', ''tcp_connect_timeout_rejected'']),
      (''upstream_timeout_ceiling_startup'',
       [''upstream_timeout_rejected'', ''startup_rejected'']),
      (''upstream_failure_circuit_ceiling_startup'',
       [''upstream_failure_threshold_rejected'', ''upstream_failure_open_ms_rejected'']),
      (''upstream_idle_pool_ceiling_startup'',
       [''upstream_pool_max_idle_per_host_rejected'', ''upstream_pool_idle_timeout_rejected'']),
      (''connection_duration_ceiling_startup'',
       [''http_max_connection_duration_rejected'', ''tcp_max_connection_duration_rejected'']),
      (''connection_request_count_ceiling_startup'',
       [''max_requests_per_connection_rejected'', ''startup_rejected'']),
      (''event_log_queue_capacity_ceiling_startup'',
       [''event_log_queue_capacity_rejected'', ''startup_rejected'']),
      (''event_log_backup_count_ceiling_startup'',
       [''event_log_backup_count_rejected'', ''startup_rejected'']),
      (''admin_prefix_startup'',
       [''query_prefix_rejected'', ''relative_prefix_rejected'', ''root_prefix_rejected'']),
      (''admin_token_startup'',
       [''blank_token_rejected'', ''control_token_rejected'', ''empty_token_rejected'', ''long_token_rejected'',
        ''padded_token_rejected''])]"

text \<open>The starts that each section makes.\<close>

definition startup_starts :: "(string \<times> (startup_env \<Rightarrow> start list)) list" where
  "startup_starts =
     [(''trusted_proxy_global_trust_startup'', \<lambda>env. [global_trust_start env]),
      (''negative_rate_startup'', \<lambda>env. case_starts env (negative_rate_cases env)),
      (''admin_prefix_startup'', \<lambda>env. case_starts env (admin_prefix_cases env)),
      (''admin_token_startup'', \<lambda>env. case_starts env (admin_token_cases env)),
      (''zero_capacity_startup'', \<lambda>env. case_starts env (zero_capacity_cases env)),
      (''header_buffer_floor_startup'', \<lambda>env. case_starts env (header_buffer_floor_cases env)),
      (''header_buffer_ceiling_startup'', \<lambda>env. case_starts env (header_buffer_ceiling_cases env)),
      (''header_count_ceiling_startup'', \<lambda>env. case_starts env (header_count_ceiling_cases env)),
      (''http_metadata_ceiling_startup'', \<lambda>env. case_starts env (http_metadata_ceiling_cases env)),
      (''header_read_timeout_ceiling_startup'', \<lambda>env. [case_start env (header_read_timeout_ceiling_case env)]),
      (''upstream_timeout_ceiling_startup'', \<lambda>env. [case_start env (upstream_timeout_ceiling_case env)]),
      (''upstream_failure_circuit_ceiling_startup'', \<lambda>env. case_starts env (upstream_failure_circuit_ceiling_cases env)),
      (''http_stream_timeout_ceiling_startup'', \<lambda>env. case_starts env (http_stream_timeout_ceiling_cases env)),
      (''body_size_ceiling_startup'', \<lambda>env. case_starts env (body_size_ceiling_cases env)),
      (''min_rate_ceiling_startup'', \<lambda>env. case_starts env (min_rate_ceiling_cases env)),
      (''upstream_idle_pool_ceiling_startup'', \<lambda>env. case_starts env (upstream_idle_pool_ceiling_cases env)),
      (''connect_timeout_ceiling_startup'', \<lambda>env. case_starts env (connect_timeout_ceiling_cases env)),
      (''connection_duration_ceiling_startup'', \<lambda>env. case_starts env (connection_duration_ceiling_cases env)),
      (''connection_request_count_ceiling_startup'', \<lambda>env. [case_start env (connection_request_count_ceiling_case env)]),
      (''event_log_backup_count_ceiling_startup'', \<lambda>env. [case_start env (event_log_backup_count_ceiling_case env)]),
      (''event_log_queue_capacity_ceiling_startup'', \<lambda>env. [case_start env (event_log_queue_capacity_ceiling_case env)]),
      (''dynamic_state_ceiling_startup'', \<lambda>env. case_starts env (dynamic_state_ceiling_cases env)),
      (''control_capacity_startup'', \<lambda>env. case_starts env control_capacity_cases),
      (''config_file_startup'', \<lambda>env. case_starts env (config_file_cases env)),
      (''http_endpoint_startup'', \<lambda>env. case_starts env (http_endpoint_cases env)),
      (''tcp_endpoint_startup'', \<lambda>env. case_starts env (tcp_endpoint_cases env)),
      (''filter_rule_startup'', \<lambda>env. case_starts env (filter_rule_cases env)),
      (''allowed_methods_startup'', \<lambda>env. case_starts env (allowed_methods_cases env)),
      (''allowed_hosts_startup'', \<lambda>env. case_starts env (allowed_hosts_cases env)),
      (''client_ip_config_startup'', \<lambda>env. case_starts env (client_ip_config_cases env))]"

text \<open>The definitions of the cases, and the judgement of each probe.\<close>

named_theorems startup_cases
named_theorems probes_judged

lemmas startup_case_defs [startup_cases] =
  plain_fields_def clear_keys_def field_case_def ceiling_case_def http_ceiling_case_def tcp_ceiling_case_def
  admin_prefix_case_def admin_token_case_def zero_http_case_def header_floor_case_def metadata_case_def client_ip_case_def
  stream_timeout_case_def dynamic_case_def control_case_def path_case_def http_endpoint_case_def tcp_endpoint_case_def
  filter_rule_case_def methods_case_def unsupported_method_case_def hosts_case_def client_ip_config_case_def

lemma trusted_proxy_global_trust_startup_judged [probes_judged]:
  "judged_by run_trusted_proxy_global_trust_startup_probe
     [''global_trusted_proxy_rejected'']
     (\<lambda>env. [global_trust_start env])"
  by (auto simp: judged_by_def run_trusted_proxy_global_trust_startup_probe_def global_trust_start_def refused_def
      rbind_Inr_iff)

lemma negative_rate_startup_judged [probes_judged]:
  "judged_by run_negative_rate_startup_probe
     [''negative_http_rate_rejected'', ''negative_tcp_rate_rejected'']
     (\<lambda>env. case_starts env (negative_rate_cases env))"
  unfolding judged_by_def
proof (intro allI impI)
  fix env d assume "run_negative_rate_startup_probe env = Inr d"
  then obtain rs where rs: "run_cases env (negative_rate_cases env) = Inr rs"
    and d: "d = case_values rs @ map (\<lambda>(name, key, d). (name, dget d ''startup_rejected''))
          (zip [''negative_http_rate_rejected'', ''negative_tcp_rate_rejected''] rs)"
    by (auto simp: run_negative_rate_startup_probe_def rbind_Inr_iff)
  have "list_all (\<lambda>(key, c). plain_fields c) (negative_rate_cases env)"
    by (simp add: negative_rate_cases_def startup_cases Let_def)
  from run_cases_verdicts [OF rs this]
  obtain h t where "rs = [(''http_negative_rate'', h), (''tcp_negative_rate'', t)]"
    and "dget h ''startup_rejected'' = PBool (refused env (case_start env (snd (negative_rate_cases env ! 0))))"
    and "dget t ''startup_rejected'' = PBool (refused env (case_start env (snd (negative_rate_cases env ! 1))))"
    by (auto simp: negative_rate_cases_def map_eq_Cons_conv)
  then show "(\<forall>k \<in> set [''negative_http_rate_rejected'', ''negative_tcp_rate_rejected'']. map_of d k = Some (PBool True))
      \<longleftrightarrow> (\<forall>a \<in> set (case_starts env (negative_rate_cases env)). refused env a)"
    by (simp add: d case_values_def case_starts_def negative_rate_cases_def)
qed

lemma admin_prefix_startup_judged [probes_judged]:
  "judged_by run_admin_prefix_startup_probe
     [''query_prefix_rejected'', ''relative_prefix_rejected'', ''root_prefix_rejected'']
     (\<lambda>env. case_starts env (admin_prefix_cases env))"
  by (rule judged_report) (auto simp: run_admin_prefix_startup_probe_def admin_prefix_cases_def startup_cases Let_def)

lemma admin_token_startup_judged [probes_judged]:
  "judged_by run_admin_token_startup_probe
     [''blank_token_rejected'', ''control_token_rejected'', ''empty_token_rejected'', ''long_token_rejected'',
      ''padded_token_rejected'']
     (\<lambda>env. case_starts env (admin_token_cases env))"
  by (rule judged_report) (auto simp: run_admin_token_startup_probe_def admin_token_cases_def startup_cases Let_def)

lemma zero_capacity_startup_judged [probes_judged]:
  "judged_by run_zero_capacity_startup_probe
     [''http_connection_cap_rejected'', ''tcp_connection_cap_rejected'', ''http_metadata_cap_rejected'',
      ''http_forwarded_cap_rejected'', ''http_upstream_connect_timeout_rejected'']
     (\<lambda>env. case_starts env (zero_capacity_cases env))"
  by (rule judged_report) (auto simp: run_zero_capacity_startup_probe_def zero_capacity_cases_def startup_cases Let_def)

lemma header_buffer_floor_startup_judged [probes_judged]:
  "judged_by run_header_buffer_floor_startup_probe
     [''downstream_max_header_bytes_rejected'', ''upstream_max_header_bytes_rejected'']
     (\<lambda>env. case_starts env (header_buffer_floor_cases env))"
  by (rule judged_report) (auto simp: run_header_buffer_floor_startup_probe_def header_buffer_floor_cases_def startup_cases Let_def)

lemma header_buffer_ceiling_startup_judged [probes_judged]:
  "judged_by run_header_buffer_ceiling_startup_probe
     [''downstream_max_header_bytes_rejected'', ''upstream_max_header_bytes_rejected'']
     (\<lambda>env. case_starts env (header_buffer_ceiling_cases env))"
  by (rule judged_report) (auto simp: run_header_buffer_ceiling_startup_probe_def header_buffer_ceiling_cases_def startup_cases Let_def)

lemma header_count_ceiling_startup_judged [probes_judged]:
  "judged_by run_header_count_ceiling_startup_probe
     [''downstream_max_headers_rejected'', ''upstream_max_headers_rejected'']
     (\<lambda>env. case_starts env (header_count_ceiling_cases env))"
  by (rule judged_report) (auto simp: run_header_count_ceiling_startup_probe_def header_count_ceiling_cases_def startup_cases Let_def)

lemma http_metadata_ceiling_startup_judged [probes_judged]:
  "judged_by run_http_metadata_ceiling_startup_probe
     [''all_http_metadata_ceilings_rejected'']
     (\<lambda>env. case_starts env (http_metadata_ceiling_cases env))"
  by (rule judged_all) (simp_all add: run_http_metadata_ceiling_startup_probe_def http_metadata_ceiling_cases_def startup_cases Let_def)

lemma header_read_timeout_ceiling_startup_judged [probes_judged]:
  "judged_by run_header_read_timeout_ceiling_startup_probe
     [''header_read_timeout_rejected'', ''startup_rejected'']
     (\<lambda>env. [case_start env (header_read_timeout_ceiling_case env)])"
  by (rule judged_single) (simp_all add: run_header_read_timeout_ceiling_startup_probe_def header_read_timeout_ceiling_case_def startup_cases)

lemma upstream_timeout_ceiling_startup_judged [probes_judged]:
  "judged_by run_upstream_timeout_ceiling_startup_probe
     [''upstream_timeout_rejected'', ''startup_rejected'']
     (\<lambda>env. [case_start env (upstream_timeout_ceiling_case env)])"
  by (rule judged_single) (simp_all add: run_upstream_timeout_ceiling_startup_probe_def upstream_timeout_ceiling_case_def startup_cases)

lemma upstream_failure_circuit_ceiling_startup_judged [probes_judged]:
  "judged_by run_upstream_failure_circuit_ceiling_startup_probe
     [''upstream_failure_threshold_rejected'', ''upstream_failure_open_ms_rejected'']
     (\<lambda>env. case_starts env (upstream_failure_circuit_ceiling_cases env))"
  by (rule judged_report) (auto simp: run_upstream_failure_circuit_ceiling_startup_probe_def upstream_failure_circuit_ceiling_cases_def startup_cases Let_def)

lemma http_stream_timeout_ceiling_startup_judged [probes_judged]:
  "judged_by run_http_stream_timeout_ceiling_startup_probe
     [''request_body_idle_timeout_rejected'', ''upstream_body_idle_timeout_rejected'',
      ''downstream_write_timeout_rejected'', ''request_body_min_rate_grace_rejected'',
      ''upstream_body_min_rate_grace_rejected'']
     (\<lambda>env. case_starts env (http_stream_timeout_ceiling_cases env))"
  by (rule judged_report) (auto simp: run_http_stream_timeout_ceiling_startup_probe_def http_stream_timeout_ceiling_cases_def startup_cases Let_def)

lemma body_size_ceiling_startup_judged [probes_judged]:
  "judged_by run_body_size_ceiling_startup_probe
     [''max_body_bytes_rejected'', ''max_upstream_body_bytes_rejected'']
     (\<lambda>env. case_starts env (body_size_ceiling_cases env))"
  by (rule judged_report) (auto simp: run_body_size_ceiling_startup_probe_def body_size_ceiling_cases_def startup_cases Let_def)

lemma min_rate_ceiling_startup_judged [probes_judged]:
  "judged_by run_min_rate_ceiling_startup_probe
     [''all_min_rate_ceilings_rejected'', ''http_request_body_min_rate_rejected'',
      ''http_upstream_body_min_rate_rejected'', ''tcp_downstream_min_rate_rejected'',
      ''tcp_upstream_min_rate_rejected'']
     (\<lambda>env. case_starts env (min_rate_ceiling_cases env))"
  by (rule judged_both) (auto simp: run_min_rate_ceiling_startup_probe_def min_rate_ceiling_cases_def startup_cases Let_def)

lemma upstream_idle_pool_ceiling_startup_judged [probes_judged]:
  "judged_by run_upstream_idle_pool_ceiling_startup_probe
     [''upstream_pool_max_idle_per_host_rejected'', ''upstream_pool_idle_timeout_rejected'']
     (\<lambda>env. case_starts env (upstream_idle_pool_ceiling_cases env))"
  by (rule judged_report) (auto simp: run_upstream_idle_pool_ceiling_startup_probe_def upstream_idle_pool_ceiling_cases_def startup_cases Let_def)

lemma connect_timeout_ceiling_startup_judged [probes_judged]:
  "judged_by run_connect_timeout_ceiling_startup_probe
     [''http_upstream_connect_timeout_rejected'', ''tcp_connect_timeout_rejected'']
     (\<lambda>env. case_starts env (connect_timeout_ceiling_cases env))"
  by (rule judged_report) (auto simp: run_connect_timeout_ceiling_startup_probe_def connect_timeout_ceiling_cases_def startup_cases Let_def)

lemma connection_duration_ceiling_startup_judged [probes_judged]:
  "judged_by run_connection_duration_ceiling_startup_probe
     [''http_max_connection_duration_rejected'', ''tcp_max_connection_duration_rejected'']
     (\<lambda>env. case_starts env (connection_duration_ceiling_cases env))"
  by (rule judged_report) (auto simp: run_connection_duration_ceiling_startup_probe_def connection_duration_ceiling_cases_def startup_cases Let_def)

lemma connection_request_count_ceiling_startup_judged [probes_judged]:
  "judged_by run_connection_request_count_ceiling_startup_probe
     [''max_requests_per_connection_rejected'', ''startup_rejected'']
     (\<lambda>env. [case_start env (connection_request_count_ceiling_case env)])"
  by (rule judged_single) (simp_all add: run_connection_request_count_ceiling_startup_probe_def connection_request_count_ceiling_case_def startup_cases)

lemma event_log_backup_count_ceiling_startup_judged [probes_judged]:
  "judged_by run_event_log_backup_count_ceiling_startup_probe
     [''event_log_backup_count_rejected'', ''startup_rejected'']
     (\<lambda>env. [case_start env (event_log_backup_count_ceiling_case env)])"
  by (rule judged_single) (simp_all add: run_event_log_backup_count_ceiling_startup_probe_def event_log_backup_count_ceiling_case_def startup_cases)

lemma event_log_queue_capacity_ceiling_startup_judged [probes_judged]:
  "judged_by run_event_log_queue_capacity_ceiling_startup_probe
     [''event_log_queue_capacity_rejected'', ''startup_rejected'']
     (\<lambda>env. [case_start env (event_log_queue_capacity_ceiling_case env)])"
  by (rule judged_single) (simp_all add: run_event_log_queue_capacity_ceiling_startup_probe_def event_log_queue_capacity_ceiling_case_def startup_cases)

lemma dynamic_state_ceiling_startup_judged [probes_judged]:
  "judged_by run_dynamic_state_ceiling_startup_probe
     [''all_dynamic_state_ceilings_rejected'']
     (\<lambda>env. case_starts env (dynamic_state_ceiling_cases env))"
  by (rule judged_all) (simp_all add: run_dynamic_state_ceiling_startup_probe_def dynamic_state_ceiling_cases_def startup_cases Let_def)

lemma control_capacity_startup_judged [probes_judged]:
  "judged_by run_control_capacity_startup_probe
     [''filter_file_cap_rejected'', ''filter_rule_cap_rejected'', ''adaptive_queue_cap_rejected'',
      ''adaptive_window_cap_rejected'', ''adaptive_log_cap_rejected'', ''adaptive_flush_interval_rejected'']
     (\<lambda>env. case_starts env control_capacity_cases)"
  by (rule judged_report) (auto simp: run_control_capacity_startup_probe_def control_capacity_cases_def startup_cases Let_def)

lemma config_file_startup_judged [probes_judged]:
  "judged_by run_config_file_startup_probe
     [''oversized_config_rejected'', ''non_regular_config_rejected'']
     (\<lambda>env. case_starts env (config_file_cases env))"
  by (rule judged_report) (auto simp: run_config_file_startup_probe_def config_file_cases_def startup_cases Let_def)

lemma http_endpoint_startup_judged [probes_judged]:
  "judged_by run_http_endpoint_startup_probe
     [''invalid_listen_rejected'', ''missing_upstream_scheme_rejected'', ''https_upstream_scheme_rejected'',
      ''upstream_userinfo_rejected'', ''upstream_query_rejected'']
     (\<lambda>env. case_starts env (http_endpoint_cases env))"
  by (rule judged_report) (auto simp: run_http_endpoint_startup_probe_def http_endpoint_cases_def startup_cases Let_def)

lemma tcp_endpoint_startup_judged [probes_judged]:
  "judged_by run_tcp_endpoint_startup_probe
     [''invalid_listen_rejected'', ''missing_upstream_port_rejected'', ''upstream_scheme_rejected'',
      ''upstream_userinfo_rejected'', ''upstream_path_rejected'', ''upstream_zero_port_rejected'']
     (\<lambda>env. case_starts env (tcp_endpoint_cases env))"
  by (rule judged_report) (auto simp: run_tcp_endpoint_startup_probe_def tcp_endpoint_cases_def startup_cases Let_def)

lemma filter_rule_startup_judged [probes_judged]:
  "judged_by run_filter_rule_startup_probe
     [''empty_condition_rejected'', ''invalid_status_rejected'', ''oversized_body_rejected'',
      ''too_many_static_filters_rejected'']
     (\<lambda>env. case_starts env (filter_rule_cases env))"
  by (rule judged_report) (auto simp: run_filter_rule_startup_probe_def filter_rule_cases_def startup_cases Let_def)

lemma allowed_methods_startup_judged [probes_judged]:
  "judged_by run_allowed_methods_startup_probe
     [''duplicate_rejected'', ''empty_rejected'', ''invalid_token_rejected'', ''oversized_token_rejected'',
      ''too_many_rejected'', ''unsupported_connect_rejected'', ''unsupported_trace_rejected'',
      ''unsupported_track_rejected'']
     (\<lambda>env. case_starts env (allowed_methods_cases env))"
  by (rule judged_report) (auto simp: run_allowed_methods_startup_probe_def allowed_methods_cases_def startup_cases Let_def)

lemma allowed_hosts_startup_judged [probes_judged]:
  "judged_by run_allowed_hosts_startup_probe
     [''blank_rejected'', ''duplicate_rejected'', ''invalid_authority_rejected'', ''oversized_rejected'',
      ''too_many_rejected'', ''userinfo_rejected'', ''whitespace_rejected'', ''wildcard_rejected'']
     (\<lambda>env. case_starts env (allowed_hosts_cases env))"
  by (rule judged_report) (auto simp: run_allowed_hosts_startup_probe_def allowed_hosts_cases_def startup_cases Let_def)

lemma client_ip_config_startup_judged [probes_judged]:
  "judged_by run_client_ip_config_startup_probe
     [''blank_trusted_proxy_rejected'', ''duplicate_trusted_proxy_rejected'', ''invalid_header_rejected'',
      ''invalid_trusted_proxy_rejected'', ''oversized_header_rejected'', ''oversized_trusted_proxy_rejected'',
      ''too_many_trusted_proxies_rejected'']
     (\<lambda>env. case_starts env (client_ip_config_cases env))"
  by (rule judged_report) (auto simp: run_client_ip_config_startup_probe_def client_ip_config_cases_def startup_cases Let_def)

section \<open>The checks of the gate\<close>

definition unsafe_starts :: "startup_env \<Rightarrow> start list" where
  "unsafe_starts env = concat (map (\<lambda>(name, starts). starts env) startup_starts)"

text \<open>Section by section: its keys, its probe and its starts.\<close>

definition startup_sections :: "(string \<times> string list \<times> (startup_env \<Rightarrow> dict result) \<times> (startup_env \<Rightarrow> start list)) list" where
  "startup_sections = map (\<lambda>(name, keys). (name, keys, the (map_of startup_probes name), the (map_of startup_starts name)))
     startup_keys"

lemmas startup_section_defs = startup_sections_def startup_keys_def startup_probes_def startup_starts_def

lemma startup_sections_judged: "\<forall>(name, keys, probe, starts) \<in> set startup_sections. judged_by probe keys starts"
  by (simp add: startup_section_defs probes_judged)

lemma startup_sections_probes: "\<forall>(name, keys, probe, starts) \<in> set startup_sections. (name, probe) \<in> set startup_probes"
  by (simp add: startup_section_defs)

lemma startup_sections_starts:
  "set (unsafe_starts env) = (\<Union>(name, keys, probe, starts) \<in> set startup_sections. set (starts env))"
  by (simp add: startup_section_defs unsafe_starts_def Un_ac insert_commute)

definition startup_check :: "string \<times> string \<Rightarrow> bool" where
  "startup_check item = contains_str (fst item) ''_startup.''"

definition startup_paths :: "string list" where
  "startup_paths = concat (map (\<lambda>(name, keys). map (\<lambda>k. ''guardrails.'' @ name @ ''.'' @ k) keys) startup_keys)"

text \<open>The startup checks of each piece of the table, in order the paths of the sections.\<close>

lemma startup_checks_1: "map fst (filter startup_check REQUIRED_TRUE_CHECKS_1) = []"
  by code_simp

lemma startup_checks_2: "map fst (filter startup_check REQUIRED_TRUE_CHECKS_2) = []"
  by code_simp

lemma startup_checks_3: "map fst (filter startup_check REQUIRED_TRUE_CHECKS_3) = 
     [''guardrails.allowed_hosts_startup.blank_rejected'',
      ''guardrails.allowed_hosts_startup.duplicate_rejected'',
      ''guardrails.allowed_hosts_startup.invalid_authority_rejected'',
      ''guardrails.allowed_hosts_startup.oversized_rejected'',
      ''guardrails.allowed_hosts_startup.too_many_rejected'',
      ''guardrails.allowed_hosts_startup.userinfo_rejected'',
      ''guardrails.allowed_hosts_startup.whitespace_rejected'',
      ''guardrails.allowed_hosts_startup.wildcard_rejected'',
      ''guardrails.allowed_methods_startup.duplicate_rejected'',
      ''guardrails.allowed_methods_startup.empty_rejected'',
      ''guardrails.allowed_methods_startup.invalid_token_rejected'',
      ''guardrails.allowed_methods_startup.oversized_token_rejected'',
      ''guardrails.allowed_methods_startup.too_many_rejected'',
      ''guardrails.allowed_methods_startup.unsupported_connect_rejected'',
      ''guardrails.allowed_methods_startup.unsupported_trace_rejected'',
      ''guardrails.allowed_methods_startup.unsupported_track_rejected'',
      ''guardrails.header_buffer_floor_startup.downstream_max_header_bytes_rejected'',
      ''guardrails.header_buffer_floor_startup.upstream_max_header_bytes_rejected'',
      ''guardrails.header_buffer_ceiling_startup.downstream_max_header_bytes_rejected'',
      ''guardrails.header_buffer_ceiling_startup.upstream_max_header_bytes_rejected'',
      ''guardrails.header_count_ceiling_startup.downstream_max_headers_rejected'',
      ''guardrails.header_count_ceiling_startup.upstream_max_headers_rejected'',
      ''guardrails.header_read_timeout_ceiling_startup.header_read_timeout_rejected'',
      ''guardrails.header_read_timeout_ceiling_startup.startup_rejected'',
      ''guardrails.http_endpoint_startup.invalid_listen_rejected'',
      ''guardrails.http_endpoint_startup.missing_upstream_scheme_rejected'',
      ''guardrails.http_endpoint_startup.https_upstream_scheme_rejected'',
      ''guardrails.http_endpoint_startup.upstream_userinfo_rejected'',
      ''guardrails.http_endpoint_startup.upstream_query_rejected'',
      ''guardrails.tcp_endpoint_startup.invalid_listen_rejected'',
      ''guardrails.tcp_endpoint_startup.missing_upstream_port_rejected'',
      ''guardrails.tcp_endpoint_startup.upstream_scheme_rejected'',
      ''guardrails.tcp_endpoint_startup.upstream_userinfo_rejected'',
      ''guardrails.tcp_endpoint_startup.upstream_path_rejected'']"
  by code_simp

lemma startup_checks_4: "map fst (filter startup_check REQUIRED_TRUE_CHECKS_4) = 
     [''guardrails.tcp_endpoint_startup.upstream_zero_port_rejected'',
      ''guardrails.client_ip_config_startup.blank_trusted_proxy_rejected'',
      ''guardrails.client_ip_config_startup.duplicate_trusted_proxy_rejected'',
      ''guardrails.client_ip_config_startup.invalid_header_rejected'',
      ''guardrails.client_ip_config_startup.invalid_trusted_proxy_rejected'',
      ''guardrails.client_ip_config_startup.oversized_header_rejected'',
      ''guardrails.client_ip_config_startup.oversized_trusted_proxy_rejected'',
      ''guardrails.client_ip_config_startup.too_many_trusted_proxies_rejected'',
      ''guardrails.trusted_proxy_global_trust_startup.global_trusted_proxy_rejected'']"
  by code_simp

lemma startup_checks_5: "map fst (filter startup_check REQUIRED_TRUE_CHECKS_5) = []"
  by code_simp

lemma startup_checks_6: "map fst (filter startup_check REQUIRED_TRUE_CHECKS_6) = 
     [''guardrails.filter_rule_startup.empty_condition_rejected'',
      ''guardrails.filter_rule_startup.invalid_status_rejected'',
      ''guardrails.filter_rule_startup.oversized_body_rejected'',
      ''guardrails.filter_rule_startup.too_many_static_filters_rejected'',
      ''guardrails.config_file_startup.oversized_config_rejected'',
      ''guardrails.config_file_startup.non_regular_config_rejected'',
      ''guardrails.negative_rate_startup.negative_http_rate_rejected'',
      ''guardrails.negative_rate_startup.negative_tcp_rate_rejected'',
      ''guardrails.zero_capacity_startup.http_connection_cap_rejected'',
      ''guardrails.zero_capacity_startup.tcp_connection_cap_rejected'',
      ''guardrails.zero_capacity_startup.http_metadata_cap_rejected'',
      ''guardrails.zero_capacity_startup.http_forwarded_cap_rejected'',
      ''guardrails.zero_capacity_startup.http_upstream_connect_timeout_rejected'',
      ''guardrails.dynamic_state_ceiling_startup.all_dynamic_state_ceilings_rejected'',
      ''guardrails.control_capacity_startup.filter_file_cap_rejected'',
      ''guardrails.control_capacity_startup.filter_rule_cap_rejected'',
      ''guardrails.control_capacity_startup.adaptive_queue_cap_rejected'',
      ''guardrails.control_capacity_startup.adaptive_window_cap_rejected'',
      ''guardrails.control_capacity_startup.adaptive_log_cap_rejected'',
      ''guardrails.control_capacity_startup.adaptive_flush_interval_rejected'',
      ''guardrails.http_metadata_ceiling_startup.all_http_metadata_ceilings_rejected'',
      ''guardrails.http_stream_timeout_ceiling_startup.request_body_idle_timeout_rejected'',
      ''guardrails.http_stream_timeout_ceiling_startup.upstream_body_idle_timeout_rejected'']"
  by code_simp

lemma startup_checks_7: "map fst (filter startup_check REQUIRED_TRUE_CHECKS_7) = 
     [''guardrails.http_stream_timeout_ceiling_startup.downstream_write_timeout_rejected'',
      ''guardrails.http_stream_timeout_ceiling_startup.request_body_min_rate_grace_rejected'',
      ''guardrails.http_stream_timeout_ceiling_startup.upstream_body_min_rate_grace_rejected'',
      ''guardrails.body_size_ceiling_startup.max_body_bytes_rejected'',
      ''guardrails.body_size_ceiling_startup.max_upstream_body_bytes_rejected'',
      ''guardrails.min_rate_ceiling_startup.all_min_rate_ceilings_rejected'',
      ''guardrails.min_rate_ceiling_startup.http_request_body_min_rate_rejected'',
      ''guardrails.min_rate_ceiling_startup.http_upstream_body_min_rate_rejected'',
      ''guardrails.min_rate_ceiling_startup.tcp_downstream_min_rate_rejected'',
      ''guardrails.min_rate_ceiling_startup.tcp_upstream_min_rate_rejected'',
      ''guardrails.connect_timeout_ceiling_startup.http_upstream_connect_timeout_rejected'',
      ''guardrails.connect_timeout_ceiling_startup.tcp_connect_timeout_rejected'',
      ''guardrails.upstream_timeout_ceiling_startup.upstream_timeout_rejected'',
      ''guardrails.upstream_timeout_ceiling_startup.startup_rejected'',
      ''guardrails.upstream_failure_circuit_ceiling_startup.upstream_failure_threshold_rejected'',
      ''guardrails.upstream_failure_circuit_ceiling_startup.upstream_failure_open_ms_rejected'',
      ''guardrails.upstream_idle_pool_ceiling_startup.upstream_pool_max_idle_per_host_rejected'',
      ''guardrails.upstream_idle_pool_ceiling_startup.upstream_pool_idle_timeout_rejected'',
      ''guardrails.connection_duration_ceiling_startup.http_max_connection_duration_rejected'',
      ''guardrails.connection_duration_ceiling_startup.tcp_max_connection_duration_rejected'',
      ''guardrails.connection_request_count_ceiling_startup.max_requests_per_connection_rejected'',
      ''guardrails.connection_request_count_ceiling_startup.startup_rejected'',
      ''guardrails.event_log_queue_capacity_ceiling_startup.event_log_queue_capacity_rejected'',
      ''guardrails.event_log_queue_capacity_ceiling_startup.startup_rejected'',
      ''guardrails.event_log_backup_count_ceiling_startup.event_log_backup_count_rejected'',
      ''guardrails.event_log_backup_count_ceiling_startup.startup_rejected'']"
  by code_simp

lemma startup_checks_8: "map fst (filter startup_check REQUIRED_TRUE_CHECKS_8) = 
     [''guardrails.admin_prefix_startup.query_prefix_rejected'',
      ''guardrails.admin_prefix_startup.relative_prefix_rejected'',
      ''guardrails.admin_prefix_startup.root_prefix_rejected'',
      ''guardrails.admin_token_startup.blank_token_rejected'',
      ''guardrails.admin_token_startup.control_token_rejected'',
      ''guardrails.admin_token_startup.empty_token_rejected'',
      ''guardrails.admin_token_startup.long_token_rejected'',
      ''guardrails.admin_token_startup.padded_token_rejected'']"
  by code_simp

lemma startup_checks_9: "map fst (filter startup_check REQUIRED_TRUE_CHECKS_9) = []"
  by code_simp

lemma startup_paths_checked: "map fst (filter startup_check REQUIRED_TRUE_CHECKS) = startup_paths"
  by (simp add: REQUIRED_TRUE_CHECKS_def startup_checks_1 startup_checks_2 startup_checks_3 startup_checks_4 startup_checks_5
      startup_checks_6 startup_checks_7 startup_checks_8 startup_checks_9 startup_paths_def startup_keys_def)

end
