(* ===== verification/Startup_Gate.thy ===== *)
theory Startup_Gate
  imports Startup_Sections
begin

text \<open>
  The startup probes and the gate on the local report together: the checks of the gate on the startup sections pass
  exactly when the proxy refused every configuration it was started on.
\<close>

section \<open>Properties\<close>

lemma path_value_section:
  assumes "map_of report ''guardrails'' = Some (PDict guardrails)" and "map_of guardrails name = Some (PDict d)"
    and "CHR ''.'' \<notin> set name" and "CHR ''.'' \<notin> set k"
  shows "path_value report (''guardrails.'' @ name @ ''.'' @ k) = map_of d k"
proof -
  have "split_on (CHR ''.'') (''guardrails'' @ CHR ''.'' # (name @ CHR ''.'' # k)) = [''guardrails'', name, k]"
    using assms(3,4) by (simp add: split_on_append_sep split_on_absent del: append_Cons append_Nil)
  then show ?thesis using assms(1,2) by (simp add: path_value_def split: option.splits)
qed

lemma startup_names_plain: "list_all (\<lambda>(name, keys). CHR ''.'' \<notin> set name \<and> list_all (\<lambda>k. CHR ''.'' \<notin> set k) keys) startup_keys"
  by (simp add: startup_keys_def)

lemma startup_guardrails_section:
  assumes "startup_guardrails env = Inr sections" and "(name, probe) \<in> set startup_probes"
  obtains d where "probe env = Inr d" and "(name, PDict d) \<in> set sections"
proof -
  obtain i where i: "i < length startup_probes" "startup_probes ! i = (name, probe)"
    using assms(2) by (auto simp: in_set_conv_nth)
  have "list_all2 (\<lambda>x y. (case x of (name, probe) \<Rightarrow> rbind (probe env) (\<lambda>d. Inr (name, PDict d))) = Inr y)
      startup_probes sections"
    using assms(1) unfolding startup_guardrails_def rmap_Inr_iff .
  then have "i < length sections" and "rbind (probe env) (\<lambda>d. Inr (name, PDict d)) = Inr (sections ! i)"
    using i by (auto simp: list_all2_conv_all_nth)
  then show thesis using that by (auto simp: rbind_Inr_iff dest: nth_mem)
qed

lemma startup_paths_true_iff:
  assumes "startup_guardrails env = Inr sections" and "map_of report ''guardrails'' = Some (PDict guardrails)"
    and "\<forall>(name, d) \<in> set sections. map_of guardrails name = Some d"
  shows "(\<forall>path \<in> set startup_paths. path_value report path = Some (PBool True))
    \<longleftrightarrow> (\<forall>a \<in> set (unsafe_starts env). refused env a)"
proof -
  have paths: "set startup_paths = (\<Union>x \<in> set startup_keys. (\<lambda>k. ''guardrails.'' @ fst x @ ''.'' @ k) ` set (snd x))"
    by (simp add: startup_paths_def case_prod_beta)
  have keys: "set startup_keys = (\<lambda>x. (fst x, fst (snd x))) ` set startup_sections"
    by (simp add: startup_sections_def case_prod_beta image_image)
  have "(\<forall>k \<in> set (fst (snd x)). path_value report (''guardrails.'' @ fst x @ ''.'' @ k) = Some (PBool True))
      \<longleftrightarrow> (\<forall>a \<in> set (snd (snd (snd x)) env). refused env a)"
    if mem: "x \<in> set startup_sections" for x
  proof -
    obtain name keys probe starts where x: "x = (name, keys, probe, starts)" by (cases x)
    obtain d where d: "probe env = Inr d" "(name, PDict d) \<in> set sections"
      using startup_guardrails_section [OF assms(1)] bspec [OF startup_sections_probes mem] unfolding x prod.case by blast
    have "(name, keys) \<in> set startup_keys" using mem by (force simp: keys x image_iff)
    then have "CHR ''.'' \<notin> set name" "\<forall>k \<in> set keys. CHR ''.'' \<notin> set k"
      using startup_names_plain by (auto simp: list_all_iff)
    moreover have "map_of guardrails name = Some (PDict d)" using assms(3) d(2) by blast
    ultimately have "\<forall>k \<in> set keys. path_value report (''guardrails.'' @ name @ ''.'' @ k) = map_of d k"
      using path_value_section [OF assms(2), of name d] by blast
    moreover have "judged_by probe keys starts" using bspec [OF startup_sections_judged mem] unfolding x prod.case .
    ultimately show ?thesis using d(1) by (simp add: judged_by_def x)
  qed
  then have "(\<forall>x \<in> set startup_sections. \<forall>k \<in> set (fst (snd x)).
        path_value report (''guardrails.'' @ fst x @ ''.'' @ k) = Some (PBool True))
      \<longleftrightarrow> (\<forall>x \<in> set startup_sections. \<forall>a \<in> set (snd (snd (snd x)) env). refused env a)"
    by blast
  then show ?thesis by (simp add: paths keys startup_sections_starts case_prod_beta)
qed

text \<open>
  C38. The gate and the startup probes agree: when the startup sections of a report are those the benchmark measures,
  the gate has nothing to say on any of its startup checks exactly when the proxy refused every unsafe configuration
  it was started on, with a non-zero exit status and the expected message; and a report that the gate accepts means
  that all of them were refused.
\<close>

theorem startup_refusals_gated:
  assumes "startup_guardrails env = Inr sections" and "map_of report ''guardrails'' = Some (PDict guardrails)"
    and "\<forall>(name, d) \<in> set sections. map_of guardrails name = Some d"
  shows "(concat (map (true_check_errors report) (filter startup_check REQUIRED_TRUE_CHECKS)) = []
      \<longleftrightarrow> (\<forall>a \<in> set (unsafe_starts env). refused env a))
    \<and> (local_main want (Inr (PDict report)) = Inr (out, errors, 0) \<longrightarrow> (\<forall>a \<in> set (unsafe_starts env). refused env a))"
proof
  have iff: "(\<forall>(path, _) \<in> set (filter startup_check REQUIRED_TRUE_CHECKS). path_value report path = Some (PBool True))
      \<longleftrightarrow> (\<forall>a \<in> set (unsafe_starts env). refused env a)"
    using startup_paths_true_iff [OF assms] by (simp flip: startup_paths_checked add: case_prod_beta)
  then show "concat (map (true_check_errors report) (filter startup_check REQUIRED_TRUE_CHECKS)) = []
      \<longleftrightarrow> (\<forall>a \<in> set (unsafe_starts env). refused env a)"
    by (simp only: true_checks_Nil)
  show "local_main want (Inr (PDict report)) = Inr (out, errors, 0) \<longrightarrow> (\<forall>a \<in> set (unsafe_starts env). refused env a)"
  proof
    assume "local_main want (Inr (PDict report)) = Inr (out, errors, 0)"
    then have "assert_local_report want report = Inr []" by (auto simp: local_main_def rbind_Inr_iff split: if_splits)
    then have "local_report_ok want report" by (simp add: assert_local_report_silent)
    then have "\<forall>(path, _) \<in> set REQUIRED_TRUE_CHECKS. path_value report path = Some (PBool True)"
      unfolding local_report_ok_def by blast
    then show "\<forall>a \<in> set (unsafe_starts env). refused env a" unfolding iff [symmetric] set_filter by blast
  qed
qed


section \<open>A proxy that refuses\<close>

text \<open>Every process ends, at the latest when it is killed; then the probes return.\<close>

definition killable :: "startup_env \<Rightarrow> bool" where
  "killable env \<longleftrightarrow> (\<forall>command files. \<exists>n \<in> {0, 1, 2}. st_ended env command files n \<noteq> None)"

lemma start_proxy_returns: "killable env \<Longrightarrow> \<exists>code err. start_proxy env file files = Inr (code, err)"
  unfolding killable_def start_proxy_def communicate_def by (auto split: option.splits) (metis option.distinct(1))+

lemma run_case_returns:
  assumes "killable env" shows "\<exists>d. run_case env c = Inr d"
proof -
  obtain code err where "start_proxy env (case_file c) [(tmp_file env (case_file c), case_content c)] = Inr (code, err)"
    using start_proxy_returns [OF assms] by blast
  then show ?thesis by (simp add: run_case_def)
qed

lemma run_cases_returns:
  assumes "killable env" shows "\<exists>rs. run_cases env cases = Inr rs"
proof (induction cases)
  case Nil
  then show ?case by (simp add: run_cases_def)
next
  case (Cons x cases)
  obtain d where "run_case env (snd x) = Inr d" using run_case_returns [OF assms] by blast
  with Cons show ?case by (auto simp: run_cases_def case_prod_beta)
qed

lemma probe_returns: "killable env \<Longrightarrow> \<exists>d. rbind (run_cases env cases) (\<lambda>rs. Inr (f rs)) = Inr d"
  using run_cases_returns [of env cases] by auto

lemma single_returns: "killable env \<Longrightarrow> \<exists>d. single_report env key c = Inr d"
  using run_case_returns [of env c] by (auto simp: single_report_def)

lemma trust_returns:
  assumes "killable env" shows "\<exists>d. run_trusted_proxy_global_trust_startup_probe env = Inr d"
proof -
  obtain code err where "start_proxy env ''trusted-proxy-global-trust-config.json'' (global_trust_files env) = Inr (code, err)"
    using start_proxy_returns [OF assms] by blast
  then show ?thesis by (simp add: run_trusted_proxy_global_trust_startup_probe_def)
qed

lemma startup_probes_return: "killable env \<Longrightarrow> \<forall>(name, probe) \<in> set startup_probes. \<exists>d. probe env = Inr d"
  by (simp add: startup_probes_def trust_returns probe_returns single_returns
    run_negative_rate_startup_probe_def run_admin_prefix_startup_probe_def run_admin_token_startup_probe_def
    run_zero_capacity_startup_probe_def run_header_buffer_floor_startup_probe_def
    run_header_buffer_ceiling_startup_probe_def run_header_count_ceiling_startup_probe_def
    run_http_metadata_ceiling_startup_probe_def run_header_read_timeout_ceiling_startup_probe_def
    run_upstream_timeout_ceiling_startup_probe_def run_upstream_failure_circuit_ceiling_startup_probe_def
    run_http_stream_timeout_ceiling_startup_probe_def run_body_size_ceiling_startup_probe_def
    run_min_rate_ceiling_startup_probe_def run_upstream_idle_pool_ceiling_startup_probe_def
    run_connect_timeout_ceiling_startup_probe_def run_connection_duration_ceiling_startup_probe_def
    run_connection_request_count_ceiling_startup_probe_def run_event_log_backup_count_ceiling_startup_probe_def
    run_event_log_queue_capacity_ceiling_startup_probe_def run_dynamic_state_ceiling_startup_probe_def
    run_control_capacity_startup_probe_def run_config_file_startup_probe_def run_http_endpoint_startup_probe_def
    run_tcp_endpoint_startup_probe_def run_filter_rule_startup_probe_def run_allowed_methods_startup_probe_def
    run_allowed_hosts_startup_probe_def run_client_ip_config_startup_probe_def)

lemma rmap_named_returns:
  "\<forall>(name, probe) \<in> set ps. \<exists>d. probe env = Inr d
   \<Longrightarrow> \<exists>ys. rmap (\<lambda>(name, probe). rbind (probe env) (\<lambda>d. Inr (name, PDict d))) ps = Inr ys"
  by (induction ps) auto

lemma startup_returns: "killable env \<Longrightarrow> \<exists>sections. startup_guardrails env = Inr sections"
  unfolding startup_guardrails_def by (intro rmap_named_returns startup_probes_return)

lemma startup_guardrails_names: "startup_guardrails env = Inr sections \<Longrightarrow> map fst sections = map fst startup_probes"
  unfolding startup_guardrails_def rmap_Inr_iff
  by (induction rule: list_all2_induct) (auto simp: rbind_Inr_iff)

definition silent_proxy :: startup_env where
  "silent_proxy = \<lparr>st_binary = ''altura-prot'', st_tmp = ''/tmp/bench'', st_port = (\<lambda>file. 40000), st_upstream = 40001,
     st_tcp_upstream = 40002, st_ended = (\<lambda>command files signals. Some (0, []))\<rparr>"

definition expected_texts :: "startup_env \<Rightarrow> string list" where
  "expected_texts env = concat (map (\<lambda>(file, files, needles). needles) (unsafe_starts env))"

definition strict_proxy :: startup_env where
  "strict_proxy = silent_proxy\<lparr>st_ended := (\<lambda>command files signals. Some (1, concat (expected_texts silent_proxy)))\<rparr>"

lemma strict_texts: "expected_texts strict_proxy = expected_texts silent_proxy"
  by (simp add: expected_texts_def unsafe_starts_def startup_starts_def case_starts_def case_start_def global_trust_start_def
      startup_cases ceiling_needles_def Let_def
    negative_rate_cases_def admin_prefix_cases_def admin_token_cases_def zero_capacity_cases_def
    header_buffer_floor_cases_def header_buffer_ceiling_cases_def header_count_ceiling_cases_def
    http_metadata_ceiling_cases_def header_read_timeout_ceiling_case_def upstream_timeout_ceiling_case_def
    upstream_failure_circuit_ceiling_cases_def http_stream_timeout_ceiling_cases_def body_size_ceiling_cases_def
    min_rate_ceiling_cases_def upstream_idle_pool_ceiling_cases_def connect_timeout_ceiling_cases_def
    connection_duration_ceiling_cases_def connection_request_count_ceiling_case_def
    event_log_backup_count_ceiling_case_def event_log_queue_capacity_ceiling_case_def dynamic_state_ceiling_cases_def
    control_capacity_cases_def config_file_cases_def http_endpoint_cases_def tcp_endpoint_cases_def
    filter_rule_cases_def allowed_methods_cases_def allowed_hosts_cases_def client_ip_config_cases_def)

lemma strict_refuses: "\<forall>a \<in> set (unsafe_starts strict_proxy). refused strict_proxy a"
proof
  fix a assume a: "a \<in> set (unsafe_starts strict_proxy)"
  obtain name files needles where eq: "a = (name, files, needles)" by (cases a)
  have "set needles \<subseteq> set (expected_texts strict_proxy)" using a by (force simp: expected_texts_def eq)
  then have "list_all (contains_str (concat (expected_texts silent_proxy))) needles"
    unfolding strict_texts list_all_iff using contains_concat by blast
  then show "refused strict_proxy a"
    by (simp add: eq refused_def start_proxy_def communicate_def strict_proxy_def rejected_with_def)
qed

theorem startup_refusals_gated_witness:
  "\<exists>sections. startup_guardrails strict_proxy = Inr sections
     \<and> concat (map (true_check_errors [(''guardrails'', PDict sections)]) (filter startup_check REQUIRED_TRUE_CHECKS)) = []"
proof -
  have "killable strict_proxy" by (auto simp: killable_def strict_proxy_def)
  then obtain sections where sections: "startup_guardrails strict_proxy = Inr sections" using startup_returns by blast
  have "distinct (map fst sections)"
    unfolding startup_guardrails_names [OF sections] by (simp add: startup_probes_def)
  then have "\<forall>(name, d) \<in> set sections. map_of sections name = Some d" by auto
  from startup_refusals_gated [OF sections _ this, of "[(''guardrails'', PDict sections)]"] strict_refuses sections
  show ?thesis by auto
qed

end
