(* ===== verification/Edge_Total.thy ===== *)
theory Edge_Total
  imports Edge_Validator
begin

text \<open>
  The edge validator does not raise: what its checks cut out of a template and hand to \<open>int\<close> is a numeral when the
  template is an ASCII text of moderate length.
\<close>

section \<open>Groups\<close>

text \<open>The groups of a pattern in the order in which they close; \<open>Alt\<close> and \<open>Opt\<close> must have none.\<close>

fun grps :: "regex \<Rightarrow> regex list" where
  "grps (Seq rs) = concat (map grps rs)"
| "grps (Alt r s) = grps r @ grps s"
| "grps (Opt r) = grps r"
| "grps (Grp r) = grps r @ [r]"
| "grps _ = []"

fun fixed_grps :: "regex \<Rightarrow> bool" where
  "fixed_grps (Seq rs) = list_all fixed_grps rs"
| "fixed_grps (Alt r s) = (grps r = [] \<and> grps s = [] \<and> fixed_grps r \<and> fixed_grps s)"
| "fixed_grps (Opt r) = (grps r = [] \<and> fixed_grps r)"
| "fixed_grps (Grp r) = fixed_grps r"
| "fixed_grps _ = True"

definition closes :: "nat \<Rightarrow> regex list \<Rightarrow> string list \<Rightarrow> string list \<Rightarrow> bool" where
  "closes n rs g g' \<longleftrightarrow> (\<exists>gs. g' = g @ gs \<and> list_all2 (\<lambda>r m. length m \<le> n \<and> (\<exists>b a. denotes r b m a)) rs gs)"

lemma closes_Nil [simp]: "closes n [] g g' \<longleftrightarrow> g' = g"
  by (auto simp: closes_def)

lemma closes_append: "closes n rs g g1 \<Longrightarrow> closes n qs g1 g2 \<Longrightarrow> closes n (rs @ qs) g g2"
  by (auto simp: closes_def intro: list_all2_appendI)

lemma closes_mono: "closes m rs g g' \<Longrightarrow> m \<le> n \<Longrightarrow> closes n rs g g'"
  unfolding closes_def by (fastforce elim: list.rel_mono_strong)

lemma rmatch_suffix:
  assumes "(b', a', g') \<in> set (rmatch r (b, a, g))"
  obtains m where "a = m @ a'" and "b' = rev m @ b" and "denotes r b m a'"
proof -
  have "found_at b a (denotes r b) b' a'" using assms rmatch_iff(1) [of b' a' r "(b, a, g)"] by auto
  then show thesis using that by (auto simp: found_at_def)
qed

lemma rmatch_closes:
  "(b', a', g') \<in> set (rmatch r st) \<Longrightarrow> fixed_grps r \<Longrightarrow> closes (length (fst (snd st))) (grps r) (snd (snd st)) g'"
  "(b', a', g') \<in> set (rmatch_seq rs st) \<Longrightarrow> list_all fixed_grps rs
   \<Longrightarrow> closes (length (fst (snd st))) (concat (map grps rs)) (snd (snd st)) g'"
proof (induction r st and rs st arbitrary: b' a' g' and b' a' g' rule: rmatch_rmatch_seq.induct)
  case (7 r st)
  then show ?case by (cases st) auto
next
  case (8 r b a g)
  from "8.prems"(1) obtain g1 where g1: "(b', a', g1) \<in> set (rmatch r (b, a, g))"
    and g': "g' = g1 @ [rev (take (length b' - length b) b')]" by auto
  from g1 obtain m where m: "a = m @ a'" "b' = rev m @ b" "denotes r b m a'" by (rule rmatch_suffix)
  then have "closes (length a) [r] g1 g'" by (auto simp: g' closes_def)
  with "8.IH" [OF g1] "8.prems"(2) show ?case by (auto intro: closes_append)
next
  case (10 r rs st)
  obtain b a g where st: "st = (b, a, g)" by (cases st)
  from "10.prems"(1) obtain b1 a1 g1 where st1: "(b1, a1, g1) \<in> set (rmatch r st)"
    and st2: "(b', a', g') \<in> set (rmatch_seq rs (b1, a1, g1))" by auto
  have "length a1 \<le> length a" using st1 unfolding st by (auto elim!: rmatch_suffix)
  with "10.IH"(2) [OF st1 st2] "10.prems"(2) have "closes (length a) (concat (map grps rs)) g1 g'"
    by (auto intro: closes_mono)
  with "10.IH"(1) [OF st1] "10.prems"(2) show ?case by (auto simp: st intro: closes_append)
qed (auto split: if_splits)

lemma re_search_suffix:
  assumes "re_search r s = Some (i, rest, gs)" and "fixed_grps r"
  shows "(\<exists>p. s = p @ rest) \<and> list_all2 (\<lambda>r m. length m \<le> length s \<and> (\<exists>b a. denotes r b m a)) (grps r) gs"
proof -
  have "(\<exists>p. s = p @ rest) \<and> closes (length s) (grps r) [] gs" if "search_from r b s = Some (i, rest, gs)" for b
    using that
  proof (induction s arbitrary: b)
    case Nil
    then obtain b' where "(b', rest, gs) \<in> set (rmatch r (b, [], []))" by (auto split: list.splits)
    then show ?case using rmatch_closes(1) [OF _ assms(2)] by (force elim: rmatch_suffix)
  next
    case (Cons c s)
    show ?case
    proof (cases "rmatch r (b, c # s, [])")
      case Nil
      with Cons.prems have "search_from r (c # b) s = Some (i, rest, gs)" by simp
      from Cons.IH [OF this] show ?thesis by (auto intro: closes_mono)
    next
      case (Cons x xs)
      with Cons.prems obtain b' where "(b', rest, gs) \<in> set (rmatch r (b, c # s, []))" by (cases x) auto
      then show ?thesis using rmatch_closes(1) [OF _ assms(2)] by (force elim: rmatch_suffix)
    qed
  qed
  then show ?thesis using assms(1) by (auto simp: re_search_def closes_def)
qed

lemma re_fullmatch_groups:
  assumes "re_fullmatch r s = Some gs" and "fixed_grps r"
  shows "list_all2 (\<lambda>r m. length m \<le> length s \<and> (\<exists>b a. denotes r b m a)) (grps r) gs"
proof -
  obtain b' a' rest where "filter (\<lambda>(b, a, g). a = []) (rmatch r ([], s, [])) = (b', a', gs) # rest"
    using assms(1) by (auto simp: re_fullmatch_def split: list.splits)
  then have "(b', a', gs) \<in> set (filter (\<lambda>(b, a, g). a = []) (rmatch r ([], s, [])))" by simp
  then have "(b', a', gs) \<in> set (rmatch r ([], s, []))" by (simp only: set_filter mem_Collect_eq)
  from rmatch_closes(1) [OF this assms(2)] show ?thesis by (auto simp: closes_def)
qed


section \<open>Parts of a text\<close>

text \<open>No longer than the text, and of its characters, line feeds and blanks.\<close>

definition drawn :: "string \<Rightarrow> string \<Rightarrow> bool" where
  "drawn s t \<longleftrightarrow> length s \<le> length t \<and> set s \<subseteq> insert LF (insert (CHR '' '') (set t))"

named_theorems drawn_intros

lemma drawn_refl [drawn_intros]: "drawn s s"
  by (auto simp: drawn_def)

lemma drawn_trans: "drawn s t \<Longrightarrow> drawn t u \<Longrightarrow> drawn s u"
  unfolding drawn_def by fastforce

lemma drawn_strip [drawn_intros]: "drawn (str_strip s) s"
  using set_strip_by [of is_space s] length_strip_by [of is_space s] by (auto simp: drawn_def str_strip_def)

lemma drawn_rstrip [drawn_intros]: "drawn (rstrip_by p s) s"
  using length_dropWhile_le [of p "rev s"] by (auto simp: drawn_def rstrip_by_def dest!: set_dropWhileD)

lemma drawn_drop [drawn_intros]: "drawn (drop n s) s"
  by (auto simp: drawn_def dest: in_set_dropD)

lemma drawn_suffix [drawn_intros]: "drawn s (p @ s)"
  by (auto simp: drawn_def)

lemma drawn_squeeze [drawn_intros]: "drawn (squeeze b s) s"
  by (induction b s rule: squeeze.induct) (auto simp: drawn_def)

lemma splitlines_acc_drawn:
  "sum_list (map (\<lambda>l. Suc (length l)) (splitlines_acc cr acc s)) \<le> Suc (length acc + length s)
   \<and> (\<forall>l \<in> set (splitlines_acc cr acc s). set l \<subseteq> set acc \<union> set s \<and> length l \<le> length acc + length s)"
proof (induction cr acc s rule: splitlines_acc.induct)
  case (2 cr acc c cs)
  then show ?case by (fastforce split: if_splits)
qed auto

lemma splitlines_drawn:
  "sum_list (map (\<lambda>l. Suc (length l)) (splitlines s)) \<le> Suc (length s)" "l \<in> set (splitlines s) \<Longrightarrow> drawn l s"
  using splitlines_acc_drawn [of False "[]" s] by (auto simp: splitlines_def drawn_def)

lemma length_join: "length (join_with [c] ls) \<le> sum_list (map (\<lambda>l. Suc (length l)) ls) - 1"
  by (induction "[c]" ls rule: join_with.induct) auto

lemma set_join: "set (join_with [c] ls) \<subseteq> insert c (\<Union>l \<in> set ls. set l)"
  by (induction "[c]" ls rule: join_with.induct) auto

lemma sum_list_takeWhile:
  "sum_list (map (\<lambda>l. Suc (length (takeWhile p l))) ls) \<le> sum_list (map (\<lambda>l. Suc (length l)) ls)"
  by (rule sum_list_mono) (simp add: length_takeWhile_le)

lemma drawn_strip_comments [drawn_intros]: "drawn (strip_nft_comments s) s"
proof -
  let ?cut = "takeWhile (\<lambda>x. x \<noteq> CHR ''#'')"
  have eq: "strip_nft_comments s = join_with [LF] (map ?cut (splitlines s))"
    by (simp add: strip_nft_comments_def split_once_def)
  have "length (strip_nft_comments s) \<le> sum_list (map (\<lambda>l. Suc (length l)) (splitlines s)) - 1"
    using length_join [of LF "map ?cut (splitlines s)"] sum_list_takeWhile [of "\<lambda>x. x \<noteq> CHR ''#''" "splitlines s"]
    by (simp add: eq comp_def)
  moreover have "set (?cut l) \<subseteq> insert LF (insert (CHR '' '') (set s))" if "l \<in> set (splitlines s)" for l
    using splitlines_drawn(2) [OF that] set_takeWhileD [of _ "\<lambda>x. x \<noteq> CHR ''#''" l] by (auto simp: drawn_def)
  ultimately show ?thesis
    using splitlines_drawn(1) [of s] set_join [of LF "map ?cut (splitlines s)"] by (fastforce simp: drawn_def eq)
qed

lemma scan_block_drawn:
  "scan_block depth acc cs = Some s \<Longrightarrow> length s \<le> length acc + length cs \<and> set s \<subseteq> set acc \<union> set cs"
  by (induction depth acc cs rule: scan_block.induct) (fastforce split: if_splits)+

lemma block_after_drawn:
  assumes "block_after r raw = Some block" and "fixed_grps r" shows "drawn block raw"
proof -
  from assms(1) obtain i rest gs where found: "re_search r (strip_nft_comments raw) = Some (i, rest, gs)"
    and block: "scan_block 0 [] rest = Some block" by (auto simp: block_after_def split: option.splits)
  from re_search_suffix [OF found assms(2)] obtain p where "strip_nft_comments raw = p @ rest" by blast
  then have "drawn rest (strip_nft_comments raw)" by (simp add: drawn_suffix)
  moreover have "drawn block rest" using scan_block_drawn [OF block] by (auto simp: drawn_def)
  ultimately show ?thesis using drawn_strip_comments drawn_trans by blast
qed

lemma named_block_drawn: "named_block raw name = Some block \<Longrightarrow> drawn block raw"
  unfolding named_block_def by (erule block_after_drawn) simp

lemma nft_set_block_drawn: "nft_set_block raw name = Some block \<Longrightarrow> drawn block raw"
  unfolding nft_set_block_def by (erule block_after_drawn) simp

lemma first_directive_drawn: "first_directive key ls = Some v \<Longrightarrow> \<exists>l \<in> set ls. drawn v l"
proof (induction key ls rule: first_directive.induct)
  case (2 key raw ls)
  let ?line = "rstrip_by (\<lambda>c. c = CHR '';'') (str_strip raw)"
  have "drawn (str_strip (drop (length key) ?line)) raw"
    by (rule drawn_trans [OF drawn_strip drawn_trans [OF drawn_drop drawn_trans [OF drawn_rstrip drawn_strip]]])
  with 2 show ?case by (auto simp: Let_def split: if_splits)
qed simp

lemma nft_directive_drawn:
  assumes "nft_directive block key = Some v" shows "drawn v block"
proof -
  obtain l where "l \<in> set (splitlines (strip_nft_comments block))" and "drawn v l"
    using first_directive_drawn assms unfolding nft_directive_def by blast
  then show ?thesis using splitlines_drawn(2) drawn_strip_comments drawn_trans by blast
qed

lemma compact_drawn: "drawn (compact_rule_text s) s"
  unfolding compact_rule_text_def
  by (rule drawn_trans [OF drawn_strip drawn_trans [OF drawn_squeeze drawn_strip_comments]])


section \<open>Numerals\<close>

lemma int_lit_digits:
  assumes "s \<noteq> []" and "list_all is_ascii_digit s" and "length s \<le> max_int_digits"
  shows "\<exists>i. int_lit s = Inr i"
proof -
  have plain: "\<not> is_int_space c \<and> c \<noteq> CHR ''-'' \<and> c \<noteq> CHR ''+'' \<and> c \<noteq> CHR ''_''" if "c \<in> set s" for c
    using assms(2) that by (auto simp: list_all_iff is_ascii_digit_def is_int_space_def cp_def)
  then have "strip_by is_int_space s = s" using assms(1) by (intro strip_by_id) simp_all
  moreover have "split_on (CHR ''_'') s = [s]" using plain by (intro split_on_absent) blast
  then have "digit_groups s = Some s" using assms by (simp add: digit_groups_def)
  ultimately show ?thesis using assms(1) plain by (cases s) (auto simp: int_lit_def int_of_str_def)
qed

text \<open>An ASCII text, no longer than a numeral may be.\<close>

definition short_ascii :: "string \<Rightarrow> bool" where
  "short_ascii t \<longleftrightarrow> length t \<le> max_int_digits \<and> list_all (\<lambda>c. cp c < 128) t"

lemma short_ascii_drawn: "drawn s t \<Longrightarrow> short_ascii t \<Longrightarrow> short_ascii s"
  by (fastforce simp: drawn_def short_ascii_def list_all_iff LF_def cp_def)

lemma int_lit_isdigit: "str_isdigit s \<Longrightarrow> short_ascii s \<Longrightarrow> \<exists>i. int_lit s = Inr i"
  by (rule int_lit_digits) (fastforce simp: str_isdigit_def short_ascii_def is_digit_char_def list_all_iff)+

lemma denotes_Digits: "denotes Digits b m a \<Longrightarrow> m \<noteq> [] \<and> list_all is_ascii_digit m"
  by (auto elim!: denotes_SeqE denotes_ConsE denotes_NilE denotes_OneE denotes_ManyE)

lemma int_lit_Digits: "denotes Digits b m a \<Longrightarrow> length m \<le> max_int_digits \<Longrightarrow> \<exists>i. int_lit m = Inr i"
  using denotes_Digits by (intro int_lit_digits) auto

section \<open>The checks return\<close>

definition returns :: "'a result \<Rightarrow> bool" where
  "returns r \<longleftrightarrow> (\<exists>x. r = Inr x)"

named_theorems returning

lemma returns_Inr [returning]: "returns (Inr x)"
  by (simp add: returns_def)

lemma returns_rbind [returning]: "returns m \<Longrightarrow> (\<And>x. m = Inr x \<Longrightarrow> returns (f x)) \<Longrightarrow> returns (rbind m f)"
  by (auto simp: returns_def)

lemma set_size_returns:
  assumes "short_ascii block" shows "returns (set_size_errors kind name bound block)"
proof (cases "nft_directive block ''size''")
  case (Some v)
  then have "short_ascii v" using nft_directive_drawn short_ascii_drawn assms by blast
  then show ?thesis using int_lit_isdigit [of v] Some by (auto simp: set_size_errors_def returns_def)
qed (simp add: set_size_errors_def returns_def)

lemma denotes_unit:
  assumes "denotes (Opt (One (\<lambda>c. c \<in> {CHR ''s'', CHR ''m'', CHR ''h'', CHR ''d''}))) b m a"
  shows "m \<in> {[], ''s'', ''m'', ''h'', ''d''}"
  using assms by (auto elim!: denotes_OptE denotes_OneE)

lemma syn_timeout_returns:
  assumes "short_ascii block" shows "returns (syn_timeout_errors name block)"
proof -
  let ?t = "directive_or block ''timeout'' []"
  have short: "short_ascii ?t"
    using nft_directive_drawn short_ascii_drawn assms
    by (auto simp: directive_or_def short_ascii_def split: option.splits) blast+
  have "returns (nft_duration_seconds value unit)" if "re_fullmatch DURATION ?t = Some [value, unit]" for "value" unit
  proof -
    from re_fullmatch_groups [OF that] obtain b a b' a' where "length value \<le> length ?t" "denotes Digits b value a"
      and "denotes (Opt (One (\<lambda>c. c \<in> {CHR ''s'', CHR ''m'', CHR ''h'', CHR ''d''}))) b' unit a'"
      by (auto simp: DURATION_def)
    with int_lit_Digits [of b "value" a] denotes_unit [of b' unit a'] short show ?thesis
      by (auto simp: nft_duration_seconds_def short_ascii_def returns_def)
  qed
  then show ?thesis
    unfolding syn_timeout_errors_def by (auto split: option.splits list.splits intro!: returning)
qed

lemma set_checks_return [returning]:
  assumes "short_ascii raw"
  shows "returns (validate_connlimit_set_sizes path (Some (Inr raw)))"
    and "returns (validate_syn_rate_set_bounds path (Some (Inr raw)))"
proof -
  have short: "nft_set_block raw name = Some block \<Longrightarrow> short_ascii block" for name block
    using nft_set_block_drawn short_ascii_drawn assms by blast
  show "returns (validate_connlimit_set_sizes path (Some (Inr raw)))"
    by (auto simp: validate_connlimit_set_sizes_def read_text_def connlimit_set_errors_def split: option.splits
        intro!: returning set_size_returns dest: short)
  show "returns (validate_syn_rate_set_bounds path (Some (Inr raw)))"
    by (auto simp: validate_syn_rate_set_bounds_def read_text_def syn_rate_set_errors_def Let_def split: option.splits
        intro!: returning set_size_returns syn_timeout_returns dest: short)
qed

lemma threshold_returns:
  assumes "short_ascii rules" shows "returns (threshold_errors max_allowed rules name)"
proof (cases "re_search (CONNLIMIT_RULE name) rules")
  case (Some found)
  obtain i rest gs where found: "found = (i, rest, gs)" by (cases found)
  have "list_all2 (\<lambda>r m. length m \<le> length rules \<and> (\<exists>b a. denotes r b m a)) [Digits] gs"
    using re_search_suffix [OF Some [unfolded found]] by (simp add: CONNLIMIT_RULE_def)
  then obtain m b a where "gs = [m]" "length m \<le> length rules" "denotes Digits b m a" by (auto simp: list_all2_Cons1)
  with int_lit_Digits [of b m a] assms Some found show ?thesis
    by (auto simp: threshold_errors_def short_ascii_def returns_def)
qed (simp add: threshold_errors_def returns_def)

lemma threshold_check_returns [returning]:
  assumes "short_ascii raw"
  shows "returns (validate_connlimit_thresholds path (Some (Inr raw)) (Some (cpath, Some (Inr (PDict data)))))"
proof -
  have "named_block raw name = Some block \<Longrightarrow> short_ascii (compact_rule_text block)" for name block
    using named_block_drawn compact_drawn short_ascii_drawn assms by blast
  then show ?thesis
    by (auto simp: validate_connlimit_thresholds_def protected_port_connlimit_ceiling_def public_listener_connection_caps_def
        config_data_def read_text_def split: option.splits prod.splits intro!: returning threshold_returns)
qed


lemma rfold_value_errors:
  assumes "\<And>s x e. f s x = Inl e \<Longrightarrow> is_value_error e" and "rfold f s xs = Inl e" shows "is_value_error e"
  using assms(2)
proof (induction xs arbitrary: s)
  case (Cons x xs)
  then show ?case using assms(1) by (auto simp: rbind_Inl_iff)
qed simp

lemma add_assignment_errors: "add_assignment acc raw = Inl e \<Longrightarrow> is_value_error e"
  by (auto simp: add_assignment_def Let_def split: if_splits prod.splits option.splits)

lemma add_unit_line_errors: "add_unit_line st raw = Inl e \<Longrightarrow> is_value_error e"
  by (auto simp: add_unit_line_def Let_def split: if_splits prod.splits option.splits)

lemma host_checks_return [returning]:
  "returns (validate_sysctl h path (Some (Inr s)))" "returns (validate_systemd_unit upath (Some (Inr u)) cpath config)"
proof -
  have "is_value_error e" if "sysctl_assignments path (Some (Inr s)) = Inl e" for e
    using that rfold_value_errors [OF add_assignment_errors] by (simp add: sysctl_assignments_def read_text_def)
  then show "returns (validate_sysctl h path (Some (Inr s)))"
    by (auto simp: validate_sysctl_def returns_def split: sum.splits)
  have "is_value_error e" if "parse_systemd_unit upath (Some (Inr u)) = Inl e" for e
    using that rfold_value_errors [OF add_unit_line_errors] by (auto simp: parse_systemd_unit_def read_text_def rbind_Inl_iff)
  then show "returns (validate_systemd_unit upath (Some (Inr u)) cpath config)"
    by (auto simp: validate_systemd_unit_def returns_def split: sum.splits option.splits)
qed

lemma ports_return [returning]: "returns (protected_tcp_port_ranges serv path (Some (Inr raw)))"
  by (auto simp: protected_tcp_port_ranges_def read_text_def returns_def split: option.splits prod.splits)

lemma nft_checks_return [returning]:
  "returns (validate_protected_tcp_ports serv path (Some (Inr raw)))"
  "returns (validate_udp_protected_port_drop path (Some (Inr raw)))"
  "returns (validate_generic_tcp_backstop_protocol_matches path (Some (Inr raw)))"
  "returns (validate_ipv6_prefix_backstops path (Some (Inr raw)))"
  "returns (validate_ipv6_extension_safe_protocol_matches path (Some (Inr raw)))"
  "returns (validate_icmp_control_exemption k path (Some (Inr raw)))"
  "returns (validate_edge_port_coverage serv cpath (Some (Inr (PDict data))) path (Some (Inr raw)))"
  by (auto simp: validate_protected_tcp_ports_def validate_udp_protected_port_drop_def
      validate_generic_tcp_backstop_protocol_matches_def validate_ipv6_prefix_backstops_def
      validate_ipv6_extension_safe_protocol_matches_def validate_icmp_control_exemption_def validate_edge_port_coverage_def
      config_public_listener_ports_def config_data_def read_text_def Let_def split: option.splits prod.splits
      intro!: returning)

lemma collect_returns: "list_all returns rs \<Longrightarrow> returns (collect rs)"
  by (induction rs) (auto simp: collect_Cons returns_def)

lemma edge_checks_return:
  assumes "short_ascii raw"
  shows "returns (collect (edge_checks env args \<lparr>config_file = Some (Inr (PDict data)), nft_file = Some (Inr raw),
     sysctl_file = Some (Inr s), systemd_file = Some (Inr u)\<rparr>))"
  using assms
  by (intro collect_returns)
    (simp add: edge_checks_def Let_def validate_icmpv4_control_exemption_def validate_icmpv6_control_exemption_def returning)



end
