(* ===== verification/Edge_Probe.thy ===== *)
theory Edge_Probe
  imports Edge_Total Local_Gate
begin

text \<open>
  The edge template probe of \<open>tools/run_local_bench.py\<close>: it generates nftables, sysctl and systemd templates, spoils
  them one way after the other and runs \<open>tools/validate_edge_templates.py\<close> on them.  The command it runs is the one
  modelled in \<open>Edge_Validator\<close>; the host and the text of an uncaught exception are parameters.
\<close>

section \<open>Templates\<close>

definition unlines :: "string list \<Rightarrow> string" where
  "unlines ls = concat (map (\<lambda>l. l @ [LF]) ls)"

record nft_options =
  include_udp_drop :: bool
  ipv6_prefix_syn :: bool
  ipv6_prefix_connlimit :: bool
  ipv6_syn_l4proto :: bool
  ipv6_connlimit_l4proto :: bool
  ipv6_icmp_l4proto :: bool
  generic_tcp_l4proto :: bool
  include_icmpv4_control_exemption :: bool
  icmpv4_control_after_drop :: bool
  include_icmpv6_control_exemption :: bool
  icmpv6_control_after_drop :: bool
  connlimit_set_size :: bool
  connlimit_count :: int
  syn_rate_set_size :: bool
  syn_rate_set_timeout :: bool

definition default_options :: nft_options where
  "default_options =
     \<lparr>include_udp_drop = True, ipv6_prefix_syn = True, ipv6_prefix_connlimit = True, ipv6_syn_l4proto = True,
      ipv6_connlimit_l4proto = True, ipv6_icmp_l4proto = True, generic_tcp_l4proto = True,
      include_icmpv4_control_exemption = True, icmpv4_control_after_drop = False, include_icmpv6_control_exemption = True,
      icmpv6_control_after_drop = False, connlimit_set_size = True, connlimit_count = 128, syn_rate_set_size = True,
      syn_rate_set_timeout = True\<rparr>"

definition prefix_key :: "bool \<Rightarrow> string" where
  "prefix_key masked = (if masked then ''ip6 saddr and ffff:ffff:ffff:ffff:: . tcp dport'' else ''ip6 saddr . tcp dport'')"

definition tcp6_protocol :: "bool \<Rightarrow> string" where
  "tcp6_protocol safe = (if safe then ''meta nfproto ipv6 meta l4proto tcp'' else ''ip6 nexthdr tcp'')"

text \<open>The ICMP rules of one family: the control exemption, if there is one, before or after the drop.\<close>

definition icmp_order :: "bool \<Rightarrow> bool \<Rightarrow> string \<Rightarrow> string \<Rightarrow> string list" where
  "icmp_order include_control control_after_drop control_rule drop_rule =
     (let control = (if include_control then [control_rule] else [])
      in if control_after_drop then drop_rule # control else control @ [drop_rule])"

definition icmp_rules :: "nft_options \<Rightarrow> string list" where
  "icmp_rules opt =
     icmp_order (include_icmpv4_control_exemption opt) (icmpv4_control_after_drop opt)
       (''    ip protocol icmp icmp type { destination-unreachable, '' @ ''time-exceeded, parameter-problem } accept'')
       ''    ip protocol icmp limit rate over 100/second burst 200 packets drop''
     @ icmp_order (include_icmpv6_control_exemption opt) (icmpv6_control_after_drop opt)
       (''    meta nfproto ipv6 meta l4proto ipv6-icmp icmpv6 type { ''
        @ ''destination-unreachable, packet-too-big, time-exceeded, parameter-problem, ''
        @ ''nd-router-solicit, nd-router-advert, nd-neighbor-solicit, '' @ ''nd-neighbor-advert } accept'')
       (''    '' @ (if ipv6_icmp_l4proto opt then ''meta nfproto ipv6 meta l4proto ipv6-icmp'' else ''ip6 nexthdr ipv6-icmp'')
        @ '' limit rate over 100/second burst 200 packets drop'')"

definition rate_set :: "nft_options \<Rightarrow> string \<Rightarrow> string \<Rightarrow> string list" where
  "rate_set opt name key =
     [''  set '' @ name @ '' {'', ''    type '' @ key @ '' . inet_service'']
     @ (if syn_rate_set_size opt then [''    size 65535''] else [])
     @ [''    flags '' @ (if syn_rate_set_timeout opt then ''dynamic,timeout'' else ''dynamic'')]
     @ (if syn_rate_set_timeout opt then [''    timeout 10s''] else [])
     @ [''  }'', []]"

definition connlimit_set :: "nft_options \<Rightarrow> string \<Rightarrow> string \<Rightarrow> string list" where
  "connlimit_set opt name key =
     [''  set '' @ name @ '' {'', ''    type '' @ key @ '' . inet_service'']
     @ (if connlimit_set_size opt then [''    size 65535''] else [])
     @ [''    flags dynamic'', ''  }'', []]"

definition edge_nft_template :: "string \<Rightarrow> nft_options \<Rightarrow> string" where
  "edge_nft_template elements opt =
     (let tcp = (if generic_tcp_l4proto opt then ''meta l4proto tcp '' else []);
          ports = ''tcp dport @protected_tcp_ports'';
          count = int_str (connlimit_count opt)
      in unlines
       ([''#!/usr/sbin/nft -f'', ''table inet altura_prot_edge {'', ''  set protected_tcp_ports {'', ''    type inet_service'',
         ''    elements = '' @ elements, ''  }'', []]
        @ connlimit_set opt ''tcp4_connlimit'' ''ipv4_addr'' @ connlimit_set opt ''tcp6_connlimit'' ''ipv6_addr''
        @ rate_set opt ''tcp4_syn_rate'' ''ipv4_addr'' @ rate_set opt ''tcp6_syn_rate'' ''ipv6_addr''
        @ [''  chain preraw {'', ''    type filter hook prerouting priority raw; policy accept;'',
           ''    '' @ tcp @ ports @ '' tcp flags & (fin|syn|rst|ack) == 0 drop'',
           ''    '' @ tcp @ ports @ '' tcp flags & (fin|syn|rst|psh|ack|urg) == fin|psh|urg drop'']
        @ (if include_udp_drop opt then [''    meta l4proto udp udp dport @protected_tcp_ports drop''] else [])
        @ [''    ip protocol tcp '' @ ports @ '' tcp flags & (fin|syn|rst|ack) == syn update @tcp4_syn_rate ''
             @ ''{ ip saddr . tcp dport limit rate over 200/second burst 400 packets } drop'',
           ''    '' @ tcp6_protocol (ipv6_syn_l4proto opt) @ '' '' @ ports
             @ '' tcp flags & (fin|syn|rst|ack) == syn update @tcp6_syn_rate { '' @ prefix_key (ipv6_prefix_syn opt)
             @ '' limit rate over 200/second burst 400 packets } drop'',
           ''    '' @ tcp @ ports
             @ '' tcp flags & (fin|syn|rst|ack) == syn limit rate over 5000/second burst 10000 packets drop'',
           ''  }'', [], ''  chain input {'', ''    type filter hook input priority filter; policy accept;'',
           ''    '' @ tcp @ ports @ '' ct state new tcp flags & (fin|syn|rst|ack) != syn drop'',
           ''    ip protocol tcp '' @ ports @ '' ct state new add @tcp4_connlimit { ip saddr . tcp dport ct count over ''
             @ count @ '' } drop'',
           ''    '' @ tcp6_protocol (ipv6_connlimit_l4proto opt) @ '' '' @ ports @ '' ct state new add @tcp6_connlimit { ''
             @ prefix_key (ipv6_prefix_connlimit opt) @ '' ct count over '' @ count @ '' } drop'',
           ''    '' @ tcp @ ports @ '' ct state new limit rate over 5000/second burst 10000 packets drop'']
        @ icmp_rules opt @ [''  }'', ''}'']))"

definition dict_update :: "(string \<times> string) list \<Rightarrow> (string \<times> string) list \<Rightarrow> (string \<times> string) list" where
  "dict_update overrides d = fold (\<lambda>(k, v). dset k v) overrides d"

definition SYSCTL_ASSIGNMENTS :: "(string \<times> string) list" where
  "SYSCTL_ASSIGNMENTS =
     [(''net.ipv4.tcp_syncookies'', ''1''), (''net.ipv4.tcp_max_syn_backlog'', ''16384''),
      (''net.ipv4.tcp_synack_retries'', ''3''), (''net.core.somaxconn'', ''65535''),
      (''net.core.netdev_max_backlog'', ''250000''), (''net.ipv4.tcp_fin_timeout'', ''15''),
      (''net.netfilter.nf_conntrack_max'', ''1048576''), (''net.netfilter.nf_conntrack_tcp_timeout_syn_recv'', ''30''),
      (''net.ipv4.ipfrag_high_thresh'', ''4194304''), (''net.ipv4.ipfrag_time'', ''15''),
      (''net.ipv4.ipfrag_max_dist'', ''64''), (''net.ipv6.ip6frag_high_thresh'', ''4194304''),
      (''net.ipv6.ip6frag_low_thresh'', ''3145728''), (''net.ipv6.ip6frag_time'', ''15'')]"

definition sysctl_text :: "(string \<times> string) list \<Rightarrow> string" where
  "sysctl_text assignments = unlines (map (\<lambda>(key, v). key @ '' = '' @ v) assignments)"

definition edge_sysctl_template :: "(string \<times> string) list \<Rightarrow> string" where
  "edge_sysctl_template overrides = sysctl_text (dict_update overrides SYSCTL_ASSIGNMENTS)"

definition SERVICE_VALUES :: "(string \<times> string) list" where
  "SERVICE_VALUES =
     [(''Type'', ''simple''), (''User'', ''altura-prot''), (''Group'', ''altura-prot''),
      (''WorkingDirectory'', ''/var/lib/altura-prot''),
      (''ExecStart'', ''/usr/local/bin/altura-prot --config /etc/altura-prot/config.json''),
      (''Restart'', ''on-failure''), (''RestartSec'', ''2s''), (''TimeoutStopSec'', ''15s''), (''LimitNOFILE'', ''1048576''),
      (''TasksMax'', ''32768''), (''MemoryAccounting'', ''true''), (''MemoryHigh'', ''2G''), (''MemoryMax'', ''3G''),
      (''ConfigurationDirectory'', ''altura-prot''), (''StateDirectory'', ''altura-prot''),
      (''LogsDirectory'', ''altura-prot''), (''ReadWritePaths'', ''/var/lib/altura-prot /var/log/altura-prot''),
      (''AmbientCapabilities'', ''CAP_NET_BIND_SERVICE''), (''CapabilityBoundingSet'', ''CAP_NET_BIND_SERVICE''),
      (''NoNewPrivileges'', ''true''), (''PrivateTmp'', ''true''), (''PrivateDevices'', ''true''),
      (''ProtectSystem'', ''strict''), (''ProtectHome'', ''true''), (''ProtectKernelTunables'', ''true''),
      (''ProtectKernelModules'', ''true''), (''ProtectControlGroups'', ''true''),
      (''RestrictAddressFamilies'', ''AF_UNIX AF_INET AF_INET6''), (''RestrictNamespaces'', ''true''),
      (''RestrictRealtime'', ''true''), (''RestrictSUIDSGID'', ''true''), (''LockPersonality'', ''true''),
      (''MemoryDenyWriteExecute'', ''true''), (''SystemCallArchitectures'', ''native'')]"

definition edge_systemd_unit_template :: "(string \<times> string) list \<Rightarrow> string" where
  "edge_systemd_unit_template overrides =
     unlines
       ([''[Unit]'', ''Description=AlturaProt L7 DDoS protection proxy'', ''Wants=network-online.target'',
         ''After=network-online.target'', ''StartLimitIntervalSec=60'', ''StartLimitBurst=5'', [], ''[Service]'']
        @ map (\<lambda>(key, v). key @ ''='' @ v) (dict_update overrides SERVICE_VALUES)
        @ [[], ''[Install]'', ''WantedBy=multi-user.target''])"


section \<open>Runs of the validator\<close>

record edge_inputs =
  in_config :: dict
  in_nft :: string
  in_sysctl :: string
  in_systemd :: string

record edge_probe_env =
  pe_edge :: edge_env
  pe_tmp :: string
  pe_traceback :: "exn \<Rightarrow> string"

definition probe_args :: "string \<Rightarrow> edge_args" where
  "probe_args tmp =
     \<lparr>config_path = tmp @ ''/edge-port-coverage-config.json'', nft_path = tmp @ ''/edge-port-coverage.nft'',
      sysctl_path = tmp @ ''/edge-port-coverage-sysctl.conf'', systemd_path = tmp @ ''/altura-prot.service'',
      skip_nft_syntax_check = True\<rparr>"

definition probe_files :: "edge_inputs \<Rightarrow> edge_files" where
  "probe_files inp =
     \<lparr>config_file = Some (Inr (PDict (in_config inp))), nft_file = Some (Inr (in_nft inp)),
      sysctl_file = Some (Inr (in_sysctl inp)), systemd_file = Some (Inr (in_systemd inp))\<rparr>"

text \<open>The return code and the error output; an exception ends the command with status 1 and a traceback.\<close>

definition stderr_text :: "(stream \<times> string) list \<Rightarrow> string" where
  "stderr_text ls = unlines (map snd (filter (\<lambda>(s, l). s = Stderr) ls))"

definition run_validator :: "edge_probe_env \<Rightarrow> edge_inputs \<Rightarrow> int \<times> string" where
  "run_validator env inp =
     (case edge_main (pe_edge env) (probe_args (pe_tmp env)) (probe_files inp) of
        Inr (code, ls) \<Rightarrow> (code, stderr_text ls)
      | Inl e \<Rightarrow> (1, pe_traceback env e))"

definition listener :: "string \<Rightarrow> dict" where
  "listener listen = [(''listen'', PStr listen), (''listen_backlog'', PInt 4096)]"

definition public_config :: dict where
  "public_config = [(''http'', PDict (listener ''0.0.0.0:8080'')), (''tcp'', PList [PDict (listener ''[::]:7000'')])]"

definition high_capacity_config :: dict where
  "high_capacity_config =
     [(''runtime'', PDict [(''min_nofile'', PInt 65536)]),
      (''http'', PDict (listener ''0.0.0.0:8080'' @ [(''upstream_pool_max_idle_per_host'', PInt 1000),
         (''limits'', PDict [(''max_connections'', PInt 40000), (''max_in_flight_requests'', PInt 40000)])])),
      (''tcp'', PList [PDict (listener ''[::]:7000'' @ [(''limits'', PDict [(''max_connections'', PInt 20000)])])])]"

definition low_cap_public_config :: dict where
  "low_cap_public_config =
     [(''http'', PDict (listener ''0.0.0.0:8080'')),
      (''tcp'', PList [PDict (listener ''[::]:7000'' @ [(''limits'', PDict [(''max_connections_per_ip'', PInt 64)])])])]"

definition loopback_config :: dict where
  "loopback_config = [(''http'', PDict (listener ''127.0.0.1:8080'')), (''tcp'', PList [PDict (listener ''[::1]:7000'')])]"

definition nft_covering :: "nft_options \<Rightarrow> string" where
  "nft_covering opt = edge_nft_template ''{ 80, 443, 7000, 8080 }'' opt"

text \<open>The files of the clean run; every other run changes some of them and puts them back.\<close>

definition clean_inputs :: edge_inputs where
  "clean_inputs =
     \<lparr>in_config = public_config, in_nft = nft_covering default_options, in_sysctl = edge_sysctl_template [],
      in_systemd = edge_systemd_unit_template []\<rparr>"

definition with_nft :: "nft_options \<Rightarrow> edge_inputs" where
  "with_nft opt = clean_inputs\<lparr>in_nft := nft_covering opt\<rparr>"

definition with_sysctl :: "string \<Rightarrow> edge_inputs" where
  "with_sysctl s = clean_inputs\<lparr>in_sysctl := s\<rparr>"

definition with_systemd :: "(string \<times> string) list \<Rightarrow> edge_inputs" where
  "with_systemd overrides = clean_inputs\<lparr>in_systemd := edge_systemd_unit_template overrides\<rparr>"

text \<open>The runs that must fail: the name of the run, the files, and the text the error output must have.\<close>

definition spoiled_runs :: "(string \<times> edge_inputs \<times> string) list" where
  "spoiled_runs =
     [(''missing_public_port'', clean_inputs\<lparr>in_nft := edge_nft_template ''{ 80, 443, 8080 }'' default_options\<rparr>, ''7000''),
      (''insufficient_systemd_capacity'',
       (with_systemd [(''LimitNOFILE'', ''65536'')])\<lparr>in_config := high_capacity_config\<rparr>, ''required descriptor budget''),
      (''excessive_connlimit_threshold'', clean_inputs\<lparr>in_config := low_cap_public_config\<rparr>, ''connection cap 64''),
      (''missing_udp_drop'', with_nft (default_options\<lparr>include_udp_drop := False\<rparr>), ''protected TCP service ports''),
      (''missing_generic_tcp_l4proto'', with_nft (default_options\<lparr>generic_tcp_l4proto := False\<rparr>),
       ''generic TCP extension-safe''),
      (''missing_ipv6_prefix_syn'', with_nft (default_options\<lparr>ipv6_prefix_syn := False\<rparr>), ''IPv6 /64 SYN backstop''),
      (''missing_ipv6_prefix_connlimit'', with_nft (default_options\<lparr>ipv6_prefix_connlimit := False\<rparr>),
       ''IPv6 /64 connection-count backstop''),
      (''missing_ipv6_syn_l4proto'', with_nft (default_options\<lparr>ipv6_syn_l4proto := False\<rparr>),
       ''extension-safe SYN protocol match''),
      (''missing_ipv6_connlimit_l4proto'', with_nft (default_options\<lparr>ipv6_connlimit_l4proto := False\<rparr>),
       ''extension-safe connection-count protocol match''),
      (''missing_ipv6_icmp_l4proto'', with_nft (default_options\<lparr>ipv6_icmp_l4proto := False\<rparr>),
       ''extension-safe ICMPv6 flood protocol match''),
      (''missing_icmpv4_control_exemption'', with_nft (default_options\<lparr>include_icmpv4_control_exemption := False\<rparr>),
       ''ICMPv4 control exemption''),
      (''late_icmpv4_control_exemption'', with_nft (default_options\<lparr>icmpv4_control_after_drop := True\<rparr>),
       ''must appear before''),
      (''missing_icmpv6_control_exemption'', with_nft (default_options\<lparr>include_icmpv6_control_exemption := False\<rparr>),
       ''ICMPv6 control exemption''),
      (''late_icmpv6_control_exemption'', with_nft (default_options\<lparr>icmpv6_control_after_drop := True\<rparr>),
       ''must appear before''),
      (''missing_connlimit_set_size'', with_nft (default_options\<lparr>connlimit_set_size := False\<rparr>), ''connlimit set''),
      (''missing_syn_rate_set_size'', with_nft (default_options\<lparr>syn_rate_set_size := False\<rparr>), ''SYN rate set''),
      (''missing_syn_rate_set_timeout'', with_nft (default_options\<lparr>syn_rate_set_timeout := False\<rparr>), ''SYN rate set''),
      (''missing_fragment_sysctls'', with_sysctl (unlines [''net.core.somaxconn = 65535'']),
       ''missing fragment reassembly sysctl bounds''),
      (''excessive_fragment_time'', with_sysctl (edge_sysctl_template [(''net.ipv4.ipfrag_time'', ''60'')]),
       ''fragment queue retention cap''),
      (''invalid_fragment_thresholds'', with_sysctl (edge_sysctl_template
         [(''net.ipv6.ip6frag_low_thresh'', ''8388608''), (''net.ipv6.ip6frag_high_thresh'', ''4194304'')]),
       ''ip6frag_low_thresh must be less than or equal''),
      (''insufficient_systemd_nofile'', with_systemd [(''LimitNOFILE'', ''1024'')], ''LimitNOFILE=1024''),
      (''weak_systemd_sandbox'', with_systemd [(''ProtectSystem'', ''false'')], ''ProtectSystem=false''),
      (''excessive_systemd_capabilities'',
       with_systemd [(''AmbientCapabilities'', ''CAP_NET_BIND_SERVICE CAP_NET_RAW'')], ''AmbientCapabilities'')]"

text \<open>The runs that must succeed.\<close>

definition sound_runs :: "(string \<times> edge_inputs) list" where
  "sound_runs =
     [(''covered_public_ports'', clean_inputs),
      (''aligned_systemd_capacity'', (with_systemd [(''LimitNOFILE'', ''200000'')])\<lparr>in_config := high_capacity_config\<rparr>),
      (''aligned_low_cap_connlimit_threshold'',
       (with_nft (default_options\<lparr>connlimit_count := 64\<rparr>))\<lparr>in_config := low_cap_public_config\<rparr>),
      (''loopback_missing_port'', clean_inputs\<lparr>in_config := loopback_config,
         in_nft := edge_nft_template ''{ 80, 443, 8080 }'' default_options\<rparr>)]"

definition status_fields :: "edge_probe_env \<Rightarrow> bool \<Rightarrow> string \<times> edge_inputs \<Rightarrow> dict" where
  "status_fields env shown run =
     (case run of (name, inp) \<Rightarrow> case run_validator env inp of (code, err) \<Rightarrow>
        (name @ ''_status'', PInt code) # (if shown then [(name @ ''_stderr'', PStr (str_strip err))] else []))"

definition run_rejected :: "edge_probe_env \<Rightarrow> edge_inputs \<times> string \<Rightarrow> bool" where
  "run_rejected env run =
     (case run of (inp, needle) \<Rightarrow> case run_validator env inp of (code, err) \<Rightarrow> code \<noteq> 0 \<and> contains_str err needle)"

definition run_allowed :: "edge_probe_env \<Rightarrow> edge_inputs \<Rightarrow> bool" where
  "run_allowed env inp = (fst (run_validator env inp) = 0)"

text \<open>
  The report: the status and output of each run, the verdict on each spoiled run under its name (one name differs),
  and the verdicts on the sound runs, of which the clean run appears under nine more names.  The keys come in this
  order; the source interleaves them, and every reader of the report looks them up by name.
\<close>

definition rejected_name :: "string \<Rightarrow> string" where
  "rejected_name name =
     (if name = ''missing_ipv6_prefix_syn'' then ''missing_ipv6_prefix_syn_backstop'' else name) @ ''_rejected''"

definition CLEAN_RUN_NAMES :: "string list" where
  "CLEAN_RUN_NAMES =
     [''generic_tcp_backstops'', ''ipv6_prefix_backstops'', ''ipv6_extension_safe_protocols'', ''icmpv4_control_exemption'',
      ''icmpv6_control_exemption'', ''connlimit_set_sizes'', ''syn_rate_set_bounds'', ''fragment_sysctls'', ''systemd_unit'']"

definition run_edge_template_port_coverage_probe :: "edge_probe_env \<Rightarrow> dict" where
  "run_edge_template_port_coverage_probe env =
     concat (map (\<lambda>(name, inp, needle). status_fields env True (name, inp)) spoiled_runs)
     @ concat (map (\<lambda>(name, inp). status_fields env (name \<notin> {''covered_public_ports'', ''loopback_missing_port''}) (name, inp))
         sound_runs)
     @ map (\<lambda>(name, inp, needle). (rejected_name name, PBool (run_rejected env (inp, needle)))) spoiled_runs
     @ map (\<lambda>(name, inp). (name @ ''_allowed'', PBool (run_allowed env inp))) sound_runs
     @ map (\<lambda>name. (name @ ''_allowed'', PBool (run_allowed env clean_inputs))) CLEAN_RUN_NAMES"


section \<open>The parsers read the generated files back\<close>

lemma splitlines_unlines:
  assumes "list_all (list_all (\<lambda>c. \<not> is_line_break c)) ls" shows "splitlines (unlines ls) = ls"
proof -
  have "is_line_break LF" and "cp LF \<noteq> 13" by (simp_all add: is_line_break_def LF_def cp_def)
  then have "splitlines_acc False acc (l @ LF # s) = (rev acc @ l) # splitlines_acc False [] s"
    if "list_all (\<lambda>c. \<not> is_line_break c) l" for acc l s
    using that by (induction l arbitrary: acc) simp_all
  with assms show ?thesis unfolding splitlines_def unlines_def by (induction ls) simp_all
qed

text \<open>A key and a value that survive the stripping and splitting of a line.\<close>

definition plain_text :: "string \<Rightarrow> bool" where
  "plain_text s \<longleftrightarrow> s \<noteq> [] \<and> \<not> is_space (hd s) \<and> \<not> is_space (last s) \<and> list_all (\<lambda>c. \<not> is_line_break c \<and> c \<noteq> CHR ''#'') s"

definition plain_item :: "string \<times> string \<Rightarrow> bool" where
  "plain_item kv \<longleftrightarrow> plain_text (fst kv) \<and> plain_text (snd kv) \<and> CHR ''='' \<notin> set (fst kv) \<and> hd (fst kv) \<noteq> CHR ''[''"

lemma strip_plain:
  assumes "plain_text s" shows "str_strip s = s" "str_strip (s @ '' '') = s" "str_strip ('' '' @ s) = s"
proof -
  have space: "is_space (CHR '' '')" by code_simp
  have s: "strip_by is_space s = s" using assms by (intro strip_by_id) (simp_all add: plain_text_def)
  then show "str_strip s = s" by (simp add: str_strip_def)
  from s space show "str_strip ('' '' @ s) = s" by (simp add: str_strip_def strip_by_def lstrip_by_def)
  from assms obtain c t where "s = c # t" "\<not> is_space c" by (cases s) (auto simp: plain_text_def)
  with s space show "str_strip (s @ '' '') = s" by (simp add: str_strip_def strip_by_def lstrip_by_def rstrip_by_def)
qed

lemma split_once_plain: "c \<notin> set a \<Longrightarrow> split_once c (a @ c # b) = (a, Some b)" "c \<notin> set a \<Longrightarrow> split_once c a = (a, None)"
  by (induction a) (auto simp: split_once_def)

lemma plain_line:
  assumes "plain_item (k, v)" and "CHR ''#'' \<notin> set m"
  shows "str_strip (fst (split_once (CHR ''#'') (k @ m @ v))) = k @ m @ v"
proof -
  have "CHR ''#'' \<notin> set (k @ m @ v)" using assms by (auto simp: plain_item_def plain_text_def list_all_iff)
  moreover have "strip_by is_space (k @ m @ v) = k @ m @ v"
    using assms by (intro strip_by_id) (simp_all add: plain_item_def plain_text_def)
  ultimately show ?thesis by (simp add: split_once_plain str_strip_def)
qed

lemma add_assignment_plain:
  assumes "plain_item (k, v)" and "k \<notin> set (map fst acc)"
  shows "add_assignment acc (k @ '' = '' @ v) = Inr (acc @ [(k, v)])"
proof -
  have "split_once (CHR ''='') (k @ '' = '' @ v) = (k @ '' '', Some ('' '' @ v))"
    using split_once_plain(1) [of "CHR ''=''" "k @ '' ''" "'' '' @ v"] assms(1) by (simp add: plain_item_def)
  moreover have "map_of acc k = None" using assms(2) unfolding map_of_eq_None_iff by simp
  ultimately show ?thesis
    using assms(1) plain_line [OF assms(1), of "'' = ''"] strip_plain [of k] strip_plain [of v]
    by (simp add: add_assignment_def Let_def plain_item_def update_new)
qed

lemma add_unit_line_plain:
  assumes "plain_item (k, v)" and "k \<notin> set (map fst acc)" and "name \<notin> set (map fst secs)"
  shows "add_unit_line (Some name, secs @ [(name, acc)]) (k @ ''='' @ v) = Inr (Some name, secs @ [(name, acc @ [(k, [v])])])"
proof -
  have "split_once (CHR ''='') (k @ ''='' @ v) = (k, Some v)"
    using split_once_plain(1) [of "CHR ''=''" k v] assms(1) by (simp add: plain_item_def)
  moreover have "map_of acc k = None" "map_of secs name = None" 
    using assms(2,3) unfolding map_of_eq_None_iff by simp_all
  moreover from this(2) have "AList.update name x (secs @ [(name, y)]) = secs @ [(name, x)]" for x y
    by (induction secs) (auto split: if_splits)
  moreover have "\<not> starts_with (k @ ''='' @ v) ''[''" using assms(1) by (cases k) (auto simp: plain_item_def plain_text_def starts_with_def)
  ultimately show ?thesis
    using assms(1) plain_line [OF assms(1), of "''=''"] strip_plain [of k] strip_plain [of v]
    by (simp add: add_unit_line_def Let_def plain_item_def update_new map_add_def)
qed
lemma rfold_assignments:
  assumes "list_all plain_item items" and "distinct (map fst (acc @ items))"
  shows "rfold add_assignment acc (map (\<lambda>(k, v). k @ '' = '' @ v) items) = Inr (acc @ items)"
  using assms
proof (induction items arbitrary: acc)
  case (Cons kv items)
  obtain k v where kv: "kv = (k, v)" by (cases kv)
  have "add_assignment acc (k @ '' = '' @ v) = Inr (acc @ [kv])"
    using Cons.prems add_assignment_plain [of k v acc] by (simp add: kv)
  moreover have "rfold add_assignment (acc @ [kv]) (map (\<lambda>(k, v). k @ '' = '' @ v) items) = Inr ((acc @ [kv]) @ items)"
    using Cons.prems by (intro Cons.IH) simp_all
  ultimately show ?case by (simp add: kv)
qed simp

lemma rfold_unit_lines:
  assumes "list_all plain_item items" and "distinct (map fst acc @ map fst items)" and "name \<notin> set (map fst secs)"
  shows "rfold add_unit_line (Some name, secs @ [(name, acc)]) (map (\<lambda>(k, v). k @ ''='' @ v) items)
     = Inr (Some name, secs @ [(name, acc @ map (\<lambda>(k, v). (k, [v])) items)])"
  using assms(1,2)
proof (induction items arbitrary: acc)
  case (Cons kv items)
  obtain k v where kv: "kv = (k, v)" by (cases kv)
  have "add_unit_line (Some name, secs @ [(name, acc)]) (k @ ''='' @ v) = Inr (Some name, secs @ [(name, acc @ [(k, [v])])])"
    using Cons.prems assms(3) add_unit_line_plain [of k v acc name secs] by (simp add: kv)
  moreover have "rfold add_unit_line (Some name, secs @ [(name, acc @ [(k, [v])])]) (map (\<lambda>(k, v). k @ ''='' @ v) items)
      = Inr (Some name, secs @ [(name, (acc @ [(k, [v])]) @ map (\<lambda>(k, v). (k, [v])) items)])"
    using Cons.prems by (intro Cons.IH) (simp_all add: kv)
  ultimately show ?case by (simp add: kv)
qed simp

lemma plain_item_breaks:
  assumes "list_all plain_item items" and "list_all (\<lambda>c. \<not> is_line_break c) m"
  shows "list_all (list_all (\<lambda>c. \<not> is_line_break c)) (map (\<lambda>(k, v). k @ m @ v) items)"
proof -
  have "list_all (\<lambda>c. \<not> is_line_break c) (k @ m @ v)" if "plain_item (k, v)" for k v
    using that assms(2) by (auto simp: plain_item_def plain_text_def list_all_iff)
  with assms(1) show ?thesis by (induction items) auto
qed

lemma sysctl_text_read:
  assumes "list_all plain_item items" and "distinct (map fst items)"
  shows "sysctl_assignments path (Some (Inr (sysctl_text items))) = Inr items"
proof -
  have "list_all (\<lambda>c. \<not> is_line_break c) '' = ''" by code_simp
  from splitlines_unlines [OF plain_item_breaks [OF assms(1) this]]
  have "splitlines (sysctl_text items) = map (\<lambda>(k, v). k @ '' = '' @ v) items" by (simp only: sysctl_text_def)
  moreover have "rfold add_assignment [] (map (\<lambda>(k, v). k @ '' = '' @ v) items) = Inr items"
    using rfold_assignments [OF assms(1), of "[]"] assms(2) by (simp only: append_Nil)
  ultimately show ?thesis by (simp only: sysctl_assignments_def read_text_def option.case sum.case rbind_simps)
qed

text \<open>What the parser makes of a generated unit.\<close>

definition UNIT_SECTION :: unit_section where
  "UNIT_SECTION = [(''Description'', [''AlturaProt L7 DDoS protection proxy'']), (''Wants'', [''network-online.target'']),
     (''After'', [''network-online.target'']), (''StartLimitIntervalSec'', [''60'']), (''StartLimitBurst'', [''5''])]"



definition service_of :: "(string \<times> string) list \<Rightarrow> unit_section" where
  "service_of overrides = map (\<lambda>(k, v). (k, [v])) (dict_update overrides SERVICE_VALUES)"

definition sections_of :: "(string \<times> string) list \<Rightarrow> unit_sections" where
  "sections_of overrides =
     [(''Unit'', UNIT_SECTION), (''Service'', service_of overrides), (''Install'', [(''WantedBy'', [''multi-user.target''])])]"

definition plain_overrides :: "(string \<times> string) list \<Rightarrow> (string \<times> string) list \<Rightarrow> bool" where
  "plain_overrides overrides d \<longleftrightarrow>
     list_all plain_item (dict_update overrides d) \<and> distinct (map fst (dict_update overrides d))"

lemma unit_text_read:
  assumes "plain_overrides overrides SERVICE_VALUES"
  shows "parse_systemd_unit path (Some (Inr (edge_systemd_unit_template overrides))) = Inr (sections_of overrides)"
proof -
  let ?secs = "[(''Unit'', UNIT_SECTION)]" and ?ok = "list_all (list_all (\<lambda>c. \<not> is_line_break c))"
  define vs where "vs = dict_update overrides SERVICE_VALUES"
  define start where "start = [''[Unit]'', ''Description=AlturaProt L7 DDoS protection proxy'', ''Wants=network-online.target'',
     ''After=network-online.target'', ''StartLimitIntervalSec=60'', ''StartLimitBurst=5'', [], ''[Service]'']"
  define rest where "rest = [[], ''[Install]'', ''WantedBy=multi-user.target'']"
  have breaks: "?ok start" "?ok rest" "list_all (\<lambda>c. \<not> is_line_break c) ''=''"
    unfolding start_def rest_def by code_simp+
  have "?ok (map (\<lambda>(k, v). k @ ''='' @ v) vs)" using assms breaks(3) unfolding vs_def plain_overrides_def by (intro plain_item_breaks) simp_all
  with breaks have "?ok (start @ map (\<lambda>(k, v). k @ ''='' @ v) vs @ rest)" by (simp only: list_all_append simp_thms)
  then have "splitlines (edge_systemd_unit_template overrides) = start @ map (\<lambda>(k, v). k @ ''='' @ v) vs @ rest"
    unfolding edge_systemd_unit_template_def start_def [symmetric] rest_def [symmetric] vs_def [symmetric]
    by (rule splitlines_unlines)
  moreover have "rfold add_unit_line (None, []) start = Inr (Some ''Service'', ?secs @ [(''Service'', [])])"
    unfolding start_def by code_simp
  moreover have "rfold add_unit_line (Some ''Service'', ?secs @ [(''Service'', [])]) (map (\<lambda>(k, v). k @ ''='' @ v) vs)
      = Inr (Some ''Service'', ?secs @ [(''Service'', [] @ map (\<lambda>(k, v). (k, [v])) vs)])"
    using assms unfolding vs_def [symmetric] plain_overrides_def by (intro rfold_unit_lines) simp_all
  moreover have "rfold add_unit_line (Some ''Service'', ?secs @ [(''Service'', s)]) rest
      = Inr (Some ''Install'', ?secs @ [(''Service'', s), (''Install'', [(''WantedBy'', [''multi-user.target''])])])" for s
    unfolding rest_def by code_simp
  ultimately show ?thesis
    by (simp only: parse_systemd_unit_def read_text_def option.case rbind_simps rfold_append prod.case append_Nil append_Cons vs_def
      sections_of_def service_of_def)
qed


section \<open>Defects of the host files\<close>

lemma unlines_short:
  assumes "sum_list (map (\<lambda>l. Suc (length l)) ls) \<le> max_int_digits" and "list_all (list_all (\<lambda>c. cp c < 128)) ls"
  shows "short_ascii (unlines ls)"
proof -
  have "length (unlines ls) = sum_list (map (\<lambda>l. Suc (length l)) ls)" by (induction ls) (simp_all add: unlines_def)
  moreover have "list_all (\<lambda>c. cp c < 128) (unlines ls)"
    using assms(2) by (induction ls) (simp_all add: unlines_def LF_def cp_def)
  ultimately show ?thesis using assms(1) by (simp add: short_ascii_def)
qed

lemma clean_nft_short: "short_ascii (nft_covering default_options)"
  unfolding nft_covering_def edge_nft_template_def Let_def
proof (rule unlines_short, goal_cases)
  case 1 show ?case by code_simp
next
  case 2 show ?case by code_simp
qed

text \<open>A message of a check that counts and has the text looked for.\<close>

definition tells :: "string \<Rightarrow> string \<Rightarrow> bool" where
  "tells needle m \<longleftrightarrow> contains_str m needle \<and> \<not> contains_str m ''skipped''"

lemma contains_unlines:
  assumes "l \<in> set ls" and "contains_str l needle" shows "contains_str (unlines ls) needle"
proof -
  from assms(1) obtain xs ys where "ls = xs @ l # ys" by (meson split_list)
  moreover from assms(2) obtain a b where "l = a @ needle @ b" by (auto simp: contains_str_iff)
  ultimately have "unlines ls = (unlines xs @ a) @ needle @ (b @ [LF] @ unlines ys)" by (simp add: unlines_def)
  then show ?thesis by (simp only: contains_str_append)
qed

lemma collect_mem: "collect rs = Inr es \<Longrightarrow> Inr xs \<in> set rs \<Longrightarrow> set xs \<subseteq> set es"
  by (induction rs arbitrary: es) (auto simp: collect_Cons rbind_Inr_iff)

lemma told_rejected:
  assumes "in_nft inp = nft_covering default_options"
    and "Inr ms \<in> set (edge_checks (pe_edge env) (probe_args (pe_tmp env)) (probe_files inp))" and "list_ex (tells needle) ms"
  shows "run_rejected env (inp, needle)"
proof -
  let ?fs = "probe_files inp" and ?args = "probe_args (pe_tmp env)"
  have "returns (collect (edge_checks (pe_edge env) ?args ?fs))"
    using edge_checks_return [OF clean_nft_short] by (simp add: probe_files_def assms(1))
  then obtain es where es: "collect (edge_checks (pe_edge env) ?args ?fs) = Inr es" by (auto simp: returns_def)
  from assms(3) obtain m where m: "m \<in> set ms" "tells needle m" by (auto simp: list_ex_iff)
  have "m \<in> set es" using collect_mem [OF es assms(2)] m(1) by blast
  with m(2) have hard: "m \<in> set (hard_errors es)" by (simp add: hard_errors_def tells_def)
  define lines where "lines = map (\<lambda>item. (if item \<in> set (hard_errors es) then Stderr else Stdout, item)) es"
  have "edge_main (pe_edge env) ?args ?fs = Inr (1, lines)"
    using hard by (auto simp: edge_main_def es Let_def lines_def)
  moreover have "m \<in> set (map snd (filter (\<lambda>(s, l). s = Stderr) lines))"
    using hard \<open>m \<in> set es\<close> by (force simp: lines_def image_iff)
  then have "contains_str (stderr_text lines) needle"
    unfolding stderr_text_def using m(2) by (intro contains_unlines) (auto simp: tells_def)
  ultimately show ?thesis by (simp add: run_rejected_def run_validator_def)
qed

lemma sysctl_told_rejected:
  assumes "list_all plain_item items" and "distinct (map fst items)"
    and "\<And>path. sysctl_assignments path (Some (Inr (sysctl_text items))) = Inr items
           \<Longrightarrow> list_ex (tells needle) (validate_fragment_sysctls path (Some (Inr (sysctl_text items))))"
  shows "run_rejected env (with_sysctl (sysctl_text items), needle)"
proof -
  let ?inp = "with_sysctl (sysctl_text items)" and ?args = "probe_args (pe_tmp env)"
  let ?ms = "validate_fragment_sysctls (sysctl_path ?args) (Some (Inr (sysctl_text items)))"
  have "sysctl_file (probe_files ?inp) = Some (Inr (sysctl_text items))" by (simp add: with_sysctl_def probe_files_def)
  then have mem: "Inr ?ms \<in> set (edge_checks (pe_edge env) ?args (probe_files ?inp))" by (simp add: edge_checks_def Let_def)
  have "in_nft ?inp = nft_covering default_options" by (simp add: with_sysctl_def clean_inputs_def)
  from told_rejected [OF this mem assms(3) [OF sysctl_text_read [OF assms(1,2)]]] show ?thesis .
qed

lemma unit_told_rejected:
  assumes "plain_overrides overrides SERVICE_VALUES" and "in_nft inp = nft_covering default_options"
    and "in_systemd inp = edge_systemd_unit_template overrides" and "in_config inp = config"
    and "\<And>cpath. list_ex (tells needle)
      (service_errors (sections_of overrides) (service_of overrides) cpath (Some (Inr (PDict config))))"
  shows "run_rejected env (inp, needle)"
proof -
  let ?args = "probe_args (pe_tmp env)" and ?fs = "probe_files inp"
  let ?ms = "service_errors (sections_of overrides) (service_of overrides) (config_path ?args) (Some (Inr (PDict config)))"
  have "map_of (sections_of overrides) ''Service'' = Some (service_of overrides)" by (simp add: sections_of_def)
  then have "validate_systemd_unit (systemd_path ?args) (systemd_file ?fs) (config_path ?args) (config_file ?fs) = Inr ?ms"
    by (simp add: validate_systemd_unit_def probe_files_def assms(3,4) unit_text_read [OF assms(1)])
  then have "Inr ?ms \<in> set (edge_checks (pe_edge env) ?args ?fs)" by (simp add: edge_checks_def Let_def)
  from told_rejected [OF assms(2) this assms(5)] show ?thesis .
qed

lemma missing_fragments_rejected:
  "run_rejected env (with_sysctl (unlines [''net.core.somaxconn = 65535'']), ''missing fragment reassembly sysctl bounds'')"
proof -
  let ?items = "[(''net.core.somaxconn'', ''65535'')]"
  have eq: "unlines [''net.core.somaxconn = 65535''] = sysctl_text ?items" by (simp add: sysctl_text_def)
  have "list_all plain_item ?items" by code_simp
  then show ?thesis unfolding eq
  proof (rule sysctl_told_rejected, goal_cases)
    case (2 path)
    show ?case unfolding validate_fragment_sysctls_def 2 sum.case by code_simp
  qed simp
qed

lemma fragment_time_rejected:
  "run_rejected env (with_sysctl (edge_sysctl_template [(''net.ipv4.ipfrag_time'', ''60'')]), ''fragment queue retention cap'')"
  unfolding edge_sysctl_template_def
proof (rule sysctl_told_rejected, goal_cases)
  case 1 show ?case by code_simp
next
  case 2 show ?case by code_simp
next
  case (3 path)
  show ?case unfolding validate_fragment_sysctls_def 3 sum.case by code_simp
qed

lemma fragment_thresholds_rejected:
  "run_rejected env (with_sysctl (edge_sysctl_template
     [(''net.ipv6.ip6frag_low_thresh'', ''8388608''), (''net.ipv6.ip6frag_high_thresh'', ''4194304'')]),
     ''ip6frag_low_thresh must be less than or equal'')"
  unfolding edge_sysctl_template_def
proof (rule sysctl_told_rejected, goal_cases)
  case 1 show ?case by code_simp
next
  case 2 show ?case by code_simp
next
  case (3 path)
  show ?case unfolding validate_fragment_sysctls_def 3 sum.case by code_simp
qed

lemma service_errors_pieces:
  "list_ex p (nofile_errors service cpath config) \<Longrightarrow> list_ex p (service_errors sections service cpath config)"
  "(\<exists>item \<in> set REQUIRED_SYSTEMD_SERVICE_VALUES. list_ex p (service_value_errors service item))
   \<Longrightarrow> list_ex p (service_errors sections service cpath config)"
  "list_ex p (capability_errors service ''AmbientCapabilities'') \<Longrightarrow> list_ex p (service_errors sections service cpath config)"
  unfolding service_errors_def Let_def list_ex_append by (auto simp: list_ex_iff)

lemma with_systemd_simps:
  "in_nft (with_systemd overrides) = nft_covering default_options"
  "in_systemd (with_systemd overrides) = edge_systemd_unit_template overrides" "in_config (with_systemd overrides) = public_config"
  "in_nft ((with_systemd overrides)\<lparr>in_config := c\<rparr>) = nft_covering default_options"
  "in_systemd ((with_systemd overrides)\<lparr>in_config := c\<rparr>) = edge_systemd_unit_template overrides"
  "in_config ((with_systemd overrides)\<lparr>in_config := c\<rparr>) = c"
  by (simp_all add: with_systemd_def clean_inputs_def)

lemma unit_capacity_rejected:
  "run_rejected env ((with_systemd [(''LimitNOFILE'', ''65536'')])\<lparr>in_config := high_capacity_config\<rparr>,
     ''required descriptor budget'')"
proof -
  have "plain_overrides [(''LimitNOFILE'', ''65536'')] SERVICE_VALUES" by code_simp
  moreover have "list_ex (tells ''required descriptor budget'')
      (nofile_errors (service_of [(''LimitNOFILE'', ''65536'')]) cpath (Some (Inr (PDict high_capacity_config))))" for cpath
    by code_simp
  ultimately show ?thesis
    by (intro unit_told_rejected service_errors_pieces(1)) (simp_all only: with_systemd_simps)
qed

lemma unit_nofile_rejected: "run_rejected env (with_systemd [(''LimitNOFILE'', ''1024'')], ''LimitNOFILE=1024'')"
proof -
  have "plain_overrides [(''LimitNOFILE'', ''1024'')] SERVICE_VALUES" by code_simp
  moreover have "list_ex (tells ''LimitNOFILE=1024'')
      (nofile_errors (service_of [(''LimitNOFILE'', ''1024'')]) cpath (Some (Inr (PDict public_config))))" for cpath
    by code_simp
  ultimately show ?thesis by (intro unit_told_rejected service_errors_pieces(1)) (simp_all only: with_systemd_simps)
qed

lemma unit_sandbox_rejected: "run_rejected env (with_systemd [(''ProtectSystem'', ''false'')], ''ProtectSystem=false'')"
proof -
  have "plain_overrides [(''ProtectSystem'', ''false'')] SERVICE_VALUES" by code_simp
  moreover have "list_ex (tells ''ProtectSystem=false'')
      (service_value_errors (service_of [(''ProtectSystem'', ''false'')]) (''ProtectSystem'', [''strict'']))" by code_simp
  moreover have "(''ProtectSystem'', [''strict'']) \<in> set REQUIRED_SYSTEMD_SERVICE_VALUES"
    by (simp add: REQUIRED_SYSTEMD_SERVICE_VALUES_def)
  ultimately show ?thesis
    by (intro unit_told_rejected service_errors_pieces(2)) (assumption | blast | simp only: with_systemd_simps)+
qed

lemma unit_capabilities_rejected:
  "run_rejected env (with_systemd [(''AmbientCapabilities'', ''CAP_NET_BIND_SERVICE CAP_NET_RAW'')], ''AmbientCapabilities'')"
proof -
  have "plain_overrides [(''AmbientCapabilities'', ''CAP_NET_BIND_SERVICE CAP_NET_RAW'')] SERVICE_VALUES" by code_simp
  moreover have "list_ex (tells ''AmbientCapabilities'')
      (capability_errors (service_of [(''AmbientCapabilities'', ''CAP_NET_BIND_SERVICE CAP_NET_RAW'')]) ''AmbientCapabilities'')"
    by code_simp
  ultimately show ?thesis by (intro unit_told_rejected service_errors_pieces(3)) (simp_all only: with_systemd_simps)
qed

section \<open>The verdicts of the probe\<close>

lemma status_fields_keys: "k \<in> set (map fst (status_fields env shown run)) \<Longrightarrow> last k \<noteq> CHR ''d''"
  by (auto simp: status_fields_def split: prod.splits if_splits)

lemma rejected_names_distinct: "distinct (map (\<lambda>run. rejected_name (fst run)) spoiled_runs)"
  by (simp add: spoiled_runs_def rejected_name_def)

lemma probe_verdict:
  assumes "(name, inp, needle) \<in> set spoiled_runs"
  shows "map_of (run_edge_template_port_coverage_probe env) (rejected_name name) = Some (PBool (run_rejected env (inp, needle)))"
proof -
  let ?statuses = "concat (map (\<lambda>(name, inp, needle). status_fields env True (name, inp)) spoiled_runs)
     @ concat (map (\<lambda>(name, inp). status_fields env (name \<notin> {''covered_public_ports'', ''loopback_missing_port''}) (name, inp))
         sound_runs)"
  let ?verdicts = "map (\<lambda>(name, inp, needle). (rejected_name name, PBool (run_rejected env (inp, needle)))) spoiled_runs"
  have "last (rejected_name name) = CHR ''d''" by (simp add: rejected_name_def)
  moreover have "last k \<noteq> CHR ''d''" if "k \<in> set (map fst ?statuses)" for k
    using that status_fields_keys [of k env] by (fastforce simp: map_concat)
  ultimately have "rejected_name name \<notin> set (map fst ?statuses)" by blast
  then have "map_of ?statuses (rejected_name name) = None" by (simp only: map_of_eq_None_iff set_map not_False_eq_True)
  moreover have "distinct (map fst ?verdicts)" using rejected_names_distinct by (simp add: comp_def case_prod_beta)
  then have "map_of ?verdicts (rejected_name name) = Some (PBool (run_rejected env (inp, needle)))"
    using assms by (intro map_of_is_SomeI) force+
  ultimately show ?thesis
    unfolding run_edge_template_port_coverage_probe_def append_assoc [symmetric] by (simp only: map_of_append map_add_Some_iff simp_thms)
qed

text \<open>The runs whose defect is in the sysctl template, the unit or the descriptor budget.\<close>

definition HOST_DEFECTS :: "string list" where
  "HOST_DEFECTS =
     [''missing_fragment_sysctls'', ''excessive_fragment_time'', ''invalid_fragment_thresholds'',
      ''insufficient_systemd_capacity'', ''insufficient_systemd_nofile'', ''weak_systemd_sandbox'',
      ''excessive_systemd_capabilities'']"

lemma host_runs:
  "(''missing_fragment_sysctls'', with_sysctl (unlines [''net.core.somaxconn = 65535'']),
    ''missing fragment reassembly sysctl bounds'') \<in> set spoiled_runs"
  "(''excessive_fragment_time'', with_sysctl (edge_sysctl_template [(''net.ipv4.ipfrag_time'', ''60'')]),
    ''fragment queue retention cap'') \<in> set spoiled_runs"
  "(''invalid_fragment_thresholds'', with_sysctl (edge_sysctl_template
     [(''net.ipv6.ip6frag_low_thresh'', ''8388608''), (''net.ipv6.ip6frag_high_thresh'', ''4194304'')]),
    ''ip6frag_low_thresh must be less than or equal'') \<in> set spoiled_runs"
  "(''insufficient_systemd_capacity'', (with_systemd [(''LimitNOFILE'', ''65536'')])\<lparr>in_config := high_capacity_config\<rparr>,
    ''required descriptor budget'') \<in> set spoiled_runs"
  "(''insufficient_systemd_nofile'', with_systemd [(''LimitNOFILE'', ''1024'')], ''LimitNOFILE=1024'') \<in> set spoiled_runs"
  "(''weak_systemd_sandbox'', with_systemd [(''ProtectSystem'', ''false'')], ''ProtectSystem=false'') \<in> set spoiled_runs"
  "(''excessive_systemd_capabilities'', with_systemd [(''AmbientCapabilities'', ''CAP_NET_BIND_SERVICE CAP_NET_RAW'')],
    ''AmbientCapabilities'') \<in> set spoiled_runs"
  by (simp_all add: spoiled_runs_def)

text \<open>
  C40. On every host the probe finds that the validator rejects all seven defects of the host files it tries: sysctl
  templates without fragment bounds, with a long reassembly time or with crossed thresholds, and units with too few
  descriptors for the floor or for the configured load, with a weak sandbox or with another capability.
\<close>

theorem host_defects_rejected:
  "list_all (\<lambda>name. map_of (run_edge_template_port_coverage_probe env) (name @ ''_rejected'') = Some (PBool True)) HOST_DEFECTS"
proof -
  have verdict: "map_of (run_edge_template_port_coverage_probe env) (name @ ''_rejected'') = Some (PBool True)"
    if "(name, inp, needle) \<in> set spoiled_runs" and "name \<noteq> ''missing_ipv6_prefix_syn''" and "run_rejected env (inp, needle)"
    for name inp needle
    using probe_verdict [OF that(1), of env] that(2,3) by (simp add: rejected_name_def)
  show ?thesis
    unfolding HOST_DEFECTS_def list.pred_inject simp_thms
    using verdict [OF host_runs(1) _ missing_fragments_rejected] verdict [OF host_runs(2) _ fragment_time_rejected]
      verdict [OF host_runs(3) _ fragment_thresholds_rejected] verdict [OF host_runs(4) _ unit_capacity_rejected]
      verdict [OF host_runs(5) _ unit_nofile_rejected] verdict [OF host_runs(6) _ unit_sandbox_rejected]
      verdict [OF host_runs(7) _ unit_capabilities_rejected]
    by simp
qed

end
