(* ===== verification/Spec2Isabelle.thy ===== *)
theory Spec2Isabelle
  imports Analyzer Provider_Cli Defense_Gate_Correct Local_Gate Bench_Table Edge_Validator Edge_Smoke Edge_Frame Startup_Gate Edge_Probe
begin

text \<open>
  AlturaProt is a reverse proxy that sheds floods, with Python tools around it.  The tools learn
  filter rules from the proxy's event log, run benchmarks, and gate the benchmark reports.  This
  development models the tools under \<open>src/tools\<close> and proves what they promise; the proxy itself
  (Rust, \<open>src/src\<close>) is not modelled.

  \<^bold>\<open>The parts and how they interact.\<close>  The proxy appends denied and observed requests to an event log.
  The analyzer (\<open>codex_analyzer.py\<close>) polls that log, derives filter rules from it, either with its
  own deterministic generator or with an AI provider, sanitizes them, merges them with the rules of
  the filter file and writes the file back, which the proxy loads.  \<open>ai_provider_cli.py\<close> writes the
  provider configuration and the secrets the analyzer reads.  The benchmark runners write JSON
  reports stamped by \<open>bench_provenance.py\<close>; the gates \<open>assert_defense_bench.py\<close> and
  \<open>assert_local_bench.py\<close> decide whether such a report proves what it claims.

  \<^bold>\<open>Python.\<close>  \<open>Prelude\<close> has the exceptions, the result type \<open>exn + 'a\<close> and its sequencing; \<open>Py_String\<close>
  the string methods on code points U+0000 to U+00FF; \<open>Py_Value\<close> decoded JSON values with Python's
  truth, equality, \<open>int\<close>, \<open>float\<close>, \<open>str\<close> and \<open>repr\<close>, and the insertion-ordered \<open>dict\<close> as an association
  list behind the locale \<open>ordered_dict\<close>; \<open>Json_File\<close> what a file with sorted keys decodes to;
  \<open>Py_Datetime\<close> the acceptance of \<open>datetime.fromisoformat\<close>.  Floats are exact rationals with the three
  special values; the rounding of arithmetic and of integers beyond \<open>2^53\<close> is not represented.

  \<^bold>\<open>The analyzer, \<open>codex_analyzer.py\<close>.\<close>
  \<^item> \<open>Event_Log\<close>: \<open>event_log_paths\<close>, \<open>read_recent_lines\<close>, \<open>read_events\<close>, \<open>count_attack_evidence\<close>.
    Rotation is transparent, what is read is bounded and typed.
  \<^item> \<open>Filter_Sanitizer\<close>: \<open>sanitize_filter\<close> and its field checks.  What it returns is well formed, it is
    idempotent, and exactly which values make it raise.
  \<^item> \<open>Filter_Store\<close>: \<open>unique_filter_ids\<close>, \<open>merge_existing_filters\<close>, \<open>write_filters\<close>, with the locale
    \<open>rule_store\<close> for the keyed, bounded, newest-last store.  The stored rules are bounded, well formed
    and have distinct ids and keys; new rules win; refreshing is the identity.
  \<^item> \<open>Deterministic_Learner\<close>: the two generators and \<open>merge_strong_coverage\<close>.  Every supported signature
    and shape with enough evidence is covered, and nothing is learned from observed-only traffic.
  \<^item> \<open>Provider_Config\<close>, \<open>Provider_Calls\<close>: configuration overlay, API keys, prompts, requests and replies
    of the providers, behind the locale \<open>filter_provider\<close>.  Whatever a provider answers, the rules
    handed on are sanitized; without a key no request is made.
  \<^item> \<open>Analyzer\<close>: \<open>analyze_once\<close> and the polling loop as a function on the number of polls, with the
    surroundings of each poll as a parameter.  The filter file keeps its invariant over any run, no
    provider failure stops the loop, and below the evidence threshold no provider is called.

  \<^bold>\<open>The setup command, \<open>ai_provider_cli.py\<close>.\<close>  \<open>Provider_Cli\<close> models \<open>init\<close>, \<open>select\<close>, \<open>set\<close> and \<open>login\<close>
  on the two files and the lines typed: what is set is what the analyzer resolves, and commands
  without a key leave the secrets alone.

  \<^bold>\<open>Provenance and gates.\<close>  \<open>Bench_Provenance\<close> models \<open>bench_provenance.py\<close>; a stamped report passes its
  check exactly when \<open>git\<close> answers.  \<open>Report_Checks\<close> has what the gates share, with the locale \<open>gate\<close>
  for checks that find nothing exactly on a given set of subjects.  \<open>Defense_Gate\<close> follows
  \<open>assert_defense_bench.py\<close> function by function and \<open>Defense_Gate_Correct\<close> says, check by check, what an
  accepted report holds, up to the measured percentages behind the booleans, the artifact audit and
  the exit status.  \<open>Local_Tables\<close> and \<open>Local_Gate\<close> do the same for \<open>assert_local_bench.py\<close>, whose tables
  are the definitions \<open>REQUIRED_TRUE_CHECKS\<close> and \<open>REQUIRED_VALUE_CHECKS\<close>.

  \<^bold>\<open>Bounds.\<close>  Loops are structural recursions or have a termination proof (\<open>free_id\<close>); no definition uses
  fuel except \<open>dec_places\<close>, which prints a decimal with at most 400 places, more than any double needs.
  Some properties bound the number of rules (at most \<open>10^92\<close>, so that a suffix fits an id of 96
  characters) or the number of a log backup (below \<open>10^17\<close>, so that its digits stay within what \<open>int\<close>
  accepts).

  \<^bold>\<open>Parameters.\<close>  Code and services outside the repository are arguments: the JSON decoder, the HTTP
  transport, the SDK and the agent programs (record \<open>provider_env\<close>), the \<open>git\<close> program, the file
  system, the clock and the keyboard.

  \<^bold>\<open>Not modelled.\<close>  The Rust proxy; the benchmark runners' processes, sockets and threads; the test suite;
  what the tools print beyond the gates' messages.
\<close>

end
